(* ===== verification/Go_Prelude.thy ===== *)
theory Go_Prelude
  imports Main "HOL-Library.Word" "HOL-Library.AList" "HOL-Library.State_Monad"
    "HOL-Library.List_Lexorder" "HOL-Library.Char_ord"
begin

text \<open>
  What the operator's Go code uses of the language and its standard library: dynamic values
  (\<open>interface{}\<close> as decoded from JSON), the error chain with \<open>%w\<close> wrapping, the format verbs of
  \<open>fmt\<close>, a few functions of \<open>strings\<close>, integer conversions at their width; and the generic
  reasoning layer of the development: weakest preconditions for the state monad, the locale of
  relations that every operation keeps, and histories of calls in which one call guards another.
\<close>

named_theorems wp_simps "rules that compute weakest preconditions of monadic code"
named_theorems keeps_rules "syntax-directed rules for relations kept by monadic code"

section \<open>Go values\<close>

type_synonym int32 = "32 word"
type_synonym int64 = "64 word"

text \<open>A float64: a finite value is \<open>m * 2 ^ e\<close>.\<close>

datatype gofloat = Finite int int | Infinite bool | NotANumber

text \<open>
  The dynamic values that decoding JSON or YAML into \<open>map[string]interface{}\<close> produces. A Go map is an
  association list; its iteration order carries no meaning.
\<close>

datatype goval =
    GNil
  | GBool bool
  | GInt64 int64
  | GFloat64 gofloat
  | GString string
  | GSlice "goval list"
  | GMap "(string \<times> goval) list"

type_synonym gomap = "(string \<times> goval) list"
type_synonym strmap = "(string \<times> string) list"

text \<open>Conversion \<open>int32(x)\<close> of an int64 keeps the low 32 bits.\<close>

definition int32_of_int64 :: "int64 \<Rightarrow> int32" where
  "int32_of_int64 x = ucast x"

text \<open>Truncation of a finite float64 towards zero.\<close>

definition trunc_finite :: "int \<Rightarrow> int \<Rightarrow> int" where
  "trunc_finite m e = (if 0 \<le> e then m * 2 ^ nat e else sgn m * (\<bar>m\<bar> div 2 ^ nat (- e)))"

text \<open>
  Conversion \<open>int32(f)\<close> of a float64: the truncated value when it is representable; the Go
  specification leaves every other case to the implementation, the parameter \<open>oor\<close>.
\<close>

definition int32_of_float64 :: "(gofloat \<Rightarrow> int32) \<Rightarrow> gofloat \<Rightarrow> int32" where
  "int32_of_float64 oor f = (case f of
     Finite m e \<Rightarrow> (let n = trunc_finite m e in
        if - (2 ^ 31) \<le> n \<and> n < 2 ^ 31 then word_of_int n else oor f)
   | _ \<Rightarrow> oor f)"

section \<open>Strings and formatting\<close>

definition HasSuffix :: "string \<Rightarrow> string \<Rightarrow> bool" where
  "HasSuffix s suf \<longleftrightarrow> length suf \<le> length s \<and> drop (length s - length suf) s = suf"

definition TrimSuffix :: "string \<Rightarrow> string \<Rightarrow> string" where
  "TrimSuffix s suf = (if HasSuffix s suf then take (length s - length suf) s else s)"

fun str_Contains :: "string \<Rightarrow> string \<Rightarrow> bool" where
  "str_Contains [] sub = (sub = [])"
| "str_Contains (c # s) sub = (take (length sub) (c # s) = sub \<or> str_Contains s sub)"

text \<open>
  \<open>strconv.Quote\<close>, used by the verb \<open>%q\<close>. A run of non-ASCII bytes is quoted by the parameter \<open>na\<close>
  (Go consults its Unicode tables there).
\<close>

definition hexdigit :: "nat \<Rightarrow> char" where
  "hexdigit n = ''0123456789abcdef'' ! (n mod 16)"

definition quote_ascii :: "char \<Rightarrow> string" where
  "quote_ascii c =
     (let n = of_char c :: nat in
      if c = CHR 0x22 \<or> c = CHR 0x5C then [CHR 0x5C, c]
      else if 32 \<le> n \<and> n < 127 then [c]
      else if n = 7 then [CHR 0x5C, CHR ''a'']
      else if n = 8 then [CHR 0x5C, CHR ''b'']
      else if n = 9 then [CHR 0x5C, CHR ''t'']
      else if n = 10 then [CHR 0x5C, CHR ''n'']
      else if n = 11 then [CHR 0x5C, CHR ''v'']
      else if n = 12 then [CHR 0x5C, CHR ''f'']
      else if n = 13 then [CHR 0x5C, CHR ''r'']
      else [CHR 0x5C, CHR ''x'', hexdigit (n div 16), hexdigit n])"

definition is_ascii :: "char \<Rightarrow> bool" where
  "is_ascii c \<longleftrightarrow> (of_char c :: nat) < 128"

function quote_body :: "(string \<Rightarrow> string) \<Rightarrow> string \<Rightarrow> string" where
  "quote_body na [] = []"
| "quote_body na (c # s) =
     (if is_ascii c then quote_ascii c @ quote_body na s
      else na (takeWhile (Not \<circ> is_ascii) (c # s)) @
           quote_body na (dropWhile (Not \<circ> is_ascii) (c # s)))"
  by pat_completeness auto
termination
  by (relation "measure (\<lambda>(na, s). length s)") (auto simp: le_imp_less_Suc length_dropWhile_le)

definition Quote :: "(string \<Rightarrow> string) \<Rightarrow> string \<Rightarrow> string" where
  "Quote na s = CHR 0x22 # quote_body na s @ [CHR 0x22]"

text \<open>
  \<open>fmt.Sprintf\<close> for the verbs the operator uses on strings and errors: \<open>%s\<close>, \<open>%v\<close> and \<open>%w\<close> insert the
  text of their operand, \<open>%q\<close> its quoted form. Every format of the source has as many verbs as operands.
\<close>

function Sprintf :: "(string \<Rightarrow> string) \<Rightarrow> string \<Rightarrow> string list \<Rightarrow> string" where
  "Sprintf na [] as = []"
| "Sprintf na [c] as = [c]"
| "Sprintf na (c # d # f) [] = c # d # f"
| "Sprintf na (c # d # f) (a # as) =
     (if c \<noteq> CHR ''%'' then c # Sprintf na (d # f) (a # as)
      else if d = CHR ''q'' then Quote na a @ Sprintf na f as
      else a @ Sprintf na f as)"
  by pat_completeness auto
termination
  by (relation "measure (\<lambda>(na, f, as). length f)") auto

text \<open>\<open>fmt.Sprintf("%v", x)\<close> of a dynamic value; the shortest form of a float64 is the parameter \<open>ff\<close>.\<close>

fun show_digits :: "nat \<Rightarrow> string" where
  "show_digits n = (if n < 10 then [hexdigit n] else show_digits (n div 10) @ [hexdigit (n mod 10)])"

declare show_digits.simps [simp del]

definition show_int64 :: "int64 \<Rightarrow> string" where
  "show_int64 x = (let n = sint x in
     if n < 0 then CHR ''-'' # show_digits (nat (- n)) else show_digits (nat n))"

fun join_sp :: "string list \<Rightarrow> string" where
  "join_sp [] = []"
| "join_sp [x] = x"
| "join_sp (x # y # ys) = x @ '' '' @ join_sp (y # ys)"

fun Sprint_v :: "(gofloat \<Rightarrow> string) \<Rightarrow> goval \<Rightarrow> string" where
  "Sprint_v ff GNil = ''<nil>''"
| "Sprint_v ff (GBool b) = (if b then ''true'' else ''false'')"
| "Sprint_v ff (GInt64 n) = show_int64 n"
| "Sprint_v ff (GFloat64 x) = ff x"
| "Sprint_v ff (GString s) = s"
| "Sprint_v ff (GSlice xs) = ''['' @ join_sp (map (Sprint_v ff) xs) @ '']''"
| "Sprint_v ff (GMap kvs) =
     ''map['' @ join_sp (map (\<lambda>(k, v). k @ '':'' @ v)
        (sort_key fst (map (\<lambda>kv. (fst kv, Sprint_v ff (snd kv))) kvs))) @ '']''"

section \<open>Errors\<close>

text \<open>
  An error is opaque (from a library or a service, with its identity and text), built by
  \<open>fmt.Errorf\<close> (format, string operands and the operand of a final \<open>%w\<close>), or a \<open>*TerminalError\<close>
  (internal/controller/errors.go).
\<close>

datatype goerror =
    ErrExt int string
  | Errorf string "string list" "goerror option"
  | TerminalError goerror

text \<open>\<open>Error()\<close> and \<open>Unwrap()\<close>.\<close>

fun Error :: "(string \<Rightarrow> string) \<Rightarrow> goerror \<Rightarrow> string" where
  "Error na (ErrExt i t) = t"
| "Error na (Errorf f as None) = Sprintf na f as"
| "Error na (Errorf f as (Some e)) = Sprintf na f (as @ [Error na e])"
| "Error na (TerminalError e) = Error na e"

fun Unwrap :: "goerror \<Rightarrow> goerror option" where
  "Unwrap (ErrExt i t) = None"
| "Unwrap (Errorf f as w) = w"
| "Unwrap (TerminalError e) = Some e"

text \<open>\<open>errors.As(err, &te)\<close> for a target of type \<open>*TerminalError\<close> walks the chain.\<close>

fun As_TerminalError :: "goerror \<Rightarrow> goerror option" where
  "As_TerminalError (TerminalError e) = Some (TerminalError e)"
| "As_TerminalError (Errorf f as (Some e)) = As_TerminalError e"
| "As_TerminalError (Errorf f as None) = None"
| "As_TerminalError (ErrExt i t) = None"

lemma As_TerminalError_Some: "As_TerminalError e = Some t \<Longrightarrow> \<exists>u. t = TerminalError u"
  by (induction e rule: As_TerminalError.induct) auto

section \<open>State-passing code and its weakest preconditions\<close>

text \<open>
  Code that talks to the outside is a computation in the library's state monad. \<open>wp m Q s\<close> says that
  \<open>m\<close>, started in \<open>s\<close>, ends in a result and a state that satisfy \<open>Q\<close>; every computation of the
  development is total, so this is total correctness.
\<close>

abbreviation ret :: "'a \<Rightarrow> ('s, 'a) state" where
  "ret \<equiv> State_Monad.return"

definition wp :: "('s, 'a) state \<Rightarrow> ('a \<Rightarrow> 's \<Rightarrow> bool) \<Rightarrow> 's \<Rightarrow> bool" where
  "wp m Q s = (case run_state m s of (a, s') \<Rightarrow> Q a s')"

lemma wp_return [wp_simps]: "wp (ret x) Q = Q x"
  by (rule ext) (simp add: wp_def)

lemma wp_bind [wp_simps]: "wp (State_Monad.bind m k) Q s = wp m (\<lambda>a. wp (k a) Q) s"
  by (simp add: wp_def split: prod.splits)

lemma wp_get [wp_simps]: "wp State_Monad.get Q s = Q s s"
  by (simp add: wp_def)

lemma wp_set [wp_simps]: "wp (State_Monad.set t) Q s = Q () t"
  by (simp add: wp_def)

lemma run_state_update [simp]: "run_state (State_Monad.update f) s = ((), f s)"
  by (simp add: State_Monad.update_def)

lemma wp_update [wp_simps]: "wp (State_Monad.update f) Q s = Q () (f s)"
  by (simp add: wp_def)

lemma wp_State [wp_simps]: "wp (State f) Q s = (case f s of (a, s') \<Rightarrow> Q a s')"
  by (simp add: wp_def)

lemma wp_if [wp_simps]: "wp (if b then m else n) Q s = (if b then wp m Q s else wp n Q s)"
  by simp

lemma wp_case_option [wp_simps]:
  "wp (case x of None \<Rightarrow> m | Some y \<Rightarrow> k y) Q s = (case x of None \<Rightarrow> wp m Q s | Some y \<Rightarrow> wp (k y) Q s)"
  by (cases x) simp_all

lemma wp_case_sum [wp_simps]:
  "wp (case x of Inl e \<Rightarrow> m e | Inr y \<Rightarrow> k y) Q s = (case x of Inl e \<Rightarrow> wp (m e) Q s | Inr y \<Rightarrow> wp (k y) Q s)"
  by (cases x) simp_all

lemma wp_case_prod [wp_simps]:
  "wp (case x of (a, b) \<Rightarrow> m a b) Q s = (case x of (a, b) \<Rightarrow> wp (m a b) Q s)"
  by (cases x) simp_all

lemma wp_let [wp_simps]: "wp (let x = v in m x) Q s = (let x = v in wp (m x) Q s)"
  by simp

lemma wp_const [simp, wp_simps]: "wp m (\<lambda>_ _. X) s = X"
  by (simp add: wp_def case_prod_beta)

lemma wp_always: "(\<And>a s'. Q a s') \<Longrightarrow> wp m Q s"
  by (simp add: wp_def case_prod_beta)

lemma wp_mono: "wp m Q s \<Longrightarrow> (\<And>a s'. Q a s' \<Longrightarrow> Q' a s') \<Longrightarrow> wp m Q' s"
  by (auto simp: wp_def split: prod.splits)

lemma wp_conj: "wp m (\<lambda>a s'. P a s' \<and> Q a s') s \<longleftrightarrow> wp m P s \<and> wp m Q s"
  by (auto simp: wp_def split: prod.splits)

lemma wp_run: "run_state m s = (a, s') \<Longrightarrow> wp m Q s = Q a s'"
  by (simp add: wp_def)

lemma wp_io_rel: "state_io_rel R m \<Longrightarrow> wp m (\<lambda>_. R s) s"
  by (simp add: wp_def state_io_rel_def case_prod_beta)

lemma wp_bindI: "wp m (\<lambda>a s'. P a s') s \<Longrightarrow> (\<And>a s'. P a s' \<Longrightarrow> wp (k a) Q s') \<Longrightarrow> wp (State_Monad.bind m k) Q s"
  unfolding wp_bind by (rule wp_mono)

lemma wp_ifI: "(b \<Longrightarrow> wp m Q s) \<Longrightarrow> (\<not> b \<Longrightarrow> wp n Q s) \<Longrightarrow> wp (if b then m else n) Q s"
  by simp

text \<open>
  The interface between an operation and its callers that most proofs need: a reflexive and
  transitive relation between the states before and after, kept by every primitive, is kept by
  every composition of them.
\<close>

locale state_frame =
  fixes R :: "'s \<Rightarrow> 's \<Rightarrow> bool"
  assumes frame_refl: "R s s"
    and frame_trans: "R s t \<Longrightarrow> R t u \<Longrightarrow> R s u"
begin

lemma keeps_return: "state_io_rel R (ret x)"
  by (simp add: state_io_rel_def frame_refl)

lemma keeps_get: "state_io_rel R State_Monad.get"
  by (simp add: state_io_rel_def frame_refl)

lemma keeps_bind:
  assumes "state_io_rel R m" and "\<And>a. state_io_rel R (k a)"
  shows "state_io_rel R (State_Monad.bind m k)"
proof (rule state_io_relI)
  fix b s u
  assume "run_state (State_Monad.bind m k) s = (b, u)"
  then obtain a t where "run_state m s = (a, t)" and "run_state (k a) t = (b, u)"
    by (auto split: prod.splits)
  with assms have "R s t" and "R t u"
    by (auto dest: state_io_relD)
  then show "R s u" by (rule frame_trans)
qed

lemma keeps_update: "(\<And>s. R s (f s)) \<Longrightarrow> state_io_rel R (State_Monad.update f)"
  by (simp add: state_io_rel_def)

lemma keeps_if: "state_io_rel R m \<Longrightarrow> state_io_rel R n \<Longrightarrow> state_io_rel R (if b then m else n)"
  by simp

lemma keeps_case_option:
  "(x = None \<Longrightarrow> state_io_rel R m) \<Longrightarrow> (\<And>y. x = Some y \<Longrightarrow> state_io_rel R (k y)) \<Longrightarrow>
   state_io_rel R (case x of None \<Rightarrow> m | Some y \<Rightarrow> k y)"
  by (cases x) simp_all

lemma keeps_case_sum:
  "(\<And>e. state_io_rel R (m e)) \<Longrightarrow> (\<And>y. state_io_rel R (k y)) \<Longrightarrow>
   state_io_rel R (case x of Inl e \<Rightarrow> m e | Inr y \<Rightarrow> k y)"
  by (cases x) simp_all

lemma keeps_case_prod:
  "(\<And>a b. state_io_rel R (m a b)) \<Longrightarrow> state_io_rel R (case x of (a, b) \<Rightarrow> m a b)"
  by (cases x) simp

lemma keeps_let: "(\<And>x. state_io_rel R (m x)) \<Longrightarrow> state_io_rel R (let x = v in m x)"
  by simp

lemmas keeps = keeps_return keeps_get keeps_bind keeps_if keeps_case_option keeps_case_sum
  keeps_case_prod keeps_let

end

section \<open>Histories in which one call guards another\<close>

text \<open>
  \<open>guarded A G b h\<close>: in the history \<open>h\<close>, which follows \<open>b\<close>, every call that satisfies \<open>A\<close> comes after
  calls that satisfy \<open>G\<close>.
\<close>

fun guarded :: "('c \<Rightarrow> bool) \<Rightarrow> ('c list \<Rightarrow> bool) \<Rightarrow> 'c list \<Rightarrow> 'c list \<Rightarrow> bool" where
  "guarded A G b [] = True"
| "guarded A G b (x # xs) = ((A x \<longrightarrow> G b) \<and> guarded A G (b @ [x]) xs)"

lemma guarded_append: "guarded A G b (xs @ ys) \<longleftrightarrow> guarded A G b xs \<and> guarded A G (b @ xs) ys"
  by (induction xs arbitrary: b) auto

lemma guarded_iff:
  "guarded A G b h \<longleftrightarrow> (\<forall>pre x post. h = pre @ x # post \<longrightarrow> A x \<longrightarrow> G (b @ pre))"
proof (induction h arbitrary: b)
  case Nil
  then show ?case by simp
next
  case (Cons x xs)
  show ?case
    by (auto simp: Cons.IH Cons_eq_append_conv)
qed

lemma guarded_none: "list_all (\<lambda>x. \<not> A x) h \<Longrightarrow> guarded A G b h"
  by (induction h arbitrary: b) auto

lemma guarded_open:
  "G b \<Longrightarrow> (\<And>c d. G c \<Longrightarrow> G (c @ d)) \<Longrightarrow> guarded A G b h"
  by (induction h arbitrary: b) auto

end
