(* ===== verification/Api_Types.thy ===== *)
theory Api_Types
  imports Go_Prelude
begin

text \<open>
  The API types of the operator (api/v1alpha1/clusterclaim_types.go and
  clusterclaimobserveresourcetemplate_types.go) as records, field by field, with the constants of
  the package; and the metadata types of Kubernetes that they embed. A pointer is an option, a Go
  string constant is an abbreviation.
\<close>

section \<open>Embedded Kubernetes metadata\<close>

text \<open>Times are nanoseconds since the epoch; \<open>None\<close> is the zero time.\<close>

type_synonym gotime = int

record ObjectMeta =
  om_Name :: string
  om_Namespace :: string
  om_UID :: string
  om_ResourceVersion :: string
  om_Generation :: int64
  om_DeletionTimestamp :: "gotime option"
  om_Labels :: strmap
  om_Annotations :: strmap
  om_Finalizers :: "string list"

record Condition =
  c_Type :: string
  c_Status :: string
  c_ObservedGeneration :: int64
  c_LastTransitionTime :: "gotime option"
  c_Reason :: string
  c_Message :: string

abbreviation ConditionTrue :: string where "ConditionTrue \<equiv> ''True''"
abbreviation ConditionFalse :: string where "ConditionFalse \<equiv> ''False''"

section \<open>Constants\<close>

abbreviation PhaseProvisioning :: string where "PhaseProvisioning \<equiv> ''Provisioning''"
abbreviation PhaseWaitingDependency :: string where "PhaseWaitingDependency \<equiv> ''WaitingDependency''"
abbreviation PhaseReady :: string where "PhaseReady \<equiv> ''Ready''"
abbreviation PhaseFailed :: string where "PhaseFailed \<equiv> ''Failed''"
abbreviation PhaseDegraded :: string where "PhaseDegraded \<equiv> ''Degraded''"
abbreviation PhasePaused :: string where "PhasePaused \<equiv> ''Paused''"
abbreviation PhaseDeleting :: string where "PhaseDeleting \<equiv> ''Deleting''"

abbreviation ConditionReady :: string where "ConditionReady \<equiv> ''Ready''"
abbreviation ConditionApplicationCreated :: string where
  "ConditionApplicationCreated \<equiv> ''ApplicationCreated''"
abbreviation ConditionInfraCertificateReady :: string where
  "ConditionInfraCertificateReady \<equiv> ''InfraCertificateReady''"
abbreviation ConditionInfraProvisioned :: string where
  "ConditionInfraProvisioned \<equiv> ''InfraProvisioned''"
abbreviation ConditionInfraCPReady :: string where "ConditionInfraCPReady \<equiv> ''InfraCPReady''"
abbreviation ConditionCcmCsrcCreated :: string where "ConditionCcmCsrcCreated \<equiv> ''CcmCsrcCreated''"
abbreviation ConditionRemoteConfigApplied :: string where
  "ConditionRemoteConfigApplied \<equiv> ''RemoteConfigApplied''"
abbreviation ConditionClientCPReady :: string where "ConditionClientCPReady \<equiv> ''ClientCPReady''"
abbreviation ConditionVaultClaimCreated :: string where
  "ConditionVaultClaimCreated \<equiv> ''VaultClaimCreated''"
abbreviation ConditionVaultClaimReady :: string where
  "ConditionVaultClaimReady \<equiv> ''VaultClaimReady''"
abbreviation ConditionVaultKmsReady :: string where "ConditionVaultKmsReady \<equiv> ''VaultKmsReady''"
abbreviation ConditionVaultSecretClaimCreated :: string where
  "ConditionVaultSecretClaimCreated \<equiv> ''VaultSecretClaimCreated''"
abbreviation ConditionVaultSecretClaimReady :: string where
  "ConditionVaultSecretClaimReady \<equiv> ''VaultSecretClaimReady''"
abbreviation ConditionS3BucketClaimCreated :: string where
  "ConditionS3BucketClaimCreated \<equiv> ''S3BucketClaimCreated''"
abbreviation ConditionS3BucketClaimReady :: string where
  "ConditionS3BucketClaimReady \<equiv> ''S3BucketClaimReady''"
abbreviation ConditionPaused :: string where "ConditionPaused \<equiv> ''Paused''"

definition ClusterClaimFinalizer :: string where
  "ClusterClaimFinalizer = ''clusterclaim.in-cloud.io/finalizer''"

definition PausedAnnotation :: string where
  "PausedAnnotation = ''clusterclaim.in-cloud.io/paused''"

definition LabelClaimName :: string where
  "LabelClaimName = ''clusterclaim.in-cloud.io/claim-name''"

definition LabelClaimNamespace :: string where
  "LabelClaimNamespace = ''clusterclaim.in-cloud.io/claim-namespace''"

section \<open>Spec\<close>

record TemplateRef =
  tr_Name :: string

record DualTemplateRef =
  dr_Infra :: TemplateRef
  dr_Client :: "TemplateRef option"

record ConfigurationSpec =
  cf_CpuCount :: int32
  cf_DiskSize :: int32
  cf_Memory :: int32

record NetworkConfig =
  nc_ServiceCidr :: string
  nc_PodCidr :: string
  nc_PodCidrMaskSize :: "int32 option"
  nc_ClusterDNS :: string
  nc_KubeApiserverPort :: int32
  nc_IpamMode :: string

record ComponentVersion =
  cv_Version :: string

record AddonVersions =
  av_Version :: string

record InfraSpec =
  is_Role :: string
  is_Paused :: bool
  is_Network :: NetworkConfig
  is_ComponentVersions :: "(string \<times> ComponentVersion) list"
  is_AddonVersions :: "(string \<times> AddonVersions) list"

record ClientSpec =
  cl_Enabled :: bool
  cl_Paused :: "bool option"
  cl_Network :: "NetworkConfig option"
  cl_ComponentVersions :: "(string \<times> ComponentVersion) list"

record ClusterClaimSpec =
  sp_ObserveTemplateRef :: TemplateRef
  sp_CertificateSetTemplateRef :: DualTemplateRef
  sp_ClusterTemplateRef :: DualTemplateRef
  sp_CcmCsrTemplateRef :: TemplateRef
  sp_ClusterClassTemplateRef :: DualTemplateRef
  sp_ConfigMapTemplateRef :: "DualTemplateRef option"
  sp_VaultClaimTemplateRef :: "TemplateRef option"
  sp_VaultSecretClaimTemplateRef :: "TemplateRef option"
  sp_S3BucketClaimTemplateRef :: "TemplateRef option"
  sp_Replicas :: int32
  sp_Configuration :: ConfigurationSpec
  sp_RemoteNamespace :: string
  sp_ExtraEnvs :: strmap
  sp_Infra :: InfraSpec
  sp_Client :: ClientSpec

section \<open>Status\<close>

record ReplicaStatus =
  rs_Replicas :: int32
  rs_ReadyReplicas :: int32
  rs_AvailableReplicas :: int32
  rs_DesiredReplicas :: int32
  rs_UpToDateReplicas :: int32

record ControlPlaneVersion =
  cpv_SpecVersion :: string
  cpv_StatusVersion :: string

record ClusterStatusSummary =
  css_Host :: string
  css_Port :: int32
  css_Conditions :: "Condition list"
  css_Phase :: string
  css_ControlPlane :: "ReplicaStatus option"
  css_Workers :: "ReplicaStatus option"
  css_ControlPlaneVersion :: "ControlPlaneVersion option"

record ClustersStatus =
  cs_Infra :: "ClusterStatusSummary option"
  cs_Client :: "ClusterStatusSummary option"

record VaultStatusSummary =
  vs_Name :: string
  vs_Phase :: string
  vs_Ready :: bool
  vs_Conditions :: "Condition list"

record ClusterClaimStatus =
  st_ObservedGeneration :: int64
  st_Phase :: string
  st_Conditions :: "Condition list"
  st_Clusters :: "ClustersStatus option"
  st_Vault :: "VaultStatusSummary option"
  st_VaultSecret :: "VaultStatusSummary option"
  st_S3Bucket :: "VaultStatusSummary option"

section \<open>The two resources\<close>

record ClusterClaim =
  cc_Meta :: ObjectMeta
  cc_Spec :: ClusterClaimSpec
  cc_Status :: ClusterClaimStatus

record ClusterClaimObserveResourceTemplateSpec =
  ts_APIVersion :: string
  ts_Kind :: string
  ts_Value :: string

record ClusterClaimObserveResourceTemplate =
  tm_Meta :: ObjectMeta
  tm_Spec :: ClusterClaimObserveResourceTemplateSpec

abbreviation cc_Name :: "ClusterClaim \<Rightarrow> string" where
  "cc_Name c \<equiv> om_Name (cc_Meta c)"

abbreviation cc_Namespace :: "ClusterClaim \<Rightarrow> string" where
  "cc_Namespace c \<equiv> om_Namespace (cc_Meta c)"

abbreviation client_enabled :: "ClusterClaim \<Rightarrow> bool" where
  "client_enabled c \<equiv> cl_Enabled (sp_Client (cc_Spec c))"

text \<open>
  Two versions of a claim that differ in their status only: what every status operation of the
  controller keeps.
\<close>

definition same_spec :: "ClusterClaim \<Rightarrow> ClusterClaim \<Rightarrow> bool" where
  "same_spec c d \<longleftrightarrow> cc_Meta d = cc_Meta c \<and> cc_Spec d = cc_Spec c"

lemma same_spec_refl [simp]: "same_spec c c"
  by (simp add: same_spec_def)

lemma same_spec_trans: "same_spec c d \<Longrightarrow> same_spec d e \<Longrightarrow> same_spec c e"
  by (simp add: same_spec_def)

end
