(* ===== verification/K8s_Lib.thy ===== *)
theory K8s_Lib
  imports Api_Types
begin

text \<open>
  The code outside the repository that the operator calls, as parameters of the model. The record
  \<open>lib\<close> holds the pure functions (apimachinery, controller-runtime helpers, the template engine, YAML,
  hashing, time parsing); \<open>api\<close> holds the requests to the Kubernetes API and to remote clusters, each
  of which may change the world \<open>'w\<close> in any way, so that other controllers and users acting at the
  same time are included. Nothing is assumed of either; a property that relies on documented
  behaviour names it as a hypothesis, one of the \<open>law_\<dots>\<close> predicates at the end.
\<close>

section \<open>Data exchanged with the libraries\<close>

record GroupVersionKind =
  gvk_Group :: string
  gvk_Version :: string
  gvk_Kind :: string

record ObjectKey =
  k_Namespace :: string
  k_Name :: string

definition key_of :: "string \<Rightarrow> string \<Rightarrow> ObjectKey" where
  "key_of name ns = \<lparr>k_Namespace = ns, k_Name = name\<rparr>"

lemma key_of_inject [simp]: "key_of n ns = key_of n' ns' \<longleftrightarrow> n = n' \<and> ns = ns'"
  by (auto simp: key_of_def)

record OwnerReference =
  or_APIVersion :: string
  or_Kind :: string
  or_Name :: string
  or_UID :: string
  or_Controller :: bool
  or_BlockOwnerDeletion :: bool

record Secret =
  sec_Namespace :: string
  sec_Name :: string
  sec_Data :: strmap

text \<open>A remote ConfigMap; \<open>None\<close> is a nil map, which \<open>reflect.DeepEqual\<close> tells from an empty one.\<close>

record ConfigMap =
  cmap_Name :: string
  cmap_Namespace :: string
  cmap_ResourceVersion :: string
  cmap_OwnerReferences :: "OwnerReference list"
  cmap_Labels :: "strmap option"
  cmap_Annotations :: "strmap option"
  cmap_Data :: "strmap option"

text \<open>The context of a template (internal/renderer/context.go).\<close>

record ControlPlaneEndpoint =
  ep_Host :: string
  ep_Port :: int64

record TemplateContext =
  tc_ClusterClaim :: gomap
  tc_InfraControlPlaneEndpoint :: "ControlPlaneEndpoint option"
  tc_InfraControlPlaneInitialized :: bool
  tc_InfraControlPlaneAvailableReplicas :: int32
  tc_InfraControlPlaneDesiredReplicas :: int32
  tc_ClientControlPlaneEndpoint :: "ControlPlaneEndpoint option"
  tc_ClientControlPlaneInitialized :: bool
  tc_ClientControlPlaneAvailableReplicas :: int32
  tc_ClientControlPlaneDesiredReplicas :: int32

text \<open>Opaque handles: a parsed template, a REST configuration, a client for a remote cluster.\<close>

type_synonym parsed = nat
type_synonym restcfg = nat
type_synonym rclient = nat

section \<open>Pure library functions\<close>

record lib =
  \<comment> \<open>parts of fmt, strconv, time and of float conversion that Go leaves open or that need tables\<close>
  quote_nonascii :: "string \<Rightarrow> string"
  fmt_float :: "gofloat \<Rightarrow> string"
  float_oor :: "gofloat \<Rightarrow> int32"
  ParseRFC3339 :: "string \<Rightarrow> goerror + gotime"
  Sum256 :: "string \<Rightarrow> string"
  \<comment> \<open>apierrors, meta, client\<close>
  IsNotFound :: "goerror \<Rightarrow> bool"
  IsInvalid :: "goerror \<Rightarrow> bool"
  IsForbidden :: "goerror \<Rightarrow> bool"
  IsNoMatchError :: "goerror \<Rightarrow> bool"
  IgnoreNotFound :: "goerror \<Rightarrow> goerror option"
  \<comment> \<open>unstructured: accessors return the value, whether it was found, and an error\<close>
  NestedString :: "gomap \<Rightarrow> string list \<Rightarrow> string \<times> bool \<times> goerror option"
  NestedBool :: "gomap \<Rightarrow> string list \<Rightarrow> bool \<times> bool \<times> goerror option"
  NestedInt64 :: "gomap \<Rightarrow> string list \<Rightarrow> int64 \<times> bool \<times> goerror option"
  NestedSlice :: "gomap \<Rightarrow> string list \<Rightarrow> goval list \<times> bool \<times> goerror option"
  NestedMap :: "gomap \<Rightarrow> string list \<Rightarrow> gomap \<times> bool \<times> goerror option"
  NestedStringMap :: "gomap \<Rightarrow> string list \<Rightarrow> strmap \<times> bool \<times> goerror option"
  SetNestedField :: "gomap \<Rightarrow> goval \<Rightarrow> string list \<Rightarrow> gomap \<times> goerror option"
  SetGroupVersionKind :: "GroupVersionKind \<Rightarrow> gomap \<Rightarrow> gomap"
  SetName :: "string \<Rightarrow> gomap \<Rightarrow> gomap"
  SetNamespace :: "string \<Rightarrow> gomap \<Rightarrow> gomap"
  SetOwnerReferences :: "OwnerReference list \<Rightarrow> gomap \<Rightarrow> gomap"
  SetLabels :: "strmap \<Rightarrow> gomap \<Rightarrow> gomap"
  SetAnnotations :: "strmap \<Rightarrow> gomap \<Rightarrow> gomap"
  GetName :: "gomap \<Rightarrow> string"
  GetNamespace :: "gomap \<Rightarrow> string"
  DeletionTimestampIsZero :: "gomap \<Rightarrow> bool"
  \<comment> \<open>schema\<close>
  GroupVersionString :: "GroupVersionKind \<Rightarrow> string"
  FromAPIVersionAndKind :: "string \<Rightarrow> string \<Rightarrow> GroupVersionKind"
  \<comment> \<open>controllerutil, on an unstructured object and on the finalizer list of a typed one\<close>
  AddFinalizer_obj :: "gomap \<Rightarrow> string \<Rightarrow> gomap \<times> bool"
  RemoveFinalizer_obj :: "gomap \<Rightarrow> string \<Rightarrow> gomap \<times> bool"
  AddFinalizer :: "string list \<Rightarrow> string \<Rightarrow> string list \<times> bool"
  RemoveFinalizer :: "string list \<Rightarrow> string \<Rightarrow> string list \<times> bool"
  ContainsFinalizer :: "string list \<Rightarrow> string \<Rightarrow> bool"
  \<comment> \<open>metav1, apimeta, equality, runtime\<close>
  NewControllerRef :: "ObjectMeta \<Rightarrow> GroupVersionKind \<Rightarrow> OwnerReference"
  SetStatusCondition :: "gotime \<Rightarrow> Condition list \<Rightarrow> Condition \<Rightarrow> Condition list"
  RemoveStatusCondition :: "Condition list \<Rightarrow> string \<Rightarrow> Condition list"
  StatusDeepEqual :: "ClusterClaimStatus \<Rightarrow> ClusterClaimStatus \<Rightarrow> bool"
  ToUnstructured :: "ClusterClaim \<Rightarrow> goerror + gomap"
  ObjectKinds :: "ClusterClaim \<Rightarrow> GroupVersionKind list"
  \<comment> \<open>text/template with the sprig functions and one more, and sigs.k8s.io/yaml\<close>
  TemplateParse :: "(goval \<Rightarrow> string) \<Rightarrow> string \<Rightarrow> goerror + parsed"
  TemplateExecute :: "parsed \<Rightarrow> TemplateContext \<Rightarrow> goerror + string"
  YamlUnmarshal :: "string \<Rightarrow> goerror + gomap"
  YamlMarshal :: "goval \<Rightarrow> goerror + string"
  \<comment> \<open>clientcmd\<close>
  RESTConfigFromKubeConfig :: "string \<Rightarrow> goerror + restcfg"

abbreviation Error_text :: "lib \<Rightarrow> goerror \<Rightarrow> string" where
  "Error_text L \<equiv> Error (quote_nonascii L)"

abbreviation nested_string :: "lib \<Rightarrow> gomap \<Rightarrow> string list \<Rightarrow> string" where
  "nested_string L obj fs \<equiv> fst (NestedString L obj fs)"

abbreviation nested_bool :: "lib \<Rightarrow> gomap \<Rightarrow> string list \<Rightarrow> bool" where
  "nested_bool L obj fs \<equiv> fst (NestedBool L obj fs)"

abbreviation nested_int64 :: "lib \<Rightarrow> gomap \<Rightarrow> string list \<Rightarrow> int64" where
  "nested_int64 L obj fs \<equiv> fst (NestedInt64 L obj fs)"

section \<open>Requests to the API servers\<close>

text \<open>
  Every request returns its answer and the world after it. \<open>Update\<close> and \<open>Status().Update\<close> of a claim
  also overwrite the caller's copy with the server's answer, the second component.
\<close>

record 'w api =
  api_now :: "'w \<Rightarrow> gotime \<times> 'w"
  api_get_claim :: "ObjectKey \<Rightarrow> 'w \<Rightarrow> (goerror + ClusterClaim) \<times> 'w"
  api_get_template :: "string \<Rightarrow> 'w \<Rightarrow> (goerror + ClusterClaimObserveResourceTemplate) \<times> 'w"
  api_get_secret :: "ObjectKey \<Rightarrow> 'w \<Rightarrow> (goerror + Secret) \<times> 'w"
  api_get :: "GroupVersionKind \<Rightarrow> ObjectKey \<Rightarrow> 'w \<Rightarrow> (goerror + gomap) \<times> 'w"
  api_list_claims :: "string \<Rightarrow> string \<Rightarrow> 'w \<Rightarrow> (goerror + ClusterClaim list) \<times> 'w"
  api_update :: "gomap \<Rightarrow> 'w \<Rightarrow> goerror option \<times> 'w"
  api_apply :: "gomap \<Rightarrow> 'w \<Rightarrow> goerror option \<times> 'w"
  api_delete :: "gomap \<Rightarrow> 'w \<Rightarrow> goerror option \<times> 'w"
  api_update_claim :: "ClusterClaim \<Rightarrow> 'w \<Rightarrow> (goerror option \<times> ClusterClaim) \<times> 'w"
  api_update_status :: "ClusterClaim \<Rightarrow> 'w \<Rightarrow> (goerror option \<times> ClusterClaim) \<times> 'w"
  api_new_client :: "restcfg \<Rightarrow> 'w \<Rightarrow> (goerror + rclient) \<times> 'w"
  rem_get :: "rclient \<Rightarrow> ObjectKey \<Rightarrow> 'w \<Rightarrow> (goerror + ConfigMap) \<times> 'w"
  rem_create :: "rclient \<Rightarrow> ConfigMap \<Rightarrow> 'w \<Rightarrow> goerror option \<times> 'w"
  rem_update :: "rclient \<Rightarrow> ConfigMap \<Rightarrow> 'w \<Rightarrow> goerror option \<times> 'w"
  rem_delete :: "rclient \<Rightarrow> ObjectKey \<Rightarrow> 'w \<Rightarrow> goerror option \<times> 'w"

section \<open>Documented behaviour used as hypotheses\<close>

text \<open>apierrors: the predicates look through wrapped errors.\<close>

definition law_wrapped_NotFound :: "lib \<Rightarrow> bool" where
  "law_wrapped_NotFound L \<longleftrightarrow> (\<forall>f as e. IsNotFound L (Errorf f as (Some e)) = IsNotFound L e)"

definition law_wrapped_classes :: "lib \<Rightarrow> bool" where
  "law_wrapped_classes L \<longleftrightarrow> (\<forall>f as e.
     IsInvalid L (Errorf f as (Some e)) = IsInvalid L e \<and>
     IsForbidden L (Errorf f as (Some e)) = IsForbidden L e \<and>
     IsNoMatchError L (Errorf f as (Some e)) = IsNoMatchError L e)"

text \<open>
  apimeta: \<open>SetStatusCondition\<close> leaves exactly one condition of the given type, with the given status,
  reason, message and generation, and every other condition as it was; \<open>RemoveStatusCondition\<close>
  removes the conditions of a type.
\<close>

definition find_condition :: "Condition list \<Rightarrow> string \<Rightarrow> Condition option" where
  "find_condition cs t = List.find (\<lambda>c. c_Type c = t) cs"

definition law_SetStatusCondition :: "lib \<Rightarrow> bool" where
  "law_SetStatusCondition L \<longleftrightarrow> (\<forall>now cs c.
     (\<exists>d. find_condition (SetStatusCondition L now cs c) (c_Type c) = Some d \<and>
          c_Status d = c_Status c \<and> c_Reason d = c_Reason c \<and> c_Message d = c_Message c \<and>
          c_ObservedGeneration d = c_ObservedGeneration c) \<and>
     (\<forall>t. t \<noteq> c_Type c \<longrightarrow>
          find_condition (SetStatusCondition L now cs c) t = find_condition cs t))"

definition law_RemoveStatusCondition :: "lib \<Rightarrow> bool" where
  "law_RemoveStatusCondition L \<longleftrightarrow> (\<forall>cs t u.
     find_condition (RemoveStatusCondition L cs t) u = (if u = t then None else find_condition cs u))"

text \<open>equality.Semantic: \<open>DeepEqual\<close> holds of equal values.\<close>

definition law_StatusDeepEqual :: "lib \<Rightarrow> bool" where
  "law_StatusDeepEqual L \<longleftrightarrow> (\<forall>s. StatusDeepEqual L s s)"

text \<open>
  client: after \<open>Status().Update\<close> the caller's copy is the server's version of the same object; the status
  subresource leaves name, namespace and spec alone.
\<close>

definition same_target :: "ClusterClaim \<Rightarrow> ClusterClaim \<Rightarrow> bool" where
  "same_target c d \<longleftrightarrow> cc_Name d = cc_Name c \<and> cc_Namespace d = cc_Namespace c \<and> cc_Spec d = cc_Spec c"

definition law_UpdateStatus :: "'w api \<Rightarrow> bool" where
  "law_UpdateStatus A \<longleftrightarrow> (\<forall>c w. same_target c (snd (fst (api_update_status A c w))))"

text \<open>client: after \<open>Update\<close> the caller's copy is the server's version of the object that was sent.\<close>

definition law_UpdateClaim :: "'w api \<Rightarrow> bool" where
  "law_UpdateClaim A \<longleftrightarrow> (\<forall>c w. same_target c (snd (fst (api_update_claim A c w))))"

text \<open>
  controllerutil: \<open>RemoveFinalizer\<close> removes every occurrence of a finalizer; after \<open>AddFinalizer\<close> the finalizer
  is there, and nothing is reported added when it was there before.
\<close>

definition law_RemoveFinalizer :: "lib \<Rightarrow> bool" where
  "law_RemoveFinalizer L \<longleftrightarrow> (\<forall>fs f. f \<notin> set (fst (RemoveFinalizer L fs f)))"

definition law_AddFinalizer :: "lib \<Rightarrow> bool" where
  "law_AddFinalizer L \<longleftrightarrow> (\<forall>fs f. f \<in> set (fst (AddFinalizer L fs f)) \<and> (snd (AddFinalizer L fs f) \<longleftrightarrow> f \<notin> set fs))"

text \<open>
  apimeta: setting a condition whose status, reason, message and generation are already recorded changes
  nothing (the transition time moves only with the status).
\<close>

definition law_SetStatusCondition_same :: "lib \<Rightarrow> bool" where
  "law_SetStatusCondition_same L \<longleftrightarrow> (\<forall>now cs c d.
     find_condition cs (c_Type c) = Some d \<longrightarrow> c_Status d = c_Status c \<longrightarrow> c_Reason d = c_Reason c \<longrightarrow>
     c_Message d = c_Message c \<longrightarrow> c_ObservedGeneration d = c_ObservedGeneration c \<longrightarrow> c_LastTransitionTime c = None \<longrightarrow>
     SetStatusCondition L now cs c = cs)"

end
