(* ===== verification/Cluster_Manager.thy ===== *)
theory Cluster_Manager
  imports K8s_Lib
begin

text \<open>
  The cache of clients for remote clusters (internal/controller/remote/cluster_manager.go). The
  manager's state is the map of cached clients and the time to live; each critical section of the
  code (under the read lock, under the write lock, the periodic cleanup) is one atomic operation on
  it. The interleavings of concurrent callers are the step relation at the end.
\<close>

section \<open>State and critical sections\<close>

definition defaultTTL :: int where
  "defaultTTL = 5 * 60 * 1000000000"

definition cleanupInterval :: int where
  "cleanupInterval = 1 * 60 * 1000000000"

record cachedClient =
  ca_client :: rclient
  ca_hash :: string
  ca_lastUsed :: gotime

record ClusterManager =
  cm_clients :: "(string \<times> cachedClient) list"
  cm_ttl :: int

definition NewClusterManager :: ClusterManager where
  "NewClusterManager = \<lparr>cm_clients = [], cm_ttl = defaultTTL\<rparr>"

text \<open>\<open>fmt.Sprintf("%x", h[:8])\<close>: two hexadecimal digits for each of the first eight bytes.\<close>

definition hex_byte :: "char \<Rightarrow> string" where
  "hex_byte c = [hexdigit (of_char c div 16), hexdigit (of_char c)]"

definition computeHash :: "lib \<Rightarrow> string \<Rightarrow> string" where
  "computeHash L data = concat (map hex_byte (take 8 (Sum256 L data)))"

text \<open>\<open>key := secret.Namespace + "/" + secret.Name\<close>.\<close>

definition cache_key :: "Secret \<Rightarrow> string" where
  "cache_key s = sec_Namespace s @ ''/'' @ sec_Name s"

text \<open>
  The lookup both critical sections of \<open>GetClient\<close> make: a cached client with the same hash is
  returned and its \<open>lastUsed\<close> set.
\<close>

definition cache_hit :: "string \<Rightarrow> string \<Rightarrow> gotime \<Rightarrow> ClusterManager \<Rightarrow> rclient option \<times> ClusterManager" where
  "cache_hit key hash now cm = (case map_of (cm_clients cm) key of
     Some cached \<Rightarrow>
       if ca_hash cached = hash
       then (Some (ca_client cached),
             cm\<lparr>cm_clients := AList.update key (cached\<lparr>ca_lastUsed := now\<rparr>) (cm_clients cm)\<rparr>)
       else (None, cm)
   | None \<Rightarrow> (None, cm))"

definition cache_store :: "string \<Rightarrow> string \<Rightarrow> rclient \<Rightarrow> gotime \<Rightarrow> ClusterManager \<Rightarrow> ClusterManager" where
  "cache_store key hash c now cm = cm\<lparr>cm_clients :=
     AList.update key \<lparr>ca_client = c, ca_hash = hash, ca_lastUsed = now\<rparr> (cm_clients cm)\<rparr>"

definition removeExpired :: "gotime \<Rightarrow> ClusterManager \<Rightarrow> ClusterManager" where
  "removeExpired now cm = cm\<lparr>cm_clients :=
     filter (\<lambda>(key, cached). \<not> now - ca_lastUsed cached > cm_ttl cm) (cm_clients cm)\<rparr>"

definition cleanup :: "ClusterManager \<Rightarrow> ClusterManager" where
  "cleanup cm = cm\<lparr>cm_clients := []\<rparr>"

text \<open>
  The background loop \<open>Start\<close>, on what its select receives: a tick of the ticker, with the clock it reads
  then, or the end of the context. The first component says whether it has returned.
\<close>

datatype loop_event = TickerC gotime | CtxDone

fun Start :: "loop_event list \<Rightarrow> ClusterManager \<Rightarrow> bool \<times> ClusterManager" where
  "Start [] cm = (False, cm)"
| "Start (CtxDone # events) cm = (True, cleanup cm)"
| "Start (TickerC now # events) cm = Start events (removeExpired now cm)"

section \<open>Contract of the cache\<close>

text \<open>Well-formedness: the map has one entry per key.\<close>

definition cm_wf :: "ClusterManager \<Rightarrow> bool" where
  "cm_wf cm \<longleftrightarrow> distinct (map fst (cm_clients cm))"

abbreviation cm_lookup :: "ClusterManager \<Rightarrow> string \<Rightarrow> cachedClient option" where
  "cm_lookup cm key \<equiv> map_of (cm_clients cm) key"

lemma cm_wf_new [simp]: "cm_wf NewClusterManager"
  by (simp add: cm_wf_def NewClusterManager_def)

lemma cm_wf_cleanup [simp]: "cm_wf (cleanup cm)"
  by (simp add: cm_wf_def cleanup_def)

lemma cm_wf_store [simp]: "cm_wf cm \<Longrightarrow> cm_wf (cache_store k h c now cm)"
  by (simp add: cm_wf_def cache_store_def distinct_update)

lemma cm_wf_hit [simp]: "cm_wf cm \<Longrightarrow> cm_wf (snd (cache_hit k h now cm))"
  by (auto simp: cm_wf_def cache_hit_def distinct_update split: option.splits)

lemma cm_wf_expired [simp]: "cm_wf cm \<Longrightarrow> cm_wf (removeExpired now cm)"
  by (auto simp: cm_wf_def removeExpired_def intro: distinct_map_filter)

lemma map_of_filter_distinct:
  "distinct (map fst xs) \<Longrightarrow>
   map_of (filter P xs) k = (case map_of xs k of Some v \<Rightarrow> if P (k, v) then Some v else None | None \<Rightarrow> None)"
  by (induction xs) (auto split: option.splits simp: map_of_eq_None_iff rev_image_eqI)

text \<open>
  Every cached client was created for the key and the kubeconfig hash it is stored under: \<open>made\<close> is
  the set of triples (key, hash, client) of all clients created so far.
\<close>

definition cm_sound :: "(string \<times> string \<times> rclient) set \<Rightarrow> ClusterManager \<Rightarrow> bool" where
  "cm_sound made cm \<longleftrightarrow>
     (\<forall>key cached. cm_lookup cm key = Some cached \<longrightarrow> (key, ca_hash cached, ca_client cached) \<in> made)"

text \<open>
  The interface of a client cache: a hit returns a client created for this key and hash, and every
  operation keeps the cache well-formed and sound.
\<close>

locale client_cache =
  fixes hit :: "string \<Rightarrow> string \<Rightarrow> gotime \<Rightarrow> 'cm \<Rightarrow> rclient option \<times> 'cm"
    and store :: "string \<Rightarrow> string \<Rightarrow> rclient \<Rightarrow> gotime \<Rightarrow> 'cm \<Rightarrow> 'cm"
    and expire :: "gotime \<Rightarrow> 'cm \<Rightarrow> 'cm"
    and clear :: "'cm \<Rightarrow> 'cm"
    and inv :: "(string \<times> string \<times> rclient) set \<Rightarrow> 'cm \<Rightarrow> bool"
  assumes hit_sound: "inv M cm \<Longrightarrow> hit k h t cm = (Some c, cm') \<Longrightarrow> (k, h, c) \<in> M"
    and hit_inv: "inv M cm \<Longrightarrow> inv M (snd (hit k h t cm))"
    and store_inv: "inv M cm \<Longrightarrow> inv (insert (k, h, c) M) (store k h c t cm)"
    and store_hit: "inv M cm \<Longrightarrow> fst (hit k h t' (store k h c t cm)) = Some c"
    and expire_inv: "inv M cm \<Longrightarrow> inv M (expire t cm)"
    and clear_inv: "inv M cm \<Longrightarrow> inv M (clear cm)"

interpretation go_cache: client_cache cache_hit cache_store removeExpired cleanup
  "\<lambda>M cm. cm_wf cm \<and> cm_sound M cm"
proof unfold_locales
  fix M cm k h t c cm'
  assume "cm_wf cm \<and> cm_sound M cm" and "cache_hit k h t cm = (Some c, cm')"
  then show "(k, h, c) \<in> M"
    by (auto simp: cache_hit_def cm_sound_def split: option.splits if_splits)
next
  fix M cm k h t
  assume "cm_wf cm \<and> cm_sound M cm"
  then show "cm_wf (snd (cache_hit k h t cm)) \<and> cm_sound M (snd (cache_hit k h t cm))"
    by (auto simp: cm_sound_def) (auto simp: cache_hit_def update_conv' split: option.splits if_splits)
next
  fix M cm k h c t
  assume "cm_wf cm \<and> cm_sound M cm"
  then show "cm_wf (cache_store k h c t cm) \<and> cm_sound (insert (k, h, c) M) (cache_store k h c t cm)"
    by (auto simp: cm_sound_def) (auto simp: cache_store_def update_conv' split: if_splits)
next
  fix M cm k h t' c t
  show "fst (cache_hit k h t' (cache_store k h c t cm)) = Some c"
    by (simp add: cache_hit_def cache_store_def update_conv')
next
  fix M cm t
  assume "cm_wf cm \<and> cm_sound M cm"
  then show "cm_wf (removeExpired t cm) \<and> cm_sound M (removeExpired t cm)"
    by (auto simp: cm_sound_def)
      (auto simp: removeExpired_def cm_wf_def map_of_filter_distinct split: option.splits if_splits)
next
  fix M cm
  show "cm_wf (cleanup cm) \<and> cm_sound M (cleanup cm)"
    by (simp add: cm_sound_def) (simp add: cleanup_def)
qed

section \<open>Concurrent callers\<close>

text \<open>
  Each goroutine in \<open>GetClient\<close> is before the read-locked section, between the two sections, or
  returned. Between two steps of one goroutine any others run, and so does the cleanup loop of
  \<open>Start\<close>. The client created under the write lock is whatever \<open>client.New\<close> returns.
\<close>

datatype caller =
    Reading string string
  | Missed string string
  | Returned string string rclient
  | Failed string string

record cm_sys =
  sys_cm :: ClusterManager
  sys_callers :: "nat \<Rightarrow> caller option"
  sys_made :: "(string \<times> string \<times> rclient) list"

definition cm_init :: cm_sys where
  "cm_init = \<lparr>sys_cm = NewClusterManager, sys_callers = (\<lambda>_. None), sys_made = []\<rparr>"

inductive cm_step :: "cm_sys \<Rightarrow> cm_sys \<Rightarrow> bool" where
  cm_call: "sys_callers s i = None \<Longrightarrow>
     cm_step s (s\<lparr>sys_callers := (sys_callers s)(i \<mapsto> Reading k h)\<rparr>)"
| cm_read_hit: "sys_callers s i = Some (Reading k h) \<Longrightarrow> cache_hit k h now (sys_cm s) = (Some c, cm') \<Longrightarrow>
     cm_step s (s\<lparr>sys_cm := cm', sys_callers := (sys_callers s)(i \<mapsto> Returned k h c)\<rparr>)"
| cm_read_miss: "sys_callers s i = Some (Reading k h) \<Longrightarrow> fst (cache_hit k h now (sys_cm s)) = None \<Longrightarrow>
     cm_step s (s\<lparr>sys_callers := (sys_callers s)(i \<mapsto> Missed k h)\<rparr>)"
| cm_write_hit: "sys_callers s i = Some (Missed k h) \<Longrightarrow> cache_hit k h now (sys_cm s) = (Some c, cm') \<Longrightarrow>
     cm_step s (s\<lparr>sys_cm := cm', sys_callers := (sys_callers s)(i \<mapsto> Returned k h c)\<rparr>)"
| cm_write_new: "sys_callers s i = Some (Missed k h) \<Longrightarrow> fst (cache_hit k h now (sys_cm s)) = None \<Longrightarrow>
     cm_step s (s\<lparr>sys_cm := cache_store k h c now (sys_cm s),
                 sys_callers := (sys_callers s)(i \<mapsto> Returned k h c),
                 sys_made := (k, h, c) # sys_made s\<rparr>)"
| cm_write_fail: "sys_callers s i = Some (Missed k h) \<Longrightarrow> fst (cache_hit k h now (sys_cm s)) = None \<Longrightarrow>
     cm_step s (s\<lparr>sys_callers := (sys_callers s)(i \<mapsto> Failed k h)\<rparr>)"
| cm_tick: "cm_step s (s\<lparr>sys_cm := removeExpired now (sys_cm s)\<rparr>)"
| cm_stop: "cm_step s (s\<lparr>sys_cm := cleanup (sys_cm s)\<rparr>)"

inductive cm_reachable :: "cm_sys \<Rightarrow> bool" where
  cm_start: "cm_reachable cm_init"
| cm_next: "cm_reachable s \<Longrightarrow> cm_step s t \<Longrightarrow> cm_reachable t"

definition cm_inv :: "cm_sys \<Rightarrow> bool" where
  "cm_inv s \<longleftrightarrow> cm_wf (sys_cm s) \<and> cm_sound (set (sys_made s)) (sys_cm s) \<and>
     (\<forall>i k h c. sys_callers s i = Some (Returned k h c) \<longrightarrow> (k, h, c) \<in> set (sys_made s))"

lemma cm_inv_init: "cm_inv cm_init"
  by (simp add: cm_inv_def cm_init_def cm_sound_def NewClusterManager_def cm_wf_def)

lemma cm_step_inv: "cm_step s t \<Longrightarrow> cm_inv s \<Longrightarrow> cm_inv t"
proof (induction rule: cm_step.induct)
  case (cm_read_hit s i k h now c cm')
  then show ?case
    using go_cache.hit_sound [where M = "set (sys_made s)" and cm = "sys_cm s"]
      go_cache.hit_inv [where M = "set (sys_made s)" and cm = "sys_cm s" and k = k and h = h and t = now]
    by (auto simp: cm_inv_def)
next
  case (cm_write_hit s i k h now c cm')
  then show ?case
    using go_cache.hit_sound [where M = "set (sys_made s)" and cm = "sys_cm s"]
      go_cache.hit_inv [where M = "set (sys_made s)" and cm = "sys_cm s" and k = k and h = h and t = now]
    by (auto simp: cm_inv_def)
next
  case (cm_write_new s i k h now c)
  then show ?case
    using go_cache.store_inv [where M = "set (sys_made s)" and cm = "sys_cm s" and k = k and h = h and c = c and t = now]
    by (auto simp: cm_inv_def)
next
  case (cm_tick s now)
  then show ?case
    using go_cache.expire_inv [where M = "set (sys_made s)" and cm = "sys_cm s" and t = now]
    by (auto simp: cm_inv_def)
next
  case (cm_stop s)
  then show ?case
    using go_cache.clear_inv [where M = "set (sys_made s)" and cm = "sys_cm s"]
    by (auto simp: cm_inv_def)
qed (auto simp: cm_inv_def)

lemma cm_reachable_inv: "cm_reachable s \<Longrightarrow> cm_inv s"
  by (induction rule: cm_reachable.induct) (auto intro: cm_inv_init cm_step_inv)

end
