(* ===== verification/K8s_Client.thy ===== *)
theory K8s_Client
  imports Cluster_Manager
begin

text \<open>
  The reconciler and the state it acts on. \<open>env\<close> is the \<open>ClusterClaimReconciler\<close> struct with the
  libraries it is linked against; \<open>st\<close> is the world, the client cache and the history of calls the
  operator has made with the answers it got (the history is only recorded, never read by the
  model); \<open>pst\<close> adds the claim and the template context that one reconciliation mutates through
  pointers. Each client call of the code is one operation here, which asks the world and appends to
  the history.
\<close>

section \<open>State\<close>

datatype call =
    CGetClaim ObjectKey "goerror + ClusterClaim"
  | CGetTemplate string "goerror + ClusterClaimObserveResourceTemplate"
  | CGetSecret ObjectKey "goerror + Secret"
  | CGet GroupVersionKind ObjectKey "goerror + gomap"
  | CList string string "goerror + ClusterClaim list"
  | CUpdate GroupVersionKind ObjectKey gomap "goerror option"
  | CApply gomap "goerror option"
  | CDelete GroupVersionKind ObjectKey "goerror option"
  | CUpdateClaim ClusterClaim "goerror option"
  | CUpdateStatus ClusterClaim "goerror option"
  | CEvent string string string
  | CNewClient restcfg "goerror + rclient"
  | CRemoteGet rclient ObjectKey "goerror + ConfigMap"
  | CRemoteCreate rclient ConfigMap "goerror option"
  | CRemoteUpdate rclient ConfigMap "goerror option"
  | CRemoteDelete rclient ObjectKey "goerror option"

record 'w env =
  e_lib :: lib
  e_api :: "'w api"
  e_Recorder :: bool
  e_ClusterManager :: bool
  e_RemoteNamespace :: string

record 'w st =
  world :: 'w
  cmgr :: ClusterManager
  calls :: "call list"

record 'w pst = "'w st" +
  claim :: ClusterClaim
  tctx :: TemplateContext

type_synonym ('w, 'z, 'a) op = "(('w, 'z) st_scheme, 'a) state"
type_synonym ('w, 'a) pop = "('w pst, 'a) state"

section \<open>Client calls\<close>

definition ask :: "('w \<Rightarrow> 'a \<times> 'w) \<Rightarrow> ('a \<Rightarrow> call) \<Rightarrow> ('w, 'z, 'a) op" where
  "ask f c = State (\<lambda>s. case f (world s) of (a, w) \<Rightarrow> (a, s\<lparr>world := w, calls := calls s @ [c a]\<rparr>))"

definition kNow :: "'w env \<Rightarrow> ('w, 'z, gotime) op" where
  "kNow E = State (\<lambda>s. case api_now (e_api E) (world s) of (t, w) \<Rightarrow> (t, s\<lparr>world := w\<rparr>))"

definition kGetClaim :: "'w env \<Rightarrow> ObjectKey \<Rightarrow> ('w, 'z, goerror + ClusterClaim) op" where
  "kGetClaim E k = ask (api_get_claim (e_api E) k) (CGetClaim k)"

definition kGetTemplate :: "'w env \<Rightarrow> string \<Rightarrow> ('w, 'z, goerror + ClusterClaimObserveResourceTemplate) op" where
  "kGetTemplate E n = ask (api_get_template (e_api E) n) (CGetTemplate n)"

definition kGetSecret :: "'w env \<Rightarrow> ObjectKey \<Rightarrow> ('w, 'z, goerror + Secret) op" where
  "kGetSecret E k = ask (api_get_secret (e_api E) k) (CGetSecret k)"

definition kGet :: "'w env \<Rightarrow> GroupVersionKind \<Rightarrow> ObjectKey \<Rightarrow> ('w, 'z, goerror + gomap) op" where
  "kGet E gvk k = ask (api_get (e_api E) gvk k) (CGet gvk k)"

definition kList :: "'w env \<Rightarrow> string \<Rightarrow> string \<Rightarrow> ('w, 'z, goerror + ClusterClaim list) op" where
  "kList E field v = ask (api_list_claims (e_api E) field v) (CList field v)"

text \<open>The kind and key of the object are those it was fetched under.\<close>

definition kUpdate :: "'w env \<Rightarrow> GroupVersionKind \<Rightarrow> ObjectKey \<Rightarrow> gomap \<Rightarrow> ('w, 'z, goerror option) op" where
  "kUpdate E gvk k obj = ask (api_update (e_api E) obj) (CUpdate gvk k obj)"

definition kApply :: "'w env \<Rightarrow> gomap \<Rightarrow> ('w, 'z, goerror option) op" where
  "kApply E obj = ask (api_apply (e_api E) obj) (CApply obj)"

definition kDelete :: "'w env \<Rightarrow> GroupVersionKind \<Rightarrow> ObjectKey \<Rightarrow> gomap \<Rightarrow> ('w, 'z, goerror option) op" where
  "kDelete E gvk k obj = ask (api_delete (e_api E) obj) (CDelete gvk k)"

definition kUpdateClaim :: "'w env \<Rightarrow> ('w, goerror option) pop" where
  "kUpdateClaim E = State (\<lambda>s. case api_update_claim (e_api E) (claim s) (world s) of
     ((err, c), w) \<Rightarrow> (err, s\<lparr>world := w, calls := calls s @ [CUpdateClaim (claim s) err], claim := c\<rparr>))"

definition kUpdateStatus :: "'w env \<Rightarrow> ('w, goerror option) pop" where
  "kUpdateStatus E = State (\<lambda>s. case api_update_status (e_api E) (claim s) (world s) of
     ((err, c), w) \<Rightarrow> (err, s\<lparr>world := w, calls := calls s @ [CUpdateStatus (claim s) err], claim := c\<rparr>))"

definition kNewClient :: "'w env \<Rightarrow> restcfg \<Rightarrow> ('w, 'z, goerror + rclient) op" where
  "kNewClient E cfg = ask (api_new_client (e_api E) cfg) (CNewClient cfg)"

definition kRemoteGet :: "'w env \<Rightarrow> rclient \<Rightarrow> ObjectKey \<Rightarrow> ('w, 'z, goerror + ConfigMap) op" where
  "kRemoteGet E c k = ask (rem_get (e_api E) c k) (CRemoteGet c k)"

definition kRemoteCreate :: "'w env \<Rightarrow> rclient \<Rightarrow> ConfigMap \<Rightarrow> ('w, 'z, goerror option) op" where
  "kRemoteCreate E c cm = ask (rem_create (e_api E) c cm) (CRemoteCreate c cm)"

definition kRemoteUpdate :: "'w env \<Rightarrow> rclient \<Rightarrow> ConfigMap \<Rightarrow> ('w, 'z, goerror option) op" where
  "kRemoteUpdate E c cm = ask (rem_update (e_api E) c cm) (CRemoteUpdate c cm)"

definition kRemoteDelete :: "'w env \<Rightarrow> rclient \<Rightarrow> ObjectKey \<Rightarrow> ('w, 'z, goerror option) op" where
  "kRemoteDelete E c k = ask (rem_delete (e_api E) c k) (CRemoteDelete c k)"

text \<open>\<open>event\<close> (internal/controller/pipeline.go): emitted only if a recorder is set.\<close>

abbreviation EventTypeNormal :: string where "EventTypeNormal \<equiv> ''Normal''"
abbreviation EventTypeWarning :: string where "EventTypeWarning \<equiv> ''Warning''"

definition event :: "'w env \<Rightarrow> string \<Rightarrow> string \<Rightarrow> string \<Rightarrow> string list \<Rightarrow> ('w, 'z, unit) op" where
  "event E eventType reason messageFmt as =
     (if e_Recorder E
      then State_Monad.update (\<lambda>s. s\<lparr>calls := calls s @
             [CEvent eventType reason (Sprintf (quote_nonascii (e_lib E)) messageFmt as)]\<rparr>)
      else ret ())"

text \<open>Access to the claim and the template context through their pointers.\<close>

definition getClaim :: "('w, ClusterClaim) pop" where
  "getClaim = do { s \<leftarrow> State_Monad.get; ret (claim s) }"

definition modClaim :: "(ClusterClaim \<Rightarrow> ClusterClaim) \<Rightarrow> ('w, unit) pop" where
  "modClaim f = State_Monad.update (\<lambda>s. s\<lparr>claim := f (claim s)\<rparr>)"

definition getCtx :: "('w, TemplateContext) pop" where
  "getCtx = do { s \<leftarrow> State_Monad.get; ret (tctx s) }"

definition modCtx :: "(TemplateContext \<Rightarrow> TemplateContext) \<Rightarrow> ('w, unit) pop" where
  "modCtx f = State_Monad.update (\<lambda>s. s\<lparr>tctx := f (tctx s)\<rparr>)"

lemmas k_defs = ask_def kNow_def kGetClaim_def kGetTemplate_def kGetSecret_def kGet_def kList_def
  kUpdate_def kApply_def kDelete_def kUpdateClaim_def kUpdateStatus_def kNewClient_def
  kRemoteGet_def kRemoteCreate_def kRemoteUpdate_def kRemoteDelete_def event_def
  getClaim_def modClaim_def getCtx_def modCtx_def

lemma wp_pointers [wp_simps]:
  "wp getClaim Q = (\<lambda>s. Q (claim s) s)"
  "wp getCtx R = (\<lambda>s. R (tctx s) s)"
  "wp (modClaim f) U = (\<lambda>s. U () (s\<lparr>claim := f (claim s)\<rparr>))"
  "wp (modCtx g) U = (\<lambda>s. U () (s\<lparr>tctx := g (tctx s)\<rparr>))"
  by (simp_all add: fun_eq_iff getClaim_def getCtx_def modClaim_def modCtx_def wp_simps)

section \<open>What every operation keeps\<close>

text \<open>
  \<open>extends \<Phi> s t\<close>: the history of \<open>t\<close> is that of \<open>s\<close> followed by calls that satisfy \<open>\<Phi>\<close>.
\<close>

definition extends :: "(call \<Rightarrow> bool) \<Rightarrow> ('w, 'z) st_scheme \<Rightarrow> ('w, 'z) st_scheme \<Rightarrow> bool" where
  "extends \<Phi> s t \<longleftrightarrow> (\<exists>h. calls t = calls s @ h \<and> list_all \<Phi> h)"

lemma extends_refl [simp]: "extends \<Phi> s s"
  by (simp add: extends_def)

lemma extends_trans: "extends \<Phi> s t \<Longrightarrow> extends \<Phi> t u \<Longrightarrow> extends \<Phi> s u"
  by (auto simp: extends_def)

lemma extends_mono: "extends \<Phi> s t \<Longrightarrow> (\<And>c. \<Phi> c \<Longrightarrow> \<Psi> c) \<Longrightarrow> extends \<Psi> s t"
  by (auto simp: extends_def list_all_iff)

lemma extends_set_mono: "extends \<Phi> s t \<Longrightarrow> set (calls s) \<subseteq> set (calls t)"
  by (auto simp: extends_def)

interpretation ext: state_frame "extends \<Phi>" for \<Phi>
  by unfold_locales (auto intro: extends_trans)

text \<open>
  \<open>makes \<Phi> m\<close>: the operation \<open>m\<close> only appends calls that satisfy \<open>\<Phi>\<close> to the history.
\<close>

abbreviation makes :: "(call \<Rightarrow> bool) \<Rightarrow> ('w, 'z, 'a) op \<Rightarrow> bool" where
  "makes \<Phi> m \<equiv> state_io_rel (extends \<Phi>) m"

lemma makes_ask: "(\<And>a. \<Phi> (c a)) \<Longrightarrow> makes \<Phi> (ask f c)"
  by (auto simp: state_io_rel_def ask_def extends_def split: prod.splits)

lemma makes_kNow [keeps_rules]: "makes \<Phi> (kNow E)"
  by (auto simp: state_io_rel_def kNow_def extends_def split: prod.splits)

text \<open>
  \<open>within c \<Phi> s t\<close>: started on a version of the claim \<open>c\<close>, an operation ends on a version of the same
  claim (metadata and spec untouched) and only appends calls that satisfy \<open>\<Phi>\<close>. The rules below
  are syntax-directed: they follow the code.
\<close>

definition within :: "ClusterClaim \<Rightarrow> (call \<Rightarrow> bool) \<Rightarrow> 'w pst \<Rightarrow> 'w pst \<Rightarrow> bool" where
  "within c \<Phi> s t \<longleftrightarrow> (same_spec c (claim s) \<longrightarrow> same_spec c (claim t) \<and> extends \<Phi> s t)"

abbreviation stays :: "ClusterClaim \<Rightarrow> (call \<Rightarrow> bool) \<Rightarrow> ('w, 'a) pop \<Rightarrow> bool" where
  "stays c \<Phi> m \<equiv> state_io_rel (within c \<Phi>) m"

interpretation wi: state_frame "within c \<Phi>" for c \<Phi>
  by unfold_locales (auto simp: within_def intro: extends_trans)

lemma stays_mono: "stays c \<Phi> m \<Longrightarrow> (\<And>x. \<Phi> x \<Longrightarrow> \<Psi> x) \<Longrightarrow> stays c \<Psi> m"
  unfolding state_io_rel_def within_def by (blast intro: extends_mono)

lemma stays_ask: "(\<And>a. \<Phi> (k a)) \<Longrightarrow> stays c \<Phi> (ask f k)"
  by (auto simp: state_io_rel_def ask_def within_def extends_def split: prod.splits)

lemma stays_kNow [keeps_rules]: "stays c \<Phi> (kNow E)"
  by (auto simp: state_io_rel_def kNow_def within_def extends_def split: prod.splits)

lemma stays_event [keeps_rules]: "(\<And>a b d. \<Phi> (CEvent a b d)) \<Longrightarrow> stays c \<Phi> (event E t r f as)"
  by (auto simp: state_io_rel_def event_def within_def extends_def split: prod.splits)

lemma stays_modClaim [keeps_rules]: "(\<And>d. same_spec d (f d)) \<Longrightarrow> stays c \<Phi> (modClaim f)"
  by (auto simp: state_io_rel_def modClaim_def within_def extends_def intro: same_spec_trans)

lemma stays_modCtx [keeps_rules]: "stays c \<Phi> (modCtx f)"
  by (auto simp: state_io_rel_def modCtx_def within_def extends_def)

lemma stays_getCtx [keeps_rules]: "stays c \<Phi> getCtx"
  by (auto simp: state_io_rel_def getCtx_def within_def)

lemma stays_getClaim_bind [keeps_rules]:
  assumes "\<And>d. same_spec c d \<Longrightarrow> stays c \<Phi> (k d)"
  shows "stays c \<Phi> (State_Monad.bind getClaim k)"
  using assms by (auto simp: state_io_rel_def getClaim_def within_def)

text \<open>
  A status update overwrites the claim with the server's answer, so nothing is kept of the claim;
  it is always the last thing a pipeline run does. Its history is still described.
\<close>

lemma run_kUpdateStatus_calls:
  "\<exists>e. calls (snd (run_state (kUpdateStatus E) s)) = calls s @ [CUpdateStatus (claim s) e]"
  by (auto simp: kUpdateStatus_def split: prod.splits)

lemma stays_kGetClaim [keeps_rules]: "(\<And>a. \<Phi> (CGetClaim k a)) \<Longrightarrow> stays d \<Phi> (kGetClaim E k)"
  unfolding kGetClaim_def by (rule stays_ask)

lemma stays_kGetTemplate [keeps_rules]: "(\<And>a. \<Phi> (CGetTemplate n a)) \<Longrightarrow> stays d \<Phi> (kGetTemplate E n)"
  unfolding kGetTemplate_def by (rule stays_ask)

lemma stays_kGetSecret [keeps_rules]: "(\<And>a. \<Phi> (CGetSecret k a)) \<Longrightarrow> stays d \<Phi> (kGetSecret E k)"
  unfolding kGetSecret_def by (rule stays_ask)

lemma stays_kGet [keeps_rules]: "(\<And>a. \<Phi> (CGet g k a)) \<Longrightarrow> stays d \<Phi> (kGet E g k)"
  unfolding kGet_def by (rule stays_ask)

lemma stays_kUpdate [keeps_rules]: "(\<And>a. \<Phi> (CUpdate g k obj a)) \<Longrightarrow> stays d \<Phi> (kUpdate E g k obj)"
  unfolding kUpdate_def by (rule stays_ask)

lemma stays_kApply [keeps_rules]: "(\<And>a. \<Phi> (CApply obj a)) \<Longrightarrow> stays d \<Phi> (kApply E obj)"
  unfolding kApply_def by (rule stays_ask)

lemma stays_kDelete [keeps_rules]: "(\<And>a. \<Phi> (CDelete g k a)) \<Longrightarrow> stays d \<Phi> (kDelete E g k obj)"
  unfolding kDelete_def by (rule stays_ask)

lemma stays_kNewClient [keeps_rules]: "(\<And>a. \<Phi> (CNewClient c a)) \<Longrightarrow> stays d \<Phi> (kNewClient E c)"
  unfolding kNewClient_def by (rule stays_ask)

lemma stays_kRemoteGet [keeps_rules]: "(\<And>a. \<Phi> (CRemoteGet c k a)) \<Longrightarrow> stays d \<Phi> (kRemoteGet E c k)"
  unfolding kRemoteGet_def by (rule stays_ask)

lemma stays_kRemoteCreate [keeps_rules]: "(\<And>a. \<Phi> (CRemoteCreate c m a)) \<Longrightarrow> stays d \<Phi> (kRemoteCreate E c m)"
  unfolding kRemoteCreate_def by (rule stays_ask)

lemma stays_kRemoteUpdate [keeps_rules]: "(\<And>a. \<Phi> (CRemoteUpdate c m a)) \<Longrightarrow> stays d \<Phi> (kRemoteUpdate E c m)"
  unfolding kRemoteUpdate_def by (rule stays_ask)

lemma stays_kRemoteDelete [keeps_rules]: "(\<And>a. \<Phi> (CRemoteDelete c k a)) \<Longrightarrow> stays d \<Phi> (kRemoteDelete E c k)"
  unfolding kRemoteDelete_def by (rule stays_ask)

text \<open>A proof follows the syntax of the code by \<open>intro stays_control keeps_rules wi.keeps_bind\<close>.\<close>

lemmas stays_control = wi.keeps_return wi.keeps_if wi.keeps_case_option wi.keeps_case_sum
  wi.keeps_case_prod wi.keeps_let

end
