(* ===== verification/Gvk.thy ===== *)
theory Gvk
  imports K8s_Lib
begin

text \<open>The resource kinds the operator manages or reads (internal/controller/gvk.go).\<close>

definition AddonClaimGVK :: GroupVersionKind where
  "AddonClaimGVK = \<lparr>gvk_Group = ''addons.in-cloud.io'', gvk_Version = ''v1alpha1'', gvk_Kind = ''AddonClaim''\<rparr>"

definition ApplicationGVK :: GroupVersionKind where
  "ApplicationGVK = \<lparr>gvk_Group = ''argoproj.io'', gvk_Version = ''v1alpha1'', gvk_Kind = ''Application''\<rparr>"

definition CertificateSetGVK :: GroupVersionKind where
  "CertificateSetGVK = \<lparr>gvk_Group = ''in-cloud.io'', gvk_Version = ''v1alpha1'', gvk_Kind = ''CertificateSet''\<rparr>"

definition ClusterGVK :: GroupVersionKind where
  "ClusterGVK = \<lparr>gvk_Group = ''cluster.x-k8s.io'', gvk_Version = ''v1beta2'', gvk_Kind = ''Cluster''\<rparr>"

definition CcmCsrcGVK :: GroupVersionKind where
  "CcmCsrcGVK = \<lparr>gvk_Group = ''controller.in-cloud.io'', gvk_Version = ''v1alpha1'', gvk_Kind = ''CcmCsrc''\<rparr>"

definition KubeadmControlPlaneGVK :: GroupVersionKind where
  "KubeadmControlPlaneGVK = \<lparr>gvk_Group = ''controlplane.cluster.x-k8s.io'', gvk_Version = ''v1beta2'',
     gvk_Kind = ''KubeadmControlPlane''\<rparr>"

definition VaultClaimGVK :: GroupVersionKind where
  "VaultClaimGVK = \<lparr>gvk_Group = ''vault.in-cloud.io'', gvk_Version = ''v1alpha1'', gvk_Kind = ''VaultClaim''\<rparr>"

definition VaultSecretClaimGVK :: GroupVersionKind where
  "VaultSecretClaimGVK = \<lparr>gvk_Group = ''vault.in-cloud.io'', gvk_Version = ''v1alpha1'',
     gvk_Kind = ''VaultSecretClaim''\<rparr>"

definition S3BucketClaimGVK :: GroupVersionKind where
  "S3BucketClaimGVK = \<lparr>gvk_Group = ''vault.in-cloud.io'', gvk_Version = ''v1alpha1'',
     gvk_Kind = ''S3BucketClaim''\<rparr>"

definition controlPlaneGVKByKind :: "(string \<times> GroupVersionKind) list" where
  "controlPlaneGVKByKind =
     [(gvk_Kind KubeadmControlPlaneGVK, KubeadmControlPlaneGVK), (gvk_Kind AddonClaimGVK, AddonClaimGVK)]"

text \<open>The group and version of the operator's own API (api/v1alpha1/groupversion_info.go).\<close>

definition ClusterClaimGVK :: GroupVersionKind where
  "ClusterClaimGVK = \<lparr>gvk_Group = ''clusterclaim.in-cloud.io'', gvk_Version = ''v1alpha1'',
     gvk_Kind = ''ClusterClaim''\<rparr>"

lemmas gvk_defs = AddonClaimGVK_def ApplicationGVK_def CertificateSetGVK_def ClusterGVK_def
  CcmCsrcGVK_def KubeadmControlPlaneGVK_def VaultClaimGVK_def VaultSecretClaimGVK_def
  S3BucketClaimGVK_def

text \<open>Distinct kinds have distinct names, so a kind can be told apart by its name alone.\<close>

lemma gvk_distinct:
  "distinct [AddonClaimGVK, ApplicationGVK, CertificateSetGVK, ClusterGVK, CcmCsrcGVK,
     KubeadmControlPlaneGVK, VaultClaimGVK, VaultSecretClaimGVK, S3BucketClaimGVK]"
  by (simp add: gvk_defs)

lemma gvk_neq [simp]:
  "ClusterGVK \<noteq> CertificateSetGVK" "CertificateSetGVK \<noteq> ClusterGVK"
  "ClusterGVK \<noteq> ApplicationGVK" "ApplicationGVK \<noteq> ClusterGVK"
  "ClusterGVK \<noteq> CcmCsrcGVK" "CcmCsrcGVK \<noteq> ClusterGVK"
  "ClusterGVK \<noteq> VaultClaimGVK" "VaultClaimGVK \<noteq> ClusterGVK"
  "ClusterGVK \<noteq> VaultSecretClaimGVK" "VaultSecretClaimGVK \<noteq> ClusterGVK"
  "ClusterGVK \<noteq> S3BucketClaimGVK" "S3BucketClaimGVK \<noteq> ClusterGVK"
  "CertificateSetGVK \<noteq> ApplicationGVK" "ApplicationGVK \<noteq> CertificateSetGVK"
  "CertificateSetGVK \<noteq> CcmCsrcGVK" "CcmCsrcGVK \<noteq> CertificateSetGVK"
  "CertificateSetGVK \<noteq> VaultClaimGVK" "VaultClaimGVK \<noteq> CertificateSetGVK"
  "CertificateSetGVK \<noteq> VaultSecretClaimGVK" "VaultSecretClaimGVK \<noteq> CertificateSetGVK"
  "CertificateSetGVK \<noteq> S3BucketClaimGVK" "S3BucketClaimGVK \<noteq> CertificateSetGVK"
  "ApplicationGVK \<noteq> CcmCsrcGVK" "CcmCsrcGVK \<noteq> ApplicationGVK"
  "ApplicationGVK \<noteq> VaultClaimGVK" "VaultClaimGVK \<noteq> ApplicationGVK"
  "ApplicationGVK \<noteq> VaultSecretClaimGVK" "VaultSecretClaimGVK \<noteq> ApplicationGVK"
  "ApplicationGVK \<noteq> S3BucketClaimGVK" "S3BucketClaimGVK \<noteq> ApplicationGVK"
  "CcmCsrcGVK \<noteq> VaultClaimGVK" "VaultClaimGVK \<noteq> CcmCsrcGVK"
  "CcmCsrcGVK \<noteq> VaultSecretClaimGVK" "VaultSecretClaimGVK \<noteq> CcmCsrcGVK"
  "CcmCsrcGVK \<noteq> S3BucketClaimGVK" "S3BucketClaimGVK \<noteq> CcmCsrcGVK"
  "VaultClaimGVK \<noteq> VaultSecretClaimGVK" "VaultSecretClaimGVK \<noteq> VaultClaimGVK"
  "VaultClaimGVK \<noteq> S3BucketClaimGVK" "S3BucketClaimGVK \<noteq> VaultClaimGVK"
  "VaultSecretClaimGVK \<noteq> S3BucketClaimGVK" "S3BucketClaimGVK \<noteq> VaultSecretClaimGVK"
  using gvk_distinct by auto

end
