(* ===== verification/Errors.thy ===== *)
theory Errors
  imports K8s_Lib
begin

text \<open>
  Terminal and transient errors (internal/controller/errors.go). The type \<open>TerminalError\<close> with its
  methods \<open>Error\<close> and \<open>Unwrap\<close> is the constructor of that name in \<open>Go_Prelude\<close>; here are its
  constructors, the test the pipeline makes, and the classification of API errors.
\<close>

definition NewTerminalError :: "goerror \<Rightarrow> goerror" where
  "NewTerminalError err = TerminalError err"

definition NewTerminalErrorf :: "string \<Rightarrow> string list \<Rightarrow> goerror" where
  "NewTerminalErrorf format as = TerminalError (Errorf format as None)"

definition IsTerminalError :: "goerror \<Rightarrow> bool" where
  "IsTerminalError err \<longleftrightarrow> As_TerminalError err \<noteq> None"

definition classifyAPIError :: "lib \<Rightarrow> goerror option \<Rightarrow> goerror option" where
  "classifyAPIError L err = (case err of
     None \<Rightarrow> None
   | Some e \<Rightarrow>
       if IsInvalid L e \<or> IsForbidden L e \<or> IsNoMatchError L e then Some (NewTerminalError e)
       else Some e)"

text \<open>\<open>fmt.Errorf\<close> with a final \<open>%w\<close>.\<close>

abbreviation wrapf :: "string \<Rightarrow> string list \<Rightarrow> goerror \<Rightarrow> goerror" where
  "wrapf f as e \<equiv> Errorf f as (Some e)"

lemma IsTerminalError_simps [simp]:
  "IsTerminalError (ErrExt i t) = False"
  "IsTerminalError (Errorf f as None) = False"
  "IsTerminalError (wrapf f as e) = IsTerminalError e"
  "IsTerminalError (TerminalError e) = True"
  "IsTerminalError (NewTerminalError e) = True"
  "IsTerminalError (NewTerminalErrorf f as) = True"
  by (simp_all add: IsTerminalError_def NewTerminalError_def NewTerminalErrorf_def)

text \<open>The errors of a chain: the error itself and everything \<open>Unwrap\<close> leads to.\<close>

inductive_set chain :: "goerror \<Rightarrow> goerror set" for e where
  chain_self: "e \<in> chain e"
| chain_unwrap: "f \<in> chain e \<Longrightarrow> Unwrap f = Some g \<Longrightarrow> g \<in> chain e"

lemma chain_step: "Unwrap e = Some g \<Longrightarrow> f \<in> chain g \<Longrightarrow> f \<in> chain e"
  by (rotate_tac 1, induction rule: chain.induct) (auto intro: chain.intros)

lemma IsTerminalError_Unwrap: "Unwrap f = Some g \<Longrightarrow> IsTerminalError g \<Longrightarrow> IsTerminalError f"
  by (cases f) auto

lemma chain_terminal: "f \<in> chain e \<Longrightarrow> IsTerminalError f \<Longrightarrow> IsTerminalError e"
  by (induction rule: chain.induct) (auto intro: IsTerminalError_Unwrap)

lemma IsTerminalError_chain: "IsTerminalError e \<Longrightarrow> \<exists>f. TerminalError f \<in> chain e"
proof (induction e rule: As_TerminalError.induct)
  case (1 e)
  show ?case by (blast intro: chain_self)
next
  case (2 f as e)
  then obtain g where "TerminalError g \<in> chain e" by auto
  then have "TerminalError g \<in> chain (wrapf f as e)"
    by (rule chain_step [rotated]) simp
  then show ?case by blast
qed simp_all

lemma Error_TerminalError [simp]: "Error na (NewTerminalError e) = Error na e"
  by (simp add: NewTerminalError_def)

lemma classify_terminal_iff:
  "(\<exists>t. classifyAPIError L (Some e) = Some t \<and> IsTerminalError t) \<longleftrightarrow>
   IsTerminalError e \<or> IsInvalid L e \<or> IsForbidden L e \<or> IsNoMatchError L e"
  by (auto simp: classifyAPIError_def)

lemma classify_None_iff [simp]: "classifyAPIError L err = None \<longleftrightarrow> err = None"
  by (auto simp: classifyAPIError_def split: option.splits)

end
