(* ===== verification/Naming.thy ===== *)
theory Naming
  imports Go_Prelude
begin

text \<open>
  The naming scheme of managed resources (internal/naming/naming.go). Every name is the claim's name
  with a fixed suffix, except the remote ConfigMaps, whose names do not depend on the claim.
\<close>

definition ApplicationName :: "string \<Rightarrow> string" where
  "ApplicationName claimName = claimName"

definition CertificateSetName :: "string \<Rightarrow> string \<Rightarrow> string" where
  "CertificateSetName claimName role = claimName @ ''-'' @ role"

definition ClusterName :: "string \<Rightarrow> string \<Rightarrow> string" where
  "ClusterName claimName role = claimName @ ''-'' @ role"

definition CcmCsrcName :: "string \<Rightarrow> string" where
  "CcmCsrcName claimName = claimName"

definition ConfigMapName :: "string \<Rightarrow> string" where
  "ConfigMapName configType = ''parameters-'' @ configType"

definition KubeconfigSecretName :: "string \<Rightarrow> string" where
  "KubeconfigSecretName claimName = claimName @ ''-infra-kubeconfig''"

definition VaultClaimName :: "string \<Rightarrow> string" where
  "VaultClaimName claimName = claimName"

definition VaultSecretClaimName :: "string \<Rightarrow> string" where
  "VaultSecretClaimName claimName = claimName"

definition S3BucketClaimName :: "string \<Rightarrow> string" where
  "S3BucketClaimName claimName = claimName"

text \<open>
  What the controller relies on: within a namespace, two claims never manage the same resource of a
  kind. Of each kind a claim manages one resource per role (one role only for most kinds).
\<close>

locale naming_scheme =
  fixes name_of :: "string \<Rightarrow> string \<Rightarrow> string" and roles :: "string list"
  assumes roles_distinct: "distinct roles"
    and name_of_inj: "r \<in> set roles \<Longrightarrow> q \<in> set roles \<Longrightarrow> name_of c r = name_of d q \<Longrightarrow> c = d \<and> r = q"
begin

lemma names_distinct: "distinct (map (name_of c) roles)"
  using roles_distinct by (auto simp: distinct_map inj_on_def dest: name_of_inj)

lemma names_disjoint: "c \<noteq> d \<Longrightarrow> set (map (name_of c) roles) \<inter> set (map (name_of d) roles) = {}"
  by (auto dest: name_of_inj)

end

lemma append_suffix_inj:
  assumes "c @ ''-'' @ r = d @ ''-'' @ q" and "r \<in> {''infra'', ''client''}" and "q \<in> {''infra'', ''client''}"
  shows "c = d \<and> r = q"
proof -
  have "last (c @ ''-'' @ r) = last (d @ ''-'' @ q)"
    using assms(1) by (rule arg_cong)
  with assms(2,3) have "r = q" by auto
  with assms(1) show ?thesis by simp
qed

interpretation cluster_names: naming_scheme ClusterName "[''infra'', ''client'']"
  by unfold_locales (auto simp: ClusterName_def dest: append_suffix_inj)

interpretation certset_names: naming_scheme CertificateSetName "[''infra'', ''client'']"
  by unfold_locales (auto simp: CertificateSetName_def dest: append_suffix_inj)

interpretation secret_names: naming_scheme "\<lambda>c r. KubeconfigSecretName c" "[''infra'']"
  by unfold_locales (auto simp: KubeconfigSecretName_def)

interpretation flat_names: naming_scheme "\<lambda>c r. VaultClaimName c" "[''vault'']"
  by unfold_locales (auto simp: VaultClaimName_def)

lemmas naming_defs = ApplicationName_def CertificateSetName_def ClusterName_def CcmCsrcName_def
  ConfigMapName_def KubeconfigSecretName_def VaultClaimName_def VaultSecretClaimName_def
  S3BucketClaimName_def

end
