(* ===== verification/Status.thy ===== *)
theory Status
  imports K8s_Client Gvk Errors Naming
begin

text \<open>
  The status of a claim (internal/controller/status.go): phase and conditions, mirroring of the
  managed resources' statuses, and the write-back that skips unchanged statuses. Logging is not
  modelled.
\<close>

section \<open>Phase and conditions\<close>

definition setPhase :: "string \<Rightarrow> ClusterClaim \<Rightarrow> ClusterClaim" where
  "setPhase phase c = c\<lparr>cc_Status := (cc_Status c)\<lparr>st_Phase := phase,
     st_ObservedGeneration := om_Generation (cc_Meta c)\<rparr>\<rparr>"

text \<open>\<open>apimeta.SetStatusCondition\<close> reads the clock; \<open>putCondition\<close> is the update at time \<open>now\<close>.\<close>

definition putCondition ::
  "lib \<Rightarrow> gotime \<Rightarrow> string \<Rightarrow> string \<Rightarrow> string \<Rightarrow> string \<Rightarrow> ClusterClaim \<Rightarrow> ClusterClaim" where
  "putCondition L now condType status reason message c =
     c\<lparr>cc_Status := (cc_Status c)\<lparr>st_Conditions :=
        SetStatusCondition L now (st_Conditions (cc_Status c))
          \<lparr>c_Type = condType, c_Status = status, c_ObservedGeneration = om_Generation (cc_Meta c),
           c_LastTransitionTime = None, c_Reason = reason, c_Message = message\<rparr>\<rparr>\<rparr>"

definition setCondition :: "'w env \<Rightarrow> string \<Rightarrow> string \<Rightarrow> string \<Rightarrow> string \<Rightarrow> ('w, unit) pop" where
  "setCondition E condType status reason message = do {
     now \<leftarrow> kNow E;
     modClaim (putCondition (e_lib E) now condType status reason message)
   }"

definition setReady :: "'w env \<Rightarrow> ('w, unit) pop" where
  "setReady E = do {
     modClaim (setPhase PhaseReady);
     setCondition E ConditionReady ConditionTrue ''AllStepsComplete'' ''All pipeline steps completed successfully''
   }"

definition setFailed :: "'w env \<Rightarrow> string \<Rightarrow> goerror \<Rightarrow> ('w, unit) pop" where
  "setFailed E reason err = do {
     modClaim (setPhase PhaseFailed);
     setCondition E ConditionReady ConditionFalse reason (Error_text (e_lib E) err)
   }"

definition setWaiting :: "'w env \<Rightarrow> string \<Rightarrow> string \<Rightarrow> ('w, unit) pop" where
  "setWaiting E condType message = do {
     modClaim (setPhase PhaseWaitingDependency);
     setCondition E condType ConditionFalse ''WaitingDependency'' message
   }"

definition clearPausedCondition :: "lib \<Rightarrow> ClusterClaim \<Rightarrow> ClusterClaim" where
  "clearPausedCondition L c = c\<lparr>cc_Status := (cc_Status c)\<lparr>st_Conditions :=
     RemoveStatusCondition L (st_Conditions (cc_Status c)) ConditionPaused\<rparr>\<rparr>"

section \<open>Mirroring\<close>

text \<open>One entry of a \<open>status.conditions\<close> list: skipped unless it is a map with a type.\<close>

definition mirrorCondition :: "lib \<Rightarrow> goval \<Rightarrow> Condition option" where
  "mirrorCondition L v = (case v of
     GMap cond \<Rightarrow>
       (let ty = nested_string L cond [''type'']; tm = nested_string L cond [''lastTransitionTime''] in
        if ty = [] then None
        else Some \<lparr>c_Type = ty,
          c_Status = nested_string L cond [''status''],
          c_ObservedGeneration = nested_int64 L cond [''observedGeneration''],
          c_LastTransitionTime = (if tm \<noteq> [] then (case ParseRFC3339 L tm of Inl _ \<Rightarrow> None | Inr t \<Rightarrow> Some t)
                                  else None),
          c_Reason = nested_string L cond [''reason''],
          c_Message = nested_string L cond [''message'']\<rparr>)
   | _ \<Rightarrow> None)"

definition mirrorConditions :: "lib \<Rightarrow> gomap \<Rightarrow> Condition list" where
  "mirrorConditions L obj = (case NestedSlice L obj [''status'', ''conditions''] of
     (conds, found, _) \<Rightarrow> if found then List.map_filter (mirrorCondition L) conds else [])"

definition mirrorResourceStatus ::
  "'w env \<Rightarrow> GroupVersionKind \<Rightarrow> string \<Rightarrow> string \<Rightarrow> string \<Rightarrow> ('w, VaultStatusSummary option) pop" where
  "mirrorResourceStatus E gvk kind name namespace = do {
     r \<leftarrow> kGet E gvk (key_of name namespace);
     ret (case r of
       Inl err \<Rightarrow>
         if IsNotFound (e_lib E) err
         then Some \<lparr>vs_Name = name, vs_Phase = [], vs_Ready = False, vs_Conditions = []\<rparr>
         else None
     | Inr obj \<Rightarrow>
         (let phase = nested_string (e_lib E) obj [''status'', ''phase''] in
          Some \<lparr>vs_Name = name, vs_Phase = phase, vs_Ready = (phase = PhaseReady),
                vs_Conditions = mirrorConditions (e_lib E) obj\<rparr>))
   }"

definition mirrorVaultStatus :: "'w env \<Rightarrow> ('w, unit) pop" where
  "mirrorVaultStatus E = do {
     c \<leftarrow> getClaim;
     if sp_VaultClaimTemplateRef (cc_Spec c) = None
     then modClaim (\<lambda>c. c\<lparr>cc_Status := (cc_Status c)\<lparr>st_Vault := None\<rparr>\<rparr>)
     else do {
       v \<leftarrow> mirrorResourceStatus E VaultClaimGVK ''VaultClaim'' (cc_Name c) (cc_Namespace c);
       modClaim (\<lambda>c. c\<lparr>cc_Status := (cc_Status c)\<lparr>st_Vault := v\<rparr>\<rparr>)
     }
   }"

definition mirrorVaultSecretStatus :: "'w env \<Rightarrow> ('w, unit) pop" where
  "mirrorVaultSecretStatus E = do {
     c \<leftarrow> getClaim;
     if sp_VaultSecretClaimTemplateRef (cc_Spec c) = None
     then modClaim (\<lambda>c. c\<lparr>cc_Status := (cc_Status c)\<lparr>st_VaultSecret := None\<rparr>\<rparr>)
     else do {
       v \<leftarrow> mirrorResourceStatus E VaultSecretClaimGVK ''VaultSecretClaim'' (cc_Name c) (cc_Namespace c);
       modClaim (\<lambda>c. c\<lparr>cc_Status := (cc_Status c)\<lparr>st_VaultSecret := v\<rparr>\<rparr>)
     }
   }"

definition mirrorS3BucketStatus :: "'w env \<Rightarrow> ('w, unit) pop" where
  "mirrorS3BucketStatus E = do {
     c \<leftarrow> getClaim;
     if sp_S3BucketClaimTemplateRef (cc_Spec c) = None
     then modClaim (\<lambda>c. c\<lparr>cc_Status := (cc_Status c)\<lparr>st_S3Bucket := None\<rparr>\<rparr>)
     else do {
       v \<leftarrow> mirrorResourceStatus E S3BucketClaimGVK ''S3BucketClaim'' (cc_Name c) (cc_Namespace c);
       modClaim (\<lambda>c. c\<lparr>cc_Status := (cc_Status c)\<lparr>st_S3Bucket := v\<rparr>\<rparr>)
     }
   }"

definition fetchControlPlaneVersion :: "'w env \<Rightarrow> gomap \<Rightarrow> ('w, ControlPlaneVersion option) pop" where
  "fetchControlPlaneVersion E cluster =
    (let L = e_lib E in
     case NestedString L cluster [''spec'', ''controlPlaneRef'', ''name''] of (cpRefName, _, err) \<Rightarrow>
     if err \<noteq> None \<or> cpRefName = [] then ret None
     else (let cpRefKind = nested_string L cluster [''spec'', ''controlPlaneRef'', ''kind''] in
     case map_of controlPlaneGVKByKind cpRefKind of
       None \<Rightarrow> ret None
     | Some gvk \<Rightarrow>
       (let ns = nested_string L cluster [''spec'', ''controlPlaneRef'', ''namespace''];
            cpRefNamespace = (if ns = [] then GetNamespace L cluster else ns) in do {
        r \<leftarrow> kGet E gvk (key_of cpRefName cpRefNamespace);
        ret (case r of
          Inl err \<Rightarrow> None
        | Inr controlPlane \<Rightarrow>
            (let specVersion = nested_string L controlPlane [''spec'', ''version''];
                 statusVersion = nested_string L controlPlane [''status'', ''version''] in
             if specVersion = [] \<and> statusVersion = [] then None
             else Some \<lparr>cpv_SpecVersion = specVersion, cpv_StatusVersion = statusVersion\<rparr>))
       })))"

definition toInt32 :: "lib \<Rightarrow> goval \<Rightarrow> int32" where
  "toInt32 L v = (case v of
     GInt64 n \<Rightarrow> int32_of_int64 n
   | GFloat64 f \<Rightarrow> int32_of_float64 (float_oor L) f
   | _ \<Rightarrow> 0)"

text \<open>Indexing a map with a missing key gives the zero value, nil.\<close>

definition mapIndex :: "gomap \<Rightarrow> string \<Rightarrow> goval" where
  "mapIndex m k = (case map_of m k of None \<Rightarrow> GNil | Some v \<Rightarrow> v)"

definition extractReplicaStatus :: "lib \<Rightarrow> gomap \<Rightarrow> ReplicaStatus" where
  "extractReplicaStatus L m = \<lparr>
     rs_Replicas = toInt32 L (mapIndex m ''replicas''),
     rs_ReadyReplicas = toInt32 L (mapIndex m ''readyReplicas''),
     rs_AvailableReplicas = toInt32 L (mapIndex m ''availableReplicas''),
     rs_DesiredReplicas = toInt32 L (mapIndex m ''desiredReplicas''),
     rs_UpToDateReplicas = toInt32 L (mapIndex m ''upToDateReplicas'')\<rparr>"

definition extractReplicas :: "lib \<Rightarrow> gomap \<Rightarrow> string \<Rightarrow> ReplicaStatus option" where
  "extractReplicas L cluster field = (case NestedMap L cluster [''status'', field] of
     (m, found, _) \<Rightarrow> if found \<and> m \<noteq> [] then Some (extractReplicaStatus L m) else None)"

definition extractClusterStatusSummary :: "lib \<Rightarrow> gomap \<Rightarrow> ClusterStatusSummary" where
  "extractClusterStatusSummary L cluster = \<lparr>
     css_Host = nested_string L cluster [''spec'', ''controlPlaneEndpoint'', ''host''],
     css_Port = int32_of_int64 (nested_int64 L cluster [''spec'', ''controlPlaneEndpoint'', ''port'']),
     css_Conditions = mirrorConditions L cluster,
     css_Phase = nested_string L cluster [''status'', ''phase''],
     css_ControlPlane = extractReplicas L cluster ''controlPlane'',
     css_Workers = extractReplicas L cluster ''workers'',
     css_ControlPlaneVersion = None\<rparr>"

text \<open>The pointer \<open>claim.Status.Clusters\<close> is set before a field of it is written.\<close>

definition modClusters :: "(ClustersStatus \<Rightarrow> ClustersStatus) \<Rightarrow> ClusterClaim \<Rightarrow> ClusterClaim" where
  "modClusters f c = c\<lparr>cc_Status := (cc_Status c)\<lparr>st_Clusters := map_option f (st_Clusters (cc_Status c))\<rparr>\<rparr>"

definition ensureClusters :: "ClusterClaim \<Rightarrow> ClusterClaim" where
  "ensureClusters c = c\<lparr>cc_Status := (cc_Status c)\<lparr>st_Clusters :=
     (case st_Clusters (cc_Status c) of
        None \<Rightarrow> Some \<lparr>cs_Infra = None, cs_Client = None\<rparr> | Some x \<Rightarrow> Some x)\<rparr>\<rparr>"

definition syncClusterStatuses :: "'w env \<Rightarrow> gomap option \<Rightarrow> gomap option \<Rightarrow> ('w, unit) pop" where
  "syncClusterStatuses E infraCluster clientCluster =
    (if infraCluster = None \<and> clientCluster = None then ret ()
     else do {
       modClaim ensureClusters;
       (case infraCluster of
          None \<Rightarrow> ret ()
        | Some cluster \<Rightarrow> do {
            modClaim (modClusters (\<lambda>cs. cs\<lparr>cs_Infra := Some (extractClusterStatusSummary (e_lib E) cluster)\<rparr>));
            v \<leftarrow> fetchControlPlaneVersion E cluster;
            modClaim (modClusters (\<lambda>cs. cs\<lparr>cs_Infra :=
              map_option (\<lambda>x. x\<lparr>css_ControlPlaneVersion := v\<rparr>) (cs_Infra cs)\<rparr>))
          });
       (case clientCluster of
          None \<Rightarrow> ret ()
        | Some cluster \<Rightarrow> do {
            modClaim (modClusters (\<lambda>cs. cs\<lparr>cs_Client := Some (extractClusterStatusSummary (e_lib E) cluster)\<rparr>));
            v \<leftarrow> fetchControlPlaneVersion E cluster;
            modClaim (modClusters (\<lambda>cs. cs\<lparr>cs_Client :=
              map_option (\<lambda>x. x\<lparr>css_ControlPlaneVersion := v\<rparr>) (cs_Client cs)\<rparr>))
          })
     })"

section \<open>Write-back\<close>

definition updateStatusIfChanged :: "'w env \<Rightarrow> ClusterClaimStatus \<Rightarrow> ('w, goerror option) pop" where
  "updateStatusIfChanged E oldStatus = do {
     c \<leftarrow> getClaim;
     if StatusDeepEqual (e_lib E) oldStatus (cc_Status c) then ret None
     else kUpdateStatus E
   }"

end
