(* ===== verification/Renderer.thy ===== *)
theory Renderer
  imports K8s_Lib
begin

text \<open>
  The renderer (internal/renderer/context.go and template.go): building the template context from
  the fetched Clusters, and rendering a template into a YAML map. The template engine, its function
  library and YAML are parameters.
\<close>

section \<open>Template context\<close>

text \<open>
  \<open>populateClusterFields\<close> writes through four pointers; it takes and returns the four values.
\<close>

definition populateClusterFields ::
  "lib \<Rightarrow> gomap \<Rightarrow> ControlPlaneEndpoint option \<times> bool \<times> int32 \<times> int32 \<Rightarrow>
   ControlPlaneEndpoint option \<times> bool \<times> int32 \<times> int32" where
  "populateClusterFields L cluster old = (case old of (endpoint, _, _, _) \<Rightarrow>
     let host = nested_string L cluster [''spec'', ''controlPlaneEndpoint'', ''host''];
         port = nested_int64 L cluster [''spec'', ''controlPlaneEndpoint'', ''port''];
         endpoint' = (if host \<noteq> [] then Some \<lparr>ep_Host = host, ep_Port = port\<rparr> else endpoint);
         cpInit = nested_bool L cluster [''status'', ''initialization'', ''controlPlaneInitialized''];
         available = nested_int64 L cluster [''status'', ''controlPlane'', ''availableReplicas''];
         desired = nested_int64 L cluster [''status'', ''controlPlane'', ''desiredReplicas'']
     in (endpoint', cpInit, int32_of_int64 available, int32_of_int64 desired))"

text \<open>The zero value of the struct with the claim filled in.\<close>

definition emptyContext :: "gomap \<Rightarrow> TemplateContext" where
  "emptyContext c = \<lparr>tc_ClusterClaim = c,
     tc_InfraControlPlaneEndpoint = None, tc_InfraControlPlaneInitialized = False,
     tc_InfraControlPlaneAvailableReplicas = 0, tc_InfraControlPlaneDesiredReplicas = 0,
     tc_ClientControlPlaneEndpoint = None, tc_ClientControlPlaneInitialized = False,
     tc_ClientControlPlaneAvailableReplicas = 0, tc_ClientControlPlaneDesiredReplicas = 0\<rparr>"

definition infra_fields :: "TemplateContext \<Rightarrow> ControlPlaneEndpoint option \<times> bool \<times> int32 \<times> int32" where
  "infra_fields ctx = (tc_InfraControlPlaneEndpoint ctx, tc_InfraControlPlaneInitialized ctx,
     tc_InfraControlPlaneAvailableReplicas ctx, tc_InfraControlPlaneDesiredReplicas ctx)"

definition client_fields :: "TemplateContext \<Rightarrow> ControlPlaneEndpoint option \<times> bool \<times> int32 \<times> int32" where
  "client_fields ctx = (tc_ClientControlPlaneEndpoint ctx, tc_ClientControlPlaneInitialized ctx,
     tc_ClientControlPlaneAvailableReplicas ctx, tc_ClientControlPlaneDesiredReplicas ctx)"

definition BuildContext :: "lib \<Rightarrow> gomap \<Rightarrow> gomap option \<Rightarrow> gomap option \<Rightarrow> TemplateContext" where
  "BuildContext L claimObj infraCluster clientCluster =
    (let ctx = emptyContext claimObj;
         ctx = (case infraCluster of None \<Rightarrow> ctx | Some cluster \<Rightarrow>
           (case populateClusterFields L cluster (infra_fields ctx) of (e, i, a, d) \<Rightarrow>
             ctx\<lparr>tc_InfraControlPlaneEndpoint := e, tc_InfraControlPlaneInitialized := i,
                 tc_InfraControlPlaneAvailableReplicas := a, tc_InfraControlPlaneDesiredReplicas := d\<rparr>));
         ctx = (case clientCluster of None \<Rightarrow> ctx | Some cluster \<Rightarrow>
           (case populateClusterFields L cluster (client_fields ctx) of (e, i, a, d) \<Rightarrow>
             ctx\<lparr>tc_ClientControlPlaneEndpoint := e, tc_ClientControlPlaneInitialized := i,
                 tc_ClientControlPlaneAvailableReplicas := a, tc_ClientControlPlaneDesiredReplicas := d\<rparr>))
     in ctx)"

section \<open>Templates\<close>

definition toYaml :: "lib \<Rightarrow> goval \<Rightarrow> string" where
  "toYaml L v = (case YamlMarshal L v of
     Inl err \<Rightarrow> []
   | Inr dat \<Rightarrow> TrimSuffix dat [CHR 0x0A])"

definition Render :: "lib \<Rightarrow> string \<Rightarrow> TemplateContext \<Rightarrow> goerror + gomap" where
  "Render L templateStr ctx = (case TemplateParse L (toYaml L) templateStr of
     Inl err \<Rightarrow> Inl (Errorf ''parse template: %w'' [] (Some err))
   | Inr tmpl \<Rightarrow> (case TemplateExecute L tmpl ctx of
       Inl err \<Rightarrow> Inl (Errorf ''execute template: %w'' [] (Some err))
     | Inr buf \<Rightarrow> (case YamlUnmarshal L buf of
         Inl err \<Rightarrow> Inl (Errorf ''unmarshal rendered YAML: %w'' [] (Some err))
       | Inr result \<Rightarrow> Inr result)))"

section \<open>Facts used by the pipeline\<close>

lemma sint_int32_of_int64:
  "- (2 ^ 31) \<le> sint x \<Longrightarrow> sint x < 2 ^ 31 \<Longrightarrow> sint (int32_of_int64 x) = sint x"
proof -
  assume "- (2 ^ 31) \<le> sint x" and "sint x < 2 ^ 31"
  then have "signed_take_bit 31 (sint x) = sint x"
    by (simp add: signed_take_bit_int_eq_self)
  then show ?thesis
    by (simp add: int32_of_int64_def sint_uint unsigned_ucast_eq take_bit_word_eq_self)
      (simp add: signed_take_bit_take_bit min_def)
qed

lemma infra_fields_BuildContext:
  "infra_fields (BuildContext L c (Some i) cl) = populateClusterFields L i (None, False, 0, 0)"
  by (auto simp: BuildContext_def infra_fields_def client_fields_def emptyContext_def Let_def
      split: option.splits prod.splits)

lemma client_fields_BuildContext:
  "client_fields (BuildContext L c i (Some cl)) = populateClusterFields L cl (None, False, 0, 0)"
  by (auto simp: BuildContext_def infra_fields_def client_fields_def emptyContext_def Let_def
      split: option.splits prod.splits)

lemma BuildContext_ClusterClaim [simp]: "tc_ClusterClaim (BuildContext L c i cl) = c"
  by (auto simp: BuildContext_def emptyContext_def Let_def split: option.splits prod.splits)

end
