(* ===== verification/Labels.thy ===== *)
theory Labels
  imports Api_Types
begin

text \<open>
  Labels of managed resources (internal/labels/labels.go). A \<open>map[string]string\<close> is an association
  list; a nil map and an empty one behave alike here and are both the empty list. A \<open>for k, v := range\<close>
  loop visits the entries in an unspecified order, so what \<open>MergeLabels\<close> promises is stated about
  lookups, for every order of the entries.
\<close>

definition StandardLabels :: "string \<Rightarrow> string \<Rightarrow> strmap" where
  "StandardLabels claimName claimNamespace =
     [(LabelClaimName, claimName), (LabelClaimNamespace, claimNamespace)]"

fun store_all :: "strmap \<Rightarrow> strmap \<Rightarrow> strmap" where
  "store_all result [] = result"
| "store_all result ((k, v) # kvs) = store_all (AList.update k v result) kvs"

definition MergeLabels :: "strmap \<Rightarrow> strmap \<Rightarrow> strmap" where
  "MergeLabels rendered standard = store_all (store_all [] rendered) standard"

lemma map_of_store_all:
  "map_of (store_all result kvs) = map_of result ++ map_of (rev kvs)"
  by (induction result kvs rule: store_all.induct) (auto simp: update_conv' map_add_upd_left fun_eq_iff map_add_def split: option.splits)

lemma map_of_rev_distinct: "distinct (map fst kvs) \<Longrightarrow> map_of (rev kvs) = map_of kvs"
  by (metis map_of_inject_set distinct_rev map_map rev_map set_rev)

lemma store_all_distinct: "distinct (map fst result) \<Longrightarrow> distinct (map fst (store_all result kvs))"
  by (induction result kvs rule: store_all.induct) (auto simp: distinct_update)

text \<open>
  The contract of a label merge: its result is a well-formed map in which the second argument wins.
\<close>

locale label_merge =
  fixes merge :: "strmap \<Rightarrow> strmap \<Rightarrow> strmap"
  assumes merge_lookup:
    "distinct (map fst r) \<Longrightarrow> distinct (map fst s) \<Longrightarrow> map_of (merge r s) = map_of r ++ map_of s"
    and merge_wf: "distinct (map fst (merge r s))"
begin

lemma merge_order_irrelevant:
  assumes "distinct (map fst r)" and "distinct (map fst s)"
    and "distinct (map fst r')" and "distinct (map fst s')"
    and "set r' = set r" and "set s' = set s"
  shows "set (merge r' s') = set (merge r s)"
proof -
  have "map_of r' = map_of r" and "map_of s' = map_of s"
    using assms by (auto intro: map_of_inject_set [THEN iffD2])
  then have "map_of (merge r' s') = map_of (merge r s)"
    using assms by (simp add: merge_lookup)
  then show ?thesis
    using merge_wf map_of_inject_set by blast
qed

lemma standard_wins:
  assumes "distinct (map fst r)"
  shows "map_of (merge r (StandardLabels n ns)) LabelClaimName = Some n"
    and "map_of (merge r (StandardLabels n ns)) LabelClaimNamespace = Some ns"
    and "k \<notin> {LabelClaimName, LabelClaimNamespace} \<Longrightarrow>
         map_of (merge r (StandardLabels n ns)) k = map_of r k"
  using assms
  by (auto simp: merge_lookup StandardLabels_def LabelClaimName_def LabelClaimNamespace_def map_add_def)

end

interpretation go_merge: label_merge MergeLabels
proof unfold_locales
  fix r s :: strmap
  assume "distinct (map fst r)" and "distinct (map fst s)"
  then show "map_of (MergeLabels r s) = map_of r ++ map_of s"
    by (simp add: MergeLabels_def map_of_store_all map_of_rev_distinct)
next
  fix r s :: strmap
  show "distinct (map fst (MergeLabels r s))"
    by (simp add: MergeLabels_def store_all_distinct)
qed

end
