(* ===== verification/Resources.thy ===== *)
theory Resources
  imports Status Renderer Labels
begin

text \<open>
  Managed resources: reading their conditions and finalizers (internal/controller/conditions.go),
  rendering and applying them (resource.go), deleting them (clusterclaim_controller.go), obtaining a
  remote client (remote/cluster_manager.go, \<open>GetClient\<close>) and applying a remote ConfigMap
  (pipeline.go, \<open>applyRemoteConfigMap\<close>).
\<close>

section \<open>Conditions and finalizers of unstructured objects\<close>

definition isConditionTrue :: "lib \<Rightarrow> gomap \<Rightarrow> string \<Rightarrow> bool" where
  "isConditionTrue L obj condType = (case NestedSlice L obj [''status'', ''conditions''] of
     (conditions, found, err) \<Rightarrow>
       if err \<noteq> None \<or> \<not> found then False
       else list_ex (\<lambda>c. case c of
         GMap cond \<Rightarrow> mapIndex cond ''type'' = GString condType \<and> mapIndex cond ''status'' = GString ''True''
       | _ \<Rightarrow> False) conditions)"

text \<open>The loop of \<open>hasTrueCondition\<close> (pipeline.go): the first entry of the type decides.\<close>

fun firstCondition :: "lib \<Rightarrow> string \<Rightarrow> goval list \<Rightarrow> bool" where
  "firstCondition L condType [] = False"
| "firstCondition L condType (GMap m # cs) =
     (if nested_string L m [''type''] \<noteq> condType then firstCondition L condType cs
      else nested_string L m [''status''] = ConditionTrue)"
| "firstCondition L condType (c # cs) = firstCondition L condType cs"

definition hasTrueCondition :: "lib \<Rightarrow> gomap \<Rightarrow> string \<Rightarrow> bool" where
  "hasTrueCondition L obj condType = (case NestedSlice L obj [''status'', ''conditions''] of
     (conds, found, err) \<Rightarrow>
       if err \<noteq> None \<or> \<not> found then False else firstCondition L condType conds)"

definition getResource :: "'w env \<Rightarrow> GroupVersionKind \<Rightarrow> string \<Rightarrow> string \<Rightarrow> ('w, goerror + gomap) pop" where
  "getResource E gvk name namespace = do {
     r \<leftarrow> kGet E gvk (key_of name namespace);
     ret (case r of
       Inl err \<Rightarrow> Inl (wrapf ''get %s %s/%s: %w'' [gvk_Kind gvk, namespace, name] err)
     | Inr obj \<Rightarrow> Inr obj)
   }"

definition ensureResourceFinalizer ::
  "'w env \<Rightarrow> GroupVersionKind \<Rightarrow> string \<Rightarrow> string \<Rightarrow> ('w, goerror option) pop" where
  "ensureResourceFinalizer E gvk name namespace = do {
     r \<leftarrow> kGet E gvk (key_of name namespace);
     case r of
       Inl err \<Rightarrow> ret (Some (wrapf ''get %s %s/%s for finalizer: %w'' [gvk_Kind gvk, namespace, name] err))
     | Inr obj \<Rightarrow>
         (case AddFinalizer_obj (e_lib E) obj ClusterClaimFinalizer of (obj', added) \<Rightarrow>
            if added then kUpdate E gvk (key_of name namespace) obj' else ret None)
   }"

definition removeResourceFinalizer ::
  "'w env \<Rightarrow> GroupVersionKind \<Rightarrow> string \<Rightarrow> string \<Rightarrow> ('w, goerror option) pop" where
  "removeResourceFinalizer E gvk name namespace = do {
     r \<leftarrow> kGet E gvk (key_of name namespace);
     case r of
       Inl err \<Rightarrow>
         if IsNotFound (e_lib E) err then ret None
         else ret (Some (wrapf ''get %s %s/%s for finalizer removal: %w'' [gvk_Kind gvk, namespace, name] err))
     | Inr obj \<Rightarrow>
         (case RemoveFinalizer_obj (e_lib E) obj ClusterClaimFinalizer of (obj', removed) \<Rightarrow>
            if removed then kUpdate E gvk (key_of name namespace) obj' else ret None)
   }"

section \<open>Rendering and applying\<close>

definition fieldManager :: string where
  "fieldManager = ''cluster-claim-operator''"

definition extractStringMap :: "lib \<Rightarrow> gomap \<Rightarrow> string list \<Rightarrow> strmap" where
  "extractStringMap L rendered path = (case NestedStringMap L rendered path of
     (val, found, err) \<Rightarrow>
       if err \<noteq> None \<or> \<not> found then
         (case NestedMap L rendered path of (raw, found2, err2) \<Rightarrow>
            if err2 \<noteq> None \<or> \<not> found2 then []
            else store_all [] (map (\<lambda>(k, v). (k, Sprint_v (fmt_float L) v)) raw))
       else val)"

definition buildDesiredResource ::
  "lib \<Rightarrow> ClusterClaim \<Rightarrow> ClusterClaimObserveResourceTemplate \<Rightarrow> gomap \<Rightarrow> string \<Rightarrow> string \<Rightarrow> gomap" where
  "buildDesiredResource L c tmpl rendered resourceName namespace =
    (let obj = [];
         gvk = FromAPIVersionAndKind L (ts_APIVersion (tm_Spec tmpl)) (ts_Kind (tm_Spec tmpl));
         obj = SetGroupVersionKind L gvk obj;
         obj = SetName L resourceName obj;
         obj = SetNamespace L namespace obj;
         obj = SetOwnerReferences L [NewControllerRef L (cc_Meta c) ClusterClaimGVK] obj;
         renderedLabels = extractStringMap L rendered [''metadata'', ''labels''];
         stdLabels = StandardLabels (cc_Name c) (cc_Namespace c);
         obj = SetLabels L (MergeLabels renderedLabels stdLabels) obj;
         renderedAnnotations = extractStringMap L rendered [''metadata'', ''annotations''];
         obj = (if length renderedAnnotations > 0 then SetAnnotations L renderedAnnotations obj else obj);
         obj = (case map_of rendered ''spec'' of
                  Some spec \<Rightarrow> fst (SetNestedField L obj spec [''spec'']) | None \<Rightarrow> obj);
         obj = (case map_of rendered ''data'' of
                  Some dat \<Rightarrow> fst (SetNestedField L obj dat [''data'']) | None \<Rightarrow> obj)
     in obj)"

definition ensureResource :: "'w env \<Rightarrow> string \<Rightarrow> string \<Rightarrow> string \<Rightarrow> ('w, goerror option) pop" where
  "ensureResource E templateRefName resourceName namespace = do {
     r \<leftarrow> kGetTemplate E templateRefName;
     case r of
       Inl err \<Rightarrow>
         if IsNotFound (e_lib E) err
         then ret (Some (NewTerminalError (wrapf ''fetch template %q: %w'' [templateRefName] err)))
         else ret (Some (wrapf ''fetch template %q: %w'' [templateRefName] err))
     | Inr tmpl \<Rightarrow> do {
         c \<leftarrow> getClaim;
         ctx \<leftarrow> getCtx;
         case Render (e_lib E) (ts_Value (tm_Spec tmpl)) ctx of
           Inl err \<Rightarrow> ret (Some (NewTerminalError (wrapf ''render template %q: %w'' [templateRefName] err)))
         | Inr rendered \<Rightarrow> do {
             err \<leftarrow> kApply E (buildDesiredResource (e_lib E) c tmpl rendered resourceName namespace);
             case err of
               Some e \<Rightarrow> ret (classifyAPIError (e_lib E)
                 (Some (wrapf ''apply resource %s/%s: %w'' [namespace, resourceName] e)))
             | None \<Rightarrow> ret None
           }
       }
   }"

section \<open>Deleting\<close>

definition deleteResource ::
  "'w env \<Rightarrow> GroupVersionKind \<Rightarrow> string \<Rightarrow> string \<Rightarrow> ('w, goerror option) pop" where
  "deleteResource E gvk name namespace = do {
     err \<leftarrow> kDelete E gvk (key_of name namespace)
       (SetNamespace (e_lib E) namespace (SetName (e_lib E) name (SetGroupVersionKind (e_lib E) gvk [])));
     case err of
       Some e \<Rightarrow> if \<not> IsNotFound (e_lib E) e
                 then ret (Some (wrapf ''delete %s %s/%s: %w'' [gvk_Kind gvk, namespace, name] e))
                 else ret None
     | None \<Rightarrow> ret None
   }"

definition deleteAndWait ::
  "'w env \<Rightarrow> GroupVersionKind \<Rightarrow> string \<Rightarrow> string \<Rightarrow> ('w, bool \<times> goerror option) pop" where
  "deleteAndWait E gvk name namespace = do {
     r \<leftarrow> kGet E gvk (key_of name namespace);
     case r of
       Inl err \<Rightarrow>
         if IsNotFound (e_lib E) err then ret (True, None)
         else ret (False, Some (wrapf ''get %s %s/%s for deletion: %w'' [gvk_Kind gvk, namespace, name] err))
     | Inr obj \<Rightarrow>
         if DeletionTimestampIsZero (e_lib E) obj then do {
           err \<leftarrow> kDelete E gvk (key_of name namespace) obj;
           case err of
             Some e \<Rightarrow> if \<not> IsNotFound (e_lib E) e
                       then ret (False, Some (wrapf ''delete %s %s/%s: %w'' [gvk_Kind gvk, namespace, name] e))
                       else ret (False, None)
           | None \<Rightarrow> ret (False, None)
         }
         else ret (False, None)
   }"

section \<open>Remote clusters\<close>

text \<open>One critical section of \<open>GetClient\<close>: the clock is read only on a hit, which needs it.\<close>

definition lookupClient :: "'w env \<Rightarrow> string \<Rightarrow> string \<Rightarrow> ('w, rclient option) pop" where
  "lookupClient E key hash = do {
     s \<leftarrow> State_Monad.get;
     case cm_lookup (cmgr s) key of
       None \<Rightarrow> ret None
     | Some cached \<Rightarrow>
         if ca_hash cached = hash then do {
           now \<leftarrow> kNow E;
           State_Monad.update (\<lambda>s. s\<lparr>cmgr := snd (cache_hit key hash now (cmgr s))\<rparr>);
           ret (Some (ca_client cached))
         } else ret None
   }"

definition GetClient :: "'w env \<Rightarrow> Secret \<Rightarrow> ('w, goerror + rclient) pop" where
  "GetClient E secret =
    (let kubeconfigData = (case map_of (sec_Data secret) ''value'' of None \<Rightarrow> [] | Some d \<Rightarrow> d) in
     if length kubeconfigData = 0
     then ret (Inl (Errorf ''kubeconfig not found in secret %s/%s'' [sec_Namespace secret, sec_Name secret] None))
     else (let key = cache_key secret; hash = computeHash (e_lib E) kubeconfigData in do {
       r \<leftarrow> lookupClient E key hash;
       case r of
         Some c \<Rightarrow> ret (Inr c)
       | None \<Rightarrow> do {
           r \<leftarrow> lookupClient E key hash;
           case r of
             Some c \<Rightarrow> ret (Inr c)
           | None \<Rightarrow>
               (case RESTConfigFromKubeConfig (e_lib E) kubeconfigData of
                  Inl err \<Rightarrow> ret (Inl (wrapf ''parse kubeconfig: %w'' [] err))
                | Inr restConfig \<Rightarrow> do {
                    r \<leftarrow> kNewClient E restConfig;
                    case r of
                      Inl err \<Rightarrow> ret (Inl (wrapf ''create remote client: %w'' [] err))
                    | Inr c \<Rightarrow> do {
                        now \<leftarrow> kNow E;
                        State_Monad.update (\<lambda>s. s\<lparr>cmgr := cache_store key hash c now (cmgr s)\<rparr>);
                        ret (Inr c)
                      }
                  })
         }
     }))"

text \<open>
  \<open>reflect.DeepEqual\<close> on \<open>map[string]string\<close>: a nil map equals only a nil map, other maps are equal
  when they have the same entries.
\<close>

definition map_DeepEqual :: "strmap option \<Rightarrow> strmap option \<Rightarrow> bool" where
  "map_DeepEqual a b = (case (a, b) of
     (None, None) \<Rightarrow> True
   | (Some m, Some n) \<Rightarrow> list_all (\<lambda>k. map_of m k = map_of n k) (map fst m @ map fst n)
   | _ \<Rightarrow> False)"

definition desiredConfigMap ::
  "lib \<Rightarrow> ClusterClaim \<Rightarrow> gomap \<Rightarrow> string \<Rightarrow> string \<Rightarrow> ConfigMap" where
  "desiredConfigMap L c rendered configMapName namespace =
    (let renderedLabels = extractStringMap L rendered [''metadata'', ''labels''];
         stdLabels = StandardLabels (cc_Name c) (cc_Namespace c);
         renderedAnnotations = extractStringMap L rendered [''metadata'', ''annotations'']
     in \<lparr>cmap_Name = configMapName, cmap_Namespace = namespace, cmap_ResourceVersion = [],
         cmap_OwnerReferences = [],
         cmap_Labels = Some (MergeLabels renderedLabels stdLabels),
         cmap_Annotations = (if length renderedAnnotations > 0 then Some renderedAnnotations else None),
         cmap_Data = (case map_of rendered ''data'' of
            Some (GMap dataMap) \<Rightarrow>
              Some (store_all [] (map (\<lambda>(k, v). (k, Sprint_v (fmt_float L) v)) dataMap))
          | _ \<Rightarrow> None)\<rparr>)"

definition applyRemoteConfigMap ::
  "'w env \<Rightarrow> rclient \<Rightarrow> string \<Rightarrow> string \<Rightarrow> string \<Rightarrow> ('w, goerror option) pop" where
  "applyRemoteConfigMap E remoteClient templateRefName configMapName namespace = do {
     r \<leftarrow> kGetTemplate E templateRefName;
     case r of
       Inl err \<Rightarrow>
         if IsNotFound (e_lib E) err
         then ret (Some (NewTerminalError (wrapf ''fetch template %q: %w'' [templateRefName] err)))
         else ret (Some (wrapf ''fetch template %q: %w'' [templateRefName] err))
     | Inr tmpl \<Rightarrow> do {
         c \<leftarrow> getClaim;
         ctx \<leftarrow> getCtx;
         case Render (e_lib E) (ts_Value (tm_Spec tmpl)) ctx of
           Inl err \<Rightarrow> ret (Some (NewTerminalError (wrapf ''render template %q: %w'' [templateRefName] err)))
         | Inr rendered \<Rightarrow>
             (let cm = desiredConfigMap (e_lib E) c rendered configMapName namespace in do {
                r \<leftarrow> kRemoteGet E remoteClient (key_of configMapName namespace);
                case r of
                  Inl err \<Rightarrow>
                    if IsNotFound (e_lib E) err then kRemoteCreate E remoteClient cm
                    else ret (Some (wrapf ''get existing remote ConfigMap: %w'' [] err))
                | Inr existing \<Rightarrow>
                    if map_DeepEqual (cmap_Labels existing) (cmap_Labels cm) \<and>
                       map_DeepEqual (cmap_Annotations existing) (cmap_Annotations cm) \<and>
                       map_DeepEqual (cmap_Data existing) (cmap_Data cm)
                    then ret None
                    else kRemoteUpdate E remoteClient
                      (existing\<lparr>cmap_Labels := cmap_Labels cm, cmap_Annotations := cmap_Annotations cm,
                         cmap_Data := cmap_Data cm\<rparr>)
              })
       }
   }"

end
