(* ===== verification/Pipeline.thy ===== *)
theory Pipeline
  imports Resources
begin

text \<open>
  The provisioning pipeline (internal/controller/pipeline.go): its nineteen steps, in the order of
  the source, and the loop that runs them. A step returns \<open>Proceed\<close> or \<open>Wait\<close> and an error; it may also
  panic, on a nil \<open>ClusterManager\<close>. A reconciliation returns a requeue delay and an error.
\<close>

section \<open>Results\<close>

datatype StepResult = Proceed | Wait

datatype step_out = Step StepResult "goerror option" | StepPanic

record Result =
  RequeueAfter :: int

datatype rec_out = Return Result "goerror option" | Panicked

definition Second :: int where
  "Second = 1000000000"

definition Minute :: int where
  "Minute = 60 * Second"

abbreviation proceed :: step_out where "proceed \<equiv> Step Proceed None"
abbreviation fail_with :: "goerror \<Rightarrow> step_out" where "fail_with e \<equiv> Step Proceed (Some e)"

type_synonym 'w step = "string \<times> ('w, step_out) pop"

text \<open>clusterclaim_controller.go: the namespace for remote ConfigMaps.\<close>

definition remoteNamespaceForClaim :: "'w env \<Rightarrow> ClusterClaim \<Rightarrow> string" where
  "remoteNamespaceForClaim E c =
     (if sp_RemoteNamespace (cc_Spec c) \<noteq> [] then sp_RemoteNamespace (cc_Spec c) else e_RemoteNamespace E)"

section \<open>Steps\<close>

text \<open>\<open>if err := m; err != nil { return Proceed, err }\<close>.\<close>

definition orFail :: "('w, goerror option) pop \<Rightarrow> ('w, step_out) pop \<Rightarrow> ('w, step_out) pop" where
  "orFail m k = do { err \<leftarrow> m; case err of Some e \<Rightarrow> ret (fail_with e) | None \<Rightarrow> k }"

definition stepApplication :: "'w env \<Rightarrow> ('w, step_out) pop" where
  "stepApplication E = do {
     c \<leftarrow> getClaim;
     orFail (ensureResource E (tr_Name (sp_ObserveTemplateRef (cc_Spec c))) (ApplicationName (cc_Name c)) (cc_Namespace c))
     (orFail (ensureResourceFinalizer E ApplicationGVK (ApplicationName (cc_Name c)) (cc_Namespace c)) (do {
       event E EventTypeNormal ''CreatedApplication'' ''Application %s created'' [ApplicationName (cc_Name c)];
       setCondition E ConditionApplicationCreated ConditionTrue ''Created'' ''Application created successfully'';
       ret proceed
     }))
   }"

definition stepCertificateSetInfra :: "'w env \<Rightarrow> ('w, step_out) pop" where
  "stepCertificateSetInfra E = do {
     c \<leftarrow> getClaim;
     orFail (ensureResource E (tr_Name (dr_Infra (sp_CertificateSetTemplateRef (cc_Spec c))))
               (CertificateSetName (cc_Name c) ''infra'') (cc_Namespace c))
     (orFail (ensureResourceFinalizer E CertificateSetGVK (CertificateSetName (cc_Name c) ''infra'') (cc_Namespace c))
       (ret proceed))
   }"

definition stepWaitCertSetReady :: "'w env \<Rightarrow> ('w, step_out) pop" where
  "stepWaitCertSetReady E = do {
     c \<leftarrow> getClaim;
     r \<leftarrow> getResource E CertificateSetGVK (CertificateSetName (cc_Name c) ''infra'') (cc_Namespace c);
     case r of
       Inl err \<Rightarrow> ret (fail_with (wrapf ''get CertificateSet[infra]: %w'' [] err))
     | Inr certSet \<Rightarrow>
         if \<not> isConditionTrue (e_lib E) certSet ''Ready'' then do {
           setWaiting E ConditionInfraCertificateReady ''Waiting for CertificateSet[infra] to become Ready'';
           ret (Step Wait None)
         } else do {
           event E EventTypeNormal ''CertificateSetInfraReady'' ''CertificateSet[infra] is Ready'' [];
           setCondition E ConditionInfraCertificateReady ConditionTrue ''Ready'' ''CertificateSet[infra] is Ready'';
           ret proceed
         }
   }"

definition stepClusterInfra :: "'w env \<Rightarrow> ('w, step_out) pop" where
  "stepClusterInfra E = do {
     c \<leftarrow> getClaim;
     orFail (ensureResource E (tr_Name (dr_Infra (sp_ClusterTemplateRef (cc_Spec c))))
               (ClusterName (cc_Name c) ''infra'') (cc_Namespace c))
     (orFail (ensureResourceFinalizer E ClusterGVK (ClusterName (cc_Name c) ''infra'') (cc_Namespace c)) (do {
       event E EventTypeNormal ''CreatedClusterInfra'' ''Cluster[infra] %s created'' [ClusterName (cc_Name c) ''infra''];
       ret proceed
     }))
   }"

definition stepWaitInfraProvisioned :: "'w env \<Rightarrow> ('w, step_out) pop" where
  "stepWaitInfraProvisioned E = do {
     c \<leftarrow> getClaim;
     r \<leftarrow> getResource E ClusterGVK (ClusterName (cc_Name c) ''infra'') (cc_Namespace c);
     case r of
       Inl err \<Rightarrow> ret (fail_with (wrapf ''get Cluster[infra]: %w'' [] err))
     | Inr cluster \<Rightarrow>
         if \<not> nested_bool (e_lib E) cluster [''status'', ''initialization'', ''infrastructureProvisioned''] then do {
           setWaiting E ConditionInfraProvisioned ''Waiting for Cluster[infra] infrastructure to be provisioned'';
           ret (Step Wait None)
         } else
          (let host = nested_string (e_lib E) cluster [''spec'', ''controlPlaneEndpoint'', ''host''];
               port = nested_int64 (e_lib E) cluster [''spec'', ''controlPlaneEndpoint'', ''port''] in do {
           (if host \<noteq> []
            then modCtx (\<lambda>t. t\<lparr>tc_InfraControlPlaneEndpoint := Some \<lparr>ep_Host = host, ep_Port = port\<rparr>\<rparr>)
            else ret ());
           event E EventTypeNormal ''InfraProvisioned'' ''Cluster[infra] infrastructure is provisioned'' [];
           setCondition E ConditionInfraProvisioned ConditionTrue ''Provisioned'' ''Cluster[infra] infrastructure is provisioned'';
           ret proceed
         })
   }"

definition stepCertificateSetClient :: "'w env \<Rightarrow> ('w, step_out) pop" where
  "stepCertificateSetClient E = do {
     c \<leftarrow> getClaim;
     if \<not> client_enabled c then ret proceed
     else case dr_Client (sp_CertificateSetTemplateRef (cc_Spec c)) of
       None \<Rightarrow> ret (fail_with (NewTerminalErrorf ''client is enabled but certificateSetTemplateRef.client is not set'' []))
     | Some ref \<Rightarrow>
         orFail (ensureResource E (tr_Name ref) (CertificateSetName (cc_Name c) ''client'') (cc_Namespace c))
         (orFail (ensureResourceFinalizer E CertificateSetGVK (CertificateSetName (cc_Name c) ''client'') (cc_Namespace c))
           (ret proceed))
   }"

definition stepWaitInfraCPReady :: "'w env \<Rightarrow> ('w, step_out) pop" where
  "stepWaitInfraCPReady E = do {
     c \<leftarrow> getClaim;
     r \<leftarrow> getResource E ClusterGVK (ClusterName (cc_Name c) ''infra'') (cc_Namespace c);
     case r of
       Inl err \<Rightarrow> ret (fail_with (wrapf ''get Cluster[infra]: %w'' [] err))
     | Inr cluster \<Rightarrow>
         if \<not> nested_bool (e_lib E) cluster [''status'', ''initialization'', ''controlPlaneInitialized''] then do {
           setWaiting E ConditionInfraCPReady ''Waiting for Cluster[infra] control plane to be initialized'';
           ret (Step Wait None)
         } else
          (let available = nested_int64 (e_lib E) cluster [''status'', ''controlPlane'', ''availableReplicas''];
               desired = nested_int64 (e_lib E) cluster [''status'', ''controlPlane'', ''desiredReplicas''] in do {
           modCtx (\<lambda>t. t\<lparr>tc_InfraControlPlaneInitialized := True,
             tc_InfraControlPlaneAvailableReplicas := int32_of_int64 available,
             tc_InfraControlPlaneDesiredReplicas := int32_of_int64 desired\<rparr>);
           event E EventTypeNormal ''InfraCPReady'' ''Cluster[infra] control plane is initialized'' [];
           setCondition E ConditionInfraCPReady ConditionTrue ''Ready'' ''Cluster[infra] control plane is initialized'';
           ret proceed
         })
   }"

text \<open>
  The three vault-family resources (VaultClaim, VaultSecretClaim, S3BucketClaim) are ensured by three
  functions that differ in the kind's name and GVK, the template reference and the condition only;
  likewise the three functions that wait for them.
\<close>

definition ensureDependent ::
  "'w env \<Rightarrow> string \<Rightarrow> GroupVersionKind \<Rightarrow> TemplateRef option \<Rightarrow> string \<Rightarrow> string \<Rightarrow> string \<Rightarrow> string \<Rightarrow>
   ('w, step_out) pop" where
  "ensureDependent E kind gvk ref name namespace eventReason condType = (case ref of
     None \<Rightarrow> ret proceed
   | Some ref \<Rightarrow>
      (let tmplName = tr_Name ref; wantAPI = GroupVersionString (e_lib E) gvk in do {
       r \<leftarrow> kGetTemplate E tmplName;
       case r of
         Inl err \<Rightarrow>
           if IsNotFound (e_lib E) err
           then ret (fail_with (NewTerminalErrorf (kind @ '' template %q not found'') [tmplName]))
           else ret (fail_with (wrapf (''get '' @ kind @ '' template %q: %w'') [tmplName] err))
       | Inr tmpl \<Rightarrow>
           if ts_APIVersion (tm_Spec tmpl) \<noteq> wantAPI \<or> ts_Kind (tm_Spec tmpl) \<noteq> gvk_Kind gvk
           then ret (fail_with (NewTerminalErrorf (kind @ '' template %q renders %s/%s but expected %s/%s'')
             [tmplName, ts_APIVersion (tm_Spec tmpl), ts_Kind (tm_Spec tmpl), wantAPI, gvk_Kind gvk]))
           else orFail (ensureResource E tmplName name namespace)
            (orFail (ensureResourceFinalizer E gvk name namespace) (do {
              event E EventTypeNormal eventReason (kind @ '' %s created'') [name];
              setCondition E condType ConditionTrue ''Created'' (kind @ '' created/updated'');
              ret proceed
            }))
      }))"

definition waitDependent ::
  "'w env \<Rightarrow> string \<Rightarrow> GroupVersionKind \<Rightarrow> TemplateRef option \<Rightarrow> string \<Rightarrow> string \<Rightarrow> string \<Rightarrow> string \<Rightarrow>
   ('w, step_out) pop" where
  "waitDependent E kind gvk ref name namespace eventReason condType =
    (if ref = None then ret proceed
     else do {
       r \<leftarrow> getResource E gvk name namespace;
       case r of
         Inl err \<Rightarrow> ret (fail_with (wrapf (''get '' @ kind @ '': %w'') [] err))
       | Inr obj \<Rightarrow>
           (let phase = nested_string (e_lib E) obj [''status'', ''phase''] in
            if phase \<noteq> PhaseReady then do {
              setWaiting E condType (Sprintf (quote_nonascii (e_lib E))
                (''Waiting for '' @ kind @ '' to reach Ready (current phase: %q)'') [phase]);
              ret (Step Wait None)
            } else do {
              event E EventTypeNormal eventReason (kind @ '' %s is Ready'') [name];
              setCondition E condType ConditionTrue ''Ready'' (kind @ '' phase=Ready'');
              ret proceed
            })
     })"

definition stepEnsureVaultClaim :: "'w env \<Rightarrow> ('w, step_out) pop" where
  "stepEnsureVaultClaim E = do {
     c \<leftarrow> getClaim;
     ensureDependent E ''VaultClaim'' VaultClaimGVK (sp_VaultClaimTemplateRef (cc_Spec c))
       (VaultClaimName (cc_Name c)) (cc_Namespace c) ''CreatedVaultClaim'' ConditionVaultClaimCreated
   }"

definition stepWaitVaultClaim :: "'w env \<Rightarrow> ('w, step_out) pop" where
  "stepWaitVaultClaim E = do {
     c \<leftarrow> getClaim;
     waitDependent E ''VaultClaim'' VaultClaimGVK (sp_VaultClaimTemplateRef (cc_Spec c))
       (VaultClaimName (cc_Name c)) (cc_Namespace c) ''VaultClaimReady'' ConditionVaultClaimReady
   }"

definition stepEnsureVaultSecretClaim :: "'w env \<Rightarrow> ('w, step_out) pop" where
  "stepEnsureVaultSecretClaim E = do {
     c \<leftarrow> getClaim;
     ensureDependent E ''VaultSecretClaim'' VaultSecretClaimGVK (sp_VaultSecretClaimTemplateRef (cc_Spec c))
       (VaultSecretClaimName (cc_Name c)) (cc_Namespace c) ''CreatedVaultSecretClaim'' ConditionVaultSecretClaimCreated
   }"

definition stepWaitVaultSecretClaim :: "'w env \<Rightarrow> ('w, step_out) pop" where
  "stepWaitVaultSecretClaim E = do {
     c \<leftarrow> getClaim;
     waitDependent E ''VaultSecretClaim'' VaultSecretClaimGVK (sp_VaultSecretClaimTemplateRef (cc_Spec c))
       (VaultSecretClaimName (cc_Name c)) (cc_Namespace c) ''VaultSecretClaimReady'' ConditionVaultSecretClaimReady
   }"

definition stepEnsureS3BucketClaim :: "'w env \<Rightarrow> ('w, step_out) pop" where
  "stepEnsureS3BucketClaim E = do {
     c \<leftarrow> getClaim;
     ensureDependent E ''S3BucketClaim'' S3BucketClaimGVK (sp_S3BucketClaimTemplateRef (cc_Spec c))
       (S3BucketClaimName (cc_Name c)) (cc_Namespace c) ''CreatedS3BucketClaim'' ConditionS3BucketClaimCreated
   }"

definition stepWaitS3BucketClaim :: "'w env \<Rightarrow> ('w, step_out) pop" where
  "stepWaitS3BucketClaim E = do {
     c \<leftarrow> getClaim;
     waitDependent E ''S3BucketClaim'' S3BucketClaimGVK (sp_S3BucketClaimTemplateRef (cc_Spec c))
       (S3BucketClaimName (cc_Name c)) (cc_Namespace c) ''S3BucketClaimReady'' ConditionS3BucketClaimReady
   }"

definition stepWaitVaultKmsReady :: "'w env \<Rightarrow> ('w, step_out) pop" where
  "stepWaitVaultKmsReady E = do {
     c \<leftarrow> getClaim;
     if sp_VaultClaimTemplateRef (cc_Spec c) = None then ret proceed
     else (let name = VaultClaimName (cc_Name c); L = e_lib E in do {
       r \<leftarrow> getResource E VaultClaimGVK name (cc_Namespace c);
       case r of
         Inl err \<Rightarrow>
           if IsNotFound L err then do {
             setWaiting E ConditionVaultKmsReady
               (Sprintf (quote_nonascii L) ''Waiting for VaultClaim %q to appear'' [name]);
             ret (Step Wait None)
           } else ret (fail_with (wrapf ''get VaultClaim: %w'' [] err))
       | Inr vc \<Rightarrow>
           (case NestedSlice L vc [''spec'', ''transit'', ''keys''] of (keys, found, err) \<Rightarrow>
            case err of
              Some e \<Rightarrow> ret (fail_with (wrapf ''read VaultClaim spec.transit.keys: %w'' [] e))
            | None \<Rightarrow>
              if \<not> found \<or> length keys = 0 then ret proceed
              else if \<not> hasTrueCondition L vc ''TransitKeysReady'' then do {
                setWaiting E ConditionVaultKmsReady ''Waiting for VaultClaim condition TransitKeysReady'';
                ret (Step Wait None)
              }
              else if \<not> hasTrueCondition L vc ''RolesApplied'' then do {
                setWaiting E ConditionVaultKmsReady ''Waiting for VaultClaim condition RolesApplied'';
                ret (Step Wait None)
              }
              else do {
                event E EventTypeNormal ''VaultKmsReady''
                  ''VaultClaim %s has transit keys and roles ready; client control plane may start encrypted'' [name];
                setCondition E ConditionVaultKmsReady ConditionTrue ''Ready'' ''Transit keys and roles applied in Vault'';
                ret proceed
              })
     })
   }"

definition stepCcmCsrc :: "'w env \<Rightarrow> ('w, step_out) pop" where
  "stepCcmCsrc E = do {
     c \<leftarrow> getClaim;
     orFail (ensureResource E (tr_Name (sp_CcmCsrTemplateRef (cc_Spec c))) (CcmCsrcName (cc_Name c)) (cc_Namespace c))
     (orFail (ensureResourceFinalizer E CcmCsrcGVK (CcmCsrcName (cc_Name c)) (cc_Namespace c)) (do {
       event E EventTypeNormal ''CreatedCcmCsrc'' ''CcmCsrc %s created'' [CcmCsrcName (cc_Name c)];
       setCondition E ConditionCcmCsrcCreated ConditionTrue ''Created'' ''CcmCsrc created successfully'';
       ret proceed
     }))
   }"

text \<open>
  \<open>if err := m; err != nil { setCondition(RemoteConfigApplied, ...); return Proceed, wrap err }\<close>.
\<close>

definition orRemoteFail ::
  "'w env \<Rightarrow> string \<Rightarrow> ('w, goerror option) pop \<Rightarrow> ('w, step_out) pop \<Rightarrow> ('w, step_out) pop" where
  "orRemoteFail E format m k = do {
     err \<leftarrow> m;
     case err of
       Some e \<Rightarrow> do {
         setCondition E ConditionRemoteConfigApplied ConditionFalse ''ApplyError'' (Error_text (e_lib E) e);
         ret (fail_with (wrapf format [] e))
       }
     | None \<Rightarrow> k
   }"

text \<open>
  A nil \<open>ClusterManager\<close> makes \<open>GetClient\<close> panic as soon as it takes the lock, that is, when the
  Secret holds a kubeconfig.
\<close>

definition stepRemoteConfigMaps :: "'w env \<Rightarrow> ('w, step_out) pop" where
  "stepRemoteConfigMaps E = do {
     c \<leftarrow> getClaim;
     case sp_ConfigMapTemplateRef (cc_Spec c) of
       None \<Rightarrow> ret proceed
     | Some ref \<Rightarrow> do {
         r \<leftarrow> kGetSecret E (key_of (KubeconfigSecretName (cc_Name c)) (cc_Namespace c));
         case r of
           Inl err \<Rightarrow>
             if IsNotFound (e_lib E) err then do {
               setWaiting E ConditionRemoteConfigApplied ''Waiting for kubeconfig Secret'';
               ret (Step Wait None)
             } else ret (fail_with (wrapf ''get kubeconfig secret: %w'' [] err))
         | Inr kubeconfigSecret \<Rightarrow>
             if \<not> e_ClusterManager E \<and> map_of (sec_Data kubeconfigSecret) ''value'' \<notin> {None, Some []}
             then ret StepPanic
             else do {
               r \<leftarrow> GetClient E kubeconfigSecret;
               case r of
                 Inl err \<Rightarrow> do {
                   setCondition E ConditionRemoteConfigApplied ConditionFalse ''RemoteConnectionError''
                     (Error_text (e_lib E) err);
                   ret (fail_with (wrapf ''get remote client: %w'' [] err))
                 }
               | Inr remoteClient \<Rightarrow>
                  (let remoteNamespace = remoteNamespaceForClaim E c in
                   orRemoteFail E ''apply parameters-infra: %w''
                     (applyRemoteConfigMap E remoteClient (tr_Name (dr_Infra ref)) (ConfigMapName ''infra'') remoteNamespace)
                  (orRemoteFail E ''apply parameters-system: %w''
                     (if str_Contains (is_Role (sp_Infra (cc_Spec c))) ''system''
                      then applyRemoteConfigMap E remoteClient (tr_Name (dr_Infra ref)) (ConfigMapName ''system'') remoteNamespace
                      else ret None)
                  (orRemoteFail E ''apply parameters-client: %w''
                     (case dr_Client ref of
                        Some cref \<Rightarrow> if client_enabled c
                          then applyRemoteConfigMap E remoteClient (tr_Name cref) (ConfigMapName ''client'') remoteNamespace
                          else ret None
                      | None \<Rightarrow> ret None)
                  (do {
                    event E EventTypeNormal ''AppliedRemoteConfigMaps'' ''Remote ConfigMaps applied to infra cluster'' [];
                    setCondition E ConditionRemoteConfigApplied ConditionTrue ''Applied'' ''Remote ConfigMaps applied successfully'';
                    ret proceed
                  }))))
             }
       }
   }"

definition stepClusterClient :: "'w env \<Rightarrow> ('w, step_out) pop" where
  "stepClusterClient E = do {
     c \<leftarrow> getClaim;
     if \<not> client_enabled c then ret proceed
     else case dr_Client (sp_ClusterTemplateRef (cc_Spec c)) of
       None \<Rightarrow> ret (fail_with (NewTerminalErrorf ''client enabled but clusterTemplateRef.client not set'' []))
     | Some ref \<Rightarrow>
         orFail (ensureResource E (tr_Name ref) (ClusterName (cc_Name c) ''client'') (cc_Namespace c))
         (orFail (ensureResourceFinalizer E ClusterGVK (ClusterName (cc_Name c) ''client'') (cc_Namespace c)) (do {
           event E EventTypeNormal ''CreatedClusterClient'' ''Cluster[client] %s created'' [ClusterName (cc_Name c) ''client''];
           ret proceed
         }))
   }"

definition stepWaitClientCPReady :: "'w env \<Rightarrow> ('w, step_out) pop" where
  "stepWaitClientCPReady E = do {
     c \<leftarrow> getClaim;
     if \<not> client_enabled c then ret proceed
     else do {
       r \<leftarrow> getResource E ClusterGVK (ClusterName (cc_Name c) ''client'') (cc_Namespace c);
       case r of
         Inl err \<Rightarrow> ret (fail_with (wrapf ''get Cluster[client]: %w'' [] err))
       | Inr cluster \<Rightarrow>
           if \<not> nested_bool (e_lib E) cluster [''status'', ''initialization'', ''controlPlaneInitialized''] then do {
             setWaiting E ConditionClientCPReady ''Waiting for Cluster[client] control plane initialization'';
             ret (Step Wait None)
           } else
            (let host = nested_string (e_lib E) cluster [''spec'', ''controlPlaneEndpoint'', ''host''];
                 port = nested_int64 (e_lib E) cluster [''spec'', ''controlPlaneEndpoint'', ''port''];
                 available = nested_int64 (e_lib E) cluster [''status'', ''controlPlane'', ''availableReplicas''];
                 desired = nested_int64 (e_lib E) cluster [''status'', ''controlPlane'', ''desiredReplicas''] in do {
             modCtx (\<lambda>t. t\<lparr>tc_ClientControlPlaneInitialized := True\<rparr>);
             (if host \<noteq> []
              then modCtx (\<lambda>t. t\<lparr>tc_ClientControlPlaneEndpoint := Some \<lparr>ep_Host = host, ep_Port = port\<rparr>\<rparr>)
              else ret ());
             modCtx (\<lambda>t. t\<lparr>tc_ClientControlPlaneAvailableReplicas := int32_of_int64 available,
               tc_ClientControlPlaneDesiredReplicas := int32_of_int64 desired\<rparr>);
             event E EventTypeNormal ''ClientCPReady'' ''Cluster[client] control plane is initialized'' [];
             setCondition E ConditionClientCPReady ConditionTrue ''Ready'' ''Cluster[client] control plane initialized'';
             ret proceed
           })
     }
   }"

definition stepCcmCsrcUpdate :: "'w env \<Rightarrow> ('w, step_out) pop" where
  "stepCcmCsrcUpdate E = do {
     c \<leftarrow> getClaim;
     if \<not> client_enabled c then ret proceed
     else orFail (ensureResource E (tr_Name (sp_CcmCsrTemplateRef (cc_Spec c))) (CcmCsrcName (cc_Name c)) (cc_Namespace c))
       (do {
         event E EventTypeNormal ''UpdatedCcmCsrc'' ''CcmCsrc %s updated with client info'' [CcmCsrcName (cc_Name c)];
         ret proceed
       })
   }"

section \<open>The pipeline\<close>

definition pipelineSteps :: "'w env \<Rightarrow> 'w step list" where
  "pipelineSteps E = [
     (''Application'', stepApplication E),
     (''EnsureS3BucketClaim'', stepEnsureS3BucketClaim E),
     (''CertificateSetInfra'', stepCertificateSetInfra E),
     (''WaitCertSetReady'', stepWaitCertSetReady E),
     (''ClusterInfra'', stepClusterInfra E),
     (''WaitInfraProvisioned'', stepWaitInfraProvisioned E),
     (''CertificateSetClient'', stepCertificateSetClient E),
     (''WaitInfraCPReady'', stepWaitInfraCPReady E),
     (''EnsureVaultClaim'', stepEnsureVaultClaim E),
     (''EnsureVaultSecretClaim'', stepEnsureVaultSecretClaim E),
     (''CcmCsrc'', stepCcmCsrc E),
     (''RemoteConfigMaps'', stepRemoteConfigMaps E),
     (''WaitVaultKmsReady'', stepWaitVaultKmsReady E),
     (''ClusterClient'', stepClusterClient E),
     (''WaitClientCPReady'', stepWaitClientCPReady E),
     (''CcmCsrcUpdate'', stepCcmCsrcUpdate E),
     (''WaitVaultClaim'', stepWaitVaultClaim E),
     (''WaitVaultSecretClaim'', stepWaitVaultSecretClaim E),
     (''WaitS3BucketClaim'', stepWaitS3BucketClaim E)]"

text \<open>The loop over the steps and what follows it.\<close>

primrec runSteps :: "'w env \<Rightarrow> ClusterClaimStatus \<Rightarrow> 'w step list \<Rightarrow> ('w, rec_out) pop" where
  "runSteps E oldStatus [] = do {
     setReady E;
     event E EventTypeNormal ''ClusterClaimReady'' ''All pipeline steps completed successfully'' [];
     err \<leftarrow> updateStatusIfChanged E oldStatus;
     ret (case err of
       Some e \<Rightarrow> Return \<lparr>RequeueAfter = 0\<rparr> (Some e)
     | None \<Rightarrow> Return \<lparr>RequeueAfter = 10 * Minute\<rparr> None)
   }"
| "runSteps E oldStatus (s # rest) = do {
     out \<leftarrow> snd s;
     case out of
       StepPanic \<Rightarrow> ret Panicked
     | Step result (Some stepErr) \<Rightarrow>
        (let wrappedErr = wrapf ''step %s: %w'' [fst s] stepErr in
         if IsTerminalError stepErr then do {
           event E EventTypeWarning ''StepFailed'' ''Step %s failed (terminal): %v'' [fst s, Error_text (e_lib E) stepErr];
           setFailed E ''StepFailed'' wrappedErr;
           _ \<leftarrow> updateStatusIfChanged E oldStatus;
           ret (Return \<lparr>RequeueAfter = 0\<rparr> None)
         } else do {
           event E EventTypeWarning ''StepRetrying'' ''Step %s failed (transient): %v'' [fst s, Error_text (e_lib E) stepErr];
           setCondition E ConditionReady ConditionFalse ''StepRetrying'' (Error_text (e_lib E) wrappedErr);
           _ \<leftarrow> updateStatusIfChanged E oldStatus;
           ret (Return \<lparr>RequeueAfter = 1 * Minute\<rparr> None)
         })
     | Step result None \<Rightarrow>
         if result = Wait then do {
           _ \<leftarrow> updateStatusIfChanged E oldStatus;
           ret (Return \<lparr>RequeueAfter = 5 * Minute\<rparr> None)
         } else runSteps E oldStatus rest
   }"

definition toUnstructured :: "lib \<Rightarrow> ClusterClaim \<Rightarrow> goerror + gomap" where
  "toUnstructured L c = (case ToUnstructured L c of
     Inl err \<Rightarrow> Inl (wrapf ''convert claim to unstructured: %w'' [] err)
   | Inr obj \<Rightarrow> (case ObjectKinds L c of
       [] \<Rightarrow> Inr obj
     | gvk # _ \<Rightarrow> Inr (SetGroupVersionKind L gvk obj)))"

text \<open>A fetch whose failure, of any kind, leaves the pointer nil.\<close>

definition tryGet :: "'w env \<Rightarrow> GroupVersionKind \<Rightarrow> string \<Rightarrow> string \<Rightarrow> ('w, gomap option) pop" where
  "tryGet E gvk name namespace = do {
     r \<leftarrow> kGet E gvk (key_of name namespace);
     ret (case r of Inl err \<Rightarrow> None | Inr obj \<Rightarrow> Some obj)
   }"

text \<open>What \<open>executePipeline\<close> does before the loop: fetches, template context, mirrored statuses.\<close>

definition preparePipeline :: "'w env \<Rightarrow> gomap \<Rightarrow> ('w, unit) pop" where
  "preparePipeline E claimUnstructured = do {
     c \<leftarrow> getClaim;
     infraCluster \<leftarrow> tryGet E ClusterGVK (ClusterName (cc_Name c) ''infra'') (cc_Namespace c);
     clientCluster \<leftarrow> (if client_enabled c
       then tryGet E ClusterGVK (ClusterName (cc_Name c) ''client'') (cc_Namespace c) else ret None);
     modCtx (\<lambda>_. BuildContext (e_lib E) claimUnstructured infraCluster clientCluster);
     syncClusterStatuses E infraCluster clientCluster;
     mirrorVaultStatus E;
     mirrorVaultSecretStatus E;
     mirrorS3BucketStatus E
   }"

definition executePipeline :: "'w env \<Rightarrow> ('w, rec_out) pop" where
  "executePipeline E = do {
     c \<leftarrow> getClaim;
     let oldStatus = cc_Status c;
     modClaim (setPhase PhaseProvisioning);
     modClaim (clearPausedCondition (e_lib E));
     c \<leftarrow> getClaim;
     case toUnstructured (e_lib E) c of
       Inl err \<Rightarrow> do {
         setFailed E ''ConversionError'' err;
         _ \<leftarrow> updateStatusIfChanged E oldStatus;
         ret (Return \<lparr>RequeueAfter = 0\<rparr> (Some err))
       }
     | Inr claimUnstructured \<Rightarrow> do {
         preparePipeline E claimUnstructured;
         runSteps E oldStatus (pipelineSteps E)
       }
   }"

end
