(* ===== verification/Controller.thy ===== *)
theory Controller
  imports Pipeline
begin

text \<open>
  The reconciler (internal/controller/clusterclaim_controller.go): the entry point \<open>Reconcile\<close>, the
  paused branch and the deletion branch. Deletion returns early in many places; the combinators
  below are the early-return patterns of the source, and the rest of the function is their last
  argument.
\<close>

section \<open>Early returns\<close>

text \<open>\<open>if err := m; err != nil { return ctrl.Result{}, err }\<close>.\<close>

definition orReturn :: "('w, goerror option) pop \<Rightarrow> ('w, rec_out) pop \<Rightarrow> ('w, rec_out) pop" where
  "orReturn m k = do {
     err \<leftarrow> m;
     case err of Some e \<Rightarrow> ret (Return \<lparr>RequeueAfter = 0\<rparr> (Some e)) | None \<Rightarrow> k
   }"

text \<open>Remove the operator's finalizer, delete, go on: resources whose disappearance is not awaited.\<close>

definition releaseAndDelete ::
  "'w env \<Rightarrow> GroupVersionKind \<Rightarrow> string \<Rightarrow> string \<Rightarrow> ('w, rec_out) pop \<Rightarrow> ('w, rec_out) pop" where
  "releaseAndDelete E gvk name namespace k =
     orReturn (removeResourceFinalizer E gvk name namespace)
    (orReturn (deleteResource E gvk name namespace) k)"

text \<open>Remove the operator's finalizer, delete, and requeue in five seconds until it is gone.\<close>

definition releaseAndWait ::
  "'w env \<Rightarrow> GroupVersionKind \<Rightarrow> string \<Rightarrow> string \<Rightarrow> ('w, rec_out) pop \<Rightarrow> ('w, rec_out) pop" where
  "releaseAndWait E gvk name namespace k =
     orReturn (removeResourceFinalizer E gvk name namespace) (do {
       r \<leftarrow> deleteAndWait E gvk name namespace;
       case r of (deleted, err) \<Rightarrow>
         (case err of
            Some e \<Rightarrow> ret (Return \<lparr>RequeueAfter = 0\<rparr> (Some e))
          | None \<Rightarrow> if \<not> deleted then ret (Return \<lparr>RequeueAfter = 5 * Second\<rparr> None) else k)
     })"

section \<open>Deletion\<close>

definition deleteRemoteConfigMap :: "'w env \<Rightarrow> rclient \<Rightarrow> string \<Rightarrow> string \<Rightarrow> ('w, unit) pop" where
  "deleteRemoteConfigMap E remoteClient cmName ns = do {
     _ \<leftarrow> kRemoteDelete E remoteClient (key_of cmName ns);
     ret ()
   }"

definition deleteRemoteConfigMaps :: "'w env \<Rightarrow> ('w, unit) pop" where
  "deleteRemoteConfigMaps E = do {
     c \<leftarrow> getClaim;
     if sp_ConfigMapTemplateRef (cc_Spec c) = None \<or> \<not> e_ClusterManager E then ret ()
     else do {
       r \<leftarrow> kGetSecret E (key_of (KubeconfigSecretName (cc_Name c)) (cc_Namespace c));
       case r of
         Inl err \<Rightarrow> ret ()
       | Inr kubeconfigSecret \<Rightarrow> do {
           r \<leftarrow> GetClient E kubeconfigSecret;
           case r of
             Inl err \<Rightarrow> ret ()
           | Inr remoteClient \<Rightarrow>
              (let ns = remoteNamespaceForClaim E c in do {
               deleteRemoteConfigMap E remoteClient (ConfigMapName ''infra'') ns;
               deleteRemoteConfigMap E remoteClient (ConfigMapName ''system'') ns;
               deleteRemoteConfigMap E remoteClient (ConfigMapName ''client'') ns
             })
         }
     }
   }"

record dependentClaim =
  dep_enabled :: bool
  dep_gvk :: GroupVersionKind
  dep_name :: string

definition dependentClaims :: "ClusterClaim \<Rightarrow> dependentClaim list" where
  "dependentClaims c = [
     \<lparr>dep_enabled = (sp_VaultClaimTemplateRef (cc_Spec c) \<noteq> None), dep_gvk = VaultClaimGVK,
      dep_name = VaultClaimName (cc_Name c)\<rparr>,
     \<lparr>dep_enabled = (sp_VaultSecretClaimTemplateRef (cc_Spec c) \<noteq> None), dep_gvk = VaultSecretClaimGVK,
      dep_name = VaultSecretClaimName (cc_Name c)\<rparr>,
     \<lparr>dep_enabled = (sp_S3BucketClaimTemplateRef (cc_Spec c) \<noteq> None), dep_gvk = S3BucketClaimGVK,
      dep_name = S3BucketClaimName (cc_Name c)\<rparr>]"

primrec deleteDependents ::
  "'w env \<Rightarrow> string \<Rightarrow> dependentClaim list \<Rightarrow> ('w, rec_out) pop \<Rightarrow> ('w, rec_out) pop" where
  "deleteDependents E namespace [] k = k"
| "deleteDependents E namespace (dep # deps) k =
     (if \<not> dep_enabled dep then deleteDependents E namespace deps k
      else releaseAndWait E (dep_gvk dep) (dep_name dep) namespace (deleteDependents E namespace deps k))"

text \<open>The last step of a deletion: the claim's own finalizer is removed and the claim written.\<close>

definition removeClaimFinalizer :: "'w env \<Rightarrow> ('w, rec_out) pop" where
  "removeClaimFinalizer E = do {
     event E EventTypeNormal ''DeletionComplete'' ''All managed resources deleted'' [];
     modClaim (\<lambda>c. c\<lparr>cc_Meta := (cc_Meta c)\<lparr>om_Finalizers :=
       fst (RemoveFinalizer (e_lib E) (om_Finalizers (cc_Meta c)) ClusterClaimFinalizer)\<rparr>\<rparr>);
     err \<leftarrow> kUpdateClaim E;
     ret (Return \<lparr>RequeueAfter = 0\<rparr> err)
   }"

text \<open>Steps 5 to 8 of a deletion, once Cluster[infra] is gone.\<close>

definition deleteAfterInfra :: "'w env \<Rightarrow> ClusterClaim \<Rightarrow> ('w, rec_out) pop" where
  "deleteAfterInfra E c =
    (let ns = cc_Namespace c; n = cc_Name c;
         rest = releaseAndDelete E CertificateSetGVK (CertificateSetName n ''infra'') ns
               (releaseAndDelete E ApplicationGVK (ApplicationName n) ns
               (removeClaimFinalizer E))
     in if client_enabled c
        then releaseAndDelete E CertificateSetGVK (CertificateSetName n ''client'') ns rest
        else rest)"

text \<open>Steps 3 and 4: the two Clusters, client first.\<close>

definition deleteClusters :: "'w env \<Rightarrow> ClusterClaim \<Rightarrow> ('w, rec_out) pop" where
  "deleteClusters E c =
    (let ns = cc_Namespace c; n = cc_Name c;
         rest = releaseAndWait E ClusterGVK (ClusterName n ''infra'') ns (deleteAfterInfra E c)
     in if client_enabled c
        then releaseAndWait E ClusterGVK (ClusterName n ''client'') ns rest
        else rest)"

text \<open>What follows the status write: steps 0 to 8.\<close>

definition deleteManaged :: "'w env \<Rightarrow> ('w, rec_out) pop" where
  "deleteManaged E = do {
     event E EventTypeNormal ''DeletingResources'' ''Starting deletion of managed resources'' [];
     c \<leftarrow> getClaim;
     deleteDependents E (cc_Namespace c) (dependentClaims c) (do {
       deleteRemoteConfigMaps E;
       releaseAndDelete E CcmCsrcGVK (CcmCsrcName (cc_Name c)) (cc_Namespace c) (deleteClusters E c)
     })
   }"

definition reconcileDelete :: "'w env \<Rightarrow> ('w, rec_out) pop" where
  "reconcileDelete E = do {
     c \<leftarrow> getClaim;
     if \<not> ContainsFinalizer (e_lib E) (om_Finalizers (cc_Meta c)) ClusterClaimFinalizer
     then ret (Return \<lparr>RequeueAfter = 0\<rparr> None)
     else do {
       modClaim (setPhase PhaseDeleting);
       orReturn (updateStatusIfChanged E (cc_Status c)) (deleteManaged E)
     }
   }"

section \<open>Entry point\<close>

definition isPaused :: "ClusterClaim \<Rightarrow> bool" where
  "isPaused c \<longleftrightarrow> map_of (om_Annotations (cc_Meta c)) PausedAnnotation = Some ''true''"

definition ensureFinalizer :: "'w env \<Rightarrow> ('w, goerror option) pop" where
  "ensureFinalizer E = do {
     c \<leftarrow> getClaim;
     case AddFinalizer (e_lib E) (om_Finalizers (cc_Meta c)) ClusterClaimFinalizer of (fs, added) \<Rightarrow>
     do {
       modClaim (\<lambda>c. c\<lparr>cc_Meta := (cc_Meta c)\<lparr>om_Finalizers := fs\<rparr>\<rparr>);
       (if added then kUpdateClaim E else ret None)
     }
   }"

definition reconcilePaused :: "'w env \<Rightarrow> ('w, rec_out) pop" where
  "reconcilePaused E = do {
     c \<leftarrow> getClaim;
     modClaim (setPhase PhasePaused);
     setCondition E ConditionPaused ConditionTrue ''Paused'' ''Reconciliation paused via annotation'';
     orReturn (updateStatusIfChanged E (cc_Status c)) (ret (Return \<lparr>RequeueAfter = 0\<rparr> None))
   }"

text \<open>\<open>var claim\<close> is filled in by the first request.\<close>

definition Reconcile :: "'w env \<Rightarrow> ObjectKey \<Rightarrow> ('w, rec_out) pop" where
  "Reconcile E req = do {
     r \<leftarrow> kGetClaim E req;
     case r of
       Inl err \<Rightarrow> ret (Return \<lparr>RequeueAfter = 0\<rparr> (IgnoreNotFound (e_lib E) err))
     | Inr c \<Rightarrow> do {
         modClaim (\<lambda>_. c);
         (if om_DeletionTimestamp (cc_Meta c) \<noteq> None then reconcileDelete E
          else if isPaused c then reconcilePaused E
          else orReturn (ensureFinalizer E) (executePipeline E))
       }
   }"

end
