(* ===== verification/Watches.thy ===== *)
theory Watches
  imports Controller
begin

text \<open>
  What wakes the reconciler up besides the claim itself: the field indexes over template references
  (internal/controller/indexers.go), the functions that map a changed template or kubeconfig Secret
  to claims (mapfuncs.go) and the predicate that selects kubeconfig Secrets
  (clusterclaim_controller.go).
\<close>

section \<open>Field indexes\<close>

definition indexObserveTemplateRef :: string where
  "indexObserveTemplateRef = ''spec.observeTemplateRef.name''"
definition indexCertSetInfraTemplateRef :: string where
  "indexCertSetInfraTemplateRef = ''spec.certificateSetTemplateRef.infra.name''"
definition indexCertSetClientTemplateRef :: string where
  "indexCertSetClientTemplateRef = ''spec.certificateSetTemplateRef.client.name''"
definition indexClusterInfraTemplateRef :: string where
  "indexClusterInfraTemplateRef = ''spec.clusterTemplateRef.infra.name''"
definition indexClusterClientTemplateRef :: string where
  "indexClusterClientTemplateRef = ''spec.clusterTemplateRef.client.name''"
definition indexCcmCsrTemplateRef :: string where
  "indexCcmCsrTemplateRef = ''spec.ccmCsrTemplateRef.name''"
definition indexConfigMapInfraTemplateRef :: string where
  "indexConfigMapInfraTemplateRef = ''spec.configMapTemplateRef.infra.name''"
definition indexConfigMapClientTemplateRef :: string where
  "indexConfigMapClientTemplateRef = ''spec.configMapTemplateRef.client.name''"
definition indexVaultClaimTemplateRef :: string where
  "indexVaultClaimTemplateRef = ''spec.vaultClaimTemplateRef.name''"
definition indexVaultSecretClaimTemplateRef :: string where
  "indexVaultSecretClaimTemplateRef = ''spec.vaultSecretClaimTemplateRef.name''"
definition indexS3BucketClaimTemplateRef :: string where
  "indexS3BucketClaimTemplateRef = ''spec.s3BucketClaimTemplateRef.name''"

lemmas index_defs = indexObserveTemplateRef_def indexCertSetInfraTemplateRef_def
  indexCertSetClientTemplateRef_def indexClusterInfraTemplateRef_def indexClusterClientTemplateRef_def
  indexCcmCsrTemplateRef_def indexConfigMapInfraTemplateRef_def indexConfigMapClientTemplateRef_def
  indexVaultClaimTemplateRef_def indexVaultSecretClaimTemplateRef_def indexS3BucketClaimTemplateRef_def

definition allIndexFields :: "string list" where
  "allIndexFields = [
     indexObserveTemplateRef,
     indexCertSetInfraTemplateRef,
     indexCertSetClientTemplateRef,
     indexClusterInfraTemplateRef,
     indexClusterClientTemplateRef,
     indexCcmCsrTemplateRef,
     indexConfigMapInfraTemplateRef,
     indexConfigMapClientTemplateRef,
     indexVaultClaimTemplateRef,
     indexVaultSecretClaimTemplateRef,
     indexS3BucketClaimTemplateRef]"

definition ref_name :: "TemplateRef option \<Rightarrow> string list" where
  "ref_name r = (case r of None \<Rightarrow> [] | Some t \<Rightarrow> [tr_Name t])"

text \<open>The table of fields and extractors that \<open>SetupIndexers\<close> registers.\<close>

definition indexes :: "(string \<times> (ClusterClaim \<Rightarrow> string list)) list" where
  "indexes = [
     (indexObserveTemplateRef, \<lambda>c. [tr_Name (sp_ObserveTemplateRef (cc_Spec c))]),
     (indexCertSetInfraTemplateRef, \<lambda>c. [tr_Name (dr_Infra (sp_CertificateSetTemplateRef (cc_Spec c)))]),
     (indexCertSetClientTemplateRef, \<lambda>c. ref_name (dr_Client (sp_CertificateSetTemplateRef (cc_Spec c)))),
     (indexClusterInfraTemplateRef, \<lambda>c. [tr_Name (dr_Infra (sp_ClusterTemplateRef (cc_Spec c)))]),
     (indexClusterClientTemplateRef, \<lambda>c. ref_name (dr_Client (sp_ClusterTemplateRef (cc_Spec c)))),
     (indexCcmCsrTemplateRef, \<lambda>c. [tr_Name (sp_CcmCsrTemplateRef (cc_Spec c))]),
     (indexConfigMapInfraTemplateRef, \<lambda>c. case sp_ConfigMapTemplateRef (cc_Spec c) of
        None \<Rightarrow> [] | Some r \<Rightarrow> [tr_Name (dr_Infra r)]),
     (indexConfigMapClientTemplateRef, \<lambda>c. case sp_ConfigMapTemplateRef (cc_Spec c) of
        None \<Rightarrow> [] | Some r \<Rightarrow> ref_name (dr_Client r)),
     (indexVaultClaimTemplateRef, \<lambda>c. ref_name (sp_VaultClaimTemplateRef (cc_Spec c))),
     (indexVaultSecretClaimTemplateRef, \<lambda>c. ref_name (sp_VaultSecretClaimTemplateRef (cc_Spec c))),
     (indexS3BucketClaimTemplateRef, \<lambda>c. ref_name (sp_S3BucketClaimTemplateRef (cc_Spec c)))]"

text \<open>
  \<open>SetupIndexers\<close> registers the table entry by entry and stops at the first error; the registry of
  the manager is a parameter.
\<close>

primrec registerIndexes ::
  "(string \<Rightarrow> (ClusterClaim \<Rightarrow> string list) \<Rightarrow> 'r \<Rightarrow> goerror option \<times> 'r) \<Rightarrow>
   (string \<times> (ClusterClaim \<Rightarrow> string list)) list \<Rightarrow> 'r \<Rightarrow> goerror option \<times> 'r" where
  "registerIndexes indexField [] r = (None, r)"
| "registerIndexes indexField (idx # rest) r = (case indexField (fst idx) (snd idx) r of
     (Some err, r') \<Rightarrow> (Some err, r')
   | (None, r') \<Rightarrow> registerIndexes indexField rest r')"

definition SetupIndexers ::
  "(string \<Rightarrow> (ClusterClaim \<Rightarrow> string list) \<Rightarrow> 'r \<Rightarrow> goerror option \<times> 'r) \<Rightarrow> 'r \<Rightarrow> goerror option \<times> 'r" where
  "SetupIndexers indexField r = registerIndexes indexField indexes r"

section \<open>Map functions\<close>

definition claim_key :: "ClusterClaim \<Rightarrow> string" where
  "claim_key c = cc_Namespace c @ ''/'' @ cc_Name c"

definition request_of :: "ClusterClaim \<Rightarrow> ObjectKey" where
  "request_of c = key_of (cc_Name c) (cc_Namespace c)"

text \<open>The inner loop: \<open>seen\<close> holds the keys already requested.\<close>

fun addRequests :: "ClusterClaim list \<Rightarrow> string list \<times> ObjectKey list \<Rightarrow> string list \<times> ObjectKey list" where
  "addRequests [] (seen, requests) = (seen, requests)"
| "addRequests (c # cs) (seen, requests) =
     (if claim_key c \<in> set seen then addRequests cs (seen, requests)
      else addRequests cs (claim_key c # seen, requests @ [request_of c]))"

primrec listByIndexes ::
  "'w env \<Rightarrow> string \<Rightarrow> string list \<Rightarrow> string list \<times> ObjectKey list \<Rightarrow> ('w, 'z, ObjectKey list) op" where
  "listByIndexes E templateName [] acc = ret (snd acc)"
| "listByIndexes E templateName (field # rest) acc = do {
     r \<leftarrow> kList E field templateName;
     case r of
       Inl err \<Rightarrow> listByIndexes E templateName rest acc
     | Inr claims \<Rightarrow> listByIndexes E templateName rest (addRequests claims acc)
   }"

definition findClaimsForTemplate :: "'w env \<Rightarrow> string \<Rightarrow> ('w, 'z, ObjectKey list) op" where
  "findClaimsForTemplate E templateName = listByIndexes E templateName allIndexFields ([], [])"

definition findClaimForSecret :: "ObjectKey \<Rightarrow> ObjectKey list" where
  "findClaimForSecret obj =
    (let secretName = k_Name obj; suffix = ''-infra-kubeconfig'' in
     if \<not> HasSuffix secretName suffix then []
     else [key_of (TrimSuffix secretName suffix) (k_Namespace obj)])"

definition kubeconfigSecretPredicate :: "ObjectKey \<Rightarrow> bool" where
  "kubeconfigSecretPredicate obj \<longleftrightarrow> HasSuffix (k_Name obj) ''-infra-kubeconfig''"

section \<open>Facts\<close>

lemma HasSuffix_append [simp]: "HasSuffix (s @ suf) suf"
  by (simp add: HasSuffix_def)

lemma TrimSuffix_append [simp]: "TrimSuffix (s @ suf) suf = s"
  by (simp add: TrimSuffix_def)

lemma TrimSuffix_restore: "HasSuffix s suf \<Longrightarrow> TrimSuffix s suf @ suf = s"
  unfolding HasSuffix_def TrimSuffix_def by (metis append_take_drop_id HasSuffix_def)

lemma addRequests_append_requests:
  "\<exists>zs. snd (addRequests cs acc) = snd acc @ zs"
  by (induction cs acc rule: addRequests.induct) auto

text \<open>A name with no slash is recovered from the key, so keys determine requests.\<close>

lemma claim_key_inj:
  assumes "CHR ''/'' \<notin> set (cc_Namespace c)" and "CHR ''/'' \<notin> set (cc_Namespace d)"
    and "claim_key c = claim_key d"
  shows "request_of c = request_of d"
proof -
  have eq: "cc_Namespace c @ CHR ''/'' # cc_Name c = cc_Namespace d @ CHR ''/'' # cc_Name d"
    using assms(3) by (simp add: claim_key_def)
  have tw: "takeWhile (\<lambda>x. x \<noteq> CHR ''/'') (xs @ CHR ''/'' # ys) = xs" if "CHR ''/'' \<notin> set xs" for xs ys
    using that by (induction xs) auto
  have "cc_Namespace c = cc_Namespace d"
    using arg_cong [OF eq, where f = "takeWhile (\<lambda>x. x \<noteq> CHR ''/'')"] assms(1,2) by (simp add: tw)
  with eq show ?thesis by (simp add: request_of_def)
qed

text \<open>
  The state of the inner loop: what was requested is what was seen, in the same order, each once.
  \<open>src\<close> is the list of claims looked at so far.
\<close>

definition acc_ok :: "ClusterClaim list \<Rightarrow> string list \<times> ObjectKey list \<Rightarrow> bool" where
  "acc_ok src acc \<longleftrightarrow> distinct (fst acc) \<and> set (fst acc) = claim_key ` set src \<and>
     set (snd acc) \<subseteq> request_of ` set src \<and>
     list_all2 (\<lambda>k r. k = k_Namespace r @ ''/'' @ k_Name r) (rev (fst acc)) (snd acc)"

lemma acc_ok_init [simp]: "acc_ok [] ([], [])"
  by (simp add: acc_ok_def)

lemma acc_ok_step: "acc_ok src acc \<Longrightarrow> acc_ok (src @ cs) (addRequests cs acc)"
proof (induction cs acc arbitrary: src rule: addRequests.induct)
  case (1 seen requests)
  then show ?case by simp
next
  case (2 c cs seen requests)
  show ?case
  proof (cases "claim_key c \<in> set seen")
    case True
    then have "acc_ok (src @ [c]) (seen, requests)"
      using "2.prems" by (auto simp: acc_ok_def)
    with "2.IH"(1) True show ?thesis by fastforce
  next
    case False
    then have "acc_ok (src @ [c]) (claim_key c # seen, requests @ [request_of c])"
      using "2.prems"
      by (auto simp: acc_ok_def claim_key_def request_of_def key_of_def intro: list_all2_appendI)
    with "2.IH"(2) False show ?thesis by fastforce
  qed
qed

lemma acc_ok_distinct:
  assumes "acc_ok src acc"
  shows "distinct (snd acc)"
proof -
  have "map (\<lambda>r. k_Namespace r @ ''/'' @ k_Name r) (snd acc) = rev (fst acc)"
    using assms by (auto simp: acc_ok_def list_eq_iff_nth_eq list_all2_conv_all_nth)
  then have "distinct (map (\<lambda>r. k_Namespace r @ ''/'' @ k_Name r) (snd acc))"
    using assms by (simp add: acc_ok_def)
  then show ?thesis by (rule distinct_map [THEN iffD1, THEN conjunct1])
qed

lemma acc_ok_complete:
  assumes "acc_ok src acc" and "c \<in> set src"
  shows "\<exists>r \<in> set (snd acc). k_Namespace r @ ''/'' @ k_Name r = claim_key c"
proof -
  have "map (\<lambda>r. k_Namespace r @ ''/'' @ k_Name r) (snd acc) = rev (fst acc)"
    using assms(1) by (auto simp: acc_ok_def list_eq_iff_nth_eq list_all2_conv_all_nth)
  then have "set (fst acc) = (\<lambda>r. k_Namespace r @ ''/'' @ k_Name r) ` set (snd acc)"
    by (metis set_map set_rev)
  moreover have "claim_key c \<in> set (fst acc)"
    using assms by (simp add: acc_ok_def)
  ultimately show ?thesis by force
qed

end
