(* ===== verification/Pipeline_Calls.thy ===== *)
theory Pipeline_Calls
  imports Watches
begin

text \<open>
  Call discipline of the pipeline: which requests a run of \<open>executePipeline\<close> can make at all. Each
  operation of the code has one rule, which says that it keeps the claim's metadata and spec and
  only makes requests that satisfy \<open>pipeline_call\<close>; the rules follow the syntax of the code, so the
  steps are discharged by applying them.
\<close>

section \<open>The requests a pipeline run may make\<close>

text \<open>Every template name the indexes know of a claim.\<close>

definition indexed_names :: "ClusterClaim \<Rightarrow> string list" where
  "indexed_names c = concat (map (\<lambda>idx. snd idx c) indexes)"

text \<open>The resources a claim manages in its own namespace: kind and name.\<close>

definition managed :: "ClusterClaim \<Rightarrow> (GroupVersionKind \<times> string) list" where
  "managed c = [
     (ApplicationGVK, ApplicationName (cc_Name c)),
     (CertificateSetGVK, CertificateSetName (cc_Name c) ''infra''),
     (CertificateSetGVK, CertificateSetName (cc_Name c) ''client''),
     (ClusterGVK, ClusterName (cc_Name c) ''infra''),
     (ClusterGVK, ClusterName (cc_Name c) ''client''),
     (CcmCsrcGVK, CcmCsrcName (cc_Name c)),
     (VaultClaimGVK, VaultClaimName (cc_Name c)),
     (VaultSecretClaimGVK, VaultSecretClaimName (cc_Name c)),
     (S3BucketClaimGVK, S3BucketClaimName (cc_Name c))]"

definition remote_names :: "string list" where
  "remote_names = [ConfigMapName ''infra'', ConfigMapName ''system'', ConfigMapName ''client'']"

text \<open>An object the pipeline applies: built for this claim, under a managed name, in its namespace.\<close>

definition built_for :: "lib \<Rightarrow> ClusterClaim \<Rightarrow> gomap \<Rightarrow> bool" where
  "built_for L c obj \<longleftrightarrow> (\<exists>tmpl rendered name. name \<in> snd ` set (managed c) \<and>
     obj = buildDesiredResource L c tmpl rendered name (cc_Namespace c))"

text \<open>What a remote ConfigMap written by the operator looks like.\<close>

definition config_for :: "lib \<Rightarrow> ClusterClaim \<Rightarrow> ConfigMap \<Rightarrow> bool" where
  "config_for L c cm \<longleftrightarrow> (\<exists>rendered name ns.
     cmap_Labels cm = cmap_Labels (desiredConfigMap L c rendered name ns) \<and>
     cmap_Annotations cm = cmap_Annotations (desiredConfigMap L c rendered name ns) \<and>
     cmap_Data cm = cmap_Data (desiredConfigMap L c rendered name ns))"

definition pipeline_call :: "'w env \<Rightarrow> ClusterClaim \<Rightarrow> call \<Rightarrow> bool" where
  "pipeline_call E c x = (case x of
     CGetTemplate n _ \<Rightarrow> n \<in> set (indexed_names c)
   | CGetSecret k _ \<Rightarrow> k = key_of (KubeconfigSecretName (cc_Name c)) (cc_Namespace c)
   | CGet g k _ \<Rightarrow> True
   | CUpdate g k obj _ \<Rightarrow> (g, k_Name k) \<in> set (managed c) \<and> k_Namespace k = cc_Namespace c
   | CApply obj _ \<Rightarrow> built_for (e_lib E) c obj
   | CUpdateStatus d _ \<Rightarrow> same_spec c d
   | CEvent _ _ _ \<Rightarrow> True
   | CNewClient _ _ \<Rightarrow> sp_ConfigMapTemplateRef (cc_Spec c) \<noteq> None
   | CRemoteGet _ k _ \<Rightarrow> k_Name k \<in> set remote_names \<and> k_Namespace k = remoteNamespaceForClaim E c
   | CRemoteCreate _ cm _ \<Rightarrow> cmap_Name cm \<in> set remote_names \<and>
       cmap_Namespace cm = remoteNamespaceForClaim E c \<and> cmap_OwnerReferences cm = [] \<and>
       config_for (e_lib E) c cm
   | CRemoteUpdate _ cm _ \<Rightarrow> config_for (e_lib E) c cm
   | CGetClaim _ _ \<Rightarrow> False
   | CList _ _ _ \<Rightarrow> False
   | CDelete _ _ _ \<Rightarrow> False
   | CUpdateClaim _ _ \<Rightarrow> False
   | CRemoteDelete _ _ _ \<Rightarrow> False)"

lemma pipeline_call_simps [simp]:
  "pipeline_call E c (CGetTemplate n r) \<longleftrightarrow> n \<in> set (indexed_names c)"
  "pipeline_call E c (CGetSecret k s) \<longleftrightarrow> k = key_of (KubeconfigSecretName (cc_Name c)) (cc_Namespace c)"
  "pipeline_call E c (CGet g k o1)"
  "pipeline_call E c (CUpdate g k obj e) \<longleftrightarrow>
     (g, k_Name k) \<in> set (managed c) \<and> k_Namespace k = cc_Namespace c"
  "pipeline_call E c (CApply obj e) \<longleftrightarrow> built_for (e_lib E) c obj"
  "pipeline_call E c (CUpdateStatus d e) \<longleftrightarrow> same_spec c d"
  "pipeline_call E c (CEvent t u v)"
  "pipeline_call E c (CNewClient cfg rc) \<longleftrightarrow> sp_ConfigMapTemplateRef (cc_Spec c) \<noteq> None"
  "pipeline_call E c (CRemoteGet cl k cmr) \<longleftrightarrow>
     k_Name k \<in> set remote_names \<and> k_Namespace k = remoteNamespaceForClaim E c"
  "pipeline_call E c (CRemoteCreate cl cm e) \<longleftrightarrow> cmap_Name cm \<in> set remote_names \<and>
     cmap_Namespace cm = remoteNamespaceForClaim E c \<and> cmap_OwnerReferences cm = [] \<and>
     config_for (e_lib E) c cm"
  "pipeline_call E c (CRemoteUpdate cl cm e) \<longleftrightarrow> config_for (e_lib E) c cm"
  "\<not> pipeline_call E c (CGetClaim k cr)"
  "\<not> pipeline_call E c (CList f v lr)"
  "\<not> pipeline_call E c (CDelete g k e)"
  "\<not> pipeline_call E c (CUpdateClaim d e)"
  "\<not> pipeline_call E c (CRemoteDelete cl k e)"
  by (simp_all add: pipeline_call_def)

section \<open>Status operations\<close>

lemma same_spec_setPhase [simp]: "same_spec c (setPhase p c)"
  by (simp add: same_spec_def setPhase_def)

lemma same_spec_putCondition [simp]: "same_spec c (putCondition L now t s r m c)"
  by (simp add: same_spec_def putCondition_def)

lemma same_spec_clearPaused [simp]: "same_spec c (clearPausedCondition L c)"
  by (simp add: same_spec_def clearPausedCondition_def)

lemma same_spec_ensureClusters [simp]: "same_spec c (ensureClusters c)"
  by (simp add: same_spec_def ensureClusters_def)

lemma same_spec_modClusters [simp]: "same_spec c (modClusters f c)"
  by (simp add: same_spec_def modClusters_def)

lemma same_spec_status [simp]: "same_spec c (c\<lparr>cc_Status := x\<rparr>)"
  by (simp add: same_spec_def)

lemma stays_setCondition [keeps_rules]: "stays c \<Phi> (setCondition E t s r m)"
  unfolding setCondition_def by (intro stays_control keeps_rules wi.keeps_bind) simp_all

lemma stays_setReady [keeps_rules]: "stays c \<Phi> (setReady E)"
  unfolding setReady_def by (intro stays_control keeps_rules wi.keeps_bind) simp_all

lemma stays_setFailed [keeps_rules]: "stays c \<Phi> (setFailed E r e)"
  unfolding setFailed_def by (intro stays_control keeps_rules wi.keeps_bind) simp_all

lemma stays_setWaiting [keeps_rules]: "stays c \<Phi> (setWaiting E t m)"
  unfolding setWaiting_def by (intro stays_control keeps_rules wi.keeps_bind) simp_all

lemma stays_mirrorResourceStatus [keeps_rules]:
  "stays c (pipeline_call E c) (mirrorResourceStatus E g k n ns)"
  unfolding mirrorResourceStatus_def by (intro stays_control keeps_rules wi.keeps_bind) simp_all

lemma stays_mirrors [keeps_rules]:
  "stays c (pipeline_call E c) (mirrorVaultStatus E)"
  "stays c (pipeline_call E c) (mirrorVaultSecretStatus E)"
  "stays c (pipeline_call E c) (mirrorS3BucketStatus E)"
  unfolding mirrorVaultStatus_def mirrorVaultSecretStatus_def mirrorS3BucketStatus_def
  by (intro stays_control keeps_rules wi.keeps_bind conjI; simp)+

lemma stays_fetchControlPlaneVersion [keeps_rules]:
  "stays c (pipeline_call E c) (fetchControlPlaneVersion E cluster)"
  unfolding fetchControlPlaneVersion_def by (intro stays_control keeps_rules wi.keeps_bind) simp_all

lemma stays_syncClusterStatuses [keeps_rules]:
  "stays c (pipeline_call E c) (syncClusterStatuses E i cl)"
  unfolding syncClusterStatuses_def by (intro stays_control keeps_rules wi.keeps_bind) simp_all

section \<open>Resource operations\<close>

lemma stays_getResource [keeps_rules]: "stays c (pipeline_call E c) (getResource E g n ns)"
  unfolding getResource_def by (intro stays_control keeps_rules wi.keeps_bind) simp_all

lemma stays_ensureResourceFinalizer [keeps_rules]:
  "(g, n) \<in> set (managed c) \<Longrightarrow> ns = cc_Namespace c \<Longrightarrow>
   stays c (pipeline_call E c) (ensureResourceFinalizer E g n ns)"
  unfolding ensureResourceFinalizer_def by (intro stays_control keeps_rules wi.keeps_bind) (simp_all add: key_of_def)

lemma buildDesired_same:
  "same_spec c d \<Longrightarrow> buildDesiredResource L d t r n ns = buildDesiredResource L c t r n ns"
  by (simp add: buildDesiredResource_def same_spec_def)

lemma desiredConfigMap_same:
  "same_spec c d \<Longrightarrow> desiredConfigMap L d r n ns = desiredConfigMap L c r n ns"
  by (simp add: desiredConfigMap_def same_spec_def)

lemma stays_ensureResource [keeps_rules]:
  "t \<in> set (indexed_names c) \<Longrightarrow> n \<in> snd ` set (managed c) \<Longrightarrow> ns = cc_Namespace c \<Longrightarrow>
   stays c (pipeline_call E c) (ensureResource E t n ns)"
  unfolding ensureResource_def
  by (intro stays_control keeps_rules wi.keeps_bind) (auto simp: buildDesired_same built_for_def)

text \<open>The cache operations change neither the claim nor the history.\<close>

lemma stays_cmgr [keeps_rules]: "stays c \<Phi> (State_Monad.update (\<lambda>s. s\<lparr>cmgr := f s\<rparr>))"
  by (auto simp: state_io_rel_def within_def extends_def)

lemma stays_get [keeps_rules]: "stays c \<Phi> State_Monad.get"
  by (rule wi.keeps_get)

lemma stays_lookupClient [keeps_rules]: "stays c \<Phi> (lookupClient E k h)"
  unfolding lookupClient_def by (intro stays_control keeps_rules wi.keeps_bind)

lemma stays_GetClient [keeps_rules]:
  "(\<And>cfg r. \<Phi> (CNewClient cfg r)) \<Longrightarrow> stays c \<Phi> (GetClient E secret)"
  unfolding GetClient_def Let_def by (intro stays_control keeps_rules wi.keeps_bind) simp_all

lemma stays_applyRemoteConfigMap [keeps_rules]:
  "t \<in> set (indexed_names c) \<Longrightarrow> n \<in> set remote_names \<Longrightarrow> ns = remoteNamespaceForClaim E c \<Longrightarrow>
   stays c (pipeline_call E c) (applyRemoteConfigMap E cl t n ns)"
  unfolding applyRemoteConfigMap_def Let_def
  by (intro stays_control keeps_rules wi.keeps_bind)
    (auto simp: key_of_def desiredConfigMap_same, auto simp: desiredConfigMap_def config_for_def Let_def)


section \<open>Steps\<close>

lemma stays_orFail [keeps_rules]: "stays c \<Phi> m \<Longrightarrow> stays c \<Phi> k \<Longrightarrow> stays c \<Phi> (orFail m k)"
  unfolding orFail_def by (intro stays_control keeps_rules wi.keeps_bind)

lemma stays_orRemoteFail [keeps_rules]: "stays c \<Phi> m \<Longrightarrow> stays c \<Phi> k \<Longrightarrow> stays c \<Phi> (orRemoteFail E f m k)"
  unfolding orRemoteFail_def by (intro stays_control keeps_rules wi.keeps_bind)

lemma stays_ensureDependent [keeps_rules]:
  "(\<And>r. ref = Some r \<Longrightarrow> tr_Name r \<in> set (indexed_names c)) \<Longrightarrow> (g, n) \<in> set (managed c) \<Longrightarrow>
   ns = cc_Namespace c \<Longrightarrow> stays c (pipeline_call E c) (ensureDependent E kind g ref n ns ev ct)"
  unfolding ensureDependent_def Let_def
  by (intro stays_control keeps_rules wi.keeps_bind) (auto intro: rev_image_eqI)

lemma stays_waitDependent [keeps_rules]:
  "stays c (pipeline_call E c) (waitDependent E kind g ref n ns ev ct)"
  unfolding waitDependent_def Let_def
  by (intro stays_control keeps_rules wi.keeps_bind) simp_all

lemmas claim_tables = indexed_names_def indexes_def ref_name_def managed_def remote_names_def same_spec_def

lemma stays_steps:
  "stays c (pipeline_call E c) (stepApplication E)"
  "stays c (pipeline_call E c) (stepCertificateSetInfra E)"
  "stays c (pipeline_call E c) (stepWaitCertSetReady E)"
  "stays c (pipeline_call E c) (stepClusterInfra E)"
  "stays c (pipeline_call E c) (stepWaitInfraProvisioned E)"
  "stays c (pipeline_call E c) (stepCertificateSetClient E)"
  "stays c (pipeline_call E c) (stepWaitInfraCPReady E)"
  "stays c (pipeline_call E c) (stepCcmCsrc E)"
  "stays c (pipeline_call E c) (stepClusterClient E)"
  "stays c (pipeline_call E c) (stepWaitClientCPReady E)"
  "stays c (pipeline_call E c) (stepCcmCsrcUpdate E)"
  "stays c (pipeline_call E c) (stepWaitVaultKmsReady E)"
  unfolding stepApplication_def stepCertificateSetInfra_def stepWaitCertSetReady_def stepClusterInfra_def
    stepWaitInfraProvisioned_def stepCertificateSetClient_def stepWaitInfraCPReady_def stepCcmCsrc_def
    stepClusterClient_def stepWaitClientCPReady_def stepCcmCsrcUpdate_def stepWaitVaultKmsReady_def Let_def
  by (intro stays_control keeps_rules wi.keeps_bind conjI; simp add: claim_tables image_iff)+

lemma stays_vault_steps:
  "stays c (pipeline_call E c) (stepEnsureVaultClaim E)"
  "stays c (pipeline_call E c) (stepWaitVaultClaim E)"
  "stays c (pipeline_call E c) (stepEnsureVaultSecretClaim E)"
  "stays c (pipeline_call E c) (stepWaitVaultSecretClaim E)"
  "stays c (pipeline_call E c) (stepEnsureS3BucketClaim E)"
  "stays c (pipeline_call E c) (stepWaitS3BucketClaim E)"
  unfolding stepEnsureVaultClaim_def stepWaitVaultClaim_def stepEnsureVaultSecretClaim_def
    stepWaitVaultSecretClaim_def stepEnsureS3BucketClaim_def stepWaitS3BucketClaim_def
  by (intro stays_control keeps_rules wi.keeps_bind conjI; simp add: claim_tables)+

lemma stays_stepRemoteConfigMaps:
  "stays c (pipeline_call E c) (stepRemoteConfigMaps E)"
  unfolding stepRemoteConfigMaps_def Let_def
  by (intro stays_control keeps_rules wi.keeps_bind)
    (auto simp: claim_tables remoteNamespaceForClaim_def)

lemma stays_pipelineSteps: "(n, m) \<in> set (pipelineSteps E) \<Longrightarrow> stays c (pipeline_call E c) m"
  using stays_steps stays_vault_steps stays_stepRemoteConfigMaps
  by (auto simp: pipelineSteps_def)

lemma stays_preparePipeline: "stays c (pipeline_call E c) (preparePipeline E u)"
  unfolding preparePipeline_def tryGet_def
  by (intro stays_control keeps_rules wi.keeps_bind) simp_all

end
