(* ===== verification/Pipeline_Runs.thy ===== *)
theory Pipeline_Runs
  imports Pipeline_Calls
begin

text \<open>
  What a run of the pipeline has achieved when it gets somewhere. \<open>advance\<close> runs the steps up to the
  first that does not proceed and \<open>finish\<close> is the code that handles how the loop ended; the loop of
  the source is their composition. \<open>passed\<close> is the evidence a step leaves in the history of calls
  when it proceeds: what it applied, or the object it found ready.
\<close>

section \<open>The loop in two halves\<close>

datatype stop = AllDone | StoppedAt string step_out

primrec advance :: "'w step list \<Rightarrow> ('w, stop) pop" where
  "advance [] = ret AllDone"
| "advance (p # rest) = do {
     out \<leftarrow> snd p;
     if out = proceed then advance rest else ret (StoppedAt (fst p) out)
   }"

definition finish :: "'w env \<Rightarrow> ClusterClaimStatus \<Rightarrow> stop \<Rightarrow> ('w, rec_out) pop" where
  "finish E oldStatus stop = (case stop of
     AllDone \<Rightarrow> runSteps E oldStatus []
   | StoppedAt name out \<Rightarrow> runSteps E oldStatus [(name, ret out)])"

lemma bind_cong: "(\<And>a. k a = k' a) \<Longrightarrow> State_Monad.bind m k = State_Monad.bind m k'"
  by presburger

lemma runSteps_Cons:
  "runSteps E oldStatus (p # rest) = do {
     out \<leftarrow> snd p;
     if out = proceed then runSteps E oldStatus rest else finish E oldStatus (StoppedAt (fst p) out)
   }"
  unfolding runSteps.simps(2) [of E oldStatus p rest]
  by (rule bind_cong) (auto simp: finish_def Let_def cong: if_cong split: step_out.splits option.splits intro: StepResult.exhaust)

lemma runSteps_advance: "runSteps E oldStatus steps = State_Monad.bind (advance steps) (finish E oldStatus)"
proof (induction steps)
  case Nil
  then show ?case by (simp add: finish_def)
next
  case (Cons p rest)
  then show ?case
    unfolding runSteps_Cons advance.simps bind_assoc by (intro bind_cong) simp
qed

lemma advance_append:
  "advance (xs @ ys) = do { r \<leftarrow> advance xs; if r = AllDone then advance ys else ret r }"
  by (induction xs) (auto intro!: arg_cong [where f = "State_Monad.bind _"] simp: fun_eq_iff)

text \<open>The state in which the step called \<open>name\<close> starts, if the run gets there.\<close>

definition starts_at :: "'w env \<Rightarrow> string \<Rightarrow> 'w pst \<Rightarrow> 'w pst option" where
  "starts_at E name s = (case run_state (advance (takeWhile (\<lambda>p. fst p \<noteq> name) (pipelineSteps E))) s of
     (r, t) \<Rightarrow> if r = AllDone then Some t else None)"

section \<open>Evidence left by a step\<close>

definition observed :: "call list \<Rightarrow> GroupVersionKind \<Rightarrow> ObjectKey \<Rightarrow> (gomap \<Rightarrow> bool) \<Rightarrow> bool" where
  "observed h gvk k P \<longleftrightarrow> (\<exists>obj. CGet gvk k (Inr obj) \<in> set h \<and> P obj)"

text \<open>The object \<open>name\<close> was applied, rendered from the template \<open>t\<close> as it was read.\<close>

definition applied :: "lib \<Rightarrow> ClusterClaim \<Rightarrow> string \<Rightarrow> string \<Rightarrow> call list \<Rightarrow> bool" where
  "applied L c t name h \<longleftrightarrow> (\<exists>tmpl ctx rendered. CGetTemplate t (Inr tmpl) \<in> set h \<and>
     Render L (ts_Value (tm_Spec tmpl)) ctx = Inr rendered \<and>
     CApply (buildDesiredResource L c tmpl rendered name (cc_Namespace c)) None \<in> set h)"

text \<open>
  The remote ConfigMap \<open>name\<close>, rendered from the template \<open>t\<close> as it was read, was absent and has been
  created, or was there with the same content, or has been updated.
\<close>

definition same_content :: "ConfigMap \<Rightarrow> ConfigMap \<Rightarrow> bool" where
  "same_content existing cm \<longleftrightarrow> map_DeepEqual (cmap_Labels existing) (cmap_Labels cm) \<and>
     map_DeepEqual (cmap_Annotations existing) (cmap_Annotations cm) \<and>
     map_DeepEqual (cmap_Data existing) (cmap_Data cm)"

definition with_content :: "ConfigMap \<Rightarrow> ConfigMap \<Rightarrow> ConfigMap" where
  "with_content existing cm = existing\<lparr>cmap_Labels := cmap_Labels cm, cmap_Annotations := cmap_Annotations cm,
     cmap_Data := cmap_Data cm\<rparr>"

definition synced :: "lib \<Rightarrow> ClusterClaim \<Rightarrow> string \<Rightarrow> string \<Rightarrow> string \<Rightarrow> call list \<Rightarrow> bool" where
  "synced L c t name ns h \<longleftrightarrow> (\<exists>tmpl ctx rendered cl. CGetTemplate t (Inr tmpl) \<in> set h \<and>
     Render L (ts_Value (tm_Spec tmpl)) ctx = Inr rendered \<and>
     (let cm = desiredConfigMap L c rendered name ns; k = key_of name ns in
       (\<exists>e. CRemoteGet cl k (Inl e) \<in> set h \<and> IsNotFound L e \<and> CRemoteCreate cl cm None \<in> set h) \<or>
       (\<exists>x. CRemoteGet cl k (Inr x) \<in> set h \<and>
          (same_content x cm \<or> CRemoteUpdate cl (with_content x cm) None \<in> set h))))"

definition kms_ready :: "lib \<Rightarrow> gomap \<Rightarrow> bool" where
  "kms_ready L vc = (case NestedSlice L vc [''spec'', ''transit'', ''keys''] of (keys, found, err) \<Rightarrow>
     err = None \<and> (\<not> found \<or> keys = [] \<or>
       hasTrueCondition L vc ''TransitKeysReady'' \<and> hasTrueCondition L vc ''RolesApplied''))"

definition passed :: "'w env \<Rightarrow> ClusterClaim \<Rightarrow> string \<Rightarrow> call list \<Rightarrow> bool" where
  "passed E c name h =
    (let L = e_lib E; n = cc_Name c; ns = cc_Namespace c; sp = cc_Spec c;
         phase_ready = (\<lambda>obj. nested_string L obj [''status'', ''phase''] = PhaseReady);
         cp_init = (\<lambda>obj. nested_bool L obj [''status'', ''initialization'', ''controlPlaneInitialized'']) in
     if name = ''Application'' then applied L c (tr_Name (sp_ObserveTemplateRef sp)) (ApplicationName n) h
     else if name = ''EnsureS3BucketClaim'' then
       (case sp_S3BucketClaimTemplateRef sp of None \<Rightarrow> True | Some r \<Rightarrow> applied L c (tr_Name r) (S3BucketClaimName n) h)
     else if name = ''CertificateSetInfra'' then
       applied L c (tr_Name (dr_Infra (sp_CertificateSetTemplateRef sp))) (CertificateSetName n ''infra'') h
     else if name = ''WaitCertSetReady'' then
       observed h CertificateSetGVK (key_of (CertificateSetName n ''infra'') ns)
         (\<lambda>obj. isConditionTrue L obj ''Ready'')
     else if name = ''ClusterInfra'' then
       applied L c (tr_Name (dr_Infra (sp_ClusterTemplateRef sp))) (ClusterName n ''infra'') h
     else if name = ''WaitInfraProvisioned'' then
       observed h ClusterGVK (key_of (ClusterName n ''infra'') ns)
         (\<lambda>obj. nested_bool L obj [''status'', ''initialization'', ''infrastructureProvisioned''])
     else if name = ''CertificateSetClient'' then
       client_enabled c \<longrightarrow> (case dr_Client (sp_CertificateSetTemplateRef sp) of None \<Rightarrow> False
       | Some r \<Rightarrow> applied L c (tr_Name r) (CertificateSetName n ''client'') h)
     else if name = ''WaitInfraCPReady'' then observed h ClusterGVK (key_of (ClusterName n ''infra'') ns) cp_init
     else if name = ''EnsureVaultClaim'' then
       (case sp_VaultClaimTemplateRef sp of None \<Rightarrow> True | Some r \<Rightarrow> applied L c (tr_Name r) (VaultClaimName n) h)
     else if name = ''EnsureVaultSecretClaim'' then
       (case sp_VaultSecretClaimTemplateRef sp of None \<Rightarrow> True | Some r \<Rightarrow> applied L c (tr_Name r) (VaultSecretClaimName n) h)
     else if name = ''CcmCsrc'' then applied L c (tr_Name (sp_CcmCsrTemplateRef sp)) (CcmCsrcName n) h
     else if name = ''RemoteConfigMaps'' then (case sp_ConfigMapTemplateRef sp of None \<Rightarrow> True | Some r \<Rightarrow>
       let rns = remoteNamespaceForClaim E c in
       synced L c (tr_Name (dr_Infra r)) (ConfigMapName ''infra'') rns h \<and>
       (str_Contains (is_Role (sp_Infra sp)) ''system'' \<longrightarrow> synced L c (tr_Name (dr_Infra r)) (ConfigMapName ''system'') rns h) \<and>
       (case dr_Client r of None \<Rightarrow> True
        | Some q \<Rightarrow> client_enabled c \<longrightarrow> synced L c (tr_Name q) (ConfigMapName ''client'') rns h))
     else if name = ''WaitVaultKmsReady'' then
       sp_VaultClaimTemplateRef sp = None \<or> observed h VaultClaimGVK (key_of (VaultClaimName n) ns) (kms_ready L)
     else if name = ''ClusterClient'' then
       client_enabled c \<longrightarrow> (case dr_Client (sp_ClusterTemplateRef sp) of None \<Rightarrow> False
       | Some r \<Rightarrow> applied L c (tr_Name r) (ClusterName n ''client'') h)
     else if name = ''WaitClientCPReady'' then
       \<not> client_enabled c \<or> observed h ClusterGVK (key_of (ClusterName n ''client'') ns) cp_init
     else if name = ''CcmCsrcUpdate'' then 
       \<not> client_enabled c \<or> applied L c (tr_Name (sp_CcmCsrTemplateRef sp)) (CcmCsrcName n) h
     else if name = ''WaitVaultClaim'' then
       sp_VaultClaimTemplateRef sp = None \<or> observed h VaultClaimGVK (key_of (VaultClaimName n) ns) phase_ready
     else if name = ''WaitVaultSecretClaim'' then
       sp_VaultSecretClaimTemplateRef sp = None \<or>
       observed h VaultSecretClaimGVK (key_of (VaultSecretClaimName n) ns) phase_ready
     else if name = ''WaitS3BucketClaim'' then
       sp_S3BucketClaimTemplateRef sp = None \<or>
       observed h S3BucketClaimGVK (key_of (S3BucketClaimName n) ns) phase_ready
     else True)"

lemma observed_mono: "observed h g k P \<Longrightarrow> set h \<subseteq> set h' \<Longrightarrow> observed h' g k P"
  by (auto simp: observed_def)

lemma applied_mono: "applied L c t n h \<Longrightarrow> set h \<subseteq> set h' \<Longrightarrow> applied L c t n h'"
  by (auto simp: applied_def)

lemma synced_mono: "synced L c t n ns h \<Longrightarrow> set h \<subseteq> set h' \<Longrightarrow> synced L c t n ns h'"
  unfolding synced_def Let_def by blast

lemma passed_mono: "passed E c n h \<Longrightarrow> set h \<subseteq> set h' \<Longrightarrow> passed E c n h'"
  unfolding passed_def Let_def
  by (simp split: if_splits) (auto intro: observed_mono applied_mono synced_mono split: option.splits)

text \<open>The calls made between two states.\<close>

definition new_calls :: "('w, 'z) st_scheme \<Rightarrow> ('w, 'z) st_scheme \<Rightarrow> call list" where
  "new_calls s t = drop (length (calls s)) (calls t)"

lemma new_calls_append [simp]: "calls t = calls s @ h \<Longrightarrow> new_calls s t = h"
  by (simp add: new_calls_def)

lemma new_calls_trans:
  assumes "extends \<Phi> s t" and "extends \<Psi> t u"
  shows "new_calls s u = new_calls s t @ new_calls t u"
  using assms by (auto simp: extends_def new_calls_def)

section \<open>Every step leaves its evidence\<close>

abbreviation any_call :: "call \<Rightarrow> bool" where
  "any_call \<equiv> \<lambda>_. True"

lemma stays_any: "stays c \<Phi> m \<Longrightarrow> stays c any_call m"
  by (erule stays_mono) simp

lemma wp_stays:
  assumes "stays c \<Phi> m" and "same_spec c (claim s)"
  shows "wp m (\<lambda>_ t. same_spec c (claim t) \<and> extends \<Phi> s t) s"
  by (rule wp_mono [OF wp_io_rel [OF assms(1)]]) (use assms(2) in \<open>simp add: within_def\<close>)

text \<open>Evidence that grows with the history survives whatever runs next.\<close>

lemma wp_evidence:
  assumes "stays c \<Phi> m" and "same_spec c (claim u)" and "extends \<Psi> s u" and "P (new_calls s u)"
    and mono: "\<And>h h'. P h \<Longrightarrow> set h \<subseteq> set h' \<Longrightarrow> P h'"
  shows "wp m (\<lambda>_ t. P (new_calls s t)) u"
proof (rule wp_mono [OF wp_stays [OF assms(1,2)]])
  fix t
  assume "same_spec c (claim t) \<and> extends \<Phi> u t"
  then have "new_calls s t = new_calls s u @ new_calls u t"
    using assms(3) by (blast intro: new_calls_trans)
  then show "P (new_calls s t)"
    using mono [OF assms(4)] by simp
qed

lemma wp_ensureResource_applied:
  assumes "same_spec c (claim s)"
  shows "wp (ensureResource E t n (cc_Namespace c)) (\<lambda>r u. same_spec c (claim u) \<and> extends any_call s u \<and>
           (r = None \<longrightarrow> applied (e_lib E) c t n (new_calls s u))) s"
proof -
  have "buildDesiredResource L (claim s) = buildDesiredResource L c" for L
    using assms by (intro ext) (rule buildDesired_same)
  with assms show ?thesis
    by (auto simp: ensureResource_def k_defs wp_simps extends_def applied_def new_calls_def
        split: prod.splits sum.splits option.splits)
qed

lemma wp_ensure_step:
  assumes "same_spec c (claim s)" and "stays c \<Phi> k" and "ns = cc_Namespace c"
  shows "wp (orFail (ensureResource E t n ns) k)
           (\<lambda>out u. out = proceed \<longrightarrow> applied (e_lib E) c t n (new_calls s u)) s"
proof -
  have "wp (case r of None \<Rightarrow> k | Some e \<Rightarrow> ret (fail_with e))
          (\<lambda>out v. out = proceed \<longrightarrow> applied (e_lib E) c t n (new_calls s v)) u"
    if "same_spec c (claim u) \<and> extends any_call s u \<and> (r = None \<longrightarrow> applied (e_lib E) c t n (new_calls s u))" for r u
  proof (cases r)
    case None
    with that have "wp k (\<lambda>_ v. applied (e_lib E) c t n (new_calls s v)) u"
      by (intro wp_evidence [OF assms(2), where \<Psi> = any_call]) (auto intro: applied_mono)
    with None show ?thesis by (auto elim!: wp_mono)
  qed (simp add: wp_return)
  with assms(3) show ?thesis
    unfolding orFail_def wp_bind
    by (auto intro: wp_mono [OF wp_ensureResource_applied [OF assms(1)]])
qed

lemma wp_observe_step:
  assumes "same_spec c (claim s)" and "\<And>r. stays c \<Phi> (k r)"
    and "\<And>e u. wp (k (Inl e)) (\<lambda>out _. out \<noteq> proceed) u"
    and "\<And>obj u. \<not> P obj \<Longrightarrow> wp (k (Inr obj)) (\<lambda>out _. out \<noteq> proceed) u"
  shows "wp (State_Monad.bind (getResource E g n ns) k)
           (\<lambda>out u. out = proceed \<longrightarrow> observed (new_calls s u) g (key_of n ns) P) s"
proof -
  have "wp (k (case r of Inl err \<Rightarrow> Inl (wrapf ''get %s %s/%s: %w'' [gvk_Kind g, ns, n] err) | Inr obj \<Rightarrow> Inr obj))
      (\<lambda>out u. out = proceed \<longrightarrow> observed (new_calls s u) g (key_of n ns) P)
      (s\<lparr>world := w, calls := calls s @ [CGet g (key_of n ns) r]\<rparr>)" (is "wp (k ?r) ?Q ?u") for r w
  proof (cases "\<exists>obj. r = Inr obj \<and> P obj")
    case True
    then have "observed (new_calls s ?u) g (key_of n ns) P"
      by (auto simp: observed_def new_calls_def)
    then have "wp (k ?r) (\<lambda>_ t. observed (new_calls s t) g (key_of n ns) P) ?u"
      by (rule wp_evidence [OF assms(2), where \<Psi> = any_call, rotated 2])
        (use assms(1) in \<open>auto simp: extends_def intro: observed_mono\<close>)
    then show ?thesis by (rule wp_mono) simp
  next
    case False
    then have "wp (k ?r) (\<lambda>out _. out \<noteq> proceed) ?u"
      using assms(3,4) by (auto split: sum.splits)
    then show ?thesis by (rule wp_mono) simp
  qed
  then show ?thesis
    by (auto simp: getResource_def k_defs wp_simps split: prod.splits)
qed


text \<open>\<open>leaves E c n m s\<close>: if the step \<open>m\<close> called \<open>n\<close>, started in \<open>s\<close>, proceeds, it has left its evidence.\<close>

abbreviation leaves :: "'w env \<Rightarrow> ClusterClaim \<Rightarrow> string \<Rightarrow> ('w, step_out) pop \<Rightarrow> 'w pst \<Rightarrow> bool" where
  "leaves E c n m s \<equiv> wp m (\<lambda>out t. out = proceed \<longrightarrow> passed E c n (new_calls s t)) s"

lemma wp_getClaim_bind [wp_simps]: "wp (State_Monad.bind getClaim k) Q s = wp (k (claim s)) Q s"
  by (simp add: getClaim_def wp_simps)

lemma same_specD: "same_spec c d \<Longrightarrow> cc_Meta d = cc_Meta c" "same_spec c d \<Longrightarrow> cc_Spec d = cc_Spec c"
  by (simp_all add: same_spec_def)

lemma leaves_ensure_steps:
  assumes "same_spec c (claim s)"
  shows "leaves E c ''Application'' (stepApplication E) s"
    and "leaves E c ''CertificateSetInfra'' (stepCertificateSetInfra E) s"
    and "leaves E c ''ClusterInfra'' (stepClusterInfra E) s"
    and "leaves E c ''CcmCsrc'' (stepCcmCsrc E) s"
  unfolding stepApplication_def stepCertificateSetInfra_def stepClusterInfra_def stepCcmCsrc_def
    wp_getClaim_bind same_specD [OF assms]
  by (simp add: passed_def,
      intro wp_ensure_step [OF assms, where \<Phi> = "pipeline_call E c"] stays_control keeps_rules wi.keeps_bind conjI;
      simp add: claim_tables)+

lemma leaves_client_steps:
  assumes "same_spec c (claim s)"
  shows "leaves E c ''CertificateSetClient'' (stepCertificateSetClient E) s"
    and "leaves E c ''ClusterClient'' (stepClusterClient E) s"
    and "leaves E c ''CcmCsrcUpdate'' (stepCcmCsrcUpdate E) s"
  unfolding stepCertificateSetClient_def stepClusterClient_def stepCcmCsrcUpdate_def
    wp_getClaim_bind same_specD [OF assms]
  by (simp add: passed_def wp_simps split: option.split; intro impI allI;
      intro wp_ensure_step [OF assms, where \<Phi> = "pipeline_call E c"] stays_control keeps_rules wi.keeps_bind conjI;
      simp add: claim_tables)+

lemma leaves_infra_waits:
  assumes "same_spec c (claim s)"
  shows "leaves E c ''WaitCertSetReady'' (stepWaitCertSetReady E) s"
    and "leaves E c ''WaitInfraProvisioned'' (stepWaitInfraProvisioned E) s"
    and "leaves E c ''WaitInfraCPReady'' (stepWaitInfraCPReady E) s"
  unfolding stepWaitCertSetReady_def stepWaitInfraProvisioned_def stepWaitInfraCPReady_def Let_def
    wp_getClaim_bind same_specD [OF assms]
  by (simp add: passed_def,
      intro wp_observe_step [OF assms, where \<Phi> = "pipeline_call E c"] stays_control keeps_rules wi.keeps_bind conjI;
      simp add: wp_simps)+

lemma leaves_client_wait:
  assumes "same_spec c (claim s)"
  shows "leaves E c ''WaitClientCPReady'' (stepWaitClientCPReady E) s"
  unfolding stepWaitClientCPReady_def Let_def wp_getClaim_bind same_specD [OF assms]
  by (simp add: passed_def wp_simps(1,7), intro impI wp_observe_step [OF assms, where \<Phi> = "pipeline_call E c"]
        stays_control keeps_rules wi.keeps_bind conjI)
    (simp_all add: wp_simps)


lemma new_calls_subset: "length (calls s) \<le> length (calls u) \<Longrightarrow> set (new_calls u t) \<subseteq> set (new_calls s t)"
  by (simp add: new_calls_def set_drop_subset_set_drop)

lemma wp_ensureDependent_applied:
  assumes "same_spec c (claim s)" and "(g, n) \<in> set (managed c)"
  shows "wp (ensureDependent E kind g ref n (cc_Namespace c) ev ct)
           (\<lambda>out t. out = proceed \<longrightarrow> (case ref of None \<Rightarrow> True
            | Some r \<Rightarrow> applied (e_lib E) c (tr_Name r) n (new_calls s t))) s"
proof (cases ref)
  case (Some r)
  have "wp (orFail (ensureResource E (tr_Name r) n (cc_Namespace c))
            (orFail (ensureResourceFinalizer E g n (cc_Namespace c)) (do {
              event E EventTypeNormal ev (kind @ '' %s created'') [n];
              setCondition E ct ConditionTrue ''Created'' (kind @ '' created/updated'');
              ret proceed
            }))) (\<lambda>out v. out = proceed \<longrightarrow> applied (e_lib E) c (tr_Name r) n (new_calls s v)) u"
    if "same_spec c (claim u)" and "length (calls s) \<le> length (calls u)" for u
  proof (rule wp_mono [OF wp_ensure_step [OF that(1), where \<Phi> = "pipeline_call E c"]])
    fix out t
    assume "out = proceed \<longrightarrow> applied (e_lib E) c (tr_Name r) n (new_calls u t)"
    then show "out = proceed \<longrightarrow> applied (e_lib E) c (tr_Name r) n (new_calls s t)"
      using applied_mono new_calls_subset [OF that(2)] by blast
  qed (intro stays_control keeps_rules wi.keeps_bind, simp_all add: assms(2))
  with assms(1) Some show ?thesis
    by (auto simp: ensureDependent_def Let_def kGetTemplate_def ask_def wp_simps split: prod.splits sum.splits)
qed (simp add: ensureDependent_def wp_return)

lemma wp_waitDependent_observed:
  assumes "same_spec c (claim s)"
  shows "wp (waitDependent E kind g ref n ns ev ct) (\<lambda>out t. out = proceed \<longrightarrow> ref = None \<or>
           observed (new_calls s t) g (key_of n ns)
             (\<lambda>obj. nested_string (e_lib E) obj [''status'', ''phase''] = PhaseReady)) s"
proof (cases "ref = None")
  case False
  show ?thesis
    unfolding waitDependent_def Let_def
    by (simp only: False if_False simp_thms, intro wp_observe_step [OF assms, where \<Phi> = "pipeline_call E c"]
        stays_control keeps_rules wi.keeps_bind) (simp_all add: wp_simps)
qed (simp add: waitDependent_def wp_return)

lemma leaves_vault_steps:
  assumes "same_spec c (claim s)"
  shows "leaves E c ''EnsureVaultClaim'' (stepEnsureVaultClaim E) s"
    and "leaves E c ''EnsureVaultSecretClaim'' (stepEnsureVaultSecretClaim E) s"
    and "leaves E c ''EnsureS3BucketClaim'' (stepEnsureS3BucketClaim E) s"
    and "leaves E c ''WaitVaultClaim'' (stepWaitVaultClaim E) s"
    and "leaves E c ''WaitVaultSecretClaim'' (stepWaitVaultSecretClaim E) s"
    and "leaves E c ''WaitS3BucketClaim'' (stepWaitS3BucketClaim E) s"
  unfolding stepEnsureVaultClaim_def stepEnsureVaultSecretClaim_def stepEnsureS3BucketClaim_def
    stepWaitVaultClaim_def stepWaitVaultSecretClaim_def stepWaitS3BucketClaim_def
    wp_getClaim_bind same_specD [OF assms]
  by (simp add: passed_def,
      intro wp_ensureDependent_applied [OF assms] wp_waitDependent_observed [OF assms];
      simp add: managed_def)+

lemma leaves_kms_wait:
  assumes "same_spec c (claim s)"
  shows "leaves E c ''WaitVaultKmsReady'' (stepWaitVaultKmsReady E) s"
proof (cases "sp_VaultClaimTemplateRef (cc_Spec c) = None")
  case False
  have "leaves E c ''WaitVaultKmsReady'' m s \<longleftrightarrow> wp m (\<lambda>out t. out = proceed \<longrightarrow>
      observed (new_calls s t) VaultClaimGVK (key_of (VaultClaimName (cc_Name c)) (cc_Namespace c)) (kms_ready (e_lib E))) s" for m
    by (simp add: passed_def False del: not_None_eq)
  then show ?thesis
    unfolding stepWaitVaultKmsReady_def Let_def wp_getClaim_bind same_specD [OF assms]
    by (simp only: False if_False, intro wp_observe_step [OF assms, where \<Phi> = "pipeline_call E c"]
          stays_control keeps_rules wi.keeps_bind)
      (auto simp: wp_simps kms_ready_def split: prod.splits option.splits)
qed (simp add: stepWaitVaultKmsReady_def wp_simps passed_def same_specD [OF assms])

text \<open>The remote ConfigMaps, one after the other.\<close>

lemma wp_applyRemote_synced:
  assumes "same_spec c (claim s)"
  shows "wp (applyRemoteConfigMap E cl t n ns) (\<lambda>r u. same_spec c (claim u) \<and> extends any_call s u \<and>
           (r = None \<longrightarrow> synced (e_lib E) c t n ns (new_calls s u))) s"
proof -
  have "desiredConfigMap L (claim s) = desiredConfigMap L c" for L
    using assms by (intro ext) (rule desiredConfigMap_same)
  with assms show ?thesis
    by (auto simp: applyRemoteConfigMap_def k_defs wp_simps extends_def synced_def same_content_def with_content_def
        new_calls_def Let_def split: prod.splits sum.splits option.splits)
qed

definition keeping :: "ClusterClaim \<Rightarrow> 'w pst \<Rightarrow> (call list \<Rightarrow> bool) \<Rightarrow> 'w pst \<Rightarrow> bool" where
  "keeping c s P u \<longleftrightarrow> same_spec c (claim u) \<and> extends any_call s u \<and> P (new_calls s u)"

lemma wp_orRemoteFail:
  assumes "keeping c s P u" and "\<And>h h'. P h \<Longrightarrow> set h \<subseteq> set h' \<Longrightarrow> P h'"
    and "\<And>h h'. Q h \<Longrightarrow> set h \<subseteq> set h' \<Longrightarrow> Q h'"
    and m: "\<And>u. same_spec c (claim u) \<Longrightarrow>
      wp m (\<lambda>r v. same_spec c (claim v) \<and> extends any_call u v \<and> (r = None \<longrightarrow> Q (new_calls u v))) u"
    and k: "\<And>v. keeping c s (\<lambda>h. P h \<and> Q h) v \<Longrightarrow> wp k (\<lambda>out w. out = proceed \<longrightarrow> R w) v"
  shows "wp (orRemoteFail E f m k) (\<lambda>out w. out = proceed \<longrightarrow> R w) u"
  unfolding orRemoteFail_def
proof (rule wp_bindI [OF m])
  show "same_spec c (claim u)" using assms(1) by (simp add: keeping_def)
next
  fix r :: "goerror option" and v
  assume v: "same_spec c (claim v) \<and> extends any_call u v \<and> (r = None \<longrightarrow> Q (new_calls u v))"
  then have "new_calls s v = new_calls s u @ new_calls u v" and "extends any_call s v"
    using assms(1) unfolding keeping_def by (blast intro: new_calls_trans extends_trans)+
  then have "r = None \<Longrightarrow> keeping c s (\<lambda>h. P h \<and> Q h) v"
    using v assms(1-3) unfolding keeping_def by (metis Un_upper1 Un_upper2 set_append)
  then show "wp (case r of None \<Rightarrow> k | Some e \<Rightarrow> do {
         setCondition E ConditionRemoteConfigApplied ConditionFalse ''ApplyError'' (Error_text (e_lib E) e);
         ret (fail_with (wrapf f [] e))
       }) (\<lambda>out w. out = proceed \<longrightarrow> R w) v"
    using k by (cases r) (auto simp: wp_simps)
qed

lemma wp_remote_chain:
  fixes E :: "'w env"
  assumes u: "keeping c s (\<lambda>_. True) u" and "stays c \<Phi> k"
  shows "wp (orRemoteFail E f1 (applyRemoteConfigMap E cl t1 n1 ns)
     (orRemoteFail E f2 (if b then applyRemoteConfigMap E cl t1 n2 ns else ret None)
     (orRemoteFail E f3 (case q of Some r \<Rightarrow> if e then applyRemoteConfigMap E cl (tr_Name r) n3 ns else ret None
        | None \<Rightarrow> ret None) k)))
     (\<lambda>out w. out = proceed \<longrightarrow> synced (e_lib E) c t1 n1 ns (new_calls s w) \<and>
        (b \<longrightarrow> synced (e_lib E) c t1 n2 ns (new_calls s w)) \<and>
        (case q of None \<Rightarrow> True | Some r \<Rightarrow> e \<longrightarrow> synced (e_lib E) c (tr_Name r) n3 ns (new_calls s w))) u"
proof -
  let ?Q1 = "synced (e_lib E) c t1 n1 ns" and ?Q2 = "\<lambda>h. b \<longrightarrow> synced (e_lib E) c t1 n2 ns h"
  let ?Q3 = "\<lambda>h. case q of None \<Rightarrow> True | Some r \<Rightarrow> e \<longrightarrow> synced (e_lib E) c (tr_Name r) n3 ns h"
  let ?R = "\<lambda>w. ?Q1 (new_calls s w) \<and> ?Q2 (new_calls s w) \<and> ?Q3 (new_calls s w)"
  have mono: "Q h \<Longrightarrow> set h \<subseteq> set h' \<Longrightarrow> Q h'"
    if "Q \<in> {\<lambda>_. True, \<lambda>h. True \<and> ?Q1 h, \<lambda>h. (True \<and> ?Q1 h) \<and> ?Q2 h, \<lambda>h. ((True \<and> ?Q1 h) \<and> ?Q2 h) \<and> ?Q3 h, ?Q1, ?Q2, ?Q3}" for Q h h'
    using that by (auto intro: synced_mono split: option.splits)
  have last: "wp k (\<lambda>out w. out = proceed \<longrightarrow> ?R w) v" if v: "keeping c s (\<lambda>h. ((True \<and> ?Q1 h) \<and> ?Q2 h) \<and> ?Q3 h) v" for v
  proof -
    have "wp k (\<lambda>_ t. (\<lambda>h. ((True \<and> ?Q1 h) \<and> ?Q2 h) \<and> ?Q3 h) (new_calls s t)) v"
      by (rule wp_evidence [OF assms(2), where \<Psi> = any_call]) (use v mono in \<open>auto simp: keeping_def\<close>)
    then show ?thesis by (rule wp_mono) simp
  qed
  show ?thesis
    apply (rule wp_orRemoteFail [where Q = ?Q1, OF u])
       apply (rule mono, simp_all only: insert_iff simp_thms)
    subgoal by (rule mono) simp_all
    subgoal by (rule wp_applyRemote_synced)
    apply (erule wp_orRemoteFail [where Q = ?Q2])
    subgoal by (rule mono) simp_all
    subgoal by (rule mono) simp_all
    subgoal by (cases b) (simp_all add: wp_applyRemote_synced wp_return)
    apply (erule wp_orRemoteFail [where Q = ?Q3])
    subgoal by (rule mono) simp_all
    subgoal by (rule mono) simp_all
    subgoal by (cases q; cases e) (simp_all add: wp_applyRemote_synced wp_return)
    by (rule last) simp
qed

lemma leaves_remote_step:
  assumes "same_spec c (claim s)"
  shows "leaves E c ''RemoteConfigMaps'' (stepRemoteConfigMaps E) s"
proof (cases "sp_ConfigMapTemplateRef (cc_Spec c)")
  case (Some ref)
  let ?evidence = "\<lambda>w. passed E c ''RemoteConfigMaps'' (new_calls s w)"
  have ns: "remoteNamespaceForClaim E (claim s) = remoteNamespaceForClaim E c"
    using assms by (simp add: remoteNamespaceForClaim_def same_spec_def)
  have client: "wp (State_Monad.bind (GetClient E secret) k) (\<lambda>out w. out = proceed \<longrightarrow> ?evidence w) u"
    if "keeping c s (\<lambda>_. True) u" and "\<And>e v. wp (k (Inl e)) (\<lambda>out _. out \<noteq> proceed) v"
      and "\<And>cl v. keeping c s (\<lambda>_. True) v \<Longrightarrow> wp (k (Inr cl)) (\<lambda>out w. out = proceed \<longrightarrow> ?evidence w) v" for secret k u
  proof (rule wp_bindI [OF wp_stays [OF stays_GetClient [where \<Phi> = any_call]]])
    show "same_spec c (claim u)" using that(1) by (simp add: keeping_def)
    fix r v
    assume "same_spec c (claim v) \<and> extends any_call u v"
    then have "keeping c s (\<lambda>_. True) v"
      using that(1) by (auto simp: keeping_def intro: extends_trans)
    then show "wp (k r) (\<lambda>out w. out = proceed \<longrightarrow> ?evidence w) v"
      using that(2,3) by (cases r) (auto intro: wp_mono)
  qed simp
  have start: "keeping c s (\<lambda>_. True) (s\<lparr>world := w, calls := calls s @ [x]\<rparr>)" for w x
    using assms by (simp add: keeping_def extends_def)
  show ?thesis
  proof (cases "api_get_secret (e_api E) (key_of (KubeconfigSecretName (cc_Name c)) (cc_Namespace c)) (world s)")
    case (Pair r w)
    show ?thesis
    proof (cases r)
      case (Inl err)
      with Pair show ?thesis
        by (simp add: stepRemoteConfigMaps_def same_specD [OF assms] Some kGetSecret_def ask_def wp_simps)
    next
      case (Inr secret)
      show ?thesis
        unfolding stepRemoteConfigMaps_def wp_getClaim_bind same_specD [OF assms] Some option.case Let_def ns
        apply (subst wp_bind)
        apply (simp only: kGetSecret_def ask_def wp_State Pair Inr prod.case sum.case)
        apply (rule wp_ifI)
         apply (simp add: wp_return)
        apply (rule client [OF start])
         apply (simp add: wp_simps)
        apply (simp only: sum.case)
        apply (rule wp_mono [OF wp_remote_chain], assumption)
         apply (intro stays_control keeps_rules wi.keeps_bind TrueI)
        apply (simp_all add: passed_def Some)
        done
    qed
  qed
qed (simp add: stepRemoteConfigMaps_def wp_simps passed_def same_specD [OF assms])

lemma leaves_pipelineSteps:
  assumes "same_spec c (claim s)" and "(n, m) \<in> set (pipelineSteps E)"
  shows "leaves E c n m s"
proof -
  note evidence = leaves_ensure_steps [OF assms(1)] leaves_client_steps [OF assms(1)]
    leaves_infra_waits [OF assms(1)] leaves_client_wait [OF assms(1)]
    leaves_vault_steps [OF assms(1)] leaves_kms_wait [OF assms(1)] leaves_remote_step [OF assms(1)]
  from assms(2) evidence show ?thesis
    unfolding pipelineSteps_def by (simp only: list.set insert_iff empty_iff prod.inject) blast
qed

text \<open>A run that gets through a list of steps has the evidence of each of them.\<close>

lemma advance_passed:
  assumes "set steps \<subseteq> set (pipelineSteps E)" and "same_spec c (claim s)"
  shows "wp (advance steps) (\<lambda>r t. same_spec c (claim t) \<and> extends (pipeline_call E c) s t \<and>
           (r = AllDone \<longrightarrow> (\<forall>n \<in> fst ` set steps. passed E c n (new_calls s t)))) s"
  using assms
proof (induction steps arbitrary: s)
  case Nil
  then show ?case by (simp add: wp_simps)
next
  case (Cons p rest)
  obtain n m where p: "p = (n, m)" by (cases p)
  have step: "wp m (\<lambda>out u. same_spec c (claim u) \<and> extends (pipeline_call E c) s u \<and>
      (out = proceed \<longrightarrow> passed E c n (new_calls s u))) s"
    using wp_stays [OF stays_pipelineSteps [of n m E c] Cons.prems(2)]
      leaves_pipelineSteps [OF Cons.prems(2), of n m E] Cons.prems(1) p
    by (auto simp: wp_conj)
  have rest: "wp (if out = proceed then advance rest else ret (StoppedAt n out))
      (\<lambda>r t. same_spec c (claim t) \<and> extends (pipeline_call E c) s t \<and>
         (r = AllDone \<longrightarrow> (\<forall>k \<in> fst ` set (p # rest). passed E c k (new_calls s t)))) u"
    if u: "same_spec c (claim u) \<and> extends (pipeline_call E c) s u \<and>
           (out = proceed \<longrightarrow> passed E c n (new_calls s u))" for out u
  proof (cases "out = proceed")
    case True
    have "wp (advance rest) (\<lambda>r t. same_spec c (claim t) \<and> extends (pipeline_call E c) u t \<and>
           (r = AllDone \<longrightarrow> (\<forall>k \<in> fst ` set rest. passed E c k (new_calls u t)))) u"
      using Cons.IH [of u] Cons.prems(1) u by simp
    then show ?thesis
      unfolding True simp_thms if_True
    proof (rule wp_mono)
      fix r t
      assume t: "same_spec c (claim t) \<and> extends (pipeline_call E c) u t \<and>
           (r = AllDone \<longrightarrow> (\<forall>k \<in> fst ` set rest. passed E c k (new_calls u t)))"
      then have "new_calls s t = new_calls s u @ new_calls u t"
        using u by (blast intro: new_calls_trans)
      with t u True show "same_spec c (claim t) \<and> extends (pipeline_call E c) s t \<and>
         (r = AllDone \<longrightarrow> (\<forall>k \<in> fst ` set (p # rest). passed E c k (new_calls s t)))"
        by (auto simp: p intro: extends_trans passed_mono)
    qed
  qed (use u in \<open>simp add: wp_return\<close>)
  have "advance (p # rest) = State_Monad.bind m (\<lambda>out. if out = proceed then advance rest else ret (StoppedAt n out))"
    by (simp add: p cong: if_cong)
  then show ?case
    by (simp only:) (rule wp_bindI [OF step rest])
qed

end
