(* ===== verification/Pipeline_Phases.thy ===== *)
theory Pipeline_Phases
  imports Pipeline_Runs
begin

text \<open>
  What a pipeline run does to the phase and to the condition \<open>Ready\<close>. No step sets either, except
  that a step that waits sets the phase to \<open>WaitingDependency\<close>; the loop alone decides between
  \<open>Ready\<close>, \<open>Failed\<close> and the rest. The relation \<open>quiet\<close> is kept by every operation a step makes before it
  decides; \<open>tame\<close> is the contract of a whole step.
\<close>

named_theorems quiet_rules "operations that keep the phase and the condition Ready"

section \<open>The relation kept by the steps\<close>

abbreviation phase_of :: "'w pst \<Rightarrow> string" where
  "phase_of s \<equiv> st_Phase (cc_Status (claim s))"

abbreviation ready_condition :: "'w pst \<Rightarrow> Condition option" where
  "ready_condition s \<equiv> find_condition (st_Conditions (cc_Status (claim s))) ConditionReady"

definition quiet :: "lib \<Rightarrow> 'w pst \<Rightarrow> 'w pst \<Rightarrow> bool" where
  "quiet L s t \<longleftrightarrow> phase_of t = phase_of s \<and>
     (law_SetStatusCondition L \<longrightarrow> ready_condition t = ready_condition s)"

interpretation qi: state_frame "quiet L" for L
  by unfold_locales (auto simp: quiet_def)

abbreviation is_quiet :: "lib \<Rightarrow> ('w, 'a) pop \<Rightarrow> bool" where
  "is_quiet L m \<equiv> state_io_rel (quiet L) m"

lemma quiet_same_claim: "claim t = claim s \<Longrightarrow> quiet L s t"
  by (simp add: quiet_def)

lemma quiet_ask [quiet_rules]: "is_quiet L (ask f k)"
  by (auto simp: state_io_rel_def ask_def intro!: quiet_same_claim split: prod.splits)

lemma quiet_prims [quiet_rules]:
  "is_quiet L (kNow E)" "is_quiet L getClaim" "is_quiet L getCtx" "is_quiet L (modCtx f)"
  "is_quiet L (event E t r g as)" "is_quiet L State_Monad.get"
  "is_quiet L (State_Monad.update (\<lambda>s. s\<lparr>cmgr := h s\<rparr>))"
  by (auto simp: state_io_rel_def k_defs intro!: quiet_same_claim split: prod.splits)

lemma quiet_setCondition [quiet_rules]: "t \<noteq> ConditionReady \<Longrightarrow> is_quiet L (setCondition E t st r m)"
  if "L = e_lib E"
  using that
  by (auto simp: state_io_rel_def setCondition_def k_defs quiet_def putCondition_def law_SetStatusCondition_def
      split: prod.splits)

lemma quiet_clusters [quiet_rules]:
  "is_quiet L (modClaim ensureClusters)" "is_quiet L (modClaim (modClusters g))"
  by (auto simp: state_io_rel_def k_defs quiet_def ensureClusters_def modClusters_def)

lemma quiet_mirror_fields [quiet_rules]:
  "is_quiet L (modClaim (\<lambda>c. c\<lparr>cc_Status := (cc_Status c)\<lparr>st_Vault := v\<rparr>\<rparr>))"
  "is_quiet L (modClaim (\<lambda>c. c\<lparr>cc_Status := (cc_Status c)\<lparr>st_VaultSecret := v\<rparr>\<rparr>))"
  "is_quiet L (modClaim (\<lambda>c. c\<lparr>cc_Status := (cc_Status c)\<lparr>st_S3Bucket := v\<rparr>\<rparr>))"
  by (auto simp: state_io_rel_def k_defs quiet_def)

lemmas quiet_control = qi.keeps_return qi.keeps_if qi.keeps_case_option qi.keeps_case_sum
  qi.keeps_case_prod qi.keeps_let

lemmas ask_defs = kGetTemplate_def kGetSecret_def kGet_def kUpdate_def kApply_def kNewClient_def
  kRemoteGet_def kRemoteCreate_def kRemoteUpdate_def

lemma quiet_resource_ops [quiet_rules]:
  "is_quiet L (ensureResource E t n ns)"
  "is_quiet L (getResource E g n ns)"
  "is_quiet L (ensureResourceFinalizer E g n ns)"
  "is_quiet L (applyRemoteConfigMap E cl t n ns)"
  unfolding ensureResource_def getResource_def ensureResourceFinalizer_def applyRemoteConfigMap_def
    ask_defs Let_def
  by (intro quiet_control quiet_rules qi.keeps_bind)+

lemma quiet_GetClient [quiet_rules]: "is_quiet L (GetClient E secret)"
  unfolding GetClient_def lookupClient_def Let_def ask_defs
  by (intro quiet_control quiet_rules qi.keeps_bind)

section \<open>The contract of a step\<close>

definition tame :: "lib \<Rightarrow> ('w, step_out) pop \<Rightarrow> bool" where
  "tame L m \<longleftrightarrow> (\<forall>s. wp m (\<lambda>out t.
     phase_of t = (if out = Step Wait None then PhaseWaitingDependency else phase_of s) \<and>
     (law_SetStatusCondition L \<longrightarrow> ready_condition t = ready_condition s)) s)"

lemma tame_ret: "out \<noteq> Step Wait None \<Longrightarrow> tame L (ret out)"
  by (simp add: tame_def wp_simps)

lemma tame_wait:
  "t \<noteq> ConditionReady \<Longrightarrow> L = e_lib E \<Longrightarrow> tame L (State_Monad.bind (setWaiting E t m) (\<lambda>_. ret (Step Wait None)))"
  by (auto simp: tame_def wp_simps setWaiting_def setCondition_def k_defs putCondition_def setPhase_def
      law_SetStatusCondition_def split: prod.splits)

lemma tame_bind: "is_quiet L m \<Longrightarrow> (\<And>a. tame L (k a)) \<Longrightarrow> tame L (State_Monad.bind m k)"
  unfolding tame_def wp_bind
  by (intro allI, rule wp_mono [OF wp_io_rel], assumption, drule_tac x = a in meta_spec, drule spec, erule wp_mono)
    (auto simp: quiet_def)

lemma tame_case_option:
  "(x = None \<Longrightarrow> tame L m) \<Longrightarrow> (\<And>y. x = Some y \<Longrightarrow> tame L (k y)) \<Longrightarrow>
   tame L (case x of None \<Rightarrow> m | Some y \<Rightarrow> k y)"
  by (cases x) simp_all

lemma tame_case_sum:
  "(\<And>e. tame L (m e)) \<Longrightarrow> (\<And>y. tame L (k y)) \<Longrightarrow> tame L (case x of Inl e \<Rightarrow> m e | Inr y \<Rightarrow> k y)"
  by (cases x) simp_all

lemma tame_case_prod: "(\<And>a b. tame L (m a b)) \<Longrightarrow> tame L (case x of (a, b) \<Rightarrow> m a b)"
  by (cases x) simp

lemma tame_if: "tame L m \<Longrightarrow> tame L n \<Longrightarrow> tame L (if b then m else n)"
  by simp

lemma tame_orFail: "is_quiet L m \<Longrightarrow> tame L k \<Longrightarrow> tame L (orFail m k)"
  unfolding orFail_def by (intro tame_bind tame_case_option tame_ret) simp_all

lemma tame_orRemoteFail: "is_quiet L m \<Longrightarrow> tame L k \<Longrightarrow> L = e_lib E \<Longrightarrow> tame L (orRemoteFail E f m k)"
  unfolding orRemoteFail_def by (intro tame_bind tame_case_option tame_ret quiet_rules) simp_all

lemmas tame_intros = tame_ret tame_wait tame_if tame_case_option tame_case_sum tame_case_prod
  tame_orFail tame_orRemoteFail tame_bind

lemma tame_dependents:
  "L = e_lib E \<Longrightarrow> ct \<noteq> ConditionReady \<Longrightarrow> tame L (ensureDependent E kind g ref n ns ev ct)"
  "L = e_lib E \<Longrightarrow> ct \<noteq> ConditionReady \<Longrightarrow> tame L (waitDependent E kind g ref n ns ev ct)"
  unfolding ensureDependent_def waitDependent_def Let_def kGetTemplate_def
  by (intro tame_intros quiet_control quiet_rules; simp)+

lemma tame_pipelineSteps: "(n, m) \<in> set (pipelineSteps E) \<Longrightarrow> tame (e_lib E) m"
proof -
  have "tame (e_lib E) (stepApplication E)" "tame (e_lib E) (stepCertificateSetInfra E)"
    "tame (e_lib E) (stepWaitCertSetReady E)" "tame (e_lib E) (stepClusterInfra E)"
    "tame (e_lib E) (stepWaitInfraProvisioned E)" "tame (e_lib E) (stepCertificateSetClient E)"
    "tame (e_lib E) (stepWaitInfraCPReady E)" "tame (e_lib E) (stepCcmCsrc E)"
    "tame (e_lib E) (stepClusterClient E)" "tame (e_lib E) (stepWaitClientCPReady E)"
    "tame (e_lib E) (stepCcmCsrcUpdate E)" "tame (e_lib E) (stepWaitVaultKmsReady E)"
    "tame (e_lib E) (stepRemoteConfigMaps E)"
    unfolding stepApplication_def stepCertificateSetInfra_def stepWaitCertSetReady_def stepClusterInfra_def
      stepWaitInfraProvisioned_def stepCertificateSetClient_def stepWaitInfraCPReady_def stepCcmCsrc_def
      stepClusterClient_def stepWaitClientCPReady_def stepCcmCsrcUpdate_def stepWaitVaultKmsReady_def
      stepRemoteConfigMaps_def Let_def kGetSecret_def
    by (intro tame_intros quiet_control quiet_rules; simp)+
  moreover have "tame (e_lib E) (stepEnsureVaultClaim E)" "tame (e_lib E) (stepWaitVaultClaim E)"
    "tame (e_lib E) (stepEnsureVaultSecretClaim E)" "tame (e_lib E) (stepWaitVaultSecretClaim E)"
    "tame (e_lib E) (stepEnsureS3BucketClaim E)" "tame (e_lib E) (stepWaitS3BucketClaim E)"
    unfolding stepEnsureVaultClaim_def stepWaitVaultClaim_def stepEnsureVaultSecretClaim_def
      stepWaitVaultSecretClaim_def stepEnsureS3BucketClaim_def stepWaitS3BucketClaim_def
    by (intro tame_bind quiet_rules tame_dependents; simp)+
  ultimately show "(n, m) \<in> set (pipelineSteps E) \<Longrightarrow> tame (e_lib E) m"
    by (auto simp: pipelineSteps_def)
qed

text \<open>How the steps leave the phase, by the way the loop stops.\<close>

lemma advance_tame:
  fixes E :: "'w env"
  assumes "set steps \<subseteq> set (pipelineSteps E)"
  shows "wp (advance steps) (\<lambda>r t.
     phase_of t = (if \<exists>n. r = StoppedAt n (Step Wait None) then PhaseWaitingDependency else phase_of s) \<and>
     (law_SetStatusCondition (e_lib E) \<longrightarrow> ready_condition t = ready_condition s)) s"
  using assms
proof (induction steps arbitrary: s)
  case Nil
  then show ?case by (simp add: wp_simps)
next
  case (Cons p rest)
  have step: "wp (snd p) (\<lambda>out t.
     phase_of t = (if out = Step Wait None then PhaseWaitingDependency else phase_of s) \<and>
     (law_SetStatusCondition (e_lib E) \<longrightarrow> ready_condition t = ready_condition s)) s"
    using tame_pipelineSteps [of "fst p" "snd p" E] Cons.prems by (simp add: tame_def)
  show ?case
    unfolding advance.simps
  proof (rule wp_bindI [OF step])
    fix out and u :: "'w pst"
    assume u: "phase_of u = (if out = Step Wait None then PhaseWaitingDependency else phase_of s) \<and>
      (law_SetStatusCondition (e_lib E) \<longrightarrow> ready_condition u = ready_condition s)"
    show "wp (if out = proceed then advance rest else ret (StoppedAt (fst p) out)) (\<lambda>r t.
       phase_of t = (if \<exists>n. r = StoppedAt n (Step Wait None) then PhaseWaitingDependency else phase_of s) \<and>
       (law_SetStatusCondition (e_lib E) \<longrightarrow> ready_condition t = ready_condition s)) u"
    proof (cases "out = proceed")
      case True
      then show ?thesis
        using Cons.IH [of u] Cons.prems u by (auto elim!: wp_mono)
    qed (use u in \<open>simp add: wp_return\<close>)
  qed
qed

lemma quiet_preparePipeline: "is_quiet (e_lib E) (preparePipeline E u)"
  unfolding preparePipeline_def tryGet_def syncClusterStatuses_def fetchControlPlaneVersion_def
    mirrorVaultStatus_def mirrorVaultSecretStatus_def mirrorS3BucketStatus_def mirrorResourceStatus_def
    kGet_def Let_def
  by (intro quiet_control quiet_rules qi.keeps_bind)


section \<open>The outcome of a run\<close>

text \<open>The state in which the loop over the steps starts, unless the claim cannot be converted.\<close>

definition loop_start :: "'w env \<Rightarrow> 'w pst \<Rightarrow> 'w pst option" where
  "loop_start E s =
    (let s1 = s\<lparr>claim := clearPausedCondition (e_lib E) (setPhase PhaseProvisioning (claim s))\<rparr> in
     case toUnstructured (e_lib E) (claim s1) of
       Inl err \<Rightarrow> None
     | Inr u \<Rightarrow> Some (snd (run_state (preparePipeline E u) s1)))"

definition ready_is :: "string \<Rightarrow> ClusterClaim \<Rightarrow> bool" where
  "ready_is v d = (case find_condition (st_Conditions (cc_Status d)) ConditionReady of
     None \<Rightarrow> False | Some x \<Rightarrow> c_Status x = v)"

text \<open>The status of \<open>d\<close> is what the run reports: written last, unless it equals the old status.\<close>

definition reports :: "lib \<Rightarrow> ClusterClaimStatus \<Rightarrow> ClusterClaim \<Rightarrow> call list \<Rightarrow> bool" where
  "reports L oldStatus d h \<longleftrightarrow> StatusDeepEqual L oldStatus (cc_Status d) \<or>
     (\<exists>h' e. h = h' @ [CUpdateStatus d e])"

text \<open>Requeue delay, phase and condition \<open>Ready\<close> belong together.\<close>

definition outcome :: "rec_out \<Rightarrow> ClusterClaim \<Rightarrow> bool" where
  "outcome out d = (let phase = st_Phase (cc_Status d) in case out of
     Panicked \<Rightarrow> True
   | Return r (Some e) \<Rightarrow> RequeueAfter r = 0 \<and> phase \<in> {PhaseReady, PhaseFailed}
   | Return r None \<Rightarrow>
       phase = PhaseReady \<and> ready_is ConditionTrue d \<and> RequeueAfter r = 10 * Minute \<or>
       phase = PhaseWaitingDependency \<and> RequeueAfter r = 5 * Minute \<or>
       phase = PhaseProvisioning \<and> ready_is ConditionFalse d \<and> RequeueAfter r = 1 * Minute \<or>
       phase = PhaseFailed \<and> ready_is ConditionFalse d \<and> RequeueAfter r = 0)"

lemma wp_report:
  assumes "extends any_call s u" and "same_spec c (claim u)"
  shows "wp (updateStatusIfChanged E oldStatus)
    (\<lambda>_ t. extends any_call s t \<and> same_spec c (claim u) \<and> reports (e_lib E) oldStatus (claim u) (new_calls s t)) u"
  using assms
  by (auto simp: updateStatusIfChanged_def wp_simps kUpdateStatus_def extends_def reports_def new_calls_def
      split: prod.splits)

lemma wp_setCondition_Ready:
  assumes "law_SetStatusCondition (e_lib E)"
  shows "wp (setCondition E ConditionReady v r m) (\<lambda>_ t. ready_is v (claim t) \<and> phase_of t = phase_of s \<and>
           calls t = calls s \<and> same_spec (claim s) (claim t)) s"
proof -
  have "ready_is v (putCondition (e_lib E) now ConditionReady v r m d)" for now d
  proof -
    let ?x = "\<lparr>c_Type = ConditionReady, c_Status = v, c_ObservedGeneration = om_Generation (cc_Meta d),
      c_LastTransitionTime = None, c_Reason = r, c_Message = m\<rparr>"
    have "\<exists>y. find_condition (SetStatusCondition (e_lib E) now (st_Conditions (cc_Status d)) ?x) (c_Type ?x) = Some y \<and>
        c_Status y = c_Status ?x"
      using assms unfolding law_SetStatusCondition_def by blast
    then show ?thesis by (auto simp: ready_is_def putCondition_def)
  qed
  moreover have "same_spec d (putCondition (e_lib E) now ConditionReady v r m d)" for now d
    by simp
  ultimately show ?thesis
    by (simp add: setCondition_def wp_simps kNow_def split: prod.split) (simp add: putCondition_def)
qed


text \<open>
  \<open>settled s c p v t\<close>: the run started in \<open>s\<close> on the claim \<open>c\<close> has reached \<open>t\<close> with phase \<open>p\<close>, and \<open>v\<close>, if
  given, is the status of its condition \<open>Ready\<close>.
\<close>

definition settled :: "'w pst \<Rightarrow> ClusterClaim \<Rightarrow> string \<Rightarrow> string option \<Rightarrow> 'w pst \<Rightarrow> bool" where
  "settled s c p v t \<longleftrightarrow> extends any_call s t \<and> same_spec c (claim t) \<and> phase_of t = p \<and>
     (case v of None \<Rightarrow> True | Some x \<Rightarrow> ready_is x (claim t))"

lemma settled_event: "settled s c p v u \<Longrightarrow> wp (event E ty r f as) (\<lambda>_. settled s c p v) u"
  by (auto simp: settled_def event_def wp_simps extends_def split: option.splits)

lemma settled_setCondition:
  assumes "law_SetStatusCondition (e_lib E)" and "settled s c p w u"
  shows "wp (setCondition E ConditionReady v r m) (\<lambda>_. settled s c p (Some v)) u"
  by (rule wp_mono [OF wp_setCondition_Ready [OF assms(1)]])
    (use assms(2) in \<open>auto simp: settled_def extends_def intro: same_spec_trans\<close>)

lemma settled_setPhase:
  assumes "law_SetStatusCondition (e_lib E)" and "settled s c p w u"
  shows "wp (State_Monad.bind (modClaim (setPhase q)) (\<lambda>_. setCondition E ConditionReady v r m))
           (\<lambda>_. settled s c q (Some v)) u"
  unfolding wp_bind wp_pointers
  by (rule settled_setCondition [OF assms(1), where w = None])
    (use assms(2) in \<open>auto simp: settled_def extends_def setPhase_def same_spec_def\<close>)

lemma settled_report:
  assumes "settled s c p v u"
  shows "wp (updateStatusIfChanged E oldStatus) (\<lambda>_ t. extends any_call s t \<and>
     (\<exists>d. same_spec c d \<and> st_Phase (cc_Status d) = p \<and> (case v of None \<Rightarrow> True | Some x \<Rightarrow> ready_is x d) \<and>
          reports (e_lib E) oldStatus d (new_calls s t))) u"
  by (rule wp_mono [OF wp_report [of s u c]]) (use assms in \<open>auto simp: settled_def\<close>)

definition concluded :: "'w env \<Rightarrow> ClusterClaimStatus \<Rightarrow> 'w pst \<Rightarrow> ClusterClaim \<Rightarrow> rec_out \<Rightarrow> 'w pst \<Rightarrow> bool" where
  "concluded E oldStatus s c out t \<longleftrightarrow> extends any_call s t \<and> (out = Panicked \<or>
     (\<exists>d. same_spec c d \<and> outcome out d \<and> reports (e_lib E) oldStatus d (new_calls s t)))"

lemma concluded_ready:
  assumes law: "law_SetStatusCondition (e_lib E)" and st: "settled s c p None u"
  shows "wp (finish E oldStatus AllDone) (concluded E oldStatus s c) u"
  unfolding finish_def stop.case runSteps.simps setReady_def
  by (rule wp_bindI [OF settled_setPhase [OF law st]], rule wp_bindI [OF settled_event], assumption,
      rule wp_bindI [OF settled_report], assumption)
    (auto simp: wp_return concluded_def outcome_def split: option.splits)

lemma concluded_wait:
  assumes st: "settled s c PhaseWaitingDependency None u"
  shows "wp (finish E oldStatus (StoppedAt n (Step Wait None))) (concluded E oldStatus s c) u"
proof -
  have "wp (do { _ \<leftarrow> updateStatusIfChanged E oldStatus; ret (Return \<lparr>RequeueAfter = 5 * Minute\<rparr> None) })
      (concluded E oldStatus s c) u"
    by (rule wp_bindI [OF settled_report [OF st]]) (auto simp: wp_return concluded_def outcome_def)
  then show ?thesis by (simp add: finish_def)
qed

lemma concluded_terminal:
  assumes law: "law_SetStatusCondition (e_lib E)" and st: "settled s c p None u" and "IsTerminalError e"
  shows "wp (finish E oldStatus (StoppedAt n (Step res (Some e)))) (concluded E oldStatus s c) u"
proof -
  have "wp (do {
       event E EventTypeWarning ''StepFailed'' ''Step %s failed (terminal): %v'' [n, Error_text (e_lib E) e];
       setFailed E ''StepFailed'' (wrapf ''step %s: %w'' [n] e);
       _ \<leftarrow> updateStatusIfChanged E oldStatus;
       ret (Return \<lparr>RequeueAfter = 0\<rparr> None)
     }) (concluded E oldStatus s c) u"
    unfolding setFailed_def
    by (rule wp_bindI [OF settled_event [OF st]], rule wp_bindI [OF settled_setPhase [OF law]], assumption,
        rule wp_bindI [OF settled_report], assumption)
      (auto simp: wp_return concluded_def outcome_def)
  with assms(3) show ?thesis by (simp add: finish_def Let_def)
qed

lemma concluded_transient:
  assumes law: "law_SetStatusCondition (e_lib E)" and st: "settled s c PhaseProvisioning None u"
    and "\<not> IsTerminalError e"
  shows "wp (finish E oldStatus (StoppedAt n (Step res (Some e)))) (concluded E oldStatus s c) u"
proof -
  have "wp (do {
       event E EventTypeWarning ''StepRetrying'' ''Step %s failed (transient): %v'' [n, Error_text (e_lib E) e];
       setCondition E ConditionReady ConditionFalse ''StepRetrying''
         (Error_text (e_lib E) (wrapf ''step %s: %w'' [n] e));
       _ \<leftarrow> updateStatusIfChanged E oldStatus;
       ret (Return \<lparr>RequeueAfter = 1 * Minute\<rparr> None)
     }) (concluded E oldStatus s c) u"
    by (rule wp_bindI [OF settled_event [OF st]], rule wp_bindI [OF settled_setCondition [OF law]], assumption,
        rule wp_bindI [OF settled_report], assumption)
      (auto simp: wp_return concluded_def outcome_def)
  with assms(3) show ?thesis by (simp add: finish_def Let_def)
qed

lemma concluded_finish:
  assumes law: "law_SetStatusCondition (e_lib E)"
    and st: "settled s c (if \<exists>n. r = StoppedAt n (Step Wait None) then PhaseWaitingDependency else PhaseProvisioning) None u"
  shows "wp (finish E oldStatus r) (concluded E oldStatus s c) u"
proof (cases r)
  case AllDone
  with st show ?thesis using concluded_ready [OF law] by simp
next
  case (StoppedAt n out)
  consider "out = StepPanic" | "out = proceed" | "out = Step Wait None"
    | res e where "out = Step res (Some e)" "IsTerminalError e"
    | res e where "out = Step res (Some e)" "\<not> IsTerminalError e"
    by (metis StepResult.exhaust option.exhaust step_out.exhaust)
  then show ?thesis
  proof cases
    case 1
    with StoppedAt st show ?thesis
      by (simp add: finish_def wp_return concluded_def settled_def)
  next
    case 2
    with StoppedAt st have "wp (finish E oldStatus AllDone) (concluded E oldStatus s c) u"
      using concluded_ready [OF law] by simp
    with 2 StoppedAt show ?thesis by (simp add: finish_def)
  next
    case 3
    with StoppedAt st show ?thesis by (simp add: concluded_wait)
  next
    case 4
    with StoppedAt st show ?thesis by (simp add: concluded_terminal [OF law])
  next
    case 5
    with StoppedAt st show ?thesis by (simp add: concluded_transient [OF law])
  qed
qed

section \<open>Whole runs\<close>

lemma executePipeline_run:
  "run_state (executePipeline E) s = (case loop_start E s of
     Some u \<Rightarrow> run_state (State_Monad.bind (advance (pipelineSteps E)) (finish E (cc_Status (claim s)))) u
   | None \<Rightarrow> run_state (do {
       c \<leftarrow> getClaim;
       case toUnstructured (e_lib E) c of
         Inl err \<Rightarrow> do {
           setFailed E ''ConversionError'' err;
           _ \<leftarrow> updateStatusIfChanged E (cc_Status (claim s));
           ret (Return \<lparr>RequeueAfter = 0\<rparr> (Some err))
         }
       | Inr u \<Rightarrow> ret Panicked
     }) (s\<lparr>claim := clearPausedCondition (e_lib E) (setPhase PhaseProvisioning (claim s))\<rparr>))"
  unfolding executePipeline_def loop_start_def Let_def runSteps_advance [symmetric]
  by (auto simp: getClaim_def modClaim_def split: sum.splits prod.splits)

lemma loop_start_settled:
  assumes "loop_start E s = Some u"
  shows "settled s (claim s) PhaseProvisioning None u" and "extends (pipeline_call E (claim s)) s u"
proof -
  let ?s1 = "s\<lparr>claim := clearPausedCondition (e_lib E) (setPhase PhaseProvisioning (claim s))\<rparr>"
  obtain v where u: "u = snd (run_state (preparePipeline E v) ?s1)"
    using assms by (auto simp: loop_start_def Let_def split: sum.splits)
  have s1: "same_spec (claim s) (claim ?s1)" and ph: "phase_of ?s1 = PhaseProvisioning"
    by (auto simp: same_spec_def setPhase_def clearPausedCondition_def)
  have w: "same_spec (claim s) (claim u) \<and> extends (pipeline_call E (claim s)) ?s1 u"
    using wp_stays [OF stays_preparePipeline s1] by (simp add: u wp_def case_prod_beta)
  then show "extends (pipeline_call E (claim s)) s u"
    by (simp add: extends_def)
  have "quiet (e_lib E) ?s1 u"
    using wp_io_rel [OF quiet_preparePipeline, of E v ?s1] by (simp add: u wp_def case_prod_beta)
  with w ph show "settled s (claim s) PhaseProvisioning None u"
    by (auto simp: settled_def quiet_def extends_def list_all_iff)
qed

lemma loop_start_ready:
  assumes "law_SetStatusCondition (e_lib E)" and "law_RemoveStatusCondition (e_lib E)" and "loop_start E s = Some u"
  shows "ready_condition u = ready_condition s"
proof -
  let ?s1 = "s\<lparr>claim := clearPausedCondition (e_lib E) (setPhase PhaseProvisioning (claim s))\<rparr>"
  obtain v where u: "u = snd (run_state (preparePipeline E v) ?s1)"
    using assms(3) by (auto simp: loop_start_def Let_def split: sum.splits)
  have "quiet (e_lib E) ?s1 u"
    using wp_io_rel [OF quiet_preparePipeline, of E v ?s1] by (simp add: u wp_def case_prod_beta)
  moreover have "ready_condition ?s1 = ready_condition s"
    using assms(2) by (simp add: setPhase_def clearPausedCondition_def law_RemoveStatusCondition_def)
  ultimately show ?thesis using assms(1) by (simp add: quiet_def)
qed

text \<open>Everything the properties of a run need to know of the state in which the loop ends.\<close>

lemma loop_end:
  assumes "loop_start E s = Some u"
  shows "wp (advance (pipelineSteps E)) (\<lambda>r v.
     settled s (claim s) (if \<exists>n. r = StoppedAt n (Step Wait None) then PhaseWaitingDependency
       else PhaseProvisioning) None v \<and>
     extends (pipeline_call E (claim s)) s v \<and>
     (r = AllDone \<longrightarrow> (\<forall>n \<in> fst ` set (pipelineSteps E). passed E (claim s) n (new_calls s v))) \<and>
     (law_SetStatusCondition (e_lib E) \<longrightarrow> ready_condition v = ready_condition u)) u"
proof -
  note start = loop_start_settled [OF assms]
  have spec: "same_spec (claim s) (claim u)" and ext: "extends any_call s u" and ph: "phase_of u = PhaseProvisioning"
    using start(1) by (simp_all add: settled_def)
  have "wp (advance (pipelineSteps E)) (\<lambda>r v.
      (same_spec (claim s) (claim v) \<and> extends (pipeline_call E (claim s)) u v \<and>
       (r = AllDone \<longrightarrow> (\<forall>n \<in> fst ` set (pipelineSteps E). passed E (claim s) n (new_calls u v)))) \<and>
      (phase_of v = (if \<exists>n. r = StoppedAt n (Step Wait None) then PhaseWaitingDependency else phase_of u) \<and>
       (law_SetStatusCondition (e_lib E) \<longrightarrow> ready_condition v = ready_condition u))) u"
    unfolding wp_conj [of _ "\<lambda>r v. same_spec (claim s) (claim v) \<and> _ r v"]
    using advance_passed [OF subset_refl spec] advance_tame [OF subset_refl] by blast
  then show ?thesis
  proof (rule wp_mono, elim conjE, intro conjI impI ballI)
    fix r v n
    assume v: "extends (pipeline_call E (claim s)) u v"
    from start(2) v show "extends (pipeline_call E (claim s)) s v"
      by (rule extends_trans)
    then have any: "extends any_call s v" by (rule extends_mono) simp
    assume "same_spec (claim s) (claim v)"
      and "phase_of v = (if \<exists>n. r = StoppedAt n (Step Wait None) then PhaseWaitingDependency else phase_of u)"
    with any ph show "settled s (claim s) (if \<exists>n. r = StoppedAt n (Step Wait None) then PhaseWaitingDependency
       else PhaseProvisioning) None v"
      by (simp add: settled_def)
    assume "r = AllDone \<longrightarrow> (\<forall>n \<in> fst ` set (pipelineSteps E). passed E (claim s) n (new_calls u v))"
      and "r = AllDone" and "n \<in> fst ` set (pipelineSteps E)"
    then show "passed E (claim s) n (new_calls s v)"
      using new_calls_trans [OF start(2) v] by (auto intro: passed_mono)
  qed auto
qed


lemma run_concluded:
  assumes law: "law_SetStatusCondition (e_lib E)"
  shows "case run_state (executePipeline E) s of (out, t) \<Rightarrow> concluded E (cc_Status (claim s)) s (claim s) out t"
proof (cases "loop_start E s")
  case (Some u)
  have "wp (State_Monad.bind (advance (pipelineSteps E)) (finish E (cc_Status (claim s))))
      (concluded E (cc_Status (claim s)) s (claim s)) u"
    by (rule wp_bindI [OF loop_end [OF Some]]) (blast intro: concluded_finish [OF law])
  with Some show ?thesis unfolding executePipeline_run by (simp add: wp_def)
next
  case None
  let ?s1 = "s\<lparr>claim := clearPausedCondition (e_lib E) (setPhase PhaseProvisioning (claim s))\<rparr>"
  obtain err where err: "toUnstructured (e_lib E) (claim ?s1) = Inl err"
    using None by (auto simp: loop_start_def Let_def split: sum.splits)
  have st: "settled s (claim s) PhaseProvisioning None ?s1"
    by (auto simp: settled_def extends_def same_spec_def setPhase_def clearPausedCondition_def)
  have "wp (do {
       setFailed E ''ConversionError'' err;
       _ \<leftarrow> updateStatusIfChanged E (cc_Status (claim s));
       ret (Return \<lparr>RequeueAfter = 0\<rparr> (Some err))
     }) (concluded E (cc_Status (claim s)) s (claim s)) ?s1"
    unfolding setFailed_def
    by (rule wp_bindI [OF settled_setPhase [OF law st]], rule wp_bindI [OF settled_report], assumption)
      (auto simp: wp_return concluded_def outcome_def)
  with None err show ?thesis
    unfolding executePipeline_run by (simp add: wp_def getClaim_def split: prod.splits)
qed

text \<open>Only a loop that ran to its end asks for the requeue of a ready claim, only a waiting one for five minutes.\<close>

lemma finish_requeue:
  "wp (finish E oldStatus r) (\<lambda>out t.
     (out = Return \<lparr>RequeueAfter = 10 * Minute\<rparr> None \<longrightarrow> r = AllDone \<or> (\<exists>n. r = StoppedAt n proceed)) \<and>
     (out = Return \<lparr>RequeueAfter = 5 * Minute\<rparr> None \<longrightarrow> (\<exists>n. r = StoppedAt n (Step Wait None)))) u"
proof -
  have ready: "wp (runSteps E oldStatus []) (\<lambda>out t. out \<noteq> Return \<lparr>RequeueAfter = 5 * Minute\<rparr> None) u"
    unfolding runSteps.simps wp_bind wp_return
    by (intro wp_always) (simp add: Minute_def Second_def split: option.splits)
  show ?thesis
  proof (cases r)
    case AllDone
    have "finish E oldStatus r = runSteps E oldStatus []"
      unfolding AllDone finish_def stop.case ..
    then show ?thesis by (simp only:) (rule wp_mono [OF ready], simp add: AllDone)
  next
    case (StoppedAt n out)
    consider "out = StepPanic" | "out = proceed" | "out = Step Wait None"
      | res e where "out = Step res (Some e)" "IsTerminalError e"
      | res e where "out = Step res (Some e)" "\<not> IsTerminalError e"
      by (metis StepResult.exhaust option.exhaust step_out.exhaust)
    then show ?thesis
    proof cases
      case 2
      then have "finish E oldStatus r = runSteps E oldStatus []"
        by (simp add: StoppedAt finish_def)
      then show ?thesis by (simp only:) (rule wp_mono [OF ready], simp add: 2 StoppedAt)
    qed (simp_all add: StoppedAt finish_def Let_def wp_bind wp_return Minute_def Second_def wp_always)
  qed
qed

lemma advance_stops: "wp (advance steps) (\<lambda>r t. \<forall>n. r \<noteq> StoppedAt n proceed) s"
proof (induction steps arbitrary: s)
  case (Cons p rest)
  show ?case
    unfolding advance.simps wp_bind by (rule wp_always) (simp add: Cons.IH wp_return)
qed (simp add: wp_return)

text \<open>The calls of the code after the loop.\<close>

definition on_track :: "'w env \<Rightarrow> ClusterClaim \<Rightarrow> 'w pst \<Rightarrow> 'w pst \<Rightarrow> bool" where
  "on_track E c s t \<longleftrightarrow> same_spec c (claim t) \<and> extends (pipeline_call E c) s t"

lemma on_track_stays: "on_track E c s u \<Longrightarrow> stays c (pipeline_call E c) m \<Longrightarrow> wp m (\<lambda>_. on_track E c s) u"
  unfolding on_track_def by (auto intro: wp_mono [OF wp_stays] extends_trans)

lemma on_track_report:
  "on_track E c s u \<Longrightarrow> wp (updateStatusIfChanged E oldStatus) (\<lambda>_ t. extends (pipeline_call E c) s t) u"
  by (auto simp: on_track_def updateStatusIfChanged_def kUpdateStatus_def wp_simps extends_def split: prod.splits)

lemma finish_calls:
  assumes "on_track E c s u"
  shows "wp (finish E oldStatus r) (\<lambda>_ t. extends (pipeline_call E c) s t) u"
proof -
  have report: "wp (State_Monad.bind (updateStatusIfChanged E oldStatus) (\<lambda>e. ret (f e)))
      (\<lambda>_ t. extends (pipeline_call E c) s t) v" if "on_track E c s v" for f :: "goerror option \<Rightarrow> rec_out" and v
    using on_track_report [OF that] by (simp add: wp_bind wp_return)
  have two: "wp (State_Monad.bind m (\<lambda>_. State_Monad.bind m' (\<lambda>_. State_Monad.bind (updateStatusIfChanged E oldStatus) (\<lambda>e. ret (f e)))))
      (\<lambda>_ t. extends (pipeline_call E c) s t) u"
    if "stays c (pipeline_call E c) m" and "stays c (pipeline_call E c) m'" for f :: "goerror option \<Rightarrow> rec_out" and m m'
    by (rule wp_bindI [OF on_track_stays [OF assms that(1)]], rule wp_bindI [OF on_track_stays [OF _ that(2)]],
        assumption, erule report)
  have ready: "wp (runSteps E oldStatus []) (\<lambda>_ t. extends (pipeline_call E c) s t) u"
    unfolding runSteps.simps by (rule two) (intro keeps_rules; simp)+
  have events: "stays c (pipeline_call E c) (event E ty rs f as)" for ty rs f as
    by (intro keeps_rules) simp
  show ?thesis
  proof (cases r)
    case AllDone
    with ready show ?thesis by (simp add: finish_def)
  next
    case (StoppedAt n out)
    with assms ready show ?thesis
      by (auto simp: finish_def Let_def wp_return on_track_def two events stays_setFailed stays_setCondition
          report [OF assms] split: step_out.splits option.splits)
  qed
qed

lemma run_calls: "extends (pipeline_call E (claim s)) s (snd (run_state (executePipeline E) s))"
proof (cases "loop_start E s")
  case (Some u)
  have "wp (State_Monad.bind (advance (pipelineSteps E)) (finish E (cc_Status (claim s))))
      (\<lambda>_ t. extends (pipeline_call E (claim s)) s t) u"
    by (rule wp_bindI [OF loop_end [OF Some]]) (auto intro: finish_calls simp: on_track_def settled_def)
  with Some show ?thesis unfolding executePipeline_run by (simp add: wp_def case_prod_beta)
next
  case None
  let ?s1 = "s\<lparr>claim := clearPausedCondition (e_lib E) (setPhase PhaseProvisioning (claim s))\<rparr>"
  obtain err where err: "toUnstructured (e_lib E) (claim ?s1) = Inl err"
    using None by (auto simp: loop_start_def Let_def split: sum.splits)
  have "on_track E (claim s) s ?s1"
    by (auto simp: on_track_def extends_def same_spec_def setPhase_def clearPausedCondition_def)
  then have "wp (do {
       setFailed E ''ConversionError'' err;
       _ \<leftarrow> updateStatusIfChanged E (cc_Status (claim s));
       ret (Return \<lparr>RequeueAfter = 0\<rparr> (Some err))
     }) (\<lambda>_ t. extends (pipeline_call E (claim s)) s t) ?s1"
    unfolding wp_bind wp_return
    by (rule wp_mono [OF on_track_stays [OF _ stays_setFailed]]) (erule on_track_report)
  with None err show ?thesis
    unfolding executePipeline_run by (simp add: wp_def getClaim_def case_prod_beta)
qed

lemma starts_at_passed:
  assumes "loop_start E s = Some u" and "starts_at E name u = Some t"
    and "n \<in> fst ` set (takeWhile (\<lambda>p. fst p \<noteq> name) (pipelineSteps E))"
  shows "passed E (claim s) n (new_calls s t)"
proof -
  let ?pre = "takeWhile (\<lambda>p. fst p \<noteq> name) (pipelineSteps E)"
  note start = loop_start_settled [OF assms(1)]
  have "set ?pre \<subseteq> set (pipelineSteps E)" by (auto dest: set_takeWhileD)
  moreover have "same_spec (claim s) (claim u)" using start(1) by (simp add: settled_def)
  ultimately have "wp (advance ?pre) (\<lambda>r t. same_spec (claim s) (claim t) \<and> extends (pipeline_call E (claim s)) u t \<and>
           (r = AllDone \<longrightarrow> (\<forall>n \<in> fst ` set ?pre. passed E (claim s) n (new_calls u t)))) u"
    by (rule advance_passed)
  then have ext: "extends (pipeline_call E (claim s)) u t" and here: "passed E (claim s) n (new_calls u t)"
    using assms(2,3) by (auto simp: starts_at_def wp_def split: prod.splits if_splits)
  from here show ?thesis
    unfolding new_calls_trans [OF start(2) ext] by (rule passed_mono) simp
qed


text \<open>How the loop ended, read off the result.\<close>

lemma run_result:
  assumes "run_state (executePipeline E) s = (out, t)" and "loop_start E s = Some u"
  obtains r v where "run_state (advance (pipelineSteps E)) u = (r, v)"
    and "run_state (finish E (cc_Status (claim s)) r) v = (out, t)"
  using assms by (auto simp: executePipeline_run split: prod.splits)

lemma conversion_result:
  assumes "run_state (executePipeline E) s = (Return r None, t)"
  obtains u where "loop_start E s = Some u"
proof (cases "loop_start E s")
  case None
  then have "fst (run_state (executePipeline E) s) \<noteq> Return r None"
    unfolding executePipeline_run
    by (auto simp: loop_start_def Let_def getClaim_def split: sum.splits prod.splits)
  with assms show ?thesis by simp
qed

lemma ready_passed:
  assumes "run_state (executePipeline E) s = (Return \<lparr>RequeueAfter = 10 * Minute\<rparr> None, t)"
    and "n \<in> fst ` set (pipelineSteps E)"
  shows "passed E (claim s) n (new_calls s t)"
proof -
  obtain u where u: "loop_start E s = Some u" using assms(1) by (rule conversion_result)
  obtain r v where adv: "run_state (advance (pipelineSteps E)) u = (r, v)"
    and fin: "run_state (finish E (cc_Status (claim s)) r) v = (Return \<lparr>RequeueAfter = 10 * Minute\<rparr> None, t)"
    using run_result [OF assms(1) u] by blast
  have r: "r = AllDone"
    using finish_requeue [of E "cc_Status (claim s)" r v] advance_stops [of "pipelineSteps E" u]
    by (simp add: wp_def fin adv)
  have v: "on_track E (claim s) s v" and here: "passed E (claim s) n (new_calls s v)"
    using loop_end [OF u] assms(2) r by (auto simp: wp_def adv settled_def on_track_def)
  have "on_track E (claim s) v v" using v by (simp add: on_track_def)
  then have "extends (pipeline_call E (claim s)) v t"
    using finish_calls [of E "claim s" v v "cc_Status (claim s)" r] by (simp add: wp_def fin)
  then have "new_calls s t = new_calls s v @ new_calls v t"
    using v new_calls_trans by (auto simp: on_track_def)
  with here show ?thesis by (auto intro: passed_mono)
qed

lemma wait_report:
  assumes "law_SetStatusCondition (e_lib E)" and "law_RemoveStatusCondition (e_lib E)"
    and "run_state (executePipeline E) s = (Return \<lparr>RequeueAfter = 5 * Minute\<rparr> None, t)"
  shows "\<exists>d. st_Phase (cc_Status d) = PhaseWaitingDependency \<and>
     reports (e_lib E) (cc_Status (claim s)) d (new_calls s t) \<and>
     find_condition (st_Conditions (cc_Status d)) ConditionReady = ready_condition s"
proof -
  obtain u where u: "loop_start E s = Some u" using assms(3) by (rule conversion_result)
  obtain r v where adv: "run_state (advance (pipelineSteps E)) u = (r, v)"
    and fin: "run_state (finish E (cc_Status (claim s)) r) v = (Return \<lparr>RequeueAfter = 5 * Minute\<rparr> None, t)"
    using run_result [OF assms(3) u] by blast
  obtain n where r: "r = StoppedAt n (Step Wait None)"
    using finish_requeue [of E "cc_Status (claim s)" r v] by (auto simp: wp_def fin)
  have v: "settled s (claim s) PhaseWaitingDependency None v" and "ready_condition v = ready_condition u"
    using loop_end [OF u] assms(1) r by (auto simp: wp_def adv)
  moreover have "ready_condition u = ready_condition s"
    by (rule loop_start_ready [OF assms(1,2) u])
  moreover have "reports (e_lib E) (cc_Status (claim s)) (claim v) (new_calls s t)"
    using wp_report [of s v "claim s" E "cc_Status (claim s)"] v fin
    by (auto simp: settled_def wp_def r finish_def split: prod.splits)
  ultimately show ?thesis by (auto simp: settled_def)
qed

end
