(* ===== verification/Schema.thy ===== *)
theory Schema
  imports Api_Types
begin

text \<open>
  The schema of the status of a claim (config/crd/bases/clusterclaim.in-cloud.io_clusterclaims.yaml, generated from
  the markers in clusterclaim_types.go and those of \<open>metav1.Condition\<close>): what the API server demands of a status
  before it stores it. The length limit of messages is kept apart: the texts of errors have no bound.
  An empty phase is omitted when the status is encoded, and so allowed; a zero time is encoded as null,
  which a required string is not.
\<close>

section \<open>Strings\<close>

definition in_range :: "char \<Rightarrow> char \<Rightarrow> char \<Rightarrow> bool" where
  "in_range lo hi x \<longleftrightarrow> (of_char lo :: nat) \<le> of_char x \<and> (of_char x :: nat) \<le> of_char hi"

definition lower :: "char \<Rightarrow> bool" where "lower x \<longleftrightarrow> in_range CHR ''a'' CHR ''z'' x"
definition digit :: "char \<Rightarrow> bool" where "digit x \<longleftrightarrow> in_range CHR ''0'' CHR ''9'' x"
definition letter :: "char \<Rightarrow> bool" where "letter x \<longleftrightarrow> lower x \<or> in_range CHR ''A'' CHR ''Z'' x"
definition alnum :: "char \<Rightarrow> bool" where "alnum x \<longleftrightarrow> letter x \<or> digit x"

text \<open>\<open>ends_in P Q s\<close>: \<open>s\<close> is not empty, begins with a character of \<open>P\<close> and ends with one of \<open>Q\<close>.\<close>

definition ends_in :: "(char \<Rightarrow> bool) \<Rightarrow> (char \<Rightarrow> bool) \<Rightarrow> string \<Rightarrow> bool" where
  "ends_in P Q s \<longleftrightarrow> s \<noteq> [] \<and> P (hd s) \<and> Q (last s)"

fun split_on :: "char \<Rightarrow> string \<Rightarrow> string list" where
  "split_on x [] = [[]]"
| "split_on x (y # ys) = (if y = x then [] # split_on x ys
     else case split_on x ys of [] \<Rightarrow> [[y]] | p # ps \<Rightarrow> (y # p) # ps)"

definition label_ok :: "string \<Rightarrow> bool" where
  "label_ok s \<longleftrightarrow> ends_in (\<lambda>x. lower x \<or> digit x) (\<lambda>x. lower x \<or> digit x) s \<and>
     list_all (\<lambda>x. lower x \<or> digit x \<or> x = CHR ''-'') s"

definition name_ok :: "string \<Rightarrow> bool" where
  "name_ok s \<longleftrightarrow> ends_in alnum alnum s \<and> list_all (\<lambda>x. alnum x \<or> x \<in> set ''-_.'') s"

text \<open>The pattern of condition types: a name, with a domain and a slash before it or not.\<close>

definition type_ok :: "string \<Rightarrow> bool" where
  "type_ok s \<longleftrightarrow> length s \<le> 316 \<and>
     (if CHR ''/'' \<in> set s
      then list_all label_ok (split_on CHR ''.'' (takeWhile (\<lambda>x. x \<noteq> CHR ''/'') s)) \<and>
           name_ok (tl (dropWhile (\<lambda>x. x \<noteq> CHR ''/'') s))
      else name_ok s)"

definition reason_ok :: "string \<Rightarrow> bool" where
  "reason_ok s \<longleftrightarrow> length s \<le> 1024 \<and> ends_in letter (\<lambda>x. alnum x \<or> x = CHR ''_'') s \<and>
     list_all (\<lambda>x. alnum x \<or> x \<in> set ''_,:'') s"

section \<open>Conditions and status\<close>

definition condition_ok :: "Condition \<Rightarrow> bool" where
  "condition_ok c \<longleftrightarrow> type_ok (c_Type c) \<and> c_Status c \<in> {''True'', ''False'', ''Unknown''} \<and>
     0 \<le> sint (c_ObservedGeneration c) \<and> c_LastTransitionTime c \<noteq> None \<and> reason_ok (c_Reason c)"

text \<open>A list of type map with the key \<open>type\<close>.\<close>

definition conditions_ok :: "Condition list \<Rightarrow> bool" where
  "conditions_ok cs \<longleftrightarrow> list_all condition_ok cs \<and> distinct (map c_Type cs)"

definition phase_ok :: "string \<Rightarrow> bool" where
  "phase_ok p \<longleftrightarrow> p \<in> {[], PhaseProvisioning, PhaseWaitingDependency, PhaseReady, PhaseFailed, PhaseDegraded,
     PhasePaused, PhaseDeleting}"

definition vault_ok :: "VaultStatusSummary option \<Rightarrow> bool" where
  "vault_ok v = (case v of None \<Rightarrow> True | Some x \<Rightarrow> conditions_ok (vs_Conditions x))"

definition cluster_ok :: "ClusterStatusSummary option \<Rightarrow> bool" where
  "cluster_ok v = (case v of None \<Rightarrow> True | Some x \<Rightarrow> conditions_ok (css_Conditions x))"

definition status_ok :: "ClusterClaimStatus \<Rightarrow> bool" where
  "status_ok st \<longleftrightarrow> phase_ok (st_Phase st) \<and> conditions_ok (st_Conditions st) \<and>
     (case st_Clusters st of None \<Rightarrow> True | Some cs \<Rightarrow> cluster_ok (cs_Infra cs) \<and> cluster_ok (cs_Client cs)) \<and>
     vault_ok (st_Vault st) \<and> vault_ok (st_VaultSecret st) \<and> vault_ok (st_S3Bucket st)"

text \<open>The condition types and reasons the operator uses fit their patterns.\<close>

lemma own_types_ok [simp]:
  "type_ok ConditionReady" "type_ok ConditionApplicationCreated" "type_ok ConditionInfraCertificateReady"
  "type_ok ConditionInfraProvisioned" "type_ok ConditionInfraCPReady" "type_ok ConditionCcmCsrcCreated"
  "type_ok ConditionRemoteConfigApplied" "type_ok ConditionClientCPReady" "type_ok ConditionVaultClaimCreated"
  "type_ok ConditionVaultClaimReady" "type_ok ConditionVaultKmsReady" "type_ok ConditionVaultSecretClaimCreated"
  "type_ok ConditionVaultSecretClaimReady" "type_ok ConditionS3BucketClaimCreated" "type_ok ConditionS3BucketClaimReady"
  "type_ok ConditionPaused"
  by code_simp+

lemma own_reasons_ok [simp]:
  "reason_ok ''AllStepsComplete''" "reason_ok ''WaitingDependency''" "reason_ok ''Created''" "reason_ok ''Ready''"
  "reason_ok ''Provisioned''" "reason_ok ''Applied''" "reason_ok ''ApplyError''" "reason_ok ''RemoteConnectionError''"
  "reason_ok ''StepFailed''" "reason_ok ''StepRetrying''" "reason_ok ''ConversionError''" "reason_ok ''Paused''"
  by code_simp+

lemma own_phases_ok [simp]:
  "phase_ok []" "phase_ok PhaseProvisioning" "phase_ok PhaseWaitingDependency" "phase_ok PhaseReady" "phase_ok PhaseFailed"
  "phase_ok PhasePaused" "phase_ok PhaseDeleting"
  by (simp_all add: phase_ok_def)

lemma empty_reason_not_ok: "\<not> reason_ok []"
  by (simp add: reason_ok_def ends_in_def)

end
