(* ===== verification/Pipeline_Frames.thy ===== *)
theory Pipeline_Frames
  imports Schema Pipeline_Runs
begin

text \<open>
  Relations kept by the whole pipeline. A relation on states that is reflexive and transitive and kept by the
  primitive operations of the code is kept by every step, by the loop up to the step that stops it, and, if
  it is also kept by changes of the claim in memory and by status writes, by the whole run. The two
  locales say what has to be shown of the primitives; the rest follows the syntax of the code once.
\<close>

locale pipeline_frame = state_frame R for R :: "'w pst \<Rightarrow> 'w pst \<Rightarrow> bool" +
  fixes E :: "'w env"
  assumes frame_reads: "state_io_rel R (kGetTemplate E n)" "state_io_rel R (kGetSecret E k)" "state_io_rel R (kGet E g k)"
    and frame_writes: "state_io_rel R (kUpdate E g k obj)" "state_io_rel R (kApply E obj)"
    and frame_remote: "state_io_rel R (kNewClient E cfg)" "state_io_rel R (kRemoteGet E cl k)"
      "state_io_rel R (kRemoteCreate E cl cm)" "state_io_rel R (kRemoteUpdate E cl cm)"
    and frame_local: "state_io_rel R (kNow E)" "state_io_rel R getClaim" "state_io_rel R getCtx" "state_io_rel R (modCtx f)"
      "state_io_rel R (event E et er em as)" "state_io_rel R (State_Monad.update (\<lambda>s. s\<lparr>cmgr := h s\<rparr>))"
    and frame_condition: "type_ok t \<Longrightarrow> v \<in> {ConditionTrue, ConditionFalse} \<Longrightarrow> reason_ok r \<Longrightarrow>
      state_io_rel R (setCondition E t v r m)"
    and frame_waiting: "state_io_rel R (modClaim (setPhase PhaseWaitingDependency))"
begin

lemmas frame_prims = frame_reads frame_writes frame_remote frame_local frame_condition frame_waiting

lemma frame_setWaiting: "type_ok t \<Longrightarrow> state_io_rel R (setWaiting E t m)"
  unfolding setWaiting_def by (intro keeps frame_prims) simp_all

lemma frame_resources:
  "state_io_rel R (ensureResource E t n ns)" "state_io_rel R (getResource E g n ns)"
  "state_io_rel R (ensureResourceFinalizer E g n ns)" "state_io_rel R (applyRemoteConfigMap E cl t n ns)"
  "state_io_rel R (GetClient E secret)"
  unfolding ensureResource_def getResource_def ensureResourceFinalizer_def applyRemoteConfigMap_def GetClient_def
    lookupClient_def Let_def
  by (intro keeps frame_prims)+

lemma frame_returns:
  "state_io_rel R m \<Longrightarrow> state_io_rel R k \<Longrightarrow> state_io_rel R (orFail m k)"
  "state_io_rel R m \<Longrightarrow> state_io_rel R k \<Longrightarrow> state_io_rel R (orRemoteFail E f m k)"
  unfolding orFail_def orRemoteFail_def by (intro keeps frame_prims; simp)+

lemmas frame_ops = frame_prims frame_setWaiting frame_resources frame_returns

lemma frame_case_step_out:
  "(\<And>r e. state_io_rel R (f r e)) \<Longrightarrow> state_io_rel R k \<Longrightarrow> state_io_rel R (case out of Step r e \<Rightarrow> f r e | StepPanic \<Rightarrow> k)"
  by (cases out) simp_all

lemma frame_dependents:
  assumes "type_ok ct"
  shows "state_io_rel R (ensureDependent E kind g tr n ns ev ct)" "state_io_rel R (waitDependent E kind g tr n ns ev ct)"
  unfolding ensureDependent_def waitDependent_def Let_def by (intro keeps frame_ops assms; simp)+

lemma frame_plain_steps:
  "state_io_rel R (stepApplication E)" "state_io_rel R (stepCertificateSetInfra E)" "state_io_rel R (stepWaitCertSetReady E)"
  "state_io_rel R (stepClusterInfra E)" "state_io_rel R (stepWaitInfraProvisioned E)" "state_io_rel R (stepCertificateSetClient E)"
  "state_io_rel R (stepWaitInfraCPReady E)" "state_io_rel R (stepCcmCsrc E)" "state_io_rel R (stepClusterClient E)"
  "state_io_rel R (stepWaitClientCPReady E)" "state_io_rel R (stepCcmCsrcUpdate E)" "state_io_rel R (stepWaitVaultKmsReady E)"
  "state_io_rel R (stepRemoteConfigMaps E)"
  unfolding stepApplication_def stepCertificateSetInfra_def stepWaitCertSetReady_def stepClusterInfra_def
    stepWaitInfraProvisioned_def stepCertificateSetClient_def stepWaitInfraCPReady_def stepCcmCsrc_def
    stepClusterClient_def stepWaitClientCPReady_def stepCcmCsrcUpdate_def stepWaitVaultKmsReady_def
    stepRemoteConfigMaps_def Let_def
  by (intro keeps frame_ops; simp)+

lemma frame_vault_steps:
  "state_io_rel R (stepEnsureVaultClaim E)" "state_io_rel R (stepWaitVaultClaim E)"
  "state_io_rel R (stepEnsureVaultSecretClaim E)" "state_io_rel R (stepWaitVaultSecretClaim E)"
  "state_io_rel R (stepEnsureS3BucketClaim E)" "state_io_rel R (stepWaitS3BucketClaim E)"
  unfolding stepEnsureVaultClaim_def stepWaitVaultClaim_def stepEnsureVaultSecretClaim_def
    stepWaitVaultSecretClaim_def stepEnsureS3BucketClaim_def stepWaitS3BucketClaim_def
  by (intro keeps_bind frame_ops frame_dependents; simp)+

lemma frame_steps: "p \<in> set (pipelineSteps E) \<Longrightarrow> state_io_rel R (snd p)"
  using frame_plain_steps frame_vault_steps by (auto simp: pipelineSteps_def)

lemma frame_advance: "set steps \<subseteq> set (pipelineSteps E) \<Longrightarrow> state_io_rel R (advance steps)"
  by (induction steps) (auto intro!: keeps frame_steps)

end

locale run_frame = pipeline_frame +
  assumes frame_modClaim: "state_io_rel R (modClaim f)"
    and frame_status_write: "state_io_rel R (kUpdateStatus E)"
begin

lemma frame_updateStatus: "state_io_rel R (updateStatusIfChanged E old)"
  unfolding updateStatusIfChanged_def by (intro keeps frame_ops frame_status_write)

lemma frame_ends: "state_io_rel R (setReady E)" "reason_ok r \<Longrightarrow> state_io_rel R (setFailed E r e)"
  unfolding setReady_def setFailed_def by (intro keeps frame_ops frame_modClaim; simp)+

lemma frame_mirrors:
  "state_io_rel R (mirrorVaultStatus E)" "state_io_rel R (mirrorVaultSecretStatus E)" "state_io_rel R (mirrorS3BucketStatus E)"
  "state_io_rel R (fetchControlPlaneVersion E obj)"
  unfolding mirrorVaultStatus_def mirrorVaultSecretStatus_def mirrorS3BucketStatus_def mirrorResourceStatus_def
    fetchControlPlaneVersion_def Let_def
  by (intro keeps frame_ops frame_modClaim)+

lemma frame_preparePipeline: "state_io_rel R (preparePipeline E u)"
  unfolding preparePipeline_def tryGet_def syncClusterStatuses_def
  by (intro keeps frame_ops frame_mirrors frame_modClaim)

lemma frame_runSteps: "set steps \<subseteq> set (pipelineSteps E) \<Longrightarrow> state_io_rel R (runSteps E old steps)"
  by (induction steps)
    (auto simp: Let_def intro!: keeps frame_case_step_out frame_updateStatus frame_ends frame_ops frame_steps)

lemma frame_executePipeline: "state_io_rel R (executePipeline E)"
  unfolding executePipeline_def Let_def
  by (intro keeps frame_ops frame_ends frame_updateStatus frame_preparePipeline frame_runSteps frame_modClaim; simp)

end

section \<open>Answers come from the server\<close>

text \<open>Every read of an object in the history was answered by the API server, in some world.\<close>

definition answered :: "'w env \<Rightarrow> call \<Rightarrow> bool" where
  "answered E x \<longleftrightarrow> (\<forall>g k a. x = CGet g k a \<longrightarrow> (\<exists>w. a = fst (api_get (e_api E) g k w)))"

lemma answered_ask: "(\<And>a w. a = fst (f w) \<Longrightarrow> answered E (c a)) \<Longrightarrow> makes (answered E) (ask f c)"
  by (auto simp: state_io_rel_def ask_def extends_def split: prod.splits) (metis fst_conv)

interpretation ans: run_frame "extends (answered E)" E for E
proof unfold_locales
  show "makes (answered E) (kGetTemplate E n)" "makes (answered E) (kGetSecret E k)" "makes (answered E) (kGet E g k)"
    "makes (answered E) (kUpdate E g k obj)" "makes (answered E) (kApply E obj)" "makes (answered E) (kNewClient E cfg)"
    "makes (answered E) (kRemoteGet E cl k)" "makes (answered E) (kRemoteCreate E cl cm)" "makes (answered E) (kRemoteUpdate E cl cm)"
    for E :: "'a env" and n k g obj cfg cl cm
    unfolding kGetTemplate_def kGetSecret_def kGet_def kUpdate_def kApply_def kNewClient_def kRemoteGet_def kRemoteCreate_def
      kRemoteUpdate_def
    by (rule answered_ask, auto simp: answered_def)+
qed (auto simp: state_io_rel_def k_defs extends_def answered_def setCondition_def split: prod.splits)

end
