(* ===== verification/Pipeline_Live.thy ===== *)
theory Pipeline_Live
  imports Pipeline_Phases Pipeline_Frames
begin

text \<open>
  Progress: what every step needs of the world in order to proceed. When the API servers answer and the needs of all
  steps are met, one reconciliation takes the claim to \<open>Ready\<close> (\<open>cooperative\<close> collects what the
  environment has to do); when only those of the first steps are, the run gets as far as these.
\<close>

section \<open>What the steps need\<close>

text \<open>
  For each step the object it reads,
      and what it has to find there. A step that applies an object reads it again
  to put its finalizer on it; the step for remote ConfigMaps reads the kubeconfig Secret.
\<close>

definition step_needs :: "lib \<Rightarrow> ClusterClaim \<Rightarrow> (string \<times> GroupVersionKind \<times> string \<times> (gomap \<Rightarrow>
    bool)) list" where
  "step_needs L c = (let n = cc_Name c;
     phase_ready = (\<lambda>obj. nested_string L obj [''status'', ''phase''] = PhaseReady);
     cp_ready = (\<lambda>obj. nested_bool L obj [''status'', ''initialization'', ''controlPlaneInitialized'']) in
    [(''Application'', ApplicationGVK, ApplicationName n, \<lambda>_. True),
     (''EnsureS3BucketClaim'', S3BucketClaimGVK, S3BucketClaimName n, \<lambda>_. True),
     (''CertificateSetInfra'', CertificateSetGVK, CertificateSetName n ''infra'', \<lambda>_. True),
     (''WaitCertSetReady'', CertificateSetGVK, CertificateSetName n ''infra'',
         \<lambda>obj. isConditionTrue L obj ''Ready''),
     (''ClusterInfra'', ClusterGVK, ClusterName n ''infra'', \<lambda>_. True),
     (''WaitInfraProvisioned'', ClusterGVK, ClusterName n ''infra'',
       \<lambda>obj. nested_bool L obj [''status'', ''initialization'', ''infrastructureProvisioned'']),
     (''CertificateSetClient'', CertificateSetGVK, CertificateSetName n ''client'', \<lambda>_. True),
     (''WaitInfraCPReady'', ClusterGVK, ClusterName n ''infra'', cp_ready),
     (''EnsureVaultClaim'', VaultClaimGVK, VaultClaimName n, \<lambda>_. True),
     (''EnsureVaultSecretClaim'', VaultSecretClaimGVK, VaultSecretClaimName n, \<lambda>_. True),
     (''CcmCsrc'', CcmCsrcGVK, CcmCsrcName n, \<lambda>_. True),
     (''WaitVaultKmsReady'', VaultClaimGVK, VaultClaimName n, kms_ready L),
     (''ClusterClient'', ClusterGVK, ClusterName n ''client'', \<lambda>_. True),
     (''WaitClientCPReady'', ClusterGVK, ClusterName n ''client'', cp_ready),
     (''WaitVaultClaim'', VaultClaimGVK, VaultClaimName n, phase_ready),
     (''WaitVaultSecretClaim'', VaultSecretClaimGVK, VaultSecretClaimName n, phase_ready),
     (''WaitS3BucketClaim'', S3BucketClaimGVK, S3BucketClaimName n, phase_ready)])"

definition finds :: "'w env \<Rightarrow> GroupVersionKind \<Rightarrow> ObjectKey \<Rightarrow> (gomap \<Rightarrow> bool) \<Rightarrow> 'w \<Rightarrow> bool" where
  "finds E g k P w \<longleftrightarrow> (case fst (api_get (e_api E) g k w) of Inl e \<Rightarrow> False | Inr obj \<Rightarrow> P obj)"

definition kubeconfig_there :: "'w env \<Rightarrow> ClusterClaim \<Rightarrow> 'w \<Rightarrow> bool" where
  "kubeconfig_there E c w \<longleftrightarrow> sp_ConfigMapTemplateRef (cc_Spec c) = None \<or>
     (case fst (api_get_secret (e_api E) (key_of (KubeconfigSecretName (cc_Name c)) (cc_Namespace c)) w) of
        Inl e \<Rightarrow> False
      | Inr sec \<Rightarrow> map_of (sec_Data sec) ''value'' \<notin> {None, Some []})"

lemma finds_iff: "finds E g k P w \<longleftrightarrow> (\<exists>obj. fst (api_get (e_api E) g k w) = Inr obj \<and> P obj)"
  by (auto simp: finds_def split: sum.splits)

lemma kubeconfig_there_iff:
  "kubeconfig_there E c w \<longleftrightarrow> sp_ConfigMapTemplateRef (cc_Spec c) = None \<or>
     (\<exists>sec. fst (api_get_secret (e_api E) (key_of (KubeconfigSecretName (cc_Name c))
         (cc_Namespace c)) w) = Inr sec \<and>
        map_of (sec_Data sec) ''value'' \<notin> {None, Some []})"
  by (auto simp: kubeconfig_there_def split: sum.splits)

definition needs :: "'w env \<Rightarrow> ClusterClaim \<Rightarrow> string \<Rightarrow> 'w \<Rightarrow> bool" where
  "needs E c step w \<longleftrightarrow> (case map_of (step_needs (e_lib E) c) step of
       None \<Rightarrow> True
     | Some (g, n, P) \<Rightarrow> finds E g (key_of n (cc_Namespace c)) P w) \<and>
     (step = ''RemoteConfigMaps'' \<longrightarrow> kubeconfig_there E c w)"

definition ready_resources :: "'w env \<Rightarrow> ClusterClaim \<Rightarrow> bool" where
  "ready_resources E c \<longleftrightarrow> (\<forall>step w. needs E c step w)"

section \<open>A cooperative environment\<close>

text \<open>The template \<open>n\<close> renders, and renders the kind it is referenced for by the vault-family references.\<close>

definition fits :: "'w env \<Rightarrow> ClusterClaim \<Rightarrow> string \<Rightarrow> ClusterClaimObserveResourceTemplate \<Rightarrow> bool" where
  "fits E c n tmpl \<longleftrightarrow> (\<forall>ctx. \<exists>r. Render (e_lib E) (ts_Value (tm_Spec tmpl)) ctx = Inr r) \<and>
     (\<forall>(ref, gvk) \<in> {(sp_VaultClaimTemplateRef (cc_Spec c), VaultClaimGVK),
        (sp_VaultSecretClaimTemplateRef (cc_Spec c), VaultSecretClaimGVK),
        (sp_S3BucketClaimTemplateRef (cc_Spec c), S3BucketClaimGVK)}.
        map_option tr_Name ref = Some n \<longrightarrow>
        ts_APIVersion (tm_Spec tmpl) = GroupVersionString (e_lib E) gvk \<and> ts_Kind (tm_Spec tmpl) = gvk_Kind gvk)"

definition good_templates :: "'w env \<Rightarrow> ClusterClaim \<Rightarrow> bool" where
  "good_templates E c \<longleftrightarrow> (\<forall>n \<in> set (indexed_names c). \<forall>w. \<exists>tmpl.
     fst (api_get_template (e_api E) n w) = Inr tmpl \<and> fits E c n tmpl)"

definition writable :: "'w env \<Rightarrow> bool" where
  "writable E \<longleftrightarrow> (\<forall>obj w. fst (api_apply (e_api E) obj w) = None) \<and>
     (\<forall>obj w. fst (api_update (e_api E) obj w) = None) \<and>
     (\<forall>d w. fst (fst (api_update_status (e_api E) d w)) = None)"

definition remote_up :: "'w env \<Rightarrow> ClusterClaim \<Rightarrow> bool" where
  "remote_up E c \<longleftrightarrow> sp_ConfigMapTemplateRef (cc_Spec c) = None \<or>
     e_ClusterManager E \<and>
     (\<forall>v. \<exists>cfg. RESTConfigFromKubeConfig (e_lib E) v = Inr cfg) \<and>
     (\<forall>cfg w. \<exists>cl. fst (api_new_client (e_api E) cfg w) = Inr cl) \<and>
     (\<forall>cl k w e. fst (rem_get (e_api E) cl k w) = Inl e \<longrightarrow> IsNotFound (e_lib E) e) \<and>
     (\<forall>cl cm w. fst (rem_create (e_api E) cl cm w) = None) \<and>
     (\<forall>cl cm w. fst (rem_update (e_api E) cl cm w) = None)"

definition client_refs :: "ClusterClaim \<Rightarrow> bool" where
  "client_refs c \<longleftrightarrow> \<not> client_enabled c \<or>
     dr_Client (sp_CertificateSetTemplateRef (cc_Spec c)) \<noteq> None \<and> dr_Client (sp_ClusterTemplateRef (cc_Spec c)) \<noteq> None"

text \<open>The servers and templates do their part; nothing is said of the resources.\<close>

definition operable :: "'w env \<Rightarrow> ClusterClaim \<Rightarrow> bool" where
  "operable E c \<longleftrightarrow> good_templates E c \<and> writable E \<and> remote_up E c \<and> client_refs c \<and>
     (\<forall>d. \<exists>u. ToUnstructured (e_lib E) d = Inr u)"

definition cooperative :: "'w env \<Rightarrow> ClusterClaim \<Rightarrow> bool" where
  "cooperative E c \<longleftrightarrow> ready_resources E c \<and> operable E c"

section \<open>Operations that succeed\<close>

text \<open>
  \<open>I\<close> is what is known of the world throughout a run, such as that certain resources are ready. It is kept
  by everything the operator asks of the servers.
\<close>

definition inside :: "('w \<Rightarrow> bool) \<Rightarrow> 'w pst \<Rightarrow> 'w pst \<Rightarrow> bool" where
  "inside I s t \<longleftrightarrow> (I (world s) \<longrightarrow> I (world t))"

text \<open>
  \<open>gives I c P m\<close>: on a version of the claim \<open>c\<close> and in a world of \<open>I\<close>,
      \<open>m\<close> returns a value that satisfies \<open>P\<close>, and
  leaves both as they are.
\<close>

definition gives :: "('w \<Rightarrow> bool) \<Rightarrow> ClusterClaim \<Rightarrow> ('a \<Rightarrow> bool) \<Rightarrow> ('w, 'a) pop \<Rightarrow> bool" where
  "gives I c P m \<longleftrightarrow> (\<forall>s. same_spec c (claim s) \<and> I (world s) \<longrightarrow>
     wp m (\<lambda>a t. P a \<and> same_spec c (claim t) \<and> I (world t)) s)"

lemma gives_ret: "P a \<Longrightarrow> gives I c P (ret a)"
  by (simp add: gives_def wp_return)

lemma gives_bind: "gives I c P m \<Longrightarrow> (\<And>a. P a \<Longrightarrow> gives I c Q (k a)) \<Longrightarrow> gives I c Q (State_Monad.bind m k)"
  unfolding gives_def by (auto intro!: wp_bindI)

lemma gives_inside:
  fixes m :: "('a, 'b) pop"
  assumes "\<And>s. same_spec c (claim s) \<Longrightarrow> I (world s) \<Longrightarrow> wp m (\<lambda>a t. P a \<and> same_spec c (claim t)) s"
    and "state_io_rel (inside I) m"
  shows "gives I c P m"
  unfolding gives_def
proof (intro allI impI)
  fix s :: "'a pst"
  assume s: "same_spec c (claim s) \<and> I (world s)"
  then have "wp m (\<lambda>a t. I (world t)) s" by (intro wp_mono [OF wp_io_rel [OF assms(2)]])
      (simp add: inside_def)
  with assms(1) [of s] s show "wp m (\<lambda>a t. P a \<and> same_spec c (claim t) \<and> I (world t)) s" by (simp add: wp_conj)
qed

lemma gives_stays:
  assumes "stays c \<Phi> m" and "state_io_rel (inside I) m" and "\<And>a. gives I c Q (k a)"
  shows "gives I c Q (State_Monad.bind m k)"
proof (rule gives_bind [where P = "\<lambda>_. True", OF gives_inside assms(3)])
  show "wp m (\<lambda>a t. True \<and> same_spec c (claim t)) s" if "same_spec c (claim s)" for s
    using wp_mono [OF wp_stays [OF assms(1) that]] by simp
qed (rule assms(2))

lemma gives_getClaim: "(\<And>d. same_spec c d \<Longrightarrow> gives I c Q (k d)) \<Longrightarrow> gives I c Q (State_Monad.bind getClaim k)"
  by (auto simp: gives_def wp_simps)

lemma gives_ask:
  "(\<And>w. I w \<Longrightarrow> P (fst (f w))) \<Longrightarrow> (\<And>w. I w \<Longrightarrow> I (snd (f w))) \<Longrightarrow> gives I c P (ask f k)"
  unfolding gives_def ask_def by (auto simp: wp_simps split: prod.splits) (metis fst_conv snd_conv)+

lemma gives_orFail: "gives I c (\<lambda>e. e = None) m \<Longrightarrow> gives I c P k \<Longrightarrow> gives I c P (orFail m k)"
  unfolding orFail_def by (erule gives_bind) simp

lemma gives_orRemoteFail: "gives I c (\<lambda>e. e = None) m \<Longrightarrow> gives I c P k \<Longrightarrow> gives I c P (orRemoteFail E f m k)"
  unfolding orRemoteFail_def by (erule gives_bind) simp

section \<open>Servers that keep what is known\<close>

locale served =
  fixes E :: "'w env" and I :: "'w \<Rightarrow> bool"
  assumes now: "I w \<Longrightarrow> I (snd (api_now (e_api E) w))"
    and reads: "I w \<Longrightarrow> I (snd (api_get_template (e_api E) n w))" "I w \<Longrightarrow> I (snd (api_get_secret (e_api E) k w))"
      "I w \<Longrightarrow> I (snd (api_get (e_api E) g k w))"
    and writes: "I w \<Longrightarrow> I (snd (api_update (e_api E) obj w))" "I w \<Longrightarrow> I (snd (api_apply (e_api E) obj w))"
      "I w \<Longrightarrow> I (snd (api_update_status (e_api E) d w))"
    and remote: "I w \<Longrightarrow> I (snd (api_new_client (e_api E) cfg w))" "I w \<Longrightarrow> I (snd (rem_get (e_api E) cl k w))"
      "I w \<Longrightarrow> I (snd (rem_create (e_api E) cl cm w))" "I w \<Longrightarrow> I (snd (rem_update (e_api E) cl cm w))"

lemma inside_ask: "(\<And>w. I w \<Longrightarrow> I (snd (f w))) \<Longrightarrow> state_io_rel (inside I) (ask f c)"
  by (auto simp: state_io_rel_def ask_def inside_def split: prod.splits) (metis snd_conv)

sublocale served \<subseteq> fr: run_frame "inside I" E
proof unfold_locales
  show "state_io_rel (inside I) (kGetTemplate E n)" "state_io_rel (inside I)
      (kGetSecret E k)" "state_io_rel (inside I) (kGet E g k)"
    "state_io_rel (inside I) (kUpdate E g k obj)" "state_io_rel (inside I)
        (kApply E obj)" "state_io_rel (inside I) (kNewClient E cfg)"
    "state_io_rel (inside I) (kRemoteGet E cl k)" "state_io_rel (inside I) (kRemoteCreate E cl cm)"
    "state_io_rel (inside I) (kRemoteUpdate E cl cm)"
    for n k g obj cfg cl cm
    unfolding kGetTemplate_def kGetSecret_def kGet_def kUpdate_def kApply_def kNewClient_def kRemoteGet_def kRemoteCreate_def
      kRemoteUpdate_def
    by (rule inside_ask, erule reads writes remote)+
  show "state_io_rel (inside I) (kNow E)" "state_io_rel (inside I) (setCondition E t v r m)"
    "state_io_rel (inside I) (kUpdateStatus E)" for t v r m
    using now writes(3) by (auto simp: state_io_rel_def k_defs inside_def setCondition_def split: prod.splits)
        (metis snd_conv)+
qed (auto simp: state_io_rel_def k_defs inside_def split: prod.splits)

context served
begin

lemma gives_requests:
  "(\<And>w. I w \<Longrightarrow> P1 (fst (api_get_template (e_api E) n w))) \<Longrightarrow> gives I c P1 (kGetTemplate E n)"
  "(\<And>w. I w \<Longrightarrow> P2 (fst (api_get_secret (e_api E) k w))) \<Longrightarrow> gives I c P2 (kGetSecret E k)"
  "(\<And>w. I w \<Longrightarrow> P3 (fst (api_get (e_api E) g k w))) \<Longrightarrow> gives I c P3 (kGet E g k)"
  "(\<And>w. I w \<Longrightarrow> P4 (fst (api_update (e_api E) obj w))) \<Longrightarrow> gives I c P4 (kUpdate E g k obj)"
  "(\<And>w. I w \<Longrightarrow> P5 (fst (api_new_client (e_api E) cfg w))) \<Longrightarrow> gives I c P5 (kNewClient E cfg)"
  unfolding kGetTemplate_def kGetSecret_def kGet_def kUpdate_def kNewClient_def
  by (rule gives_ask, blast, erule reads writes remote)+

lemma gives_reporting:
  "(\<And>a. gives I c Q (k a)) \<Longrightarrow> gives I c Q (State_Monad.bind (event E t r f as) k)"
  "(\<And>a. gives I c Q (k a)) \<Longrightarrow> gives I c Q (State_Monad.bind (modCtx g) k)"
  by (rule gives_stays [where \<Phi> = any_call], intro keeps_rules TrueI, rule fr.frame_local; simp)+

lemma gives_setCondition:
  "(\<And>a. gives I c Q (k a)) \<Longrightarrow> gives I c Q (State_Monad.bind (setCondition E ct v r m) k)"
proof (rule gives_stays [where \<Phi> = any_call])
  show "state_io_rel (inside I) (setCondition E ct v r m)"
    using now by (auto simp: state_io_rel_def k_defs inside_def setCondition_def split: prod.splits)
        (metis snd_conv)
qed (intro keeps_rules; simp)+

lemma gives_getTemplate:
  assumes "good_templates E c" and "n \<in> set (indexed_names c)"
  shows "gives I c (\<lambda>r. \<exists>tmpl. r = Inr tmpl \<and> fits E c n tmpl) (kGetTemplate E n)"
  using assms unfolding good_templates_def by (intro gives_requests) blast

lemma gives_ensureResource:
  assumes "good_templates E c" and "writable E" and "t \<in> set (indexed_names c)"
  shows "gives I c (\<lambda>e. e = None) (ensureResource E t n ns)"
proof (rule gives_inside [OF _ fr.frame_resources(1)])
  fix s :: "'w pst"
  assume same: "same_spec c (claim s)"
  obtain tmpl w where "api_get_template (e_api E) t (world s) = (Inr tmpl, w)"
    and "\<forall>ctx. \<exists>x. Render (e_lib E) (ts_Value (tm_Spec tmpl)) ctx = Inr x"
    using assms(1,3) unfolding good_templates_def fits_def by (metis prod.collapse)
  moreover from this obtain x where "Render (e_lib E) (ts_Value (tm_Spec tmpl)) (tctx s) = Inr x" by blast
  moreover have "api_apply (e_api E) obj v \<noteq> (Some e, v')" for obj v e v'
    using assms(2) unfolding writable_def by (metis fst_conv option.distinct(1))
  ultimately show "wp (ensureResource E t n ns) (\<lambda>e u. e = None \<and> same_spec c (claim u)) s"
    using same by (auto simp: ensureResource_def wp_simps k_defs split: prod.split option.split)
qed

lemma gives_getResource:
  assumes "\<And>w. I w \<Longrightarrow> finds E g (key_of n ns) P w"
  shows "gives I c (\<lambda>r. \<exists>obj. r = Inr obj \<and> P obj) (getResource E g n ns)"
  unfolding getResource_def
  by (rule gives_bind [OF gives_requests(3) [where ?P3.0 = "\<lambda>r. \<exists>obj. r = Inr obj \<and> P obj"]])
    (use assms in \<open>auto simp: finds_iff intro: gives_ret\<close>)

lemma gives_ensureResourceFinalizer:
  assumes "\<And>w. I w \<Longrightarrow> finds E g (key_of n ns) P w" and "writable E"
  shows "gives I c (\<lambda>e. e = None) (ensureResourceFinalizer E g n ns)"
  unfolding ensureResourceFinalizer_def
  by (rule gives_bind [OF gives_requests(3) [where ?P3.0 = "\<lambda>r. \<exists>obj. r = Inr obj \<and> P obj"]])
    (use assms in \<open>auto simp: writable_def finds_iff intro!: gives_ret gives_requests split: prod.splits\<close>)

lemma gives_ensureDependent:
  assumes "good_templates E c" and "writable E"
    and "\<And>w. I w \<Longrightarrow> finds E g (key_of n ns) P w"
    and "(ref, g) \<in> {(sp_VaultClaimTemplateRef (cc_Spec c), VaultClaimGVK),
      (sp_VaultSecretClaimTemplateRef (cc_Spec c), VaultSecretClaimGVK),
      (sp_S3BucketClaimTemplateRef (cc_Spec c), S3BucketClaimGVK)}"
  shows "gives I c (\<lambda>out. out = proceed) (ensureDependent E kind g ref n ns ev ct)"
proof (cases ref)
  case (Some r)
  have t: "tr_Name r \<in> set (indexed_names c)"
    using assms(4) Some by (auto simp: indexed_names_def indexes_def ref_name_def split: option.splits)
  have fits: "fits E c (tr_Name r) tmpl \<Longrightarrow>
      ts_APIVersion (tm_Spec tmpl) = GroupVersionString (e_lib E) g \<and> ts_Kind (tm_Spec tmpl) = gvk_Kind g" for tmpl
    using assms(4) Some unfolding fits_def by fastforce
  have "gives I c (\<lambda>out. out = proceed) (orFail (ensureResource E (tr_Name r) n ns)
            (orFail (ensureResourceFinalizer E g n ns) (do {
              event E EventTypeNormal ev (kind @ '' %s created'') [n];
              setCondition E ct ConditionTrue ''Created'' (kind @ '' created/updated'');
              ret proceed
            })))"
    by (intro gives_orFail gives_ensureResource [OF assms(1,2) t] gives_ensureResourceFinalizer [OF assms(3,2)]
        gives_reporting gives_setCondition gives_ret) simp_all
  with Some show ?thesis
    unfolding ensureDependent_def Let_def
    by (auto dest: fits intro!: gives_bind [OF gives_getTemplate [OF assms(1) t]])
qed (simp add: ensureDependent_def gives_ret)

lemma gives_waitDependent:
  assumes "\<And>w. I w \<Longrightarrow> finds E g (key_of n ns) (\<lambda>obj. nested_string (e_lib E) obj [''status'',
      ''phase''] = PhaseReady) w"
  shows "gives I c (\<lambda>out. out = proceed) (waitDependent E kind g ref n ns ev ct)"
  unfolding waitDependent_def Let_def
  by (auto intro!: gives_ret gives_bind [OF gives_getResource [OF assms]] gives_reporting gives_setCondition)

text \<open>Remote ConfigMaps.\<close>

lemma gives_lookupClient: "gives I c (\<lambda>_. True) (lookupClient E k h)"
proof (rule gives_inside)
  show "state_io_rel (inside I) (lookupClient E k h)"
    unfolding lookupClient_def Let_def by (intro fr.keeps fr.frame_prims)
qed (use wp_stays [OF stays_lookupClient] in \<open>fastforce elim: wp_mono\<close>)

lemma gives_GetClient:
  assumes "remote_up E c" and "sp_ConfigMapTemplateRef (cc_Spec c) \<noteq> None"
    and "map_of (sec_Data sec) ''value'' \<notin> {None, Some []}"
  shows "gives I c (\<lambda>r. \<exists>cl. r = Inr cl) (GetClient E sec)"
proof -
  obtain v where v: "map_of (sec_Data sec) ''value'' = Some v" "v \<noteq> []" using assms(3) by auto
  obtain cfg where cfg: "RESTConfigFromKubeConfig (e_lib E) v = Inr cfg"
    using assms(1,2) unfolding remote_up_def by blast
  have new: "gives I c (\<lambda>r. \<exists>cl. r = Inr cl) (kNewClient E cfg)"
    using assms(1,2) by (intro gives_requests) (simp add: remote_up_def)
  show ?thesis
    unfolding GetClient_def Let_def v(1) option.case
    using v(2) cfg
    by (auto intro!: gives_ret gives_bind [OF gives_lookupClient] gives_bind [OF new]
        gives_stays [where \<Phi> = any_call] fr.frame_local keeps_rules split: option.splits)
qed

lemma gives_applyRemoteConfigMap:
  assumes "good_templates E c" and "remote_up E c" and "sp_ConfigMapTemplateRef (cc_Spec c) \<noteq> None"
    and "t \<in> set (indexed_names c)"
  shows "gives I c (\<lambda>e. e = None) (applyRemoteConfigMap E cl t n ns)"
proof (rule gives_inside [OF _ fr.frame_resources(4)])
  fix s :: "'w pst"
  assume same: "same_spec c (claim s)"
  obtain tmpl w where "api_get_template (e_api E) t (world s) = (Inr tmpl, w)"
    and "\<forall>ctx. \<exists>x. Render (e_lib E) (ts_Value (tm_Spec tmpl)) ctx = Inr x"
    using assms(1,4) unfolding good_templates_def fits_def by (metis prod.collapse)
  moreover from this obtain x where "Render (e_lib E) (ts_Value (tm_Spec tmpl)) (tctx s) = Inr x" by blast
  moreover have "rem_create (e_api E) cl cm v \<noteq> (Some e, v')" "rem_update (e_api E) cl cm v \<noteq> (Some e, v')"
    "rem_get (e_api E) cl k v = (Inl e, v') \<Longrightarrow> IsNotFound (e_lib E) e" for cm v e v' k
    using assms(2,3) unfolding remote_up_def by (metis fst_conv option.distinct(1))+
  ultimately show "wp (applyRemoteConfigMap E cl t n ns) (\<lambda>e u. e = None \<and> same_spec c (claim u)) s"
    using same
    by (auto simp: applyRemoteConfigMap_def Let_def wp_simps k_defs split: prod.split sum.split)
      (metis not_None_eq)+
qed

lemma gives_stepRemoteConfigMaps:
  assumes "operable E c" and there: "\<And>w. I w \<Longrightarrow> kubeconfig_there E c w"
  shows "gives I c (\<lambda>out. out = proceed) (stepRemoteConfigMaps E)"
proof (cases "sp_ConfigMapTemplateRef (cc_Spec c)")
  case None
  then show ?thesis
    unfolding stepRemoteConfigMaps_def by (auto intro!: gives_getClaim gives_ret simp: same_specD)
next
  case (Some ref)
  have env: "good_templates E c" "remote_up E c" "e_ClusterManager E"
    using assms(1) Some by (auto simp: operable_def remote_up_def)
  have infra: "tr_Name (dr_Infra ref) \<in> set (indexed_names c)"
    and client: "dr_Client ref = Some r \<Longrightarrow> tr_Name r \<in> set (indexed_names c)" for r
    using Some by (auto simp: indexed_names_def indexes_def ref_name_def)
  have secret: "gives I c (\<lambda>r. \<exists>sec. r = Inr sec \<and> map_of (sec_Data sec) ''value'' \<notin> {None, Some []})
      (kGetSecret E (key_of (KubeconfigSecretName (cc_Name c)) (cc_Namespace c)))"
    using there Some by (intro gives_requests) (simp add: kubeconfig_there_iff)
  note remote_apply = gives_applyRemoteConfigMap [OF env(1,2)]
  have some: "sp_ConfigMapTemplateRef (cc_Spec c) \<noteq> None" using Some by simp
  show ?thesis
    unfolding stepRemoteConfigMaps_def Let_def
    by (rule gives_getClaim)
      (auto simp: same_specD Some env(3) client
        intro!: gives_bind [OF secret] gives_bind [OF gives_GetClient [OF env(2) some]] gives_ret
          gives_orRemoteFail remote_apply infra gives_reporting gives_setCondition
        split: option.splits)
qed

text \<open>The steps, each in a world that has what it needs.\<close>

lemma gives_apply_steps:
  assumes env: "good_templates E c" "writable E" "client_refs c"
  shows "(\<And>w. I w \<Longrightarrow> needs E c ''Application'' w) \<Longrightarrow> gives I c (\<lambda>out. out = proceed) (stepApplication E)"
    and "(\<And>w. I w \<Longrightarrow> needs E c ''CertificateSetInfra'' w) \<Longrightarrow> gives I c (\<lambda>out. out = proceed)
        (stepCertificateSetInfra E)"
    and "(\<And>w. I w \<Longrightarrow> needs E c ''ClusterInfra'' w) \<Longrightarrow> gives I c (\<lambda>out. out = proceed) (stepClusterInfra E)"
    and "(\<And>w. I w \<Longrightarrow> needs E c ''CertificateSetClient'' w) \<Longrightarrow> gives I c (\<lambda>out. out = proceed)
        (stepCertificateSetClient E)"
    and "(\<And>w. I w \<Longrightarrow> needs E c ''CcmCsrc'' w) \<Longrightarrow> gives I c (\<lambda>out. out = proceed) (stepCcmCsrc E)"
    and "(\<And>w. I w \<Longrightarrow> needs E c ''ClusterClient'' w) \<Longrightarrow> gives I c (\<lambda>out. out = proceed) (stepClusterClient E)"
    and "gives I c (\<lambda>out. out = proceed) (stepCcmCsrcUpdate E)"
  using env(3)
  unfolding stepApplication_def stepCertificateSetInfra_def stepClusterInfra_def stepCertificateSetClient_def
    stepCcmCsrc_def stepClusterClient_def stepCcmCsrcUpdate_def client_refs_def needs_def step_needs_def Let_def
  by (auto simp: same_specD indexed_names_def indexes_def ref_name_def
      intro!: gives_getClaim gives_orFail gives_ensureResource [OF env(1,2)] gives_reporting gives_setCondition gives_ret
        gives_ensureResourceFinalizer [OF _ env(2), where P = "\<lambda>_. True"])

lemma gives_wait_steps:
  shows "(\<And>w. I w \<Longrightarrow> needs E c ''WaitCertSetReady'' w) \<Longrightarrow> gives I c (\<lambda>out. out = proceed)
      (stepWaitCertSetReady E)"
    and "(\<And>w. I w \<Longrightarrow> needs E c ''WaitInfraProvisioned'' w) \<Longrightarrow> gives I c (\<lambda>out. out = proceed)
        (stepWaitInfraProvisioned E)"
    and "(\<And>w. I w \<Longrightarrow> needs E c ''WaitInfraCPReady'' w) \<Longrightarrow> gives I c (\<lambda>out. out = proceed)
        (stepWaitInfraCPReady E)"
    and "(\<And>w. I w \<Longrightarrow> needs E c ''WaitClientCPReady'' w) \<Longrightarrow> gives I c (\<lambda>out. out = proceed)
        (stepWaitClientCPReady E)"
    and "(\<And>w. I w \<Longrightarrow> needs E c ''WaitVaultKmsReady'' w) \<Longrightarrow> gives I c (\<lambda>out. out = proceed)
        (stepWaitVaultKmsReady E)"
  unfolding stepWaitCertSetReady_def stepWaitInfraProvisioned_def stepWaitInfraCPReady_def
    stepWaitClientCPReady_def stepWaitVaultKmsReady_def needs_def step_needs_def Let_def
  by (intro gives_getClaim,
      auto simp: same_specD kms_ready_def split: prod.splits option.splits
        intro!: gives_bind [OF gives_getResource] gives_reporting gives_setCondition gives_ret)+

lemma gives_vault_steps:
  assumes env: "good_templates E c" "writable E"
  shows "(\<And>w. I w \<Longrightarrow> needs E c ''EnsureVaultClaim'' w) \<Longrightarrow> gives I c (\<lambda>out. out = proceed)
      (stepEnsureVaultClaim E)"
    and "(\<And>w. I w \<Longrightarrow> needs E c ''EnsureVaultSecretClaim'' w) \<Longrightarrow> gives I c (\<lambda>out. out = proceed)
        (stepEnsureVaultSecretClaim E)"
    and "(\<And>w. I w \<Longrightarrow> needs E c ''EnsureS3BucketClaim'' w) \<Longrightarrow> gives I c (\<lambda>out. out = proceed)
        (stepEnsureS3BucketClaim E)"
    and "(\<And>w. I w \<Longrightarrow> needs E c ''WaitVaultClaim'' w) \<Longrightarrow> gives I c (\<lambda>out. out = proceed) (stepWaitVaultClaim E)"
    and "(\<And>w. I w \<Longrightarrow> needs E c ''WaitVaultSecretClaim'' w) \<Longrightarrow> gives I c (\<lambda>out. out = proceed)
        (stepWaitVaultSecretClaim E)"
    and "(\<And>w. I w \<Longrightarrow> needs E c ''WaitS3BucketClaim'' w) \<Longrightarrow> gives I c (\<lambda>out. out = proceed)
        (stepWaitS3BucketClaim E)"
  unfolding stepEnsureVaultClaim_def stepEnsureVaultSecretClaim_def stepEnsureS3BucketClaim_def
    stepWaitVaultClaim_def stepWaitVaultSecretClaim_def stepWaitS3BucketClaim_def needs_def step_needs_def Let_def
  by (intro gives_getClaim; simp add: same_specD;
      intro gives_ensureDependent [OF env, where P = "\<lambda>_. True"] gives_waitDependent; simp)+

lemma gives_pipelineSteps:
  assumes "operable E c" and "(p, m) \<in> set (pipelineSteps E)" and "\<And>w. I w \<Longrightarrow> needs E c p w"
  shows "gives I c (\<lambda>out. out = proceed) m"
proof -
  have env: "good_templates E c" "writable E" "client_refs c" using assms(1) by (simp_all add: operable_def)
  have remote: "(\<And>w. I w \<Longrightarrow> needs E c ''RemoteConfigMaps'' w) \<Longrightarrow> gives I c (\<lambda>out. out = proceed)
      (stepRemoteConfigMaps E)"
    by (rule gives_stepRemoteConfigMaps [OF assms(1)]) (simp add: needs_def)
  have "list_all (\<lambda>(q, k). (\<forall>w. I w \<longrightarrow> needs E c q w) \<longrightarrow> gives I c (\<lambda>out. out = proceed) k) (pipelineSteps E)"
    unfolding pipelineSteps_def list.pred_inject prod.case
    by (intro conjI impI TrueI gives_apply_steps [OF env] gives_wait_steps gives_vault_steps [OF env(1,2)] remote) simp_all
  with assms(2,3) show ?thesis by (auto simp: list_all_iff)
qed

lemma gives_advance:
  "(\<And>p. p \<in> set steps \<Longrightarrow> gives I c (\<lambda>out. out = proceed) (snd p)) \<Longrightarrow> gives I c (\<lambda>r. r = AllDone)
      (advance steps)"
proof (induction steps)
  case (Cons p rest)
  have "gives I c (\<lambda>out. out = proceed) (snd p)" using Cons.prems by simp
  then show ?case
    unfolding advance.simps by (rule gives_bind) (use Cons in simp)
qed (simp add: gives_ret)

end

section \<open>Whole runs\<close>

lemma operable_start:
  assumes "operable E (claim s)"
  obtains u where "loop_start E s = Some u"
proof -
  let ?c = "clearPausedCondition (e_lib E) (setPhase PhaseProvisioning (claim s))"
  obtain v where "ToUnstructured (e_lib E) ?c = Inr v"
    using assms unfolding operable_def by blast
  then have "\<exists>v. toUnstructured (e_lib E) ?c = Inr v"
    by (simp add: toUnstructured_def split: list.split)
  then have "\<exists>u. loop_start E s = Some u"
    by (auto simp: loop_start_def Let_def)
  then show thesis using that by blast
qed

text \<open>When all steps proceed the run ends ready.\<close>

lemma all_done_ready:
  assumes "operable E c" and "loop_start E s = Some u"
    and "wp (advance (pipelineSteps E)) (\<lambda>r t. r = AllDone) u"
  shows "fst (run_state (executePipeline E) s) = Return \<lparr>RequeueAfter = 10 * Minute\<rparr> None"
proof -
  have status: "wp (updateStatusIfChanged E old) (\<lambda>e t. e = None) v" for old v
    using assms(1) by (auto simp: updateStatusIfChanged_def kUpdateStatus_def wp_simps operable_def writable_def
        split: prod.splits) (metis fst_conv)
  have "wp (finish E old AllDone) (\<lambda>out t. out = Return \<lparr>RequeueAfter = 10 * Minute\<rparr> None) v" for old v
    unfolding finish_def stop.case runSteps.simps wp_bind wp_return
    by (rule wp_always, rule wp_always, rule wp_mono [OF status]) simp
  then have "wp (State_Monad.bind (advance (pipelineSteps E)) (finish E (cc_Status (claim s))))
      (\<lambda>out t. out = Return \<lparr>RequeueAfter = 10 * Minute\<rparr> None) u"
    using assms(3) by (auto intro!: wp_bindI)
  then show ?thesis
    unfolding executePipeline_run assms(2) option.case by (simp add: wp_def case_prod_beta)
qed

text \<open>Nothing need be known of a world in which everything is ready at all times.\<close>

interpretation always: served E "\<lambda>w. True" for E
  by unfold_locales simp_all

lemma cooperative_start:
  assumes "cooperative E (claim s)"
  obtains u where "loop_start E s = Some u"
  using assms operable_start unfolding cooperative_def by blast

lemma advance_all:
  assumes "cooperative E c" and "set steps \<subseteq> set (pipelineSteps E)" and "same_spec c (claim u)"
  shows "wp (advance steps) (\<lambda>r t. r = AllDone) u"
proof -
  have "gives (\<lambda>w. True) c (\<lambda>r. r = AllDone) (advance steps)"
  proof (rule always.gives_advance)
    fix p
    assume "p \<in> set steps"
    with assms(1,2) show "gives (\<lambda>w. True) c (\<lambda>out. out = proceed) (snd p)"
      by (intro always.gives_pipelineSteps [of E c "fst p"]) (auto simp: cooperative_def ready_resources_def)
  qed
  with assms(3) show ?thesis unfolding gives_def by (blast intro: wp_mono)
qed

lemma cooperative_reaches:
  assumes "cooperative E (claim s)" and "loop_start E s = Some u"
  obtains t where "starts_at E name u = Some t"
proof -
  have "wp (advance (takeWhile (\<lambda>p. fst p \<noteq> name) (pipelineSteps E))) (\<lambda>r t. r = AllDone) u"
    using loop_start_settled(1) [OF assms(2)]
    by (intro advance_all [OF assms(1)]) (auto simp: settled_def dest: set_takeWhileD)
  then show thesis using that by (auto simp: wp_def starts_at_def split: prod.splits)
qed

lemma cooperative_ready:
  assumes "cooperative E (claim s)"
  shows "fst (run_state (executePipeline E) s) = Return \<lparr>RequeueAfter = 10 * Minute\<rparr> None"
proof -
  obtain u where u: "loop_start E s = Some u" using assms by (rule cooperative_start)
  have "wp (advance (pipelineSteps E)) (\<lambda>r t. r = AllDone) u"
    using loop_start_settled(1) [OF u] by (intro advance_all [OF assms subset_refl]) (simp add: settled_def)
  moreover have "operable E (claim s)" using assms by (simp add: cooperative_def)
  ultimately show ?thesis using u by (intro all_done_ready)
qed

text \<open>A run in which the first steps proceed and the next one waits asks for five minutes.\<close>

lemma stuck_waits:
  assumes "loop_start E s = Some u" and "pipelineSteps E = pre @ (n, m) # post"
    and "\<And>p. p \<in> set pre \<Longrightarrow> gives (\<lambda>w. True) (claim s) (\<lambda>out. out = proceed) (snd p)"
    and "gives (\<lambda>w. True) (claim s) (\<lambda>out. out = Step Wait None) m"
  shows "fst (run_state (executePipeline E) s) = Return \<lparr>RequeueAfter = 5 * Minute\<rparr> None"
proof -
  have same: "same_spec (claim s) (claim u)"
    using loop_start_settled(1) [OF assms(1)] by (simp add: settled_def)
  have "gives (\<lambda>w. True) (claim s) (\<lambda>r. r = StoppedAt n (Step Wait None)) (advance (pipelineSteps E))"
    unfolding assms(2) advance_append
    by (rule gives_bind [OF always.gives_advance [OF assms(3)]], assumption)
      (auto intro!: gives_bind [OF assms(4)] gives_ret)
  then have "wp (advance (pipelineSteps E)) (\<lambda>r t. r = StoppedAt n (Step Wait None)) u"
    using same unfolding gives_def by (blast intro: wp_mono)
  then have "wp (State_Monad.bind (advance (pipelineSteps E)) (finish E (cc_Status (claim s))))
      (\<lambda>out t. out = Return \<lparr>RequeueAfter = 5 * Minute\<rparr> None) u"
    by (rule wp_bindI) (simp add: finish_def wp_bind wp_return)
  then show ?thesis
    unfolding executePipeline_run assms(1) option.case by (simp add: wp_def case_prod_beta)
qed

end
