(* ===== verification/Deletion_Runs.thy ===== *)
theory Deletion_Runs
  imports Pipeline_Phases
begin

text \<open>
  What a deletion has seen when it makes a call. A deletion is a chain of early returns, each with the
  rest of the function as its continuation; \<open>deleting\<close> is the contract of such a piece of code: started
  with a history that satisfies \<open>P\<close>, it keeps the discipline that every call in \<open>A\<close> comes after a history
  in \<open>G\<close>. The rules say what each pattern adds to \<open>P\<close>.
\<close>

section \<open>Evidence in the history\<close>

definition gone :: "lib \<Rightarrow> GroupVersionKind \<Rightarrow> ObjectKey \<Rightarrow> call list \<Rightarrow> bool" where
  "gone L gvk k h \<longleftrightarrow> list_ex (\<lambda>x. case x of
     CGet g k' (Inl e) \<Rightarrow> g = gvk \<and> k' = k \<and> IsNotFound L e | _ \<Rightarrow> False) h"

definition deleted :: "lib \<Rightarrow> GroupVersionKind \<Rightarrow> ObjectKey \<Rightarrow> call list \<Rightarrow> bool" where
  "deleted L gvk k h \<longleftrightarrow> list_ex (\<lambda>x. case x of
     CDelete g k' err \<Rightarrow> g = gvk \<and> k' = k \<and> (case err of None \<Rightarrow> True | Some e \<Rightarrow> IsNotFound L e) | _ \<Rightarrow> False) h"

definition is_CUpdateClaim :: "call \<Rightarrow> bool" where
  "is_CUpdateClaim x = (case x of CUpdateClaim _ _ \<Rightarrow> True | _ \<Rightarrow> False)"

lemma gone_append [simp]: "gone L g k (xs @ ys) \<longleftrightarrow> gone L g k xs \<or> gone L g k ys"
  by (simp add: gone_def)

lemma deleted_append [simp]: "deleted L g k (xs @ ys) \<longleftrightarrow> deleted L g k xs \<or> deleted L g k ys"
  by (simp add: deleted_def)

section \<open>The contract\<close>

definition grows :: "('c list \<Rightarrow> bool) \<Rightarrow> bool" where
  "grows P \<longleftrightarrow> (\<forall>h h'. P h \<longrightarrow> P (h @ h'))"

lemma grows_intros: "grows (gone L g k)" "grows (deleted L g k)" "grows (\<lambda>_. True)"
  "grows P \<Longrightarrow> grows Q \<Longrightarrow> grows (\<lambda>h. P h \<and> Q h)"
  by (auto simp: grows_def)

text \<open>
  Before a piece of code: the discipline holds so far, the claim has not been written, and \<open>P\<close> is known.
  After it: the discipline holds; if the claim has been written, that was the last call; and a
  deletion that returns no error and no delay has written it successfully.
\<close>

definition so_far :: "(call \<Rightarrow> bool) \<Rightarrow> (call list \<Rightarrow> bool) \<Rightarrow> (call list \<Rightarrow> bool) \<Rightarrow> 'w pst \<Rightarrow> 'w pst \<Rightarrow> bool" where
  "so_far A G P s t \<longleftrightarrow> (\<exists>h. calls t = calls s @ h \<and> guarded A G [] h \<and>
     list_all (\<lambda>x. \<not> is_CUpdateClaim x) h \<and> P h)"

definition del_end :: "(call \<Rightarrow> bool) \<Rightarrow> (call list \<Rightarrow> bool) \<Rightarrow> 'w pst \<Rightarrow> rec_out \<Rightarrow> 'w pst \<Rightarrow> bool" where
  "del_end A G s out t \<longleftrightarrow> (\<exists>h. calls t = calls s @ h \<and> guarded A G [] h \<and>
     list_all (\<lambda>x. \<not> is_CUpdateClaim x) (butlast h) \<and>
     (out = Return \<lparr>RequeueAfter = 0\<rparr> None \<longrightarrow> (\<exists>h' d. h = h' @ [CUpdateClaim d None])) \<and>
     out \<noteq> Panicked)"

definition deleting ::
  "(call \<Rightarrow> bool) \<Rightarrow> (call list \<Rightarrow> bool) \<Rightarrow> (call list \<Rightarrow> bool) \<Rightarrow> ('w, rec_out) pop \<Rightarrow> bool" where
  "deleting A G P m \<longleftrightarrow> (\<forall>s u. so_far A G P s u \<longrightarrow> wp m (del_end A G s) u)"

text \<open>\<open>allowed\<close>: the calls of a kind are outside \<open>A\<close>, or their guard is already known.\<close>

definition allowed :: "(call \<Rightarrow> bool) \<Rightarrow> (call list \<Rightarrow> bool) \<Rightarrow> (call list \<Rightarrow> bool) \<Rightarrow> (call \<Rightarrow> bool) \<Rightarrow> bool" where
  "allowed A G P \<Phi> \<longleftrightarrow> (\<forall>x. \<Phi> x \<longrightarrow> \<not> A x) \<or> grows P \<and> (\<forall>h. P h \<longrightarrow> G h)"

lemma guarded_allowed:
  assumes "allowed A G P \<Phi>" and "list_all \<Phi> h'" and "P b"
  shows "guarded A G b h'"
  using assms(1) unfolding allowed_def
proof
  assume "\<forall>x. \<Phi> x \<longrightarrow> \<not> A x"
  with assms(2) show ?thesis by (intro guarded_none) (auto simp: list_all_iff)
next
  assume P: "grows P \<and> (\<forall>h. P h \<longrightarrow> G h)"
  with assms(3) have "guarded (\<lambda>x. A x) P b h'"
    by (intro guarded_open) (auto simp: grows_def)
  with P show ?thesis by (auto simp: guarded_iff)
qed

lemma so_far_extend:
  assumes "so_far A G P s u" and "allowed A G P \<Phi>" and "grows P"
    and "calls t = calls u @ h'" and "list_all \<Phi> h'" and "list_all (\<lambda>x. \<not> is_CUpdateClaim x) h'" and "Q h'"
    and "\<And>h. Q h' \<Longrightarrow> R (h @ h')"
  shows "so_far A G (\<lambda>h. P h \<and> R h) s t"
proof -
  obtain h where h: "calls u = calls s @ h" "guarded A G [] h" "list_all (\<lambda>x. \<not> is_CUpdateClaim x) h" "P h"
    using assms(1) by (auto simp: so_far_def)
  moreover have "guarded A G h h'" using assms(2,5) h(4) by (rule guarded_allowed)
  ultimately show ?thesis
    unfolding so_far_def using assms(3,4,6-8)
    by (intro exI [of _ "h @ h'"]) (simp add: guarded_append grows_def)
qed

lemma so_far_end:
  "so_far A G P s t \<Longrightarrow> r \<noteq> Panicked \<Longrightarrow> r \<noteq> Return \<lparr>RequeueAfter = 0\<rparr> None \<Longrightarrow> del_end A G s r t"
  unfolding so_far_def del_end_def by (auto simp: list_all_iff dest: in_set_butlastD)

section \<open>Rules\<close>

text \<open>The calls the deletion of one resource makes.\<close>

definition about :: "GroupVersionKind \<Rightarrow> ObjectKey \<Rightarrow> call \<Rightarrow> bool" where
  "about g k x = (case x of CGet g' k' _ \<Rightarrow> g' = g \<and> k' = k | CUpdate g' k' _ _ \<Rightarrow> g' = g \<and> k' = k
     | CDelete g' k' _ \<Rightarrow> g' = g \<and> k' = k | _ \<Rightarrow> False)"

lemma about_not_claim: "list_all (about g k) h \<Longrightarrow> list_all (\<lambda>x. \<not> is_CUpdateClaim x) h"
  by (auto simp: list_all_iff about_def is_CUpdateClaim_def split: call.splits)

lemma removeResourceFinalizer_calls:
  "wp (removeResourceFinalizer E g n ns) (\<lambda>_ t. \<exists>h. calls t = calls u @ h \<and> list_all (about g (key_of n ns)) h) u"
  by (auto simp: removeResourceFinalizer_def k_defs wp_simps about_def split: prod.splits sum.splits)

lemma deleteResource_calls:
  "wp (deleteResource E g n ns) (\<lambda>err t. \<exists>h. calls t = calls u @ h \<and> list_all (about g (key_of n ns)) h \<and>
     (err = None \<longrightarrow> deleted (e_lib E) g (key_of n ns) h)) u"
  by (auto simp: deleteResource_def k_defs wp_simps about_def deleted_def split: prod.splits option.splits)

lemma deleteAndWait_calls:
  "wp (deleteAndWait E g n ns) (\<lambda>(b, err) t. \<exists>h. calls t = calls u @ h \<and> list_all (about g (key_of n ns)) h \<and>
     (b \<longrightarrow> gone (e_lib E) g (key_of n ns) h)) u"
  by (auto simp: deleteAndWait_def k_defs wp_simps about_def gone_def split: prod.splits sum.splits option.splits)

lemma deleting_orReturn:
  fixes m :: "('w, goerror option) pop"
  assumes "\<And>u. wp m (\<lambda>err t. \<exists>h. calls t = calls u @ h \<and> list_all \<Phi> h \<and> (err = None \<longrightarrow> Q h)) u"
    and "allowed A G P \<Phi>" and "grows P" and "\<And>h. list_all \<Phi> h \<Longrightarrow> list_all (\<lambda>x. \<not> is_CUpdateClaim x) h"
    and "\<And>h h'. Q h' \<Longrightarrow> R (h @ h')"
    and "deleting A G (\<lambda>h. P h \<and> R h) k"
  shows "deleting A G P (orReturn m k)"
  unfolding deleting_def orReturn_def
proof (intro allI impI, rule wp_bindI [OF assms(1)], elim exE conjE)
  fix s u t :: "'w pst" and err :: "goerror option" and h
  assume u: "so_far A G P s u" and h: "calls t = calls u @ h" "list_all \<Phi> h" and q: "err = None \<longrightarrow> Q h"
  show "wp (case err of None \<Rightarrow> k | Some e \<Rightarrow> ret (Return \<lparr>RequeueAfter = 0\<rparr> (Some e))) (del_end A G s) t"
  proof (cases err)
    case None
    have "so_far A G (\<lambda>h. P h \<and> R h) s t"
      using so_far_extend [OF u assms(2,3) h assms(4) [OF h(2)], of Q R] q None assms(5) by blast
    with None assms(6) show ?thesis by (simp add: deleting_def)
  next
    case (Some e)
    have "so_far A G (\<lambda>h. P h \<and> True) s t"
      by (rule so_far_extend [OF u assms(2,3) h assms(4) [OF h(2)]]) simp_all
    with Some show ?thesis by (simp add: wp_return so_far_end)
  qed
qed

lemma allowed_and: "allowed A G P \<Phi> \<Longrightarrow> grows Q \<Longrightarrow> allowed A G (\<lambda>h. P h \<and> Q h) \<Phi>"
  by (auto simp: allowed_def grows_def)

lemma deleting_weaken: "deleting A G P m \<Longrightarrow> (\<And>h. Q h \<Longrightarrow> P h) \<Longrightarrow> deleting A G Q m"
  unfolding deleting_def so_far_def by blast

lemma deleting_removeFinalizer:
  assumes "allowed A G P (about g (key_of n ns))" and "grows P" and "deleting A G P k"
  shows "deleting A G P (orReturn (removeResourceFinalizer E g n ns) k)"
proof (rule deleting_orReturn [where \<Phi> = "about g (key_of n ns)" and Q = "\<lambda>_. True" and R = "\<lambda>_. True"])
  show "wp (removeResourceFinalizer E g n ns)
      (\<lambda>err t. \<exists>h. calls t = calls u @ h \<and> list_all (about g (key_of n ns)) h \<and> (err = None \<longrightarrow> True)) u" for u
    using removeResourceFinalizer_calls by simp
qed (use assms about_not_claim in auto)

lemma deleting_releaseAndDelete:
  assumes "allowed A G P (about g (key_of n ns))" and "grows P"
    and "deleting A G (\<lambda>h. P h \<and> deleted (e_lib E) g (key_of n ns) h) k"
  shows "deleting A G P (releaseAndDelete E g n ns k)"
  unfolding releaseAndDelete_def
  by (intro deleting_removeFinalizer [OF assms(1,2)] deleting_orReturn [OF deleteResource_calls assms(1,2) _ _ assms(3)])
    (auto dest: about_not_claim)

lemma deleting_releaseAndWait:
  fixes E :: "'w env"
  assumes "allowed A G P (about g (key_of n ns))" and "grows P"
    and "deleting A G (\<lambda>h. P h \<and> gone (e_lib E) g (key_of n ns) h) k"
  shows "deleting A G P (releaseAndWait E g n ns k)"
  unfolding releaseAndWait_def
proof (rule deleting_removeFinalizer [OF assms(1,2)], unfold deleting_def, intro allI impI,
    rule wp_bindI [OF deleteAndWait_calls], clarify)
  fix s u t :: "'w pst" and b and err :: "goerror option" and h
  assume u: "so_far A G P s u" and h: "calls t = calls u @ h" "list_all (about g (key_of n ns)) h"
    and q: "b \<longrightarrow> gone (e_lib E) g (key_of n ns) h"
  note ext = so_far_extend [OF u assms(1,2) h about_not_claim [OF h(2)]]
  have plain: "so_far A G (\<lambda>h. P h \<and> True) s t" by (rule ext) simp_all
  have "so_far A G (\<lambda>h. P h \<and> gone (e_lib E) g (key_of n ns) h) s t" if b
    using ext [of "gone (e_lib E) g (key_of n ns)" "gone (e_lib E) g (key_of n ns)"] q that by simp
  then show "wp (case err of Some e \<Rightarrow> ret (Return \<lparr>RequeueAfter = 0\<rparr> (Some e))
      | None \<Rightarrow> if \<not> b then ret (Return \<lparr>RequeueAfter = 5 * Second\<rparr> None) else k) (del_end A G s) t"
    using plain assms(3) by (auto simp: deleting_def wp_return so_far_end Second_def split: option.split)
qed

text \<open>Calls outside the claim's resources: events, the kubeconfig Secret and the remote cluster.\<close>

definition aside :: "call \<Rightarrow> bool" where
  "aside x = (case x of CEvent _ _ _ \<Rightarrow> True | CGetSecret _ _ \<Rightarrow> True | CNewClient _ _ \<Rightarrow> True
     | CRemoteDelete _ _ _ \<Rightarrow> True | _ \<Rightarrow> False)"

lemma deleting_aside:
  fixes m :: "('w, unit) pop"
  assumes "\<And>c. stays c aside m" and "\<And>x. aside x \<Longrightarrow> \<not> A x" and "grows P" and "deleting A G P k"
  shows "deleting A G P (State_Monad.bind m (\<lambda>_. k))"
  unfolding deleting_def
proof (intro allI impI)
  fix s u :: "'w pst"
  assume u: "so_far A G P s u"
  show "wp (State_Monad.bind m (\<lambda>_. k)) (del_end A G s) u"
  proof (rule wp_bindI [OF wp_stays [OF assms(1) same_spec_refl]], elim conjE)
    fix t
    assume "extends aside u t"
    then obtain h where h: "calls t = calls u @ h" "list_all aside h" by (auto simp: extends_def)
    have "allowed A G P aside" using assms(2) by (simp add: allowed_def)
    moreover have "list_all (\<lambda>x. \<not> is_CUpdateClaim x) h"
      using h(2) by (auto simp: list_all_iff aside_def is_CUpdateClaim_def split: call.splits)
    ultimately have "so_far A G (\<lambda>h. P h \<and> True) s t"
      by (intro so_far_extend [OF u _ assms(3) h]) simp_all
    with assms(4) show "wp k (del_end A G s) t" by (simp add: deleting_def)
  qed
qed

lemma stays_deleteRemoteConfigMaps: "stays c aside (deleteRemoteConfigMaps E)"
  unfolding deleteRemoteConfigMaps_def deleteRemoteConfigMap_def Let_def
  by (intro stays_control keeps_rules wi.keeps_bind) (simp_all add: aside_def)

lemma deleting_removeClaimFinalizer:
  assumes "grows P" and "(\<forall>x. is_CUpdateClaim x \<longrightarrow> \<not> A x) \<or> (\<forall>h. P h \<longrightarrow> G h)" and "\<And>x. aside x \<Longrightarrow> \<not> A x"
  shows "deleting A G P (removeClaimFinalizer E)"
  unfolding removeClaimFinalizer_def
proof (rule deleting_aside [OF _ assms(3,1)])
  show "stays c aside (event E EventTypeNormal ''DeletionComplete'' ''All managed resources deleted'' [])" for c
    by (intro keeps_rules) (simp add: aside_def)
  show "deleting A G P (do {
      modClaim (\<lambda>c. c\<lparr>cc_Meta := (cc_Meta c)\<lparr>om_Finalizers :=
        fst (RemoveFinalizer (e_lib E) (om_Finalizers (cc_Meta c)) ClusterClaimFinalizer)\<rparr>\<rparr>);
      err \<leftarrow> kUpdateClaim E;
      ret (Return \<lparr>RequeueAfter = 0\<rparr> err)
    })"
    unfolding deleting_def so_far_def del_end_def
    using assms(2) by (auto simp: wp_simps kUpdateClaim_def guarded_append is_CUpdateClaim_def split: prod.splits)
qed

section \<open>The whole deletion\<close>

definition dep_gone :: "lib \<Rightarrow> string \<Rightarrow> dependentClaim \<Rightarrow> call list \<Rightarrow> bool" where
  "dep_gone L ns d h \<longleftrightarrow> (if dep_enabled d then gone L (dep_gvk d) (key_of (dep_name d) ns) h else True)"

lemma deleting_dependents:
  assumes "list_all (\<lambda>d. dep_enabled d \<longrightarrow> allowed A G P (about (dep_gvk d) (key_of (dep_name d) ns))) deps" and "grows P"
    and "deleting A G (\<lambda>h. P h \<and> list_all (\<lambda>d. dep_gone (e_lib E) ns d h) deps) k"
  shows "deleting A G P (deleteDependents E ns deps k)"
  using assms
proof (induction deps arbitrary: P)
  case (Cons d deps)
  let ?g = "gone (e_lib E) (dep_gvk d) (key_of (dep_name d) ns)"
  show ?case
  proof (cases "dep_enabled d")
    case True
    have "deleting A G (\<lambda>h. P h \<and> ?g h) (deleteDependents E ns deps k)"
    proof (rule Cons.IH)
      show "list_all (\<lambda>d'. dep_enabled d' \<longrightarrow> allowed A G (\<lambda>h. P h \<and> ?g h) (about (dep_gvk d') (key_of (dep_name d') ns))) deps"
        using Cons.prems(1) by (auto simp: list_all_iff intro: allowed_and grows_intros)
      show "deleting A G (\<lambda>h. (P h \<and> ?g h) \<and> list_all (\<lambda>d. dep_gone (e_lib E) ns d h) deps) k"
        by (rule deleting_weaken [OF Cons.prems(3)]) (simp add: dep_gone_def True)
    qed (use Cons.prems(2) in \<open>auto intro: grows_intros\<close>)
    with True Cons.prems show ?thesis by (simp add: deleting_releaseAndWait)
  next
    case False
    with Cons.prems show ?thesis by (auto intro: Cons.IH simp: dep_gone_def)
  qed
qed simp

lemma grows_deps: "grows (\<lambda>h. list_all (\<lambda>d. dep_gone L ns d h) deps)"
  by (auto simp: grows_def list_all_iff dep_gone_def)

text \<open>The evidence a deletion collects, stage by stage.\<close>

definition vault_gone :: "lib \<Rightarrow> ClusterClaim \<Rightarrow> call list \<Rightarrow> bool" where
  "vault_gone L c h \<longleftrightarrow> list_all (\<lambda>d. dep_gone L (cc_Namespace c) d h) (dependentClaims c)"

definition cluster_gone :: "lib \<Rightarrow> ClusterClaim \<Rightarrow> string \<Rightarrow> call list \<Rightarrow> bool" where
  "cluster_gone L c role h \<longleftrightarrow> gone L ClusterGVK (key_of (ClusterName (cc_Name c) role) (cc_Namespace c)) h"

definition client_gone :: "lib \<Rightarrow> ClusterClaim \<Rightarrow> call list \<Rightarrow> bool" where
  "client_gone L c h \<longleftrightarrow> (if client_enabled c then cluster_gone L c ''client'' h else True)"

definition released :: "lib \<Rightarrow> ClusterClaim \<Rightarrow> call list \<Rightarrow> bool" where
  "released L c h \<longleftrightarrow>
     deleted L CcmCsrcGVK (key_of (CcmCsrcName (cc_Name c)) (cc_Namespace c)) h \<and>
     (if client_enabled c then deleted L CertificateSetGVK (key_of (CertificateSetName (cc_Name c) ''client'') (cc_Namespace c)) h
      else True) \<and>
     deleted L CertificateSetGVK (key_of (CertificateSetName (cc_Name c) ''infra'') (cc_Namespace c)) h \<and>
     deleted L ApplicationGVK (key_of (ApplicationName (cc_Name c)) (cc_Namespace c)) h"

lemma grows_stages: "grows (vault_gone L c)" "grows (cluster_gone L c r)" "grows (client_gone L c)"
  using grows_deps unfolding vault_gone_def
  by (auto simp: grows_def cluster_gone_def client_gone_def)

text \<open>What each call of a deletion has to wait for.\<close>

definition infra_delete :: "ClusterClaim \<Rightarrow> call \<Rightarrow> bool" where
  "infra_delete c x = (case x of
     CDelete g k _ \<Rightarrow> g = ClusterGVK \<and> k = key_of (ClusterName (cc_Name c) ''infra'') (cc_Namespace c) | _ \<Rightarrow> False)"

definition late_delete :: "call \<Rightarrow> bool" where
  "late_delete x = (case x of CDelete g _ _ \<Rightarrow> g = CertificateSetGVK \<or> g = ApplicationGVK | _ \<Rightarrow> False)"

lemma infra_client_neq [simp]: "ClusterName n ''client'' \<noteq> ClusterName n ''infra''"
  "ClusterName n ''infra'' \<noteq> ClusterName n ''client''"
  by (simp_all add: ClusterName_def)

lemma allowed_disjoint: "(\<And>x. \<Phi> x \<Longrightarrow> \<not> A x) \<Longrightarrow> allowed A G P \<Phi>"
  by (simp add: allowed_def)

lemma allowed_known: "grows P \<Longrightarrow> (\<And>h. P h \<Longrightarrow> G h) \<Longrightarrow> allowed A G P \<Phi>"
  by (simp add: allowed_def)

lemma deleteManaged_end:
  assumes "\<And>c. c = claim u \<Longrightarrow> deleting A G (\<lambda>_. True) (deleteDependents E (cc_Namespace c) (dependentClaims c) (do {
       deleteRemoteConfigMaps E;
       releaseAndDelete E CcmCsrcGVK (CcmCsrcName (cc_Name c)) (cc_Namespace c) (deleteClusters E c)
     }))" and "\<And>x. aside x \<Longrightarrow> \<not> A x" and "so_far A G (\<lambda>_. True) s u"
  shows "wp (deleteManaged E) (del_end A G s) u"
proof -
  have "wp (event E EventTypeNormal ''DeletingResources'' ''Starting deletion of managed resources'' [])
      (\<lambda>_ t. claim t = claim u \<and> so_far A G (\<lambda>_. True) s t) u"
    using assms(2,3) by (auto simp: event_def wp_simps so_far_def aside_def is_CUpdateClaim_def guarded_append)
  then show ?thesis
    unfolding deleteManaged_def
    by (rule wp_bindI) (use assms(1) in \<open>auto simp: wp_getClaim_bind deleting_def\<close>)
qed

lemma allowed_stronger: "allowed A G P \<Phi> \<Longrightarrow> grows Q \<Longrightarrow> (\<And>h. Q h \<Longrightarrow> P h) \<Longrightarrow> allowed A G Q \<Phi>"
  by (auto simp: allowed_def)

text \<open>
  The chain of continuations, once for every discipline: it is enough to say for each resource that its
  calls are outside \<open>A\<close> or that the guard is known at that stage.
\<close>

lemma deleting_afterInfra:
  assumes stage: "grows P" "\<And>x. aside x \<Longrightarrow> \<not> A x"
    and late: "\<And>k. allowed A G P (about CertificateSetGVK k)" "\<And>k. allowed A G P (about ApplicationGVK k)"
    and fin: "(\<forall>x. is_CUpdateClaim x \<longrightarrow> \<not> A x) \<or>
      (\<forall>h. P h \<longrightarrow> deleted (e_lib E) CcmCsrcGVK (key_of (CcmCsrcName (cc_Name c)) (cc_Namespace c)) h \<and>
         (released (e_lib E) c h \<longrightarrow> G h))"
  shows "deleting A G P (deleteAfterInfra E c)"
  unfolding deleteAfterInfra_def Let_def
  by (auto intro!: deleting_releaseAndDelete deleting_removeClaimFinalizer [OF _ _ stage(2)] allowed_and
      grows_intros stage(1) late)
    (use fin in \<open>auto simp: released_def\<close>)

lemma deleting_clusters:
  assumes stage: "grows P" "\<And>x. aside x \<Longrightarrow> \<not> A x"
    and client: "allowed A G P (about ClusterGVK (key_of (ClusterName (cc_Name c) ''client'') (cc_Namespace c)))"
    and infra: "allowed A G (\<lambda>h. P h \<and> client_gone (e_lib E) c h)
      (about ClusterGVK (key_of (ClusterName (cc_Name c) ''infra'') (cc_Namespace c)))"
    and rest: "deleting A G (\<lambda>h. (P h \<and> client_gone (e_lib E) c h) \<and> cluster_gone (e_lib E) c ''infra'' h) (deleteAfterInfra E c)"
  shows "deleting A G P (deleteClusters E c)"
proof -
  let ?P = "\<lambda>h. P h \<and> client_gone (e_lib E) c h"
  have next_step: "deleting A G ?P (releaseAndWait E ClusterGVK (ClusterName (cc_Name c) ''infra'') (cc_Namespace c) (deleteAfterInfra E c))"
    by (intro deleting_releaseAndWait infra grows_intros(4) stage(1) grows_stages)
      (use rest in \<open>simp add: cluster_gone_def\<close>)
  show ?thesis
  proof (cases "client_enabled c")
    case True
    with next_step show ?thesis
      unfolding deleteClusters_def Let_def
      by (auto intro!: deleting_releaseAndWait client stage(1) simp: client_gone_def cluster_gone_def)
  next
    case False
    with next_step show ?thesis
      by (simp add: deleteClusters_def client_gone_def)
  qed
qed

lemma deleteManaged_ordered:
  assumes aside: "\<And>x. aside x \<Longrightarrow> \<not> A x" and c: "c = claim u" and u: "so_far A G (\<lambda>_. True) s u"
    and vault: "\<And>d k. d \<in> set (dependentClaims c) \<Longrightarrow> dep_enabled d \<Longrightarrow> allowed A G (\<lambda>_. True) (about (dep_gvk d) k)"
    and ccm: "\<And>k. allowed A G (\<lambda>_. True) (about CcmCsrcGVK k)"
    and client: "allowed A G (vault_gone (e_lib E) c)
      (about ClusterGVK (key_of (ClusterName (cc_Name c) ''client'') (cc_Namespace c)))"
    and infra: "allowed A G (\<lambda>h. vault_gone (e_lib E) c h \<and> client_gone (e_lib E) c h)
      (about ClusterGVK (key_of (ClusterName (cc_Name c) ''infra'') (cc_Namespace c)))"
    and late: "\<And>g k. g \<in> {CertificateSetGVK, ApplicationGVK} \<Longrightarrow> allowed A G (cluster_gone (e_lib E) c ''infra'') (about g k)"
    and fin: "(\<forall>x. is_CUpdateClaim x \<longrightarrow> \<not> A x) \<or>
      (\<forall>h. vault_gone (e_lib E) c h \<and> client_gone (e_lib E) c h \<and> cluster_gone (e_lib E) c ''infra'' h \<and>
         released (e_lib E) c h \<longrightarrow> G h)"
  shows "wp (deleteManaged E) (del_end A G s) u"
proof (rule deleteManaged_end [OF _ aside u], unfold c [symmetric], hypsubst)
  let ?ccm = "deleted (e_lib E) CcmCsrcGVK (key_of (CcmCsrcName (cc_Name c)) (cc_Namespace c))"
  let ?P = "\<lambda>h. vault_gone (e_lib E) c h \<and> ?ccm h"
  have growsP: "grows ?P" by (intro grows_intros grows_stages)
  have "deleting A G ?P (deleteClusters E c)"
  proof (rule deleting_clusters [OF growsP aside])
    show "allowed A G ?P (about ClusterGVK (key_of (ClusterName (cc_Name c) ''client'') (cc_Namespace c)))"
      by (rule allowed_stronger [OF client growsP]) simp
    show "allowed A G (\<lambda>h. ?P h \<and> client_gone (e_lib E) c h)
        (about ClusterGVK (key_of (ClusterName (cc_Name c) ''infra'') (cc_Namespace c)))"
      by (rule allowed_stronger [OF infra], intro grows_intros grows_stages) simp
    show "deleting A G (\<lambda>h. (?P h \<and> client_gone (e_lib E) c h) \<and> cluster_gone (e_lib E) c ''infra'' h) (deleteAfterInfra E c)"
      by (rule deleting_afterInfra [OF _ aside])
        (use fin in \<open>auto intro!: allowed_stronger [OF late] grows_intros grows_stages\<close>)
  qed
  then have "deleting A G (\<lambda>h. True \<and> vault_gone (e_lib E) c h) (do {
       deleteRemoteConfigMaps E;
       releaseAndDelete E CcmCsrcGVK (CcmCsrcName (cc_Name c)) (cc_Namespace c) (deleteClusters E c)
     })"
    by (intro deleting_aside [OF stays_deleteRemoteConfigMaps aside] deleting_releaseAndDelete
        allowed_stronger [OF ccm] grows_intros grows_stages) simp_all
  then show "deleting A G (\<lambda>_. True) (deleteDependents E (cc_Namespace c) (dependentClaims c) (do {
       deleteRemoteConfigMaps E;
       releaseAndDelete E CcmCsrcGVK (CcmCsrcName (cc_Name c)) (cc_Namespace c) (deleteClusters E c)
     }))"
    by (intro deleting_dependents) (use vault in \<open>auto simp: vault_gone_def list_all_iff intro: grows_intros\<close>)
qed


section \<open>From the status write on\<close>

text \<open>Whose resources are deleted depends on the claim's name, namespace and spec only.\<close>

lemma stages_same:
  assumes "same_target c d"
  shows "vault_gone L d = vault_gone L c" "client_gone L d = client_gone L c" "cluster_gone L d r = cluster_gone L c r"
    "released L d = released L c" "infra_delete d = infra_delete c"
  using assms unfolding same_target_def
  by (auto simp: fun_eq_iff vault_gone_def dependentClaims_def client_gone_def cluster_gone_def released_def
      infra_delete_def cong: call.case_cong)

text \<open>\<open>T\<close> is what is known of the claim after the status write.\<close>

lemma reconcileDelete_ordered:
  fixes E :: "'w env"
  assumes here: "T (setPhase PhaseDeleting (claim s))"
    and answer: "\<And>w. T (snd (fst (api_update_status (e_api E) (setPhase PhaseDeleting (claim s)) w)))"
    and quiet: "\<And>d e. \<not> A (CUpdateStatus d e)"
    and manage: "\<And>u. T (claim u) \<Longrightarrow> so_far A G (\<lambda>_. True) s u \<Longrightarrow> wp (deleteManaged E) (del_end A G s) u"
  shows "wp (reconcileDelete E) (\<lambda>out t. calls t = calls s \<or> del_end A G s out t) s"
proof -
  let ?s1 = "s\<lparr>claim := setPhase PhaseDeleting (claim s)\<rparr>"
  have T: "T d" if "api_update_status (e_api E) (claim ?s1) w = ((err, d), w')" for w err d w'
    using answer [of w] that by simp
  have status: "wp (updateStatusIfChanged E (cc_Status (claim s)))
      (\<lambda>err u. T (claim u) \<and> so_far A G (\<lambda>_. True) s u) ?s1"
    using quiet here T
    by (simp add: updateStatusIfChanged_def kUpdateStatus_def wp_simps so_far_def is_CUpdateClaim_def split: prod.split)
  have "wp (orReturn (updateStatusIfChanged E (cc_Status (claim s))) (deleteManaged E)) (del_end A G s) ?s1"
    unfolding orReturn_def
    by (rule wp_bindI [OF status]) (auto intro: manage simp: wp_return so_far_end split: option.split)
  then have "wp (orReturn (updateStatusIfChanged E (cc_Status (claim s))) (deleteManaged E))
      (\<lambda>out t. calls t = calls s \<or> del_end A G s out t) ?s1"
    by (rule wp_mono) simp
  then show ?thesis
    unfolding reconcileDelete_def by (simp add: wp_simps)
qed

lemma law_UpdateStatus_answer:
  assumes "law_UpdateStatus A"
  shows "same_target c (snd (fst (api_update_status A (setPhase p c) w)))" and "same_target c (setPhase p c)"
proof -
  have "same_target (setPhase p c) (snd (fst (api_update_status A (setPhase p c) w)))"
    using assms by (simp add: law_UpdateStatus_def)
  then show "same_target c (snd (fst (api_update_status A (setPhase p c) w)))"
    by (simp add: same_target_def setPhase_def)
  show "same_target c (setPhase p c)" by (simp add: same_target_def setPhase_def)
qed

section \<open>Deletion of what is already gone\<close>

definition absent :: "'w env \<Rightarrow> bool" where
  "absent E \<longleftrightarrow> (\<forall>g k w. \<exists>e. fst (api_get (e_api E) g k w) = Inl e \<and> IsNotFound (e_lib E) e) \<and>
     (\<forall>obj w e. fst (api_delete (e_api E) obj w) = Some e \<longrightarrow> IsNotFound (e_lib E) e)"

lemma absent_get: "absent E \<Longrightarrow> \<exists>e w'. api_get (e_api E) g k w = (Inl e, w') \<and> IsNotFound (e_lib E) e"
  unfolding absent_def by (metis prod.collapse)

lemma absent_release: "absent E \<Longrightarrow> wp (removeResourceFinalizer E g n ns) (\<lambda>err t. err = None) s"
  using absent_get [of E g "key_of n ns" "world s"]
  by (auto simp: removeResourceFinalizer_def k_defs wp_simps)

lemma absent_releaseAndDelete:
  assumes "absent E" and "\<And>u. wp k Q u"
  shows "wp (releaseAndDelete E g n ns k) Q s"
proof -
  have gone: "wp (deleteResource E g n ns) (\<lambda>err t. err = None) u" for u
    using assms(1) by (auto simp: deleteResource_def k_defs wp_simps absent_def split: prod.splits option.splits)
      (metis fst_conv)
  show ?thesis
    unfolding releaseAndDelete_def orReturn_def
    by (rule wp_bindI [OF absent_release [OF assms(1)]], simp, rule wp_bindI [OF gone]) (simp add: assms(2))
qed

lemma absent_releaseAndWait:
  assumes "absent E" and "\<And>u. wp k Q u"
  shows "wp (releaseAndWait E g n ns k) Q s"
proof -
  have gone: "wp (deleteAndWait E g n ns) (\<lambda>r t. r = (True, None)) u" for u
    using absent_get [OF assms(1), of g "key_of n ns" "world u"]
    by (auto simp: deleteAndWait_def k_defs wp_simps)
  show ?thesis
    unfolding releaseAndWait_def orReturn_def
    by (rule wp_bindI [OF absent_release [OF assms(1)]], simp, rule wp_bindI [OF gone]) (simp add: assms(2))
qed

lemma absent_deleteDependents:
  "absent E \<Longrightarrow> (\<And>u. wp k Q u) \<Longrightarrow> wp (deleteDependents E ns deps k) Q s"
  by (induction deps arbitrary: s) (auto intro: absent_releaseAndWait)

lemma absent_deleteManaged:
  assumes "absent E" and "\<And>u. wp (removeClaimFinalizer E) Q u"
  shows "wp (deleteManaged E) Q s"
proof -
  have after: "wp (deleteAfterInfra E c) Q u" for c u
    unfolding deleteAfterInfra_def Let_def by (auto intro!: absent_releaseAndDelete assms)
  have clusters: "wp (deleteClusters E c) Q u" for c u
    unfolding deleteClusters_def Let_def by (auto intro!: absent_releaseAndWait assms(1) after)
  have "wp (do { deleteRemoteConfigMaps E;
      releaseAndDelete E CcmCsrcGVK (CcmCsrcName (cc_Name c)) (cc_Namespace c) (deleteClusters E c) }) Q u" for c u
    unfolding wp_bind by (rule wp_always, rule absent_releaseAndDelete [OF assms(1) clusters])
  then show ?thesis
    unfolding deleteManaged_def wp_bind wp_pointers
    by (intro wp_always [of _ "event _ _ _ _ _"] absent_deleteDependents assms(1)) (simp add: wp_bind)
qed


lemma reconcileDelete_completes:
  assumes "absent E" and "law_RemoveFinalizer (e_lib E)" and "\<forall>c w. fst (fst (api_update_claim (e_api E) c w)) = None"
    and "\<forall>c w. fst (fst (api_update_status (e_api E) c w)) = None"
    and "ContainsFinalizer (e_lib E) (om_Finalizers (cc_Meta (claim s))) ClusterClaimFinalizer"
  shows "wp (reconcileDelete E) (\<lambda>out t. out = Return \<lparr>RequeueAfter = 0\<rparr> None \<and>
     (\<exists>h d. calls t = h @ [CUpdateClaim d None] \<and> ClusterClaimFinalizer \<notin> set (om_Finalizers (cc_Meta d)))) s"
    (is "wp _ ?Q s")
proof -
  have claim_ok: "api_update_claim (e_api E) c w = ((err, d), w') \<Longrightarrow> err = None" for c w err d w'
    using assms(3) by (metis fst_conv)
  have "wp (kUpdateClaim E) (\<lambda>err t. err = None \<and> calls t = calls v @ [CUpdateClaim (claim v) None]) v" for v
    using claim_ok by (auto simp: kUpdateClaim_def wp_simps split: prod.splits)
  then have "wp (removeClaimFinalizer E) ?Q u" for u
    unfolding removeClaimFinalizer_def wp_bind wp_pointers wp_return
    by (intro wp_always [of _ "event _ _ _ _ _"]) (rule wp_mono, assumption, use assms(2) in \<open>auto simp: law_RemoveFinalizer_def\<close>)
  then have manage: "wp (deleteManaged E) ?Q u" for u
    by (rule absent_deleteManaged [OF assms(1)])
  have "wp (updateStatusIfChanged E old) (\<lambda>err t. err = None) u" for old u
    using assms(4) by (auto simp: updateStatusIfChanged_def kUpdateStatus_def wp_simps split: prod.splits) (metis fst_conv)
  then have "wp (orReturn (updateStatusIfChanged E old) (deleteManaged E)) ?Q u" for old u
    unfolding orReturn_def by (rule wp_bindI) (simp add: manage)
  with assms(5) show ?thesis
    unfolding reconcileDelete_def by (simp add: wp_simps)
qed

section \<open>The disciplines of the code\<close>

lemma about_simps [simp]:
  "about g k (CDelete g' k' e) \<longleftrightarrow> g' = g \<and> k' = k"
  "\<not> about g k (CUpdateClaim d e)" "\<not> about g k (CUpdateStatus d e)"
  by (simp_all add: about_def)

lemma about_cases: "about g k x \<Longrightarrow> infra_delete c x \<Longrightarrow>
    g = ClusterGVK \<and> k = key_of (ClusterName (cc_Name c) ''infra'') (cc_Namespace c)"
  "about g k x \<Longrightarrow> late_delete x \<Longrightarrow> g = CertificateSetGVK \<or> g = ApplicationGVK"
  "about g k x \<Longrightarrow> \<not> is_CUpdateClaim x"
  "about g k x \<Longrightarrow> about g' k' x \<Longrightarrow> g' = g"
  by (auto simp: about_def infra_delete_def late_delete_def is_CUpdateClaim_def split: call.splits)

lemma aside_cases: "aside x \<Longrightarrow> \<not> infra_delete c x" "aside x \<Longrightarrow> \<not> late_delete x"
  "aside x \<Longrightarrow> \<not> is_CUpdateClaim x" "aside x \<Longrightarrow> \<not> about g k x"
  by (auto simp: about_def infra_delete_def late_delete_def is_CUpdateClaim_def aside_def split: call.splits)

lemma dependent_kinds: "d \<in> set (dependentClaims c) \<Longrightarrow> dep_gvk d \<in> {VaultClaimGVK, VaultSecretClaimGVK, S3BucketClaimGVK}"
  by (auto simp: dependentClaims_def)

lemma grows_guards: "grows (\<lambda>h. vault_gone L c h \<and> client_gone L c h)" "grows (cluster_gone L c r)"
  by (intro grows_intros grows_stages)+


lemma discipline:
  assumes law: "law_UpdateStatus (e_api E)"
    and manage: "\<And>u. same_target (claim s) (claim u) \<Longrightarrow> so_far A G (\<lambda>_. True) s u \<Longrightarrow> wp (deleteManaged E) (del_end A G s) u"
    and quiet: "\<And>d e. \<not> A (CUpdateStatus d e)"
  shows "case run_state (reconcileDelete E) s of (out, t) \<Rightarrow> \<exists>h. calls t = calls s @ h \<and> guarded A G [] h \<and>
     list_all (\<lambda>x. \<not> is_CUpdateClaim x) (butlast h) \<and>
     (out = Return \<lparr>RequeueAfter = 0\<rparr> None \<longrightarrow> h = [] \<or> (\<exists>h' d. h = h' @ [CUpdateClaim d None]))"
  using reconcileDelete_ordered [of "same_target (claim s)" s E A G,
      OF law_UpdateStatus_answer(2) [OF law] law_UpdateStatus_answer(1) [OF law] quiet manage]
  by (auto simp: wp_def del_end_def split: prod.splits)

lemma infra_discipline:
  assumes "same_target c (claim u)" and u: "so_far (infra_delete c) (\<lambda>b. vault_gone (e_lib E) c b \<and> client_gone (e_lib E) c b) (\<lambda>_. True) s u"
  shows "wp (deleteManaged E) (del_end (infra_delete c) (\<lambda>b. vault_gone (e_lib E) c b \<and> client_gone (e_lib E) c b) s) u"
proof -
  note same = stages_same [OF assms(1)]
  have disj: "allowed (infra_delete c) G P (about g k)" if "g \<noteq> ClusterGVK \<or> k \<noteq> key_of (ClusterName (cc_Name c) ''infra'') (cc_Namespace c)" for G P g k
    using that about_cases(1) by (intro allowed_disjoint) blast
  have dep: "d \<in> set (dependentClaims (claim u)) \<Longrightarrow> dep_gvk d \<noteq> ClusterGVK" for d
    using dependent_kinds by fastforce
  show ?thesis
  proof (rule deleteManaged_ordered [OF aside_cases(1) refl u])
    show "allowed (infra_delete c) (\<lambda>b. vault_gone (e_lib E) c b \<and> client_gone (e_lib E) c b)
        (\<lambda>h. vault_gone (e_lib E) (claim u) h \<and> client_gone (e_lib E) (claim u) h)
        (about ClusterGVK (key_of (ClusterName (cc_Name (claim u)) ''infra'') (cc_Namespace (claim u))))"
      unfolding same by (intro allowed_known grows_guards) simp
  qed (use assms(1) dep in \<open>auto simp: same_target_def is_CUpdateClaim_def infra_delete_def intro!: disj split: call.splits\<close>)
qed

lemma late_discipline:
  assumes "same_target c (claim u)" and u: "so_far late_delete (cluster_gone (e_lib E) c ''infra'') (\<lambda>_. True) s u"
  shows "wp (deleteManaged E) (del_end late_delete (cluster_gone (e_lib E) c ''infra'') s) u"
proof -
  note same = stages_same [OF assms(1)]
  have disj: "allowed late_delete G P (about g k)" if "g \<noteq> CertificateSetGVK" "g \<noteq> ApplicationGVK" for G P g k
    using that about_cases(2) by (intro allowed_disjoint) blast
  have dep: "d \<in> set (dependentClaims (claim u)) \<Longrightarrow> dep_gvk d \<noteq> CertificateSetGVK \<and> dep_gvk d \<noteq> ApplicationGVK" for d
    using dependent_kinds by fastforce
  show ?thesis
  proof (rule deleteManaged_ordered [OF aside_cases(2) refl u])
    show "allowed late_delete (cluster_gone (e_lib E) c ''infra'') (cluster_gone (e_lib E) (claim u) ''infra'') (about g k)" for g k
      unfolding same by (intro allowed_known grows_guards)
  qed (use dep in \<open>auto simp: is_CUpdateClaim_def late_delete_def intro!: disj split: call.splits\<close>)
qed

lemma finalizer_discipline:
  assumes "same_target c (claim u)"
    and u: "so_far is_CUpdateClaim (\<lambda>b. vault_gone (e_lib E) c b \<and> client_gone (e_lib E) c b \<and>
       cluster_gone (e_lib E) c ''infra'' b \<and> released (e_lib E) c b) (\<lambda>_. True) s u"
  shows "wp (deleteManaged E) (del_end is_CUpdateClaim (\<lambda>b. vault_gone (e_lib E) c b \<and> client_gone (e_lib E) c b \<and>
       cluster_gone (e_lib E) c ''infra'' b \<and> released (e_lib E) c b) s) u"
proof -
  have disj: "allowed is_CUpdateClaim G P (about g k)" for G P g k
    using about_cases(3) by (intro allowed_disjoint)
  show ?thesis
    by (rule deleteManaged_ordered [OF aside_cases(3) refl u])
      (simp_all add: disj stages_same [OF assms(1)])
qed

lemmas delete_discipline = discipline [OF _ infra_discipline] discipline [OF _ late_discipline]
  discipline [OF _ finalizer_discipline]

lemma guarded_never: "guarded A (\<lambda>_. False) b h \<longleftrightarrow> list_all (\<lambda>x. \<not> A x) h"
  by (induction h arbitrary: b) auto

lemma delete_skips_vault:
  assumes law: "law_UpdateStatus (e_api E)" and "sp_VaultClaimTemplateRef (cc_Spec (claim s)) = None"
  shows "\<exists>h. calls (snd (run_state (reconcileDelete E) s)) = calls s @ h \<and> list_all (\<lambda>x. \<not> about VaultClaimGVK k x) h"
proof -
  have disj: "g \<noteq> VaultClaimGVK \<Longrightarrow> allowed (about VaultClaimGVK k) G P (about g k')" for G P g k'
    using about_cases(4) by (intro allowed_disjoint) blast
  have "wp (deleteManaged E) (del_end (about VaultClaimGVK k) (\<lambda>_. False) s) u"
    if "same_target (claim s) (claim u)" and u: "so_far (about VaultClaimGVK k) (\<lambda>_. False) (\<lambda>_. True) s u" for u
    by (rule deleteManaged_ordered [OF aside_cases(4) refl u])
      (use that(1) assms(2) in \<open>auto simp: same_target_def dependentClaims_def is_CUpdateClaim_def split: call.splits intro!: disj\<close>)
  from discipline [OF law this] show ?thesis
    by (auto simp: guarded_never split: prod.splits)
qed


text \<open>The calls that create or change a managed object or a remote ConfigMap.\<close>

definition creates :: "call \<Rightarrow> bool" where
  "creates x = (case x of CApply _ _ \<Rightarrow> True | CRemoteCreate _ _ _ \<Rightarrow> True | CRemoteUpdate _ _ _ \<Rightarrow> True | _ \<Rightarrow> False)"

lemma delete_creates_nothing:
  "wp (reconcileDelete E) (\<lambda>out t. extends (\<lambda>x. \<not> creates x) s t) s"
proof -
  have disj: "allowed creates (\<lambda>_. False) P (about g k)" for P g k
    by (rule allowed_disjoint) (auto simp: about_def creates_def split: call.splits)
  have "wp (deleteManaged E) (del_end creates (\<lambda>_. False) s) u" if "so_far creates (\<lambda>_. False) (\<lambda>_. True) s u" for u
    by (rule deleteManaged_ordered [OF _ refl that])
      (auto simp: aside_def creates_def is_CUpdateClaim_def split: call.splits intro!: disj)
  then have "wp (reconcileDelete E) (\<lambda>out t. calls t = calls s \<or> del_end creates (\<lambda>_. False) s out t) s"
    by (intro reconcileDelete_ordered [where T = "\<lambda>_. True"]) (simp_all add: creates_def)
  then show ?thesis
    by (rule wp_mono) (auto simp: del_end_def extends_def guarded_never)
qed

end
