(* ===== verification/Sample.thy ===== *)
theory Sample
  imports Pipeline_Live Deletion_Runs
begin

text \<open>
  A concrete instance of the parameters: library functions that behave as documented on the data the
  operator uses, a claim with a client cluster and a vault, and three API servers: one that finds
  everything and finds it ready, one from which everything is gone,
      one whose objects are empty. It shows that the hypotheses of
  the properties can be met together.
\<close>

section \<open>Library\<close>

text \<open>The status code of an API error, through wrapping.\<close>

fun code_of :: "goerror \<Rightarrow> int" where
  "code_of (ErrExt i t) = i"
| "code_of (Errorf f as None) = 0"
| "code_of (Errorf f as (Some e)) = code_of e"
| "code_of (TerminalError e) = code_of e"

fun walk :: "gomap \<Rightarrow> string list \<Rightarrow> goval option" where
  "walk m [] = Some (GMap m)"
| "walk m [k] = map_of m k"
| "walk m (k # ks) = (case map_of m k of Some (GMap n) \<Rightarrow> walk n ks | _ \<Rightarrow> None)"

fun put :: "string list \<Rightarrow> goval \<Rightarrow> gomap \<Rightarrow> gomap" where
  "put [] v m = m"
| "put [k] v m = AList.update k v m"
| "put (k # ks) v m =
     AList.update k (GMap (put ks v (case map_of m k of Some (GMap n) \<Rightarrow> n | _ \<Rightarrow> []))) m"

definition typed :: "(goval \<Rightarrow> 'a option) \<Rightarrow> 'a \<Rightarrow> gomap \<Rightarrow> string list \<Rightarrow> 'a \<times> bool \<times> goerror option" where
  "typed f zero m path = (case walk m path of
     None \<Rightarrow> (zero, False, None)
   | Some v \<Rightarrow> (case f v of Some a \<Rightarrow> (a, True, None) | None \<Rightarrow> (zero, False,
       Some (ErrExt 1 ''unexpected type''))))"

definition as_string :: "goval \<Rightarrow> string option" where
  "as_string v = (case v of GString s \<Rightarrow> Some s | _ \<Rightarrow> None)"

definition as_strmap :: "goval \<Rightarrow> strmap option" where
  "as_strmap v = (case v of
     GMap m \<Rightarrow> if list_all (\<lambda>p. as_string (snd p) \<noteq> None) m
       then Some (map (\<lambda>p. (fst p, the (as_string (snd p)))) m) else None
   | _ \<Rightarrow> None)"

fun upsert :: "gotime \<Rightarrow> Condition \<Rightarrow> Condition list \<Rightarrow> Condition list" where
  "upsert now c [] = [c\<lparr>c_LastTransitionTime := Some now\<rparr>]"
| "upsert now c (d # ds) =
     (if c_Type d = c_Type c
      then c\<lparr>c_LastTransitionTime := (if c_Status d = c_Status c then c_LastTransitionTime d else Some now)\<rparr> # ds
      else d # upsert now c ds)"

definition group_version :: "GroupVersionKind \<Rightarrow> string" where
  "group_version g = gvk_Group g @ ''/'' @ gvk_Version g"

definition strings :: "strmap \<Rightarrow> goval" where
  "strings m = GMap (map (\<lambda>(k, v). (k, GString v)) m)"

definition finalizers_of :: "gomap \<Rightarrow> goval list" where
  "finalizers_of obj = (case walk obj [''metadata'', ''finalizers''] of Some (GSlice xs) \<Rightarrow> xs | _ \<Rightarrow> [])"

definition L0 :: lib where
  "L0 = \<lparr>
     quote_nonascii = id,
     fmt_float = (\<lambda>_. ''0''),
     float_oor = (\<lambda>_. 0),
     ParseRFC3339 = (\<lambda>_. Inl (ErrExt 2 ''bad time'')),
     Sum256 = id,
     IsNotFound = (\<lambda>e. code_of e = 404),
     IsInvalid = (\<lambda>e. code_of e = 422),
     IsForbidden = (\<lambda>e. code_of e = 403),
     IsNoMatchError = (\<lambda>e. code_of e = 3),
     IgnoreNotFound = (\<lambda>e. if code_of e = 404 then None else Some e),
     NestedString = typed as_string [],
     NestedBool = typed (\<lambda>v. case v of GBool b \<Rightarrow> Some b | _ \<Rightarrow> None) False,
     NestedInt64 = typed (\<lambda>v. case v of GInt64 n \<Rightarrow> Some n | _ \<Rightarrow> None) 0,
     NestedSlice = typed (\<lambda>v. case v of GSlice xs \<Rightarrow> Some xs | _ \<Rightarrow> None) [],
     NestedMap = typed (\<lambda>v. case v of GMap m \<Rightarrow> Some m | _ \<Rightarrow> None) [],
     NestedStringMap = typed as_strmap [],
     SetNestedField = (\<lambda>m v path. (put path v m, None)),
     SetGroupVersionKind = (\<lambda>g m. put [''kind''] (GString (gvk_Kind g))
        (put [''apiVersion''] (GString (group_version g)) m)),
     SetName = (\<lambda>n. put [''metadata'', ''name''] (GString n)),
     SetNamespace = (\<lambda>n. put [''metadata'', ''namespace''] (GString n)),
     SetOwnerReferences = (\<lambda>rs. put [''metadata'', ''ownerReferences'']
        (GSlice (map (\<lambda>r. GMap [(''kind'', GString (or_Kind r)), (''name'', GString (or_Name r))]) rs))),
     SetLabels = (\<lambda>ls. put [''metadata'', ''labels''] (strings ls)),
     SetAnnotations = (\<lambda>ls. put [''metadata'', ''annotations''] (strings ls)),
     GetName = (\<lambda>m. fst (typed as_string [] m [''metadata'', ''name''])),
     GetNamespace = (\<lambda>m. fst (typed as_string [] m [''metadata'', ''namespace''])),
     DeletionTimestampIsZero = (\<lambda>m. walk m [''metadata'', ''deletionTimestamp''] = None),
     GroupVersionString = group_version,
     FromAPIVersionAndKind = (\<lambda>v k. \<lparr>gvk_Group = takeWhile (\<lambda>x. x \<noteq> CHR ''/'') v,
        gvk_Version = tl (dropWhile (\<lambda>x. x \<noteq> CHR ''/'') v), gvk_Kind = k\<rparr>),
     AddFinalizer_obj = (\<lambda>m f. if GString f \<in> set (finalizers_of m) then (m, False)
        else (put [''metadata'', ''finalizers''] (GSlice (finalizers_of m @ [GString f])) m, True)),
     RemoveFinalizer_obj = (\<lambda>m f. if GString f \<in> set (finalizers_of m)
        then (put [''metadata'', ''finalizers''] (GSlice (removeAll (GString f) (finalizers_of m))) m, True)
        else (m, False)),
     AddFinalizer = (\<lambda>fs f. if f \<in> set fs then (fs, False) else (fs @ [f], True)),
     RemoveFinalizer = (\<lambda>fs f. (removeAll f fs, f \<in> set fs)),
     ContainsFinalizer = (\<lambda>fs f. f \<in> set fs),
     NewControllerRef = (\<lambda>m g. \<lparr>or_APIVersion = group_version g, or_Kind = gvk_Kind g, or_Name = om_Name m,
        or_UID = om_UID m, or_Controller = True, or_BlockOwnerDeletion = True\<rparr>),
     SetStatusCondition = (\<lambda>now cs c. upsert now c cs),
     RemoveStatusCondition = (\<lambda>cs t. filter (\<lambda>c. c_Type c \<noteq> t) cs),
     StatusDeepEqual = (=),
     ToUnstructured = (\<lambda>c. Inr [(''metadata'', GMap [(''name'', GString (cc_Name c))])]),
     ObjectKinds = (\<lambda>c. [ClusterClaimGVK]),
     TemplateParse = (\<lambda>toYaml t. if t = ''bad'' then Inl (ErrExt 4 ''unclosed action'') else Inr (length t)),
     TemplateExecute = (\<lambda>p ctx. Inr ''out''),
     YamlUnmarshal = (\<lambda>t. Inr [(''metadata'', GMap [(''labels'', GMap [(''app'', GString ''x'')])]),
        (''spec'', GMap [(''replicas'', GInt64 3)]), (''data'', GMap [(''environment'',
            GString ''infra'')])]),
     YamlMarshal = (\<lambda>v. Inr ''out''),
     RESTConfigFromKubeConfig = (\<lambda>d. Inr (length d))\<rparr>"

lemma L0_wrapped: "law_wrapped_NotFound L0" "law_wrapped_classes L0"
  by (simp_all add: law_wrapped_NotFound_def law_wrapped_classes_def L0_def)

lemma find_condition_upsert_same:
  "\<exists>d. find_condition (upsert now c cs) (c_Type c) = Some d \<and> c_Status d = c_Status c \<and>
     c_Reason d = c_Reason c \<and> c_Message d = c_Message c \<and> c_ObservedGeneration d = c_ObservedGeneration c"
  by (induction cs) (auto simp: find_condition_def)

lemma find_condition_upsert_other:
  "t \<noteq> c_Type c \<Longrightarrow> find_condition (upsert now c cs) t = find_condition cs t"
  by (induction cs) (auto simp: find_condition_def)

lemma L0_SetStatusCondition: "law_SetStatusCondition L0"
  unfolding law_SetStatusCondition_def
  by (auto simp: L0_def find_condition_upsert_same find_condition_upsert_other)

lemma upsert_same:
  "find_condition cs (c_Type c) = Some d \<Longrightarrow> c_Status d = c_Status c \<Longrightarrow> c_Reason d = c_Reason c \<Longrightarrow>
   c_Message d = c_Message c \<Longrightarrow> c_ObservedGeneration d = c_ObservedGeneration c \<Longrightarrow> upsert now c cs = cs"
  by (induction cs) (auto simp: find_condition_def split: if_splits)

lemma L0_SetStatusCondition_same: "law_SetStatusCondition_same L0"
  unfolding law_SetStatusCondition_same_def by (auto simp: L0_def upsert_same)

lemma L0_RemoveStatusCondition: "law_RemoveStatusCondition L0"
proof -
  have "find_condition (filter (\<lambda>c. c_Type c \<noteq> t) cs) u = (if u = t then None else find_condition cs u)" for cs t u
    by (induction cs) (auto simp: find_condition_def)
  then show ?thesis by (simp add: law_RemoveStatusCondition_def L0_def)
qed

lemma L0_StatusDeepEqual: "law_StatusDeepEqual L0"
  by (simp add: law_StatusDeepEqual_def L0_def)

section \<open>A claim\<close>

abbreviation ref :: "string \<Rightarrow> TemplateRef" where
  "ref n \<equiv> \<lparr>tr_Name = n\<rparr>"

definition meta0 :: ObjectMeta where
  "meta0 = \<lparr>om_Name = ''demo'', om_Namespace = ''team'', om_UID = ''u1'', om_ResourceVersion = ''1'',
     om_Generation = 1, om_DeletionTimestamp = None, om_Labels = [], om_Annotations = [],
     om_Finalizers = [ClusterClaimFinalizer]\<rparr>"

definition net0 :: NetworkConfig where
  "net0 = \<lparr>nc_ServiceCidr = ''10.0.0.0/16'', nc_PodCidr = ''10.1.0.0/16'', nc_PodCidrMaskSize = None,
     nc_ClusterDNS = ''10.0.0.10'', nc_KubeApiserverPort = 6443, nc_IpamMode = ''cluster-pool''\<rparr>"

definition spec0 :: ClusterClaimSpec where
  "spec0 = \<lparr>sp_ObserveTemplateRef = ref ''app-tmpl'',
     sp_CertificateSetTemplateRef = \<lparr>dr_Infra = ref ''cert-infra'', dr_Client = Some (ref ''cert-client'')\<rparr>,
     sp_ClusterTemplateRef = \<lparr>dr_Infra = ref ''cluster-infra'', dr_Client = Some (ref ''cluster-client'')\<rparr>,
     sp_CcmCsrTemplateRef = ref ''ccm'',
     sp_ClusterClassTemplateRef = \<lparr>dr_Infra = ref ''class-infra'', dr_Client = None\<rparr>,
     sp_ConfigMapTemplateRef = Some \<lparr>dr_Infra = ref ''params'', dr_Client = Some (ref ''params-client'')\<rparr>,
     sp_VaultClaimTemplateRef = Some (ref ''vault''), sp_VaultSecretClaimTemplateRef = None,
     sp_S3BucketClaimTemplateRef = None, sp_Replicas = 1,
     sp_Configuration = \<lparr>cf_CpuCount = 2, cf_DiskSize = 20, cf_Memory = 4096\<rparr>,
     sp_RemoteNamespace = [], sp_ExtraEnvs = [],
     sp_Infra = \<lparr>is_Role = ''customer/infra'', is_Paused = False, is_Network = net0,
       is_ComponentVersions = [], is_AddonVersions = []\<rparr>,
     sp_Client = \<lparr>cl_Enabled = True, cl_Paused = None, cl_Network = Some net0, cl_ComponentVersions = []\<rparr>\<rparr>"

definition status0 :: ClusterClaimStatus where
  "status0 = \<lparr>st_ObservedGeneration = 0, st_Phase = [], st_Conditions = [], st_Clusters = None,
      st_Vault = None,
     st_VaultSecret = None, st_S3Bucket = None\<rparr>"

definition claim0 :: ClusterClaim where
  "claim0 = \<lparr>cc_Meta = meta0, cc_Spec = spec0, cc_Status = status0\<rparr>"

definition template0 :: "string \<Rightarrow> GroupVersionKind \<Rightarrow> ClusterClaimObserveResourceTemplate" where
  "template0 n g = \<lparr>tm_Meta = meta0\<lparr>om_Name := n\<rparr>,
     tm_Spec = \<lparr>ts_APIVersion = group_version g, ts_Kind = gvk_Kind g, ts_Value = ''spec: {}''\<rparr>\<rparr>"

definition condition0 :: "string \<Rightarrow> goval" where
  "condition0 t = GMap [(''type'', GString t), (''status'', GString ''True'')]"

section \<open>API servers\<close>

definition NotFound :: goerror where
  "NotFound = ErrExt 404 ''not found''"

text \<open>An object that is ready in every respect.\<close>

definition obj1 :: gomap where
  "obj1 = [(''spec'', GMap [(''controlPlaneEndpoint'', GMap [(''host'', GString ''10.2.0.1''), (''port'',
      GInt64 6443)]),
       (''transit'', GMap [(''keys'', GSlice [GString ''k''])])]),
     (''status'', GMap [(''phase'', GString ''Ready''),
       (''conditions'', GSlice (map condition0 [''Ready'', ''TransitKeysReady'', ''RolesApplied''])),
       (''initialization'', GMap [(''infrastructureProvisioned'', GBool True), (''controlPlaneInitialized'',
           GBool True)])])]"

definition secret0 :: Secret where
  "secret0 = \<lparr>sec_Namespace = ''team'', sec_Name = KubeconfigSecretName ''demo'', sec_Data = [(''value'',
      ''kubeconfig'')]\<rparr>"

definition A1 :: "unit api" where
  "A1 = \<lparr>
     api_now = (\<lambda>w. (0, w)),
     api_get_claim = (\<lambda>k w. (Inr claim0, w)),
     api_get_template = (\<lambda>n w. (Inr (template0 n VaultClaimGVK), w)),
     api_get_secret = (\<lambda>k w. (Inr secret0, w)),
     api_get = (\<lambda>g k w. (Inr obj1, w)),
     api_list_claims = (\<lambda>field v w. (case map_of indexes field of
        None \<Rightarrow> Inl (ErrExt 5 ''no index'') | Some f \<Rightarrow> Inr (filter (\<lambda>c. v \<in> set (f c)) [claim0]), w)),
     api_update = (\<lambda>m w. (None, w)),
     api_apply = (\<lambda>m w. (None, w)),
     api_delete = (\<lambda>m w. (None, w)),
     api_update_claim = (\<lambda>c w. ((None, c), w)),
     api_update_status = (\<lambda>c w. ((None, c), w)),
     api_new_client = (\<lambda>cfg w. (Inr cfg, w)),
     rem_get = (\<lambda>cl k w. (Inl NotFound, w)),
     rem_create = (\<lambda>cl m w. (None, w)),
     rem_update = (\<lambda>cl m w. (None, w)),
     rem_delete = (\<lambda>cl k w. (None, w))\<rparr>"

definition E1 :: "unit env" where
  "E1 = \<lparr>e_lib = L0, e_api = A1, e_Recorder = True, e_ClusterManager = True,
      e_RemoteNamespace = ''beget-system''\<rparr>"

text \<open>Everything is gone: reads and deletions answer \<open>NotFound\<close>.\<close>

definition E2 :: "unit env" where
  "E2 = E1\<lparr>e_api := A1\<lparr>api_get := (\<lambda>g k w. (Inl NotFound, w)), api_get_secret := (\<lambda>k w. (Inl NotFound, w)),
     api_get_template := (\<lambda>n w. (Inl NotFound, w)), api_delete := (\<lambda>m w. (Some NotFound, w)),
     api_get_claim := (\<lambda>k w. (Inl NotFound, w))\<rparr>\<rparr>"

lemma E1_simps [simp]: "e_lib E1 = L0" "e_api E1 = A1" "e_ClusterManager E1" "e_Recorder E1"
  by (simp_all add: E1_def)

lemma E2_lib [simp]: "e_lib E2 = L0"
  by (simp add: E2_def)

text \<open>A reconciliation of a claim about to start.\<close>

definition start :: "ClusterClaim \<Rightarrow> unit pst" where
  "start c = \<lparr>world = (), cmgr = NewClusterManager, calls = [], claim = c, tctx = emptyContext []\<rparr>"

lemma start_simps [simp]: "claim (start c) = c" "calls (start c) = []" "world (start c) = ()"
  by (simp_all add: start_def)

section \<open>The ready world is cooperative\<close>

lemma obj1_ready:
  "isConditionTrue L0 obj1 ''Ready''"
  "nested_bool L0 obj1 [''status'', ''initialization'', ''infrastructureProvisioned'']"
  "nested_bool L0 obj1 [''status'', ''initialization'', ''controlPlaneInitialized'']"
  "nested_string L0 obj1 [''status'', ''phase''] = ''Ready''"
  "kms_ready L0 obj1"
  by code_simp+

lemma Render_L0: "\<exists>r. Render L0 (ts_Value (tm_Spec (template0 n g))) ctx = Inr r"
  by (simp add: Render_def L0_def template0_def)

lemma sample_cooperative: "cooperative E1 claim0"
proof -
  have "ready_resources E1 claim0"
    by (simp add: ready_resources_def needs_def step_needs_def finds_def kubeconfig_there_def A1_def obj1_ready secret0_def
        Let_def)
  moreover have "good_templates E1 claim0"
    unfolding good_templates_def fits_def
    by (auto simp: A1_def Render_L0 claim0_def spec0_def) (simp_all add: template0_def L0_def)
  moreover have "writable E1" by (simp add: writable_def A1_def)
  moreover have "remote_up E1 claim0"
    by (simp add: remote_up_def A1_def L0_def NotFound_def)
  moreover have "client_refs claim0" by (simp add: client_refs_def claim0_def spec0_def)
  moreover have "\<exists>u. ToUnstructured L0 d = Inr u" for d by (simp add: L0_def)
  ultimately show ?thesis by (simp add: cooperative_def operable_def)
qed

section \<open>Everything gone\<close>

lemma sample_absent: "absent E2"
  by (simp add: absent_def E2_def E1_def A1_def L0_def NotFound_def)

lemma sample_UpdateStatus: "law_UpdateStatus A1" "law_UpdateStatus (e_api E2)"
  by (simp_all add: law_UpdateStatus_def A1_def E2_def same_target_def)

lemma L0_finalizers: "law_RemoveFinalizer L0" "law_AddFinalizer L0"
  by (simp_all add: law_RemoveFinalizer_def law_AddFinalizer_def L0_def)

text \<open>The claim under deletion, and one with the pause annotation as well.\<close>

definition claim_deleted :: ClusterClaim where
  "claim_deleted = claim0\<lparr>cc_Meta := meta0\<lparr>om_DeletionTimestamp := Some 7\<rparr>\<rparr>"

definition claim_paused :: ClusterClaim where
  "claim_paused = claim0\<lparr>cc_Meta := meta0\<lparr>om_Annotations := [(PausedAnnotation, ''true'')]\<rparr>\<rparr>"

definition claim_settled :: ClusterClaim where
  "claim_settled = claim_paused\<lparr>cc_Status := status0\<lparr>st_Phase := PhasePaused, st_ObservedGeneration := 1,
      st_Conditions :=
    [\<lparr>c_Type = ConditionPaused, c_Status = ConditionTrue, c_ObservedGeneration = 1,
        c_LastTransitionTime = Some 3,
      c_Reason = ''Paused'', c_Message = ''Reconciliation paused via annotation''\<rparr>]\<rparr>\<rparr>"

section \<open>An empty object is not ready\<close>

definition E3 :: "unit env" where
  "E3 = E1\<lparr>e_api := A1\<lparr>api_get := (\<lambda>g k w. (Inr [], w))\<rparr>\<rparr>"

lemma E3_lib [simp]: "e_lib E3 = L0"
  by (simp add: E3_def)

lemma empty_not_ready: "\<not> isConditionTrue L0 [] ''Ready''"
  by code_simp

lemma sample_waits: "fst (run_state (executePipeline E3)
    (start claim0)) = Return \<lparr>RequeueAfter = 5 * Minute\<rparr> None"
proof -
  have good: "good_templates E3 claim0"
    unfolding good_templates_def fits_def
    by (auto simp: E3_def A1_def Render_L0 claim0_def spec0_def) (simp_all add: template0_def L0_def)
  have env: "writable E3" "client_refs claim0"
    by (simp_all add: writable_def client_refs_def E3_def A1_def claim0_def spec0_def)
  have objs: "finds E3 g k (\<lambda>obj. \<not> isConditionTrue L0 obj ''Ready'') w" for g k w
    by (simp add: finds_def E3_def empty_not_ready)
  obtain u where u: "loop_start E3 (start claim0) = Some u"
    by (auto simp: loop_start_def Let_def toUnstructured_def L0_def)
  have s3: "gives (\<lambda>w. True) claim0 (\<lambda>out. out = proceed) (stepEnsureS3BucketClaim E3)"
    unfolding stepEnsureS3BucketClaim_def
    by (rule gives_getClaim) (simp add: same_specD ensureDependent_def claim0_def spec0_def gives_ret)
  have wait: "gives (\<lambda>w. True) claim0 (\<lambda>out. out = Step Wait None) (stepWaitCertSetReady E3)"
    unfolding stepWaitCertSetReady_def
    by (rule gives_getClaim, rule gives_bind [OF always.gives_getResource [OF objs]])
      (auto intro!: gives_stays [OF stays_setWaiting [where \<Phi> = any_call]] always.fr.frame_setWaiting gives_ret)
  have present: "needs E3 claim0 ''Application'' w" "needs E3 claim0 ''CertificateSetInfra'' w" for w
    by (simp_all add: needs_def step_needs_def Let_def finds_def E3_def)
  note steps = always.gives_apply_steps(1) [OF good env present(1)] always.gives_apply_steps(2) [OF good env present(2)]
  have split: "pipelineSteps E3 = take 3 (pipelineSteps E3) @ (''WaitCertSetReady'',
      stepWaitCertSetReady E3) # drop 4 (pipelineSteps E3)"
    by (simp add: pipelineSteps_def)
  show ?thesis
    by (rule stuck_waits [OF u split])
      (use wait s3 steps in \<open>auto simp: pipelineSteps_def\<close>)
qed

end
