(* ===== verification/Props_Pipeline.thy ===== *)
theory Props_Pipeline
  imports Sample
begin

text \<open>
  The properties of the provisioning pipeline. A run is \<open>executePipeline\<close> from a state \<open>s\<close> in which
  \<open>claim s\<close> is the claim; the environment \<open>E\<close> is arbitrary, so the API servers may answer anything and
  the world may change between any two calls.
\<close>

section \<open>Gates\<close>

text \<open>
  C1: The key-management barrier. When the pipeline starts the step that creates Cluster[client], the
  claim has no VaultClaim, or during this very reconciliation the operator has read a VaultClaim
  whose transit keys are none, or ready with their roles applied. So a client control plane is never
  started before the keys it encrypts with exist.
\<close>

theorem kms_barrier:
  assumes "loop_start E s = Some u" and "starts_at E ''ClusterClient'' u = Some t"
  shows "sp_VaultClaimTemplateRef (cc_Spec (claim s)) = None \<or>
    observed (new_calls s t) VaultClaimGVK
      (key_of (VaultClaimName (cc_Name (claim s))) (cc_Namespace (claim s))) (kms_ready (e_lib E))"
proof -
  have "passed E (claim s) ''WaitVaultKmsReady'' (new_calls s t)"
    by (rule starts_at_passed [OF assms]) (simp add: pipelineSteps_def)
  then show ?thesis by (simp add: passed_def)
qed

theorem kms_barrier_witness:
  "\<exists>u t. loop_start E1 (start claim0) = Some u \<and> starts_at E1 ''ClusterClient'' u = Some t \<and>
     observed (new_calls (start claim0) t) VaultClaimGVK (key_of ''demo'' ''team'') (kms_ready L0)"
proof -
  obtain u where u: "loop_start E1 (start claim0) = Some u"
    by (rule cooperative_start [of E1 "start claim0"]) (simp add: sample_cooperative)
  obtain t where t: "starts_at E1 ''ClusterClient'' u = Some t"
    by (rule cooperative_reaches [of E1 "start claim0", OF _ u]) (simp add: sample_cooperative)
  from kms_barrier [OF u t] have "observed (new_calls (start claim0) t) VaultClaimGVK (key_of ''demo'' ''team'') (kms_ready L0)"
    by (simp add: claim0_def spec0_def meta0_def VaultClaimName_def)
  with u t show ?thesis by blast
qed

text \<open>
  C3: Readiness is earned. A run that ends with the ten-minute requeue of a ready claim has, in this
  same reconciliation, applied every resource the claim asks for and read every resource it waits
  for in its ready state, for each of the nineteen steps.
\<close>

theorem ready_evidence:
  assumes "run_state (executePipeline E) s = (Return \<lparr>RequeueAfter = 10 * Minute\<rparr> None, t)"
  shows "list_all (\<lambda>step. passed E (claim s) (fst step) (new_calls s t)) (pipelineSteps E)"
  using ready_passed [OF assms] by (simp add: list_all_iff)

theorem ready_evidence_witness:
  "\<exists>t. run_state (executePipeline E1) (start claim0) = (Return \<lparr>RequeueAfter = 10 * Minute\<rparr> None, t) \<and>
     list_all (\<lambda>step. passed E1 claim0 (fst step) (new_calls (start claim0) t)) (pipelineSteps E1)"
proof -
  obtain t where t: "run_state (executePipeline E1) (start claim0) = (Return \<lparr>RequeueAfter = 10 * Minute\<rparr> None, t)"
    using cooperative_ready [of E1 "start claim0"] sample_cooperative by (cases "run_state (executePipeline E1) (start claim0)") simp
  from ready_evidence [OF t] t show ?thesis by auto
qed

text \<open>
  Steps run strictly in order. Running the loop over \<open>pre @ rest\<close> is running \<open>pre\<close> up to the first step
  that does not proceed; \<open>rest\<close> is run, in the state \<open>pre\<close> leaves, exactly when every step of \<open>pre\<close>
  proceeded, and otherwise not at all.
\<close>

lemma runSteps_in_order:
  "runSteps E oldStatus (pre @ rest) = do {
     r \<leftarrow> advance pre;
     if r = AllDone then runSteps E oldStatus rest else finish E oldStatus r
   }"
  by (simp add: runSteps_advance advance_append) (intro bind_cong, simp add: runSteps_advance)

section \<open>Outcomes\<close>

text \<open>
  C4: What a run reports. Unless it panics, a run ends on a status of the same claim that it has
  written last (or that equals the status it started from), and in it phase, condition \<open>Ready\<close> and
  requeue delay agree: ready and ten minutes, waiting and five minutes, provisioning with \<open>Ready\<close>
  false and one minute, failed with \<open>Ready\<close> false and no requeue; an error is returned only together
  with phase \<open>Ready\<close> or \<open>Failed\<close>.
\<close>

theorem pipeline_outcome:
  assumes "law_SetStatusCondition (e_lib E)"
  shows "case run_state (executePipeline E) s of (out, t) \<Rightarrow>
     out = Panicked \<or>
     (\<exists>d. same_spec (claim s) d \<and> outcome out d \<and>
          reports (e_lib E) (cc_Status (claim s)) d (new_calls s t))"
  using run_concluded [OF assms, of s] by (auto simp: concluded_def split: prod.splits)

theorem pipeline_outcome_witness:
  "law_SetStatusCondition L0 \<and>
   (case run_state (executePipeline E1) (start claim0) of (out, t) \<Rightarrow>
     out = Panicked \<or> (\<exists>d. same_spec claim0 d \<and> outcome out d \<and> reports L0 status0 d (new_calls (start claim0) t)))"
  using pipeline_outcome [of E1 "start claim0"] L0_SetStatusCondition by (simp add: claim0_def)

text \<open>
  Progress. If the API servers answer, the templates render, and the managed resources are ready,
  one run completes every step and asks for the ten-minute requeue of a ready claim.
\<close>

lemma pipeline_progress:
  assumes "cooperative E (claim s)"
  shows "fst (run_state (executePipeline E) s) = Return \<lparr>RequeueAfter = 10 * Minute\<rparr> None"
  using assms by (rule cooperative_ready)

lemma pipeline_progress_witness:
  "cooperative E1 (claim (start claim0)) \<and>
   fst (run_state (executePipeline E1) (start claim0)) = Return \<lparr>RequeueAfter = 10 * Minute\<rparr> None"
  using pipeline_progress [of E1 "start claim0"] sample_cooperative by simp

text \<open>
  C38: Waiting leaves the condition \<open>Ready\<close> as it was. When a run ends waiting for a dependency (five-minute
  requeue), the status it reports has the phase \<open>WaitingDependency\<close> and the condition \<open>Ready\<close> the claim
  had before the run: a claim that was ready still says \<open>Ready\<close> is true.
\<close>

theorem waiting_keeps_ready_condition:
  assumes "law_SetStatusCondition (e_lib E)" and "law_RemoveStatusCondition (e_lib E)"
    and "run_state (executePipeline E) s = (Return \<lparr>RequeueAfter = 5 * Minute\<rparr> None, t)"
  shows "\<exists>d. st_Phase (cc_Status d) = PhaseWaitingDependency \<and>
     reports (e_lib E) (cc_Status (claim s)) d (new_calls s t) \<and>
     find_condition (st_Conditions (cc_Status d)) ConditionReady =
     find_condition (st_Conditions (cc_Status (claim s))) ConditionReady"
  using assms by (rule wait_report)

theorem waiting_keeps_ready_condition_witness:
  "\<exists>t d. run_state (executePipeline E3) (start claim0) = (Return \<lparr>RequeueAfter = 5 * Minute\<rparr> None, t) \<and>
     st_Phase (cc_Status d) = PhaseWaitingDependency \<and> reports L0 status0 d (new_calls (start claim0) t) \<and>
     find_condition (st_Conditions (cc_Status d)) ConditionReady = find_condition [] ConditionReady"
proof -
  obtain t where t: "run_state (executePipeline E3) (start claim0) = (Return \<lparr>RequeueAfter = 5 * Minute\<rparr> None, t)"
    using sample_waits by (cases "run_state (executePipeline E3) (start claim0)") simp
  from waiting_keeps_ready_condition [OF _ _ t] L0_SetStatusCondition L0_RemoveStatusCondition t
  show ?thesis by (auto simp: claim0_def status0_def)
qed

section \<open>Requests\<close>


end
