(* ===== verification/Props_Deletion.thy ===== *)
theory Props_Deletion
  imports Sample
begin

text \<open>
  The properties of the deletion branch, stated over the history \<open>h\<close> of the calls one run of
  \<open>reconcileDelete\<close> adds: \<open>guarded A G [] h\<close> says that whenever a call in \<open>A\<close> is made, the calls before it
  satisfy \<open>G\<close>. The answers of the API servers are arbitrary, except that a status write returns the same
  claim (\<open>law_UpdateStatus\<close>).
\<close>

section \<open>Order\<close>

text \<open>
  C2: Cluster[infra] is deleted only after every vault-family claim that the spec references, and
  Cluster[client] if the client is enabled, has been read as not found in this same reconciliation:
  their operators still need the infra cluster to clean up.
\<close>

theorem infra_deleted_last:
  assumes "law_UpdateStatus (e_api E)"
  shows "\<exists>h. calls (snd (run_state (reconcileDelete E) s)) = calls s @ h \<and>
     guarded (infra_delete (claim s))
       (\<lambda>b. vault_gone (e_lib E) (claim s) b \<and> client_gone (e_lib E) (claim s) b) [] h"
  using delete_discipline(1) [OF assms, of s "claim s"] by (auto simp: infra_delete_def split: prod.splits)

theorem infra_deleted_last_witness:
  "law_UpdateStatus A1 \<and> (\<exists>h. calls (snd (run_state (reconcileDelete E1) (start claim_deleted))) = h \<and>
     guarded (infra_delete claim_deleted) (\<lambda>b. vault_gone L0 claim_deleted b \<and> client_gone L0 claim_deleted b) [] h)"
  using infra_deleted_last [of E1 "start claim_deleted"] sample_UpdateStatus by simp

text \<open>
  C28: CertificateSets and the Application are deleted only after Cluster[infra] has been read as not found
  in the same reconciliation.
\<close>

theorem certificates_outlive_infra:
  assumes "law_UpdateStatus (e_api E)"
  shows "\<exists>h. calls (snd (run_state (reconcileDelete E) s)) = calls s @ h \<and>
     guarded late_delete (cluster_gone (e_lib E) (claim s) ''infra'') [] h"
  using delete_discipline(2) [OF assms, of s "claim s"] by (auto simp: late_delete_def split: prod.splits)

theorem certificates_outlive_infra_witness:
  "law_UpdateStatus A1 \<and> (\<exists>h. calls (snd (run_state (reconcileDelete E1) (start claim_deleted))) = h \<and>
     guarded late_delete (cluster_gone L0 claim_deleted ''infra'') [] h)"
  using certificates_outlive_infra [of E1 "start claim_deleted"] sample_UpdateStatus by simp

text \<open>
  C5: The claim's own finalizer goes last. A deletion writes the claim at most once, as its last call,
  and only after it has read both Clusters and the referenced vault-family claims as not found and
  deleted (or found absent) CcmCsrc, the CertificateSets and the Application. A deletion that made any
  call and returns without error and without delay has made that write, successfully.
\<close>

theorem finalizer_removed_last:
  assumes "law_UpdateStatus (e_api E)"
  shows "case run_state (reconcileDelete E) s of (out, t) \<Rightarrow> \<exists>h. calls t = calls s @ h \<and>
     guarded is_CUpdateClaim (\<lambda>b. vault_gone (e_lib E) (claim s) b \<and> client_gone (e_lib E) (claim s) b \<and>
       cluster_gone (e_lib E) (claim s) ''infra'' b \<and> released (e_lib E) (claim s) b) [] h \<and>
     list_all (\<lambda>x. \<not> is_CUpdateClaim x) (butlast h) \<and>
     (out = Return \<lparr>RequeueAfter = 0\<rparr> None \<longrightarrow> h = [] \<or> (\<exists>h' d. h = h' @ [CUpdateClaim d None]))"
  using delete_discipline(3) [OF assms, of s "claim s"] by (simp add: is_CUpdateClaim_def)

theorem finalizer_removed_last_witness:
  "law_UpdateStatus (e_api E2) \<and> (case run_state (reconcileDelete E2) (start claim_deleted) of (out, t) \<Rightarrow>
     list_all (\<lambda>x. \<not> is_CUpdateClaim x) (butlast (calls t)) \<and>
     (out = Return \<lparr>RequeueAfter = 0\<rparr> None \<longrightarrow> calls t = [] \<or> (\<exists>h' d. calls t = h' @ [CUpdateClaim d None])))"
  using finalizer_removed_last [of E2 "start claim_deleted"] sample_UpdateStatus(2) by (auto split: prod.splits)

section \<open>Progress and what is left behind\<close>

text \<open>
  Deletion completes. If nothing of the claim is left on the server and the writes of the claim succeed,
  one run removes the finalizer: it ends without error or delay and its last call writes the claim
  without the operator's finalizer.
\<close>

lemma deletion_completes:
  assumes "absent E" and "law_RemoveFinalizer (e_lib E)" and "\<forall>c w. fst (fst (api_update_claim (e_api E) c w)) = None"
    and "\<forall>c w. fst (fst (api_update_status (e_api E) c w)) = None"
    and "ContainsFinalizer (e_lib E) (om_Finalizers (cc_Meta (claim s))) ClusterClaimFinalizer"
  shows "case run_state (reconcileDelete E) s of (out, t) \<Rightarrow> out = Return \<lparr>RequeueAfter = 0\<rparr> None \<and>
     (\<exists>h d. calls t = h @ [CUpdateClaim d None] \<and> ClusterClaimFinalizer \<notin> set (om_Finalizers (cc_Meta d)))"
  using reconcileDelete_completes [OF assms] by (simp add: wp_def)

lemma deletion_completes_witness:
  "absent E2 \<and> (case run_state (reconcileDelete E2) (start claim_deleted) of (out, t) \<Rightarrow>
     out = Return \<lparr>RequeueAfter = 0\<rparr> None \<and>
     (\<exists>h d. calls t = h @ [CUpdateClaim d None] \<and> ClusterClaimFinalizer \<notin> set (om_Finalizers (cc_Meta d))))"
  using deletion_completes [of E2 "start claim_deleted"] sample_absent L0_finalizers(1)
  by (simp add: E2_def A1_def claim_deleted_def meta0_def L0_def E1_def)

text \<open>
  C39: A deletion touches a VaultClaim only if the spec still references a VaultClaim template. If the
  reference was removed from the spec, no call of the deletion reads, updates or deletes any
  VaultClaim: one created earlier keeps the operator's finalizer.
\<close>

theorem unreferenced_vault_claim_untouched:
  assumes "law_UpdateStatus (e_api E)" and "sp_VaultClaimTemplateRef (cc_Spec (claim s)) = None"
  shows "\<exists>h. calls (snd (run_state (reconcileDelete E) s)) = calls s @ h \<and>
     list_all (\<lambda>x. \<not> about VaultClaimGVK k x) h"
  using delete_skips_vault [OF assms] by blast

theorem unreferenced_vault_claim_untouched_witness:
  "\<exists>h. calls (snd (run_state (reconcileDelete E1) (start (claim_deleted\<lparr>cc_Spec := spec0\<lparr>sp_VaultClaimTemplateRef := None\<rparr>\<rparr>)))) = h \<and>
     list_all (\<lambda>x. \<not> about VaultClaimGVK (key_of ''demo'' ''team'') x) h"
  using unreferenced_vault_claim_untouched
    [of E1 "start (claim_deleted\<lparr>cc_Spec := spec0\<lparr>sp_VaultClaimTemplateRef := None\<rparr>\<rparr>)" "key_of ''demo'' ''team''"]
    sample_UpdateStatus by simp

end
