(* ===== verification/Props_Convergence.thy ===== *)
theory Props_Convergence
  imports Sample
begin

text \<open>
  Deletion over many reconciliations. One run of the deletion branch stops at the first awaited resource
  that still exists, after it has asked for its deletion, and requests another run. If what was asked
  to be deleted is gone eventually, some run finds nothing left and removes the finalizer.
\<close>

section \<open>Servers on which nothing comes back\<close>

text \<open>
  \<open>missing w\<close> are the objects that do not exist in the world \<open>w\<close>. Reads of them answer NotFound; the writes of the
  operator succeed, or answer NotFound; and no request of a deletion brings an object back.
\<close>

definition only_grows :: "('w \<Rightarrow> 'o set) \<Rightarrow> ('w \<Rightarrow> 'a \<times> 'w) \<Rightarrow> bool" where
  "only_grows missing f \<longleftrightarrow> (\<forall>w. missing w \<subseteq> missing (snd (f w)))"

definition orderly :: "'w env \<Rightarrow> ('w \<Rightarrow> (GroupVersionKind \<times> ObjectKey) set) \<Rightarrow> bool" where
  "orderly E missing \<longleftrightarrow>
     (\<forall>g k w e. fst (api_get (e_api E) g k w) = Inl e \<longrightarrow> IsNotFound (e_lib E) e) \<and>
     (\<forall>g k w obj. fst (api_get (e_api E) g k w) = Inr obj \<longrightarrow> (g, k) \<notin> missing w) \<and>
     (\<forall>obj w. fst (api_update (e_api E) obj w) = None) \<and>
     (\<forall>obj w e. fst (api_delete (e_api E) obj w) = Some e \<longrightarrow> IsNotFound (e_lib E) e) \<and>
     (\<forall>c w. fst (fst (api_update_claim (e_api E) c w)) = None) \<and>
     (\<forall>c w. fst (fst (api_update_status (e_api E) c w)) = None) \<and>
     only_grows missing (api_now (e_api E)) \<and>
     (\<forall>k. only_grows missing (api_get_claim (e_api E) k) \<and> only_grows missing (api_get_secret (e_api E) k)) \<and>
     (\<forall>g k. only_grows missing (api_get (e_api E) g k)) \<and>
     (\<forall>obj. only_grows missing (api_update (e_api E) obj) \<and> only_grows missing (api_delete (e_api E) obj)) \<and>
     (\<forall>c. only_grows missing (api_update_claim (e_api E) c) \<and> only_grows missing (api_update_status (e_api E) c)) \<and>
     (\<forall>cfg. only_grows missing (api_new_client (e_api E) cfg)) \<and>
     (\<forall>cl k. only_grows missing (rem_delete (e_api E) cl k))"

lemma orderly_get: "orderly E missing \<Longrightarrow> fst (api_get (e_api E) g k w) = Inr obj \<Longrightarrow> (g, k) \<notin> missing w"
  by (simp add: orderly_def)

text \<open>\<open>later missing s t\<close>: from \<open>s\<close> to \<open>t\<close> the history has grown and nothing has come back.\<close>

definition later :: "('w \<Rightarrow> 'o set) \<Rightarrow> 'w pst \<Rightarrow> 'w pst \<Rightarrow> bool" where
  "later missing s t \<longleftrightarrow> missing (world s) \<subseteq> missing (world t) \<and> extends any_call s t"

interpretation la: state_frame "later missing" for missing
  by unfold_locales (auto simp: later_def intro: extends_trans)

named_theorems later_rules "operations that bring nothing back"

lemma later_ask: "only_grows missing f \<Longrightarrow> state_io_rel (later missing) (ask f c)"
  by (auto simp: state_io_rel_def ask_def later_def extends_def only_grows_def split: prod.splits) (metis snd_conv subsetD)

lemma later_requests [later_rules]:
  assumes "orderly E missing"
  shows "state_io_rel (later missing) (kGetSecret E k)" "state_io_rel (later missing) (kGet E g k)"
    "state_io_rel (later missing) (kUpdate E g k obj)" "state_io_rel (later missing) (kDelete E g k obj)"
    "state_io_rel (later missing) (kNewClient E cfg)" "state_io_rel (later missing) (kRemoteDelete E cl k)"
    "state_io_rel (later missing) (kGetClaim E k)"
  unfolding kGetSecret_def kGet_def kUpdate_def kDelete_def kNewClient_def kRemoteDelete_def kGetClaim_def
  using assms by (intro later_ask; simp add: orderly_def)+

lemma later_local [later_rules]:
  "orderly E missing \<Longrightarrow> state_io_rel (later missing) (kNow E)"
  "orderly E missing \<Longrightarrow> state_io_rel (later missing) (kUpdateStatus E)"
  "orderly E missing \<Longrightarrow> state_io_rel (later missing) (kUpdateClaim E)"
  "state_io_rel (later missing) getClaim" "state_io_rel (later missing) (modClaim f)" "state_io_rel (later missing) (event E t r m as)"
  "state_io_rel (later missing) State_Monad.get" "state_io_rel (later missing) (State_Monad.update (\<lambda>s. s\<lparr>cmgr := h s\<rparr>))"
  by (auto simp: state_io_rel_def k_defs later_def extends_def orderly_def only_grows_def split: prod.splits)
    (metis snd_conv subsetD)+

lemma later_GetClient [later_rules]: "orderly E missing \<Longrightarrow> state_io_rel (later missing) (GetClient E secret)"
  unfolding GetClient_def lookupClient_def Let_def by (intro la.keeps later_rules)

lemma later_deleteRemoteConfigMaps [later_rules]:
  "orderly E missing \<Longrightarrow> state_io_rel (later missing) (deleteRemoteConfigMaps E)"
  unfolding deleteRemoteConfigMaps_def deleteRemoteConfigMap_def Let_def by (intro la.keeps later_rules)

section \<open>One run\<close>

type_synonym managed_object = "GroupVersionKind \<times> ObjectKey"

text \<open>The objects whose disappearance a deletion awaits.\<close>

definition awaited :: "ClusterClaim \<Rightarrow> managed_object list" where
  "awaited c = map (\<lambda>d. (dep_gvk d, key_of (dep_name d) (cc_Namespace c))) (filter dep_enabled (dependentClaims c)) @
     (if client_enabled c then [(ClusterGVK, key_of (ClusterName (cc_Name c) ''client'') (cc_Namespace c))] else []) @
     [(ClusterGVK, key_of (ClusterName (cc_Name c) ''infra'') (cc_Namespace c))]"

text \<open>\<open>doomed L h a\<close>: in the calls \<open>h\<close> the deletion of \<open>a\<close> was requested, or \<open>a\<close> was seen terminating.\<close>

definition doomed :: "lib \<Rightarrow> call list \<Rightarrow> managed_object \<Rightarrow> bool" where
  "doomed L h a \<longleftrightarrow> (\<exists>e. CDelete (fst a) (snd a) e \<in> set h) \<or>
     (\<exists>obj. CGet (fst a) (snd a) (Inr obj) \<in> set h \<and> \<not> DeletionTimestampIsZero L obj)"

definition released_claim :: "rec_out \<Rightarrow> call list \<Rightarrow> bool" where
  "released_claim out h \<longleftrightarrow> out = Return \<lparr>RequeueAfter = 0\<rparr> None \<and>
     (\<exists>h' d. h = h' @ [CUpdateClaim d None] \<and> ClusterClaimFinalizer \<notin> set (om_Finalizers (cc_Meta d)))"

text \<open>A run that started in \<open>s\<close> ends with the claim released, or blocked by an awaited object.\<close>

definition run_end :: "'w env \<Rightarrow> ('w \<Rightarrow> managed_object set) \<Rightarrow> ClusterClaim \<Rightarrow> 'w pst \<Rightarrow> rec_out \<Rightarrow> 'w pst \<Rightarrow> bool" where
  "run_end E missing c s out t \<longleftrightarrow> later missing s t \<and> (released_claim out (new_calls s t) \<or>
     (out = Return \<lparr>RequeueAfter = 5 * Second\<rparr> None \<and>
      (\<exists>a\<in>set (awaited c). a \<notin> missing (world s) \<and> doomed (e_lib E) (new_calls s t) a)))"

lemma wp_later: "state_io_rel (later missing) m \<Longrightarrow> later missing s u \<Longrightarrow> wp m (\<lambda>_ t. later missing s t) u"
  by (rule wp_mono [OF wp_io_rel [of "later missing"]]) (auto intro: la.frame_trans)

lemma wp_removeFinalizer_later:
  assumes "orderly E missing" and "later missing s u"
  shows "wp (removeResourceFinalizer E g n ns) (\<lambda>err t. err = None \<and> later missing s t) u"
proof -
  have "wp (removeResourceFinalizer E g n ns) (\<lambda>err t. err = None) u"
    using assms(1) by (auto simp: removeResourceFinalizer_def k_defs wp_simps orderly_def split: prod.splits sum.splits)
      (metis fst_conv)+
  moreover have "state_io_rel (later missing) (removeResourceFinalizer E g n ns)"
    unfolding removeResourceFinalizer_def by (intro la.keeps later_rules assms(1))
  ultimately show ?thesis
    using wp_later [OF _ assms(2)] by (simp add: wp_conj)
qed

lemma wp_releaseAndDelete_later:
  assumes E: "orderly E missing" and "later missing s u" and k: "\<And>v. later missing s v \<Longrightarrow> wp k Q v"
  shows "wp (releaseAndDelete E g n ns k) Q u"
proof -
  have "wp (deleteResource E g n ns) (\<lambda>err t. err = None) v" for v
    using E by (auto simp: deleteResource_def k_defs wp_simps orderly_def split: prod.splits option.splits) (metis fst_conv)
  moreover have "state_io_rel (later missing) (deleteResource E g n ns)"
    unfolding deleteResource_def by (intro la.keeps later_rules E)
  ultimately have del: "wp (deleteResource E g n ns) (\<lambda>err t. err = None \<and> later missing s t) v" if "later missing s v" for v
    using wp_later that by (simp add: wp_conj)
  show ?thesis
    unfolding releaseAndDelete_def orReturn_def
    by (rule wp_bindI [OF wp_removeFinalizer_later [OF E assms(2)]], clarsimp, rule wp_bindI [OF del])
      (auto intro: k)
qed

lemma wp_deleteAndWait_later:
  assumes E: "orderly E missing" and u: "later missing s u"
  shows "wp (deleteAndWait E g n ns) (\<lambda>r t. later missing s t \<and> (r = (True, None) \<or> r = (False, None) \<and>
     (g, key_of n ns) \<notin> missing (world s) \<and> doomed (e_lib E) (new_calls s t) (g, key_of n ns))) u"
proof -
  let ?a = "(g, key_of n ns)"
  have found: "?a \<notin> missing (world s)" if "fst (api_get (e_api E) g (key_of n ns) (world u)) = Inr obj" for obj
    using orderly_get [OF E that] u by (auto simp: later_def)
  have "state_io_rel (later missing) (deleteAndWait E g n ns)"
    unfolding deleteAndWait_def by (intro la.keeps later_rules E)
  moreover have "wp (deleteAndWait E g n ns) (\<lambda>r t. r = (True, None) \<or> r = (False, None) \<and> ?a \<notin> missing (world s) \<and>
      doomed (e_lib E) (new_calls s t) ?a) u"
  proof (cases "api_get (e_api E) g (key_of n ns) (world u)")
    case (Pair r w)
    obtain h where h: "calls u = calls s @ h" using u by (auto simp: later_def extends_def)
    show ?thesis
    proof (cases r)
      case (Inl e)
      then have "IsNotFound (e_lib E) e" using E Pair unfolding orderly_def by (metis fst_conv)
      then show ?thesis using Pair Inl by (simp add: deleteAndWait_def k_defs wp_simps)
    next
      case (Inr obj)
      have "fst (api_delete (e_api E) obj w) = Some e \<Longrightarrow> IsNotFound (e_lib E) e" for e
        using E unfolding orderly_def by blast
      then show ?thesis using Pair Inr found h
        by (cases "api_delete (e_api E) obj w"; cases "fst (api_delete (e_api E) obj w)")
          (auto simp: deleteAndWait_def k_defs wp_simps doomed_def new_calls_def)
    qed
  qed
  ultimately show ?thesis using wp_later [OF _ u] by (simp add: wp_conj)
qed

lemma wp_releaseAndWait_later:
  assumes E: "orderly E missing" and u: "later missing s u" and a: "(g, key_of n ns) \<in> set (awaited c)"
    and k: "\<And>v. later missing s v \<Longrightarrow> wp k (run_end E missing c s) v"
  shows "wp (releaseAndWait E g n ns k) (run_end E missing c s) u"
  unfolding releaseAndWait_def orReturn_def
  by (rule wp_bindI [OF wp_removeFinalizer_later [OF E u]], clarsimp, rule wp_bindI [OF wp_deleteAndWait_later [OF E]], assumption)
    (use a in \<open>auto simp: wp_return run_end_def intro: k\<close>)

lemma wp_deleteDependents_later:
  assumes E: "orderly E missing" and "later missing s u"
    and "\<And>d. d \<in> set deps \<Longrightarrow> dep_enabled d \<Longrightarrow> (dep_gvk d, key_of (dep_name d) ns) \<in> set (awaited c)"
    and k: "\<And>v. later missing s v \<Longrightarrow> wp k (run_end E missing c s) v"
  shows "wp (deleteDependents E ns deps k) (run_end E missing c s) u"
  using assms(2,3)
proof (induction deps arbitrary: u)
  case Nil
  then show ?case by (simp add: k)
next
  case (Cons d deps)
  then show ?case by (auto intro: wp_releaseAndWait_later [OF E])
qed

lemma wp_removeClaimFinalizer_later:
  assumes E: "orderly E missing" and u: "later missing s u" and "law_RemoveFinalizer (e_lib E)"
  shows "wp (removeClaimFinalizer E) (run_end E missing c s) u"
proof -
  have "state_io_rel (later missing) (removeClaimFinalizer E)"
    unfolding removeClaimFinalizer_def by (intro la.keeps later_rules E)
  moreover have "wp (removeClaimFinalizer E) (\<lambda>out t. released_claim out (new_calls s t)) u"
  proof -
    obtain h where h: "calls u = calls s @ h" using u by (auto simp: later_def extends_def)
    have ok: "fst (fst (api_update_claim (e_api E) d w)) = None" for d w using E by (simp add: orderly_def)
    have "ClusterClaimFinalizer \<notin> set (fst (RemoveFinalizer (e_lib E) fs ClusterClaimFinalizer))" for fs
      using assms(3) by (simp add: law_RemoveFinalizer_def)
    with h show ?thesis
      by (auto simp: removeClaimFinalizer_def wp_simps k_defs released_claim_def new_calls_def split: prod.splits)
        (metis ok fst_conv)+
  qed
  ultimately have "wp (removeClaimFinalizer E) (\<lambda>out t. later missing s t \<and> released_claim out (new_calls s t)) u"
    using wp_later [OF _ u] by (simp add: wp_conj)
  then show ?thesis by (rule wp_mono) (simp add: run_end_def)
qed

lemma wp_deleteManaged_later:
  assumes E: "orderly E missing" and law: "law_RemoveFinalizer (e_lib E)"
    and u: "later missing s u" and c: "same_target c (claim u)"
  shows "wp (deleteManaged E) (run_end E missing c s) u"
proof -
  let ?c = "claim u"
  have same: "awaited ?c = awaited c" using c by (simp add: same_target_def awaited_def dependentClaims_def)
  have members: "(ClusterGVK, key_of (ClusterName (cc_Name ?c) ''infra'') (cc_Namespace ?c)) \<in> set (awaited c)"
    "client_enabled ?c \<Longrightarrow> (ClusterGVK, key_of (ClusterName (cc_Name ?c) ''client'') (cc_Namespace ?c)) \<in> set (awaited c)"
    "d \<in> set (dependentClaims ?c) \<Longrightarrow> dep_enabled d \<Longrightarrow> (dep_gvk d, key_of (dep_name d) (cc_Namespace ?c)) \<in> set (awaited c)" for d
    unfolding same [symmetric] by (simp_all add: awaited_def)
  have after: "wp (deleteAfterInfra E ?c) (run_end E missing c s) v" if "later missing s v" for v
    unfolding deleteAfterInfra_def Let_def using that
    by (auto intro!: wp_releaseAndDelete_later [OF E] wp_removeClaimFinalizer_later [OF E _ law])
  have clusters: "wp (deleteClusters E ?c) (run_end E missing c s) v" if "later missing s v" for v
    unfolding deleteClusters_def Let_def using that
    by (auto intro!: wp_releaseAndWait_later [OF E] after members)
  have rest: "wp (do { deleteRemoteConfigMaps E;
      releaseAndDelete E CcmCsrcGVK (CcmCsrcName (cc_Name ?c)) (cc_Namespace ?c) (deleteClusters E ?c) }) (run_end E missing c s) v"
    if "later missing s v" for v
    by (rule wp_bindI [OF wp_later [OF later_deleteRemoteConfigMaps [OF E] that]])
      (rule wp_releaseAndDelete_later [OF E _ clusters])
  have ev: "wp (event E t r m as) (\<lambda>_ v. claim v = ?c \<and> later missing s v) u" for t r m as
    using u by (auto simp: event_def wp_simps later_def extends_def)
  show ?thesis
    unfolding deleteManaged_def
    by (rule wp_bindI [OF ev], unfold wp_getClaim_bind, rule wp_deleteDependents_later [OF E])
      (auto intro: rest members)
qed

lemma wp_reconcileDelete_later:
  assumes E: "orderly E missing" and law: "law_RemoveFinalizer (e_lib E)" "law_UpdateStatus (e_api E)"
    and u: "later missing s u" and c: "same_target c (claim u)"
    and fin: "ContainsFinalizer (e_lib E) (om_Finalizers (cc_Meta (claim u))) ClusterClaimFinalizer"
  shows "wp (reconcileDelete E) (run_end E missing c s) u"
proof -
  let ?u = "u\<lparr>claim := setPhase PhaseDeleting (claim u)\<rparr>" and ?old = "cc_Status (claim u)"
  have u': "later missing s ?u" using u by (simp add: later_def extends_def)
  have "state_io_rel (later missing) (updateStatusIfChanged E ?old)"
    unfolding updateStatusIfChanged_def by (intro la.keeps later_rules E)
  moreover have "same_target c d" if "api_update_status (e_api E) (setPhase PhaseDeleting (claim u)) w = ((err, d), w')" for w err d w'
    using law_UpdateStatus_answer(1) [OF law(2), of "claim u" PhaseDeleting w] that c by (auto simp: same_target_def)
  moreover have "fst (fst (api_update_status (e_api E) d w)) = None" for d w using E by (simp add: orderly_def)
  ultimately have "wp (updateStatusIfChanged E ?old) (\<lambda>err t. later missing s t \<and> err = None \<and> same_target c (claim t)) ?u"
    using c wp_later [OF _ u', of "updateStatusIfChanged E ?old"]
    unfolding wp_conj
    by (auto simp: updateStatusIfChanged_def wp_simps kUpdateStatus_def same_target_def setPhase_def split: prod.splits) (metis fst_conv)
  then have "wp (orReturn (updateStatusIfChanged E ?old) (deleteManaged E)) (run_end E missing c s) ?u"
    unfolding orReturn_def by (rule wp_bindI) (auto intro: wp_deleteManaged_later [OF E law(1)])
  with fin show ?thesis
    unfolding reconcileDelete_def by (simp add: wp_simps)
qed

lemma Reconcile_later:
  assumes "orderly E missing" and "law_RemoveFinalizer (e_lib E)" "law_UpdateStatus (e_api E)"
    and get: "fst (api_get_claim (e_api E) req (world s)) = Inr d" and c: "same_target c d"
    and "om_DeletionTimestamp (cc_Meta d) \<noteq> None" "ContainsFinalizer (e_lib E) (om_Finalizers (cc_Meta d)) ClusterClaimFinalizer"
  shows "wp (Reconcile E req) (run_end E missing c s) s"
proof -
  let ?u = "s\<lparr>world := snd (api_get_claim (e_api E) req (world s)), calls := calls s @ [CGetClaim req (Inr d)], claim := d\<rparr>"
  have "missing (world s) \<subseteq> missing (world ?u)" using assms(1) by (simp add: orderly_def only_grows_def)
  then have u: "later missing s ?u" by (simp add: later_def extends_def)
  have "wp (reconcileDelete E) (run_end E missing c s) ?u"
    by (rule wp_reconcileDelete_later [OF assms(1-3) u]) (use assms in simp_all)
  with get assms(6) show ?thesis
    by (cases "api_get_claim (e_api E) req (world s)") (simp add: Reconcile_def kGetClaim_def ask_def wp_simps)
qed

section \<open>Many runs\<close>

text \<open>Of a growing chain of sets, some member holds all that the chain will ever hold of a finite set.\<close>

lemma chain_catches:
  fixes G :: "nat \<Rightarrow> 'a set"
  assumes "finite A" and "\<And>n. G n \<subseteq> G (Suc n)"
  shows "\<exists>N. A \<inter> (\<Union>n. G n) \<subseteq> G N"
  using assms(1)
proof (induction rule: finite_induct)
  case (insert x A)
  then obtain N where N: "A \<inter> (\<Union>n. G n) \<subseteq> G N" by blast
  have mono: "G m \<subseteq> G n" if "m \<le> n" for m n using that assms(2) by (rule lift_Suc_mono_le [rotated])
  show ?case
  proof (cases "x \<in> (\<Union>n. G n)")
    case True
    then obtain M where "x \<in> G M" by blast
    with N mono [of N "max M N"] mono [of M "max M N"] have "insert x A \<inter> (\<Union>n. G n) \<subseteq> G (max M N)" by auto
    then show ?thesis ..
  qed (use N in blast)
qed simp

text \<open>The calls of the \<open>n\<close>th reconciliation, and whether it released the claim.\<close>

definition run_calls :: "'w env \<Rightarrow> ObjectKey \<Rightarrow> 'w pst \<Rightarrow> call list" where
  "run_calls E req s = new_calls s (snd (run_state (Reconcile E req) s))"

definition run_releases :: "'w env \<Rightarrow> ObjectKey \<Rightarrow> 'w pst \<Rightarrow> bool" where
  "run_releases E req s \<longleftrightarrow> released_claim (fst (run_state (Reconcile E req) s)) (run_calls E req s)"

text \<open>
  C7: Deletion converges. Consider the reconciliations \<open>run 0\<close>, \<open>run 1\<close>, ... of a claim under deletion, on a
  server whose writes succeed and on which nothing the claim manages is created again between or during
  the runs. If every object whose deletion a run has requested, or which a run has seen terminating, is
  gone at some later time, however late, then some run removes the operator's finalizer from the claim:
  no order of disappearance leaves the deletion stuck.
\<close>

theorem deletion_converges:
  fixes run :: "nat \<Rightarrow> 'w pst"
  assumes "orderly E missing" and "law_RemoveFinalizer (e_lib E)" "law_UpdateStatus (e_api E)"
    and between: "\<forall>n. missing (world (snd (run_state (Reconcile E req) (run n)))) \<subseteq> missing (world (run (Suc n)))"
    and claim: "\<forall>n. (\<forall>m<n. \<not> run_releases E req (run m)) \<longrightarrow>
      (\<exists>d. fst (api_get_claim (e_api E) req (world (run n))) = Inr d \<and> same_target c d \<and> om_DeletionTimestamp (cc_Meta d) \<noteq> None \<and>
         ContainsFinalizer (e_lib E) (om_Finalizers (cc_Meta d)) ClusterClaimFinalizer)"
    and fair: "\<forall>n a. doomed (e_lib E) (run_calls E req (run n)) a \<longrightarrow> (\<exists>m. a \<in> missing (world (run m)))"
  shows "\<exists>n. run_releases E req (run n)"
proof (rule ccontr)
  assume never: "\<nexists>n. run_releases E req (run n)"
  let ?G = "\<lambda>n. missing (world (run n))"
  have ends: "run_end E missing c (run n) (fst (run_state (Reconcile E req) (run n))) (snd (run_state (Reconcile E req) (run n)))" for n
    using claim never Reconcile_later [OF assms(1-3)] by (fastforce simp: wp_def case_prod_beta)
  then have "?G n \<subseteq> ?G (Suc n)" for n
    using between unfolding run_end_def later_def by blast
  then obtain N where N: "set (awaited c) \<inter> (\<Union>n. ?G n) \<subseteq> ?G N"
    using chain_catches [of "set (awaited c)" ?G] by auto
  obtain a where "a \<in> set (awaited c)" "a \<notin> ?G N" "doomed (e_lib E) (run_calls E req (run N)) a"
    using ends [of N] never unfolding run_end_def run_releases_def run_calls_def by blast
  with fair N show False by blast
qed

text \<open>A server that finds every object until the first deletion, and then none; its world says which.\<close>

definition A4 :: "bool api" where
  "A4 = \<lparr>
     api_now = (\<lambda>w. (0, w)),
     api_get_claim = (\<lambda>k w. (Inr claim_deleted, w)),
     api_get_template = (\<lambda>n w. (Inl NotFound, w)),
     api_get_secret = (\<lambda>k w. (Inr secret0, w)),
     api_get = (\<lambda>g k w. (if w then Inl NotFound else Inr obj1, w)),
     api_list_claims = (\<lambda>field v w. (Inr [], w)),
     api_update = (\<lambda>m w. (None, w)),
     api_apply = (\<lambda>m w. (None, w)),
     api_delete = (\<lambda>m w. (None, True)),
     api_update_claim = (\<lambda>c w. ((None, c), w)),
     api_update_status = (\<lambda>c w. ((None, c), w)),
     api_new_client = (\<lambda>cfg w. (Inr cfg, w)),
     rem_get = (\<lambda>cl k w. (Inl NotFound, w)),
     rem_create = (\<lambda>cl m w. (None, w)),
     rem_update = (\<lambda>cl m w. (None, w)),
     rem_delete = (\<lambda>cl k w. (None, w))\<rparr>"

definition E4 :: "bool env" where
  "E4 = \<lparr>e_lib = L0, e_api = A4, e_Recorder = True, e_ClusterManager = True, e_RemoteNamespace = ''beget-system''\<rparr>"

definition run4 :: "nat \<Rightarrow> bool pst" where
  "run4 n = \<lparr>world = (0 < n), cmgr = NewClusterManager, calls = [], claim = claim0, tctx = emptyContext []\<rparr>"

definition missing4 :: "bool \<Rightarrow> managed_object set" where
  "missing4 w = (if w then UNIV else {})"

theorem deletion_converges_witness:
  "orderly E4 missing4 \<and> (\<exists>n. run_releases E4 (key_of ''demo'' ''team'') (run4 n))"
proof -
  have serves: "orderly E4 missing4"
    by (simp add: orderly_def only_grows_def E4_def A4_def missing4_def L0_def NotFound_def)
  have claim: "fst (api_get_claim (e_api E4) (key_of ''demo'' ''team'') (world (run4 n))) = Inr claim_deleted" for n
    by (simp add: E4_def A4_def)
  have "\<exists>n. run_releases E4 (key_of ''demo'' ''team'') (run4 n)"
  proof (rule deletion_converges [OF serves, where c = claim_deleted])
    show "law_RemoveFinalizer (e_lib E4)" "law_UpdateStatus (e_api E4)"
      using L0_finalizers(1) by (simp_all add: E4_def law_UpdateStatus_def A4_def same_target_def)
    show "\<forall>n a. doomed (e_lib E4) (run_calls E4 (key_of ''demo'' ''team'') (run4 n)) a \<longrightarrow> (\<exists>m. a \<in> missing4 (world (run4 m)))"
      by (auto simp: run4_def missing4_def)
  qed (simp_all add: claim, simp_all add: run4_def missing4_def same_target_def claim_deleted_def meta0_def E4_def L0_def)
  with serves show ?thesis ..
qed

end
