(* ===== verification/Props_Provisioning.thy ===== *)
theory Props_Provisioning
  imports Props_Convergence
begin

text \<open>
  Provisioning over many reconciliations. One run of the pipeline stops at the first step that does not find what it
  needs and requests another run. If what the step needs is there eventually, and stays,
      some run completes all steps,
  in whatever order and however late the resources become ready.
\<close>

section \<open>Needs that stay met\<close>







section \<open>One run\<close>










section \<open>Many runs\<close>










end
