(* ===== verification/Props_Controller.thy ===== *)
theory Props_Controller
  imports Sample
begin

text \<open>
  The properties of the entry point \<open>Reconcile\<close> and of the paused branch.
\<close>

section \<open>Library\<close>

text \<open>The claim has the operator's finalizer on the server: it was read so, or written so without error.\<close>

definition finalizer_in_place :: "call list \<Rightarrow> bool" where
  "finalizer_in_place h \<longleftrightarrow> list_ex (\<lambda>x. case x of
     CGetClaim _ (Inr c) \<Rightarrow> ClusterClaimFinalizer \<in> set (om_Finalizers (cc_Meta c))
   | CUpdateClaim c None \<Rightarrow> ClusterClaimFinalizer \<in> set (om_Finalizers (cc_Meta c))
   | _ \<Rightarrow> False) h"

lemma finalizer_in_place_append [simp]:
  "finalizer_in_place (xs @ ys) \<longleftrightarrow> finalizer_in_place xs \<or> finalizer_in_place ys"
  by (simp add: finalizer_in_place_def)

lemma ensureFinalizer_in_place:
  assumes "law_AddFinalizer (e_lib E)"
  shows "wp (ensureFinalizer E) (\<lambda>err t. \<exists>h. calls t = calls s @ h \<and> list_all (\<lambda>x. \<not> creates x) h \<and>
     (err = None \<longrightarrow> ClusterClaimFinalizer \<in> set (om_Finalizers (cc_Meta (claim s))) \<or> finalizer_in_place h)) s"
proof -
  let ?r = "AddFinalizer (e_lib E) (om_Finalizers (cc_Meta (claim s))) ClusterClaimFinalizer"
  have "ClusterClaimFinalizer \<in> set (fst ?r)" and
    "snd ?r \<longleftrightarrow> ClusterClaimFinalizer \<notin> set (om_Finalizers (cc_Meta (claim s)))"
    using assms by (auto simp: law_AddFinalizer_def)
  then show ?thesis
    by (cases ?r) (auto simp: ensureFinalizer_def wp_simps kUpdateClaim_def finalizer_in_place_def creates_def
        split: prod.splits)
qed

lemma reconcilePaused_calls:
  "wp (reconcilePaused E) (\<lambda>out t. \<exists>h. calls t = calls s @ h \<and> length h \<le> 1 \<and>
     list_all (\<lambda>x. \<exists>d e. x = CUpdateStatus d e \<and> same_spec (claim s) d \<and> st_Phase (cc_Status d) = PhasePaused) h \<and>
     (\<exists>e. out = Return \<lparr>RequeueAfter = 0\<rparr> e)) s"
  by (auto simp: reconcilePaused_def orReturn_def setCondition_def updateStatusIfChanged_def kUpdateStatus_def kNow_def
      wp_simps same_spec_def setPhase_def putCondition_def split: prod.splits option.splits)

lemma Reconcile_found:
  "api_get_claim (e_api E) req (world s) = (Inr c, w) \<Longrightarrow>
   run_state (Reconcile E req) s = run_state
     (if om_DeletionTimestamp (cc_Meta c) \<noteq> None then reconcileDelete E
      else if isPaused c then reconcilePaused E else orReturn (ensureFinalizer E) (executePipeline E))
     (s\<lparr>world := w, calls := calls s @ [CGetClaim req (Inr c)], claim := c\<rparr>)"
  by (simp add: Reconcile_def kGetClaim_def ask_def modClaim_def)

lemma guarded_creates_pipeline:
  fixes E :: "'w env"
  assumes "law_AddFinalizer (e_lib E)" and "finalizer_in_place b \<longleftrightarrow> ClusterClaimFinalizer \<in> set (om_Finalizers (cc_Meta (claim s)))"
  shows "wp (orReturn (ensureFinalizer E) (executePipeline E)) (\<lambda>_ t. \<exists>h. calls t = calls s @ h \<and>
     guarded creates finalizer_in_place b h) s"
  unfolding orReturn_def
proof (rule wp_bindI [OF ensureFinalizer_in_place [OF assms(1)]], elim exE conjE)
  fix err :: "goerror option" and t :: "'w pst" and h
  assume h: "calls t = calls s @ h" "list_all (\<lambda>x. \<not> creates x) h"
    and fin: "err = None \<longrightarrow> ClusterClaimFinalizer \<in> set (om_Finalizers (cc_Meta (claim s))) \<or> finalizer_in_place h"
  have gh: "guarded creates finalizer_in_place b h" using h(2) by (rule guarded_none)
  obtain h2 where h2: "calls (snd (run_state (executePipeline E) t)) = calls t @ h2"
    using run_calls [of E t] by (auto simp: extends_def)
  have "guarded creates finalizer_in_place (b @ h) h2" if "err = None"
    using fin assms(2) that by (intro guarded_open) auto
  with gh h h2 show "wp (case err of None \<Rightarrow> executePipeline E | Some e \<Rightarrow> ret (Return \<lparr>RequeueAfter = 0\<rparr> (Some e)))
      (\<lambda>_ u. \<exists>h. calls u = calls s @ h \<and> guarded creates finalizer_in_place b h) t"
    by (cases err) (auto simp: wp_return wp_def case_prod_beta guarded_append)
qed

lemma guarded_creates_found:
  fixes E :: "'w env"
  assumes "law_AddFinalizer (e_lib E)"
    and b: "finalizer_in_place b \<longleftrightarrow> ClusterClaimFinalizer \<in> set (om_Finalizers (cc_Meta (claim s)))"
  shows "wp (if om_DeletionTimestamp (cc_Meta (claim s)) \<noteq> None then reconcileDelete E
      else if isPaused (claim s) then reconcilePaused E else orReturn (ensureFinalizer E) (executePipeline E))
      (\<lambda>_ t. \<exists>h. calls t = calls s @ h \<and> guarded creates finalizer_in_place b h) s"
proof -
  have "wp (reconcileDelete E) (\<lambda>_ t. \<exists>h. calls t = calls s @ h \<and> guarded creates finalizer_in_place b h) s"
    by (rule wp_mono [OF delete_creates_nothing]) (auto simp: extends_def intro: guarded_none)
  moreover have "wp (reconcilePaused E) (\<lambda>_ t. \<exists>h. calls t = calls s @ h \<and> guarded creates finalizer_in_place b h) s"
  proof (rule wp_mono [OF reconcilePaused_calls], elim exE conjE)
    fix t :: "'w pst" and h
    assume h: "calls t = calls s @ h"
      and "list_all (\<lambda>x. \<exists>d e. x = CUpdateStatus d e \<and> same_spec (claim s) d \<and> st_Phase (cc_Status d) = PhasePaused) h"
    then have "list_all (\<lambda>x. \<not> creates x) h" by (auto simp: list_all_iff creates_def)
    with h show "\<exists>h. calls t = calls s @ h \<and> guarded creates finalizer_in_place b h"
      by (blast intro: guarded_none)
  qed
  ultimately show ?thesis using guarded_creates_pipeline [OF assms] by simp
qed

section \<open>Pausing\<close>

text \<open>
  C33: A paused claim is left alone. Reconciling a claim that carries the pause annotation and is not being
  deleted makes, after reading the claim, at most one call, a write of the status of the same claim
  with phase \<open>Paused\<close>; nothing is created, updated or deleted, and there is no requeue.
\<close>

theorem paused_claim_untouched:
  assumes "api_get_claim (e_api E) req (world s) = (Inr c, w)"
    and "isPaused c" and "om_DeletionTimestamp (cc_Meta c) = None"
  shows "case run_state (Reconcile E req) s of (out, t) \<Rightarrow>
     (\<exists>h. calls t = calls s @ CGetClaim req (Inr c) # h \<and> length h \<le> 1 \<and>
        list_all (\<lambda>x. \<exists>d e. x = CUpdateStatus d e \<and> same_spec c d \<and> st_Phase (cc_Status d) = PhasePaused) h) \<and>
     (\<exists>e. out = Return \<lparr>RequeueAfter = 0\<rparr> e)"
  using reconcilePaused_calls [of E "s\<lparr>world := w, calls := calls s @ [CGetClaim req (Inr c)], claim := c\<rparr>"]
  by (auto simp: Reconcile_found [OF assms(1)] assms(2,3) wp_def split: prod.splits)

theorem paused_claim_untouched_witness:
  "isPaused claim_paused \<and> (case run_state (Reconcile (E1\<lparr>e_api := A1\<lparr>api_get_claim := (\<lambda>k w. (Inr claim_paused, w))\<rparr>\<rparr>)
       (key_of ''demo'' ''team'')) (start claim0) of (out, t) \<Rightarrow>
     (\<exists>h. calls t = CGetClaim (key_of ''demo'' ''team'') (Inr claim_paused) # h \<and> length h \<le> 1) \<and>
     (\<exists>e. out = Return \<lparr>RequeueAfter = 0\<rparr> e))"
proof -
  have p: "isPaused claim_paused" "om_DeletionTimestamp (cc_Meta claim_paused) = None"
    by (simp_all add: isPaused_def claim_paused_def meta0_def)
  show ?thesis
    using paused_claim_untouched [of "E1\<lparr>e_api := A1\<lparr>api_get_claim := (\<lambda>k w. (Inr claim_paused, w))\<rparr>\<rparr>"
        "key_of ''demo'' ''team''" "start claim0" claim_paused "()", OF _ p] p(1)
    by (auto split: prod.splits)
qed

text \<open>
  Pausing is stable. Once a paused claim's status says so (phase, generation and condition), pausing it
  again changes nothing and makes no call at all. The hypothesis is that setting a condition that is
  already there, with the same fields, returns the list unchanged.
\<close>

lemma paused_stable:
  assumes "law_StatusDeepEqual (e_lib E)" and "law_SetStatusCondition_same (e_lib E)"
    and "st_Phase (cc_Status (claim s)) = PhasePaused"
    and "st_ObservedGeneration (cc_Status (claim s)) = om_Generation (cc_Meta (claim s))"
    and "find_condition (st_Conditions (cc_Status (claim s))) ConditionPaused = Some
      \<lparr>c_Type = ConditionPaused, c_Status = ConditionTrue, c_ObservedGeneration = om_Generation (cc_Meta (claim s)),
       c_LastTransitionTime = t0, c_Reason = ''Paused'', c_Message = ''Reconciliation paused via annotation''\<rparr>"
  shows "case run_state (reconcilePaused E) s of (out, t) \<Rightarrow>
     out = Return \<lparr>RequeueAfter = 0\<rparr> None \<and> calls t = calls s \<and> claim t = claim s"
proof -
  have "SetStatusCondition (e_lib E) now (st_Conditions (cc_Status (claim s)))
      \<lparr>c_Type = ConditionPaused, c_Status = ConditionTrue, c_ObservedGeneration = om_Generation (cc_Meta (claim s)),
       c_LastTransitionTime = None, c_Reason = ''Paused'', c_Message = ''Reconciliation paused via annotation''\<rparr> =
      st_Conditions (cc_Status (claim s))" for now
    using assms(2,5) by (fastforce simp: law_SetStatusCondition_same_def)
  then have same: "putCondition (e_lib E) now ConditionPaused ConditionTrue ''Paused'' ''Reconciliation paused via annotation''
      (setPhase PhasePaused (claim s)) = claim s" for now
    using assms(3,4) by (simp add: putCondition_def setPhase_def)
  have "wp (reconcilePaused E) (\<lambda>out t. out = Return \<lparr>RequeueAfter = 0\<rparr> None \<and> calls t = calls s \<and> claim t = claim s) s"
    using assms(1)
    by (auto simp: reconcilePaused_def orReturn_def setCondition_def updateStatusIfChanged_def kNow_def wp_simps same
        law_StatusDeepEqual_def split: prod.splits)
  then show ?thesis by (simp add: wp_def)
qed

lemma paused_stable_witness:
  "case run_state (reconcilePaused E1) (start claim_settled) of (out, t) \<Rightarrow>
     out = Return \<lparr>RequeueAfter = 0\<rparr> None \<and> calls t = calls (start claim_settled) \<and> claim t = claim (start claim_settled)"
  by (rule paused_stable [where ?t0.0 = "Some 3"])
    (simp_all add: L0_StatusDeepEqual L0_SetStatusCondition_same claim_settled_def claim_paused_def meta0_def find_condition_def)

section \<open>Finalizer and deletion\<close>

text \<open>
  C8: Nothing is created without the finalizer. In every run of \<open>Reconcile\<close>, a call that applies a managed
  object or writes a remote ConfigMap comes only after the claim has been read with the operator's
  finalizer or written with it successfully; so whatever the operator creates will be cleaned up.
\<close>

theorem finalizer_before_resources:
  assumes "law_AddFinalizer (e_lib E)"
  shows "\<exists>h. calls (snd (run_state (Reconcile E req) s)) = calls s @ h \<and> guarded creates finalizer_in_place [] h"
proof (cases "api_get_claim (e_api E) req (world s)")
  case (Pair r w)
  show ?thesis
  proof (cases r)
    case (Inl e)
    with Pair show ?thesis by (simp add: Reconcile_def kGetClaim_def ask_def creates_def)
  next
    case (Inr c)
    let ?s1 = "s\<lparr>world := w, calls := calls s @ [CGetClaim req (Inr c)], claim := c\<rparr>"
    have "finalizer_in_place [CGetClaim req (Inr c)] \<longleftrightarrow> ClusterClaimFinalizer \<in> set (om_Finalizers (cc_Meta (claim ?s1)))"
      by (simp add: finalizer_in_place_def)
    from guarded_creates_found [OF assms this] show ?thesis
      using Reconcile_found [of E req s c w] Pair Inr
      by (auto simp: wp_def case_prod_beta creates_def intro!: exI [of _ "CGetClaim req (Inr c) # _"])
  qed
qed

theorem finalizer_before_resources_witness:
  "law_AddFinalizer L0 \<and> (\<exists>h. calls (snd (run_state (Reconcile E1 (key_of ''demo'' ''team'')) (start claim0))) = h \<and>
     guarded creates finalizer_in_place [] h)"
  using finalizer_before_resources [of E1 "key_of ''demo'' ''team''" "start claim0"] L0_finalizers(2) by simp

text \<open>
  C9: A claim under deletion creates nothing, paused or not. When the claim read has a deletion timestamp,
  \<open>Reconcile\<close> runs the deletion branch even if the pause annotation is set, and no call of the run applies an
  object or writes a remote ConfigMap.
\<close>

theorem deleted_claim_creates_nothing:
  assumes "api_get_claim (e_api E) req (world s) = (Inr c, w)" and "om_DeletionTimestamp (cc_Meta c) \<noteq> None"
  shows "\<exists>s1. claim s1 = c \<and> run_state (Reconcile E req) s = run_state (reconcileDelete E) s1 \<and>
     extends (\<lambda>x. \<not> creates x) s (snd (run_state (Reconcile E req) s))"
proof -
  let ?s1 = "s\<lparr>world := w, calls := calls s @ [CGetClaim req (Inr c)], claim := c\<rparr>"
  have run: "run_state (Reconcile E req) s = run_state (reconcileDelete E) ?s1"
    using Reconcile_found [OF assms(1)] assms(2) by simp
  have "extends (\<lambda>x. \<not> creates x) s ?s1" by (simp add: extends_def creates_def)
  moreover have "extends (\<lambda>x. \<not> creates x) ?s1 (snd (run_state (reconcileDelete E) ?s1))"
    using delete_creates_nothing [of E ?s1] by (simp add: wp_def case_prod_beta)
  ultimately have "extends (\<lambda>x. \<not> creates x) s (snd (run_state (Reconcile E req) s))"
    unfolding run by (rule extends_trans)
  with run show ?thesis by (intro exI [of _ ?s1]) simp
qed

theorem deleted_claim_creates_nothing_witness:
  "\<exists>s1. claim s1 = claim_deleted \<and>
     run_state (Reconcile (E1\<lparr>e_api := A1\<lparr>api_get_claim := (\<lambda>k w. (Inr claim_deleted, w))\<rparr>\<rparr>) (key_of ''demo'' ''team'')) (start claim0) =
     run_state (reconcileDelete (E1\<lparr>e_api := A1\<lparr>api_get_claim := (\<lambda>k w. (Inr claim_deleted, w))\<rparr>\<rparr>)) s1"
  using deleted_claim_creates_nothing [of "E1\<lparr>e_api := A1\<lparr>api_get_claim := (\<lambda>k w. (Inr claim_deleted, w))\<rparr>\<rparr>"
      "key_of ''demo'' ''team''" "start claim0" claim_deleted "()"]
  by (auto simp: claim_deleted_def)

end
