(* ===== verification/Props_Isolation.thy ===== *)
theory Props_Isolation
  imports Sample
begin

text \<open>
  Claims do not interfere: the objects a reconciliation updates or deletes are the claim's own, and no two
  claims own the same object.
\<close>

section \<open>Ownership\<close>

definition touches :: "call \<Rightarrow> (GroupVersionKind \<times> ObjectKey) option" where
  "touches x = (case x of CUpdate g k _ _ \<Rightarrow> Some (g, k) | CDelete g k _ \<Rightarrow> Some (g, k) | _ \<Rightarrow> None)"

definition owns :: "ClusterClaim \<Rightarrow> GroupVersionKind \<times> ObjectKey \<Rightarrow> bool" where
  "owns c p \<longleftrightarrow> (fst p, k_Name (snd p)) \<in> set (managed c) \<and> k_Namespace (snd p) = cc_Namespace c"

definition own_call :: "ClusterClaim \<Rightarrow> call \<Rightarrow> bool" where
  "own_call c x = (case touches x of None \<Rightarrow> True | Some p \<Rightarrow> owns c p)"

lemma own_call_simps [simp]:
  "own_call c (CUpdate g k obj e) \<longleftrightarrow> owns c (g, k)" "own_call c (CDelete g k e) \<longleftrightarrow> owns c (g, k)"
  "own_call c (CGet g k r)" "own_call c (CGetSecret k sec)" "own_call c (CEvent a b m)" "own_call c (CNewClient cfg rc)"
  "own_call c (CRemoteDelete cl k e)" "own_call c (CUpdateClaim d e)" "own_call c (CUpdateStatus d e)"
  "own_call c (CGetClaim k cr)"
  by (simp_all add: own_call_def touches_def)




lemma role_suffix_neq [simp]: "c @ ''-infra'' \<noteq> d @ ''-client''" "d @ ''-client'' \<noteq> c @ ''-infra''"
  by (auto dest: arg_cong [where f = last])



section \<open>Deletion\<close>

text \<open>The code after the claim has been read: it makes calls of this claim only.\<close>

lemma makes_own [keeps_rules]:
  "makes (own_call c) (kGet E g k)" "makes (own_call c) (kGetSecret E k)" "makes (own_call c) (kNewClient E cfg)"
  "makes (own_call c) (kRemoteDelete E cl k)" "makes (own_call c) (kUpdateStatus E)" "makes (own_call c) (kUpdateClaim E)"
  "owns c (g, k) \<Longrightarrow> makes (own_call c) (kUpdate E g k obj)"
  "owns c (g, k) \<Longrightarrow> makes (own_call c) (kDelete E g k obj)"
  "makes \<Phi> (modClaim f)" "makes \<Phi> getClaim" "makes \<Phi> (State_Monad.update (\<lambda>s. s\<lparr>cmgr := h s\<rparr>))"
  "makes (own_call c) (event E t r f2 as)" "makes (own_call c) (kNow E)"
  by (auto simp: state_io_rel_def k_defs extends_def split: prod.splits)

lemmas ext_control = ext.keeps_return ext.keeps_get ext.keeps_if ext.keeps_case_option ext.keeps_case_sum
  ext.keeps_case_prod ext.keeps_let

lemma makes_cache [keeps_rules]: "makes (own_call c) (GetClient E secret)"
  unfolding GetClient_def lookupClient_def Let_def by (intro ext_control keeps_rules ext.keeps_bind)

lemma makes_orReturn [keeps_rules]: "makes \<Phi> m \<Longrightarrow> makes \<Phi> k \<Longrightarrow> makes \<Phi> (orReturn m k)"
  unfolding orReturn_def by (intro ext_control keeps_rules ext.keeps_bind)








section \<open>Reconciliation\<close>











end
