(* ===== verification/Props_Bounds.thy ===== *)
theory Props_Bounds
  imports Sample
begin

text \<open>
  How much work one reconciliation is. Every operation of the code makes a bounded number of calls,
  whatever the API servers answer; the rules below add the bounds up along the code.
\<close>

section \<open>Cost of an operation\<close>

definition costs :: "nat \<Rightarrow> ('w, 'z, 'a) op \<Rightarrow> bool" where
  "costs n m \<longleftrightarrow> (\<forall>s. \<exists>h. calls (snd (run_state m s)) = calls s @ h \<and> length h \<le> n)"

named_theorems cost_rules "bounds on the number of calls of an operation"

lemma costs_ret [cost_rules]: "costs 0 (ret x)"
  by (simp add: costs_def)

lemma costs_bind:
  assumes "costs a m" and "\<And>x. costs b (k x)"
  shows "costs (a + b) (State_Monad.bind m k)"
  unfolding costs_def
proof
  fix s
  obtain x t where t: "run_state m s = (x, t)" by (cases "run_state m s")
  obtain h h' where "calls t = calls s @ h" "length h \<le> a"
    and "calls (snd (run_state (k x) t)) = calls t @ h'" "length h' \<le> b"
    using assms t unfolding costs_def by (metis snd_conv)
  with t show "\<exists>h. calls (snd (run_state (State_Monad.bind m k) s)) = calls s @ h \<and> length h \<le> a + b"
    by simp
qed

lemma costs_mono: "costs a m \<Longrightarrow> a \<le> b \<Longrightarrow> costs b m"
  unfolding costs_def by (meson le_trans)

lemma costs_branch [cost_rules]:
  "costs a m \<Longrightarrow> costs b n \<Longrightarrow> costs (max a b) (if c then m else n)"
  "costs a m \<Longrightarrow> (\<And>y. costs b (k y)) \<Longrightarrow> costs (max a b) (case x of None \<Rightarrow> m | Some y \<Rightarrow> k y)"
  "(\<And>e. costs a (g e)) \<Longrightarrow> (\<And>y. costs b (k y)) \<Longrightarrow> costs (max a b) (case r of Inl e \<Rightarrow> g e | Inr y \<Rightarrow> k y)"
  "(\<And>u v. costs a (f u v)) \<Longrightarrow> costs a (case q of (u, v) \<Rightarrow> f u v)"
  by (auto simp: costs_def max_def split: option.splits sum.splits prod.splits) (meson le_trans nat_le_linear)+

lemma costs_step_out [cost_rules]:
  "(\<And>r e. costs a (f r e)) \<Longrightarrow> costs b p \<Longrightarrow> costs (max a b) (case out of Step r e \<Rightarrow> f r e | StepPanic \<Rightarrow> p)"
  by (auto simp: costs_def max_def split: step_out.splits) (meson le_trans nat_le_linear)+

lemma costs_ask: "costs 1 (ask f c)"
  by (auto simp: costs_def ask_def split: prod.splits)

lemma costs_calls [cost_rules]:
  "costs 1 (kGetClaim E k)" "costs 1 (kGetTemplate E n)" "costs 1 (kGetSecret E k)" "costs 1 (kGet E g k)"
  "costs 1 (kUpdate E g k obj)" "costs 1 (kApply E obj)" "costs 1 (kDelete E g k obj)" "costs 1 (kNewClient E cfg)"
  "costs 1 (kRemoteGet E cl k)" "costs 1 (kRemoteCreate E cl cm)" "costs 1 (kRemoteUpdate E cl cm)"
  "costs 1 (kRemoteDelete E cl k)"
  unfolding kGetClaim_def kGetTemplate_def kGetSecret_def kGet_def kUpdate_def kApply_def kDelete_def kNewClient_def
    kRemoteGet_def kRemoteCreate_def kRemoteUpdate_def kRemoteDelete_def
  by (rule costs_ask)+

lemma costs_local [cost_rules]:
  "costs 0 (kNow E)" "costs 0 getClaim" "costs 0 getCtx" "costs 0 (modClaim f)" "costs 0 (modCtx g)"
  "costs 1 (event E t r m as)" "costs 1 (kUpdateClaim E)" "costs 1 (kUpdateStatus E)"
  "costs 0 State_Monad.get" "costs 0 (State_Monad.update (\<lambda>s. s\<lparr>cmgr := h s\<rparr>))"
  by (auto simp: costs_def k_defs split: prod.splits)

section \<open>The operations of the code\<close>

lemma costs_status [cost_rules]:
  "costs 0 (setCondition E ct v r m)" "costs 0 (setReady E)" "costs 0 (setFailed E r e)" "costs 0 (setWaiting E ct m)"
  "costs 1 (updateStatusIfChanged E old)" "costs 1 (mirrorResourceStatus E g kd n ns)"
  unfolding setCondition_def setReady_def setFailed_def setWaiting_def updateStatusIfChanged_def mirrorResourceStatus_def
  by (rule costs_mono, (rule cost_rules costs_bind)+, simp)+

lemma costs_mirrors [cost_rules]:
  "costs 1 (mirrorVaultStatus E)" "costs 1 (mirrorVaultSecretStatus E)" "costs 1 (mirrorS3BucketStatus E)"
  "costs 1 (fetchControlPlaneVersion E cluster)"
  unfolding mirrorVaultStatus_def mirrorVaultSecretStatus_def mirrorS3BucketStatus_def fetchControlPlaneVersion_def Let_def
  by (rule costs_mono, (rule cost_rules costs_bind)+, simp)+

lemma costs_resources [cost_rules]:
  "costs 1 (getResource E g n ns)" "costs 2 (ensureResourceFinalizer E g n ns)" "costs 2 (removeResourceFinalizer E g n ns)"
  "costs 2 (ensureResource E t n ns)" "costs 1 (deleteResource E g n ns)" "costs 2 (deleteAndWait E g n ns)"
  unfolding getResource_def ensureResourceFinalizer_def removeResourceFinalizer_def ensureResource_def deleteResource_def
    deleteAndWait_def
  by (rule costs_mono, (rule cost_rules costs_bind)+, simp)+

lemma costs_remote [cost_rules]:
  "costs 1 (GetClient E secret)" "costs 3 (applyRemoteConfigMap E cl t n ns)"
  unfolding GetClient_def lookupClient_def applyRemoteConfigMap_def Let_def
  by (rule costs_mono, (rule cost_rules costs_bind)+, simp)+

lemma costs_returns [cost_rules]:
  "costs a m \<Longrightarrow> costs b k \<Longrightarrow> costs (a + b) (orFail m k)"
  "costs a m \<Longrightarrow> costs b k \<Longrightarrow> costs (a + b) (orRemoteFail E f m k)"
  "costs a m' \<Longrightarrow> costs b k' \<Longrightarrow> costs (a + b) (orReturn m' k')"
  unfolding orFail_def orRemoteFail_def orReturn_def
  by (rule costs_mono, rule costs_bind, assumption, (rule cost_rules costs_bind | assumption)+, simp)+

lemma costs_dependents [cost_rules]:
  "costs 6 (ensureDependent E kind g tr n ns ev ct)" "costs 2 (waitDependent E kind g tr n ns ev ct)"
  unfolding ensureDependent_def waitDependent_def Let_def
  by (rule costs_mono, (rule cost_rules costs_bind)+, simp)+

lemma costs_steps:
  "costs 5 (stepApplication E)" "costs 4 (stepCertificateSetInfra E)" "costs 2 (stepWaitCertSetReady E)"
  "costs 5 (stepClusterInfra E)" "costs 2 (stepWaitInfraProvisioned E)" "costs 4 (stepCertificateSetClient E)"
  "costs 2 (stepWaitInfraCPReady E)" "costs 5 (stepCcmCsrc E)" "costs 2 (stepWaitVaultKmsReady E)"
  "costs 5 (stepClusterClient E)" "costs 2 (stepWaitClientCPReady E)" "costs 3 (stepCcmCsrcUpdate E)"
  "costs 12 (stepRemoteConfigMaps E)"
  unfolding stepApplication_def stepCertificateSetInfra_def stepWaitCertSetReady_def stepClusterInfra_def
    stepWaitInfraProvisioned_def stepCertificateSetClient_def stepWaitInfraCPReady_def stepCcmCsrc_def
    stepWaitVaultKmsReady_def stepClusterClient_def stepWaitClientCPReady_def stepCcmCsrcUpdate_def
    stepRemoteConfigMaps_def Let_def
  by (rule costs_mono, (rule cost_rules costs_bind)+, simp)+

lemma costs_vault_steps:
  "costs 6 (stepEnsureVaultClaim E)" "costs 2 (stepWaitVaultClaim E)" "costs 6 (stepEnsureVaultSecretClaim E)"
  "costs 2 (stepWaitVaultSecretClaim E)" "costs 6 (stepEnsureS3BucketClaim E)" "costs 2 (stepWaitS3BucketClaim E)"
  unfolding stepEnsureVaultClaim_def stepWaitVaultClaim_def stepEnsureVaultSecretClaim_def
    stepWaitVaultSecretClaim_def stepEnsureS3BucketClaim_def stepWaitS3BucketClaim_def
  by (rule costs_mono, (rule cost_rules costs_bind)+, simp)+

definition step_costs :: "nat list" where
  "step_costs = [5, 6, 4, 2, 5, 2, 4, 2, 6, 6, 5, 12, 2, 5, 2, 3, 2, 2, 2]"

lemma costs_pipelineSteps: "list_all2 (\<lambda>n step. costs n (snd step)) step_costs (pipelineSteps E)"
  by (simp add: step_costs_def pipelineSteps_def costs_steps costs_vault_steps)

lemma costs_runSteps:
  "list_all2 (\<lambda>n step. costs n (snd step)) ns steps \<Longrightarrow> costs (sum_list ns + 2) (runSteps E old steps)"
proof (induction ns steps rule: list_all2_induct)
  case Nil
  show ?case
    unfolding runSteps.simps by (rule costs_mono, (rule cost_rules costs_bind)+, simp)
next
  case (Cons n ns step steps)
  then have "costs n (snd step)" and "costs (sum_list ns + 2) (runSteps E old steps)" by simp_all
  then show ?case
    unfolding runSteps.simps Let_def
    by - (rule costs_mono, rule costs_bind, assumption, (rule cost_rules costs_bind | assumption)+, simp)
qed

lemma costs_executePipeline: "costs 86 (executePipeline E)"
proof -
  have prepare: "costs 7 (preparePipeline E u)" for u
    unfolding preparePipeline_def tryGet_def syncClusterStatuses_def
    by (rule costs_mono, (rule cost_rules costs_bind)+, simp)
  have steps: "costs 79 (runSteps E old (pipelineSteps E))" for old
    using costs_runSteps [OF costs_pipelineSteps, of E old] by (simp add: step_costs_def)
  show ?thesis
    unfolding executePipeline_def Let_def
    by (rule costs_mono, (rule prepare steps cost_rules costs_bind)+, simp)
qed

lemma costs_release [cost_rules]:
  "costs a k \<Longrightarrow> costs (3 + a) (releaseAndDelete E g n ns k)"
  "costs a k \<Longrightarrow> costs (4 + a) (releaseAndWait E g n ns k)"
  unfolding releaseAndDelete_def releaseAndWait_def
  by (rule costs_mono, (rule cost_rules costs_bind | assumption)+, simp)+

lemma costs_deleteDependents: "costs a k \<Longrightarrow> costs (4 * length deps + a) (deleteDependents E ns deps k)"
proof (induction deps)
  case (Cons d deps)
  then show ?case
    by simp (auto intro: costs_mono dest: costs_release(2) [where E = E and g = "dep_gvk d" and n = "dep_name d" and ns = ns])
qed simp

lemma costs_reconcileDelete: "costs 41 (reconcileDelete E)"
proof -
  have clusters: "costs 19 (deleteClusters E c)" for c
    unfolding deleteClusters_def deleteAfterInfra_def removeClaimFinalizer_def Let_def
    by (rule costs_mono, (rule cost_rules costs_bind)+, simp)
  have remote: "costs 5 (deleteRemoteConfigMaps E)"
    unfolding deleteRemoteConfigMaps_def deleteRemoteConfigMap_def Let_def
    by (rule costs_mono, (rule cost_rules costs_bind)+, simp)
  have deps: "costs (12 + a) (deleteDependents E ns (dependentClaims c) k)" if "costs a k" for a ns c k
    using costs_deleteDependents [OF that, of "dependentClaims c" E ns] by (simp add: dependentClaims_def)
  show ?thesis
    unfolding reconcileDelete_def deleteManaged_def
    by (rule costs_mono, (rule deps remote clusters cost_rules costs_bind)+, simp)
qed

lemma costs_Reconcile: "costs 88 (Reconcile E req)"
proof -
  have "costs 1 (ensureFinalizer E)" "costs 1 (reconcilePaused E)"
    unfolding ensureFinalizer_def reconcilePaused_def
    by (rule costs_mono, (rule cost_rules costs_bind)+, simp)+
  then show ?thesis
    unfolding Reconcile_def
    by - (rule costs_mono, (rule costs_executePipeline costs_reconcileDelete cost_rules costs_bind | assumption)+, simp)
qed

text \<open>
  C26: A reconciliation is bounded. Whatever the API servers answer, one run of \<open>Reconcile\<close> returns after at most
  88 calls, counting reads, writes, remote requests and events; one deletion run after at most 41.
  No branch of the code retries or polls within a run: waiting is always a requeue.
\<close>

theorem reconcile_bounded:
  "length (new_calls s (snd (run_state (Reconcile E req) s))) \<le> 88 \<and>
   length (new_calls s (snd (run_state (reconcileDelete E) s))) \<le> 41"
proof -
  have "length (new_calls s (snd (run_state m s))) \<le> n" if "costs n m" for n and m :: "('a, 'b) pop" and s
    using that unfolding costs_def by (metis new_calls_append)
  then show ?thesis using costs_Reconcile costs_reconcileDelete by blast
qed

end
