(* ===== verification/Props_Status.thy ===== *)
theory Props_Status
  imports Sample Pipeline_Frames
begin

text \<open>
  What the reported status says about the managed resources. The pipeline mirrors the resources it
  reads before the first step into the status of the claim; the steps change phase and conditions
  only, and the status is written once, at the end. So what a status write says of a resource was
  read in the same run.
\<close>

section \<open>The mirrored part of the status\<close>

definition mirror_of ::
  "ClusterClaim \<Rightarrow> VaultStatusSummary option \<times> VaultStatusSummary option \<times> VaultStatusSummary option \<times> ClustersStatus option" where
  "mirror_of c = (st_Vault (cc_Status c), st_VaultSecret (cc_Status c), st_S3Bucket (cc_Status c), st_Clusters (cc_Status c))"

fun status_write :: "call \<Rightarrow> bool" where
  "status_write (CUpdateStatus c e) = True"
| "status_write _ = False"

definition unreported :: "'w pst \<Rightarrow> 'w pst \<Rightarrow> bool" where
  "unreported s t \<longleftrightarrow> mirror_of (claim t) = mirror_of (claim s) \<and> extends (\<lambda>x. \<not> status_write x) s t"

abbreviation is_unreported :: "('w, 'a) pop \<Rightarrow> bool" where
  "is_unreported m \<equiv> state_io_rel unreported m"

lemma unreported_ask: "(\<And>a. \<not> status_write (k a)) \<Longrightarrow> is_unreported (ask f k)"
  by (auto simp: state_io_rel_def ask_def unreported_def extends_def split: prod.splits)

lemma unreported_modClaim: "(\<And>c. mirror_of (f c) = mirror_of c) \<Longrightarrow> is_unreported (modClaim f)"
  by (auto simp: state_io_rel_def k_defs unreported_def extends_def)

interpretation un: pipeline_frame unreported E for E
proof unfold_locales
  show "is_unreported (kGetTemplate E n)" "is_unreported (kGetSecret E k)" "is_unreported (kGet E g k)"
    "is_unreported (kUpdate E g k obj)" "is_unreported (kApply E obj)" "is_unreported (kNewClient E cfg)"
    "is_unreported (kRemoteGet E cl k)" "is_unreported (kRemoteCreate E cl cm)" "is_unreported (kRemoteUpdate E cl cm)"
    for E :: "'a env" and n k g obj cfg cl cm
    unfolding ask_defs by (rule unreported_ask, simp)+
qed (auto simp: state_io_rel_def setCondition_def putCondition_def setPhase_def k_defs unreported_def extends_def mirror_of_def
    split: prod.splits)

lemma unreported_ends: "is_unreported (setReady E)" "reason_ok r \<Longrightarrow> is_unreported (setFailed E r e)"
  unfolding setReady_def setFailed_def
  by (intro un.keeps_bind un.frame_ops unreported_modClaim; simp add: mirror_of_def setPhase_def)+

section \<open>Status writes\<close>

text \<open>\<open>faithful m\<close>: every status \<open>m\<close> writes has the mirrored part the claim had when \<open>m\<close> started.\<close>

definition faithful :: "('w, 'a) pop \<Rightarrow> bool" where
  "faithful m \<longleftrightarrow> (\<forall>s. extends (\<lambda>x. \<forall>d e. x = CUpdateStatus d e \<longrightarrow> mirror_of d = mirror_of (claim s)) s
     (snd (run_state m s)))"

lemma faithful_ret: "faithful (ret x)"
  by (simp add: faithful_def)

lemma faithful_bind:
  assumes "is_unreported m" and "\<And>a. faithful (k a)"
  shows "faithful (State_Monad.bind m k)"
  unfolding faithful_def
proof
  fix s
  obtain a t where t: "run_state m s = (a, t)" by (cases "run_state m s")
  have "mirror_of (claim t) = mirror_of (claim s)" and "extends (\<lambda>x. \<not> status_write x) s t"
    using assms(1) t unfolding state_io_rel_def unreported_def by (metis snd_conv)+
  moreover have "extends (\<lambda>x. \<forall>d e. x = CUpdateStatus d e \<longrightarrow> mirror_of d = mirror_of (claim t)) t (snd (run_state (k a) t))"
    using assms(2) unfolding faithful_def by blast
  ultimately show "extends (\<lambda>x. \<forall>d e. x = CUpdateStatus d e \<longrightarrow> mirror_of d = mirror_of (claim s)) s
      (snd (run_state (State_Monad.bind m k) s))"
    by (auto simp: t extends_def list_all_iff) (metis status_write.simps(1))
qed

lemma faithful_write: "faithful (State_Monad.bind (updateStatusIfChanged E old) (\<lambda>err. ret (r err)))"
  by (auto simp: faithful_def updateStatusIfChanged_def k_defs extends_def split: prod.splits)

lemma faithful_finish: "faithful (finish E old stop)"
  unfolding finish_def
  by (auto simp: Let_def simp del: bind_assoc split: stop.splits step_out.splits option.splits
      intro!: faithful_bind faithful_write faithful_ret unreported_ends un.frame_local un.frame_condition)

lemma faithful_runSteps: "faithful (runSteps E old (pipelineSteps E))"
  unfolding runSteps_advance
  by (intro faithful_bind un.frame_advance [of _ E] faithful_finish) simp

section \<open>What is read before the first step\<close>

text \<open>
  \<open>reported\<close>: how the answer to a read of a vault-family claim shows in the status. A claim that is not there
  shows with its name only, one that could not be read not at all.
\<close>

definition reported :: "lib \<Rightarrow> string \<Rightarrow> goerror + gomap \<Rightarrow> VaultStatusSummary option \<Rightarrow> bool" where
  "reported L n a v = (case a of
     Inl e \<Rightarrow> v = (if IsNotFound L e then Some \<lparr>vs_Name = n, vs_Phase = [], vs_Ready = False, vs_Conditions = []\<rparr> else None)
   | Inr obj \<Rightarrow> (\<exists>x. v = Some x \<and> vs_Name x = n \<and> vs_Phase x = nested_string L obj [''status'', ''phase''] \<and>
       (vs_Ready x \<longleftrightarrow> nested_string L obj [''status'', ''phase''] = ''Ready'') \<and> vs_Conditions x = mirrorConditions L obj))"

definition mirrored ::
  "lib \<Rightarrow> call list \<Rightarrow> ClusterClaim \<Rightarrow> GroupVersionKind \<Rightarrow> string \<Rightarrow> TemplateRef option \<Rightarrow> VaultStatusSummary option \<Rightarrow> bool" where
  "mirrored L h c g n r v = (if r = None then v = None
     else \<exists>a. CGet g (key_of n (cc_Namespace c)) a \<in> set h \<and> reported L n a v)"

text \<open>\<open>followed\<close>: the same for a Cluster; one that could not be read keeps the summary of the run before.\<close>

definition followed ::
  "lib \<Rightarrow> call list \<Rightarrow> ClusterClaim \<Rightarrow> string \<Rightarrow> ClusterStatusSummary option \<Rightarrow> ClusterStatusSummary option \<Rightarrow> bool" where
  "followed L h c role old v \<longleftrightarrow> (\<exists>a. CGet ClusterGVK (key_of (ClusterName (cc_Name c) role) (cc_Namespace c)) a \<in> set h \<and>
     (case a of Inl e \<Rightarrow> v = old
      | Inr obj \<Rightarrow> (\<exists>x. v = Some (extractClusterStatusSummary L obj\<lparr>css_ControlPlaneVersion := x\<rparr>))))"

abbreviation infra_summary :: "ClusterClaim \<Rightarrow> ClusterStatusSummary option" where
  "infra_summary c \<equiv> Option.bind (st_Clusters (cc_Status c)) cs_Infra"

abbreviation client_summary :: "ClusterClaim \<Rightarrow> ClusterStatusSummary option" where
  "client_summary c \<equiv> Option.bind (st_Clusters (cc_Status c)) cs_Client"

lemma mirrored_mono: "mirrored L h c g n r v \<Longrightarrow> set h \<subseteq> set h' \<Longrightarrow> mirrored L h' c g n r v"
  by (auto simp: mirrored_def split: if_splits)

lemma followed_mono: "followed L h c role old v \<Longrightarrow> set h \<subseteq> set h' \<Longrightarrow> followed L h' c role old v"
  by (auto simp: followed_def)

text \<open>\<open>since c s t\<close>: on the way from \<open>s\<close> to \<open>t\<close>, both states of a run on \<open>c\<close>.\<close>

abbreviation since :: "ClusterClaim \<Rightarrow> 'w pst \<Rightarrow> 'w pst \<Rightarrow> bool" where
  "since c s t \<equiv> same_spec c (claim t) \<and> extends any_call s t"

lemmas mirror_simps = mirrorResourceStatus_def wp_simps k_defs mirrored_def reported_def extends_def new_calls_def
  mirror_of_def Let_def

lemma wp_mirrorVault:
  "same_spec c (claim s) \<Longrightarrow> wp (mirrorVaultStatus E) (\<lambda>_ t. since c s t \<and>
     mirrored (e_lib E) (new_calls s t) c VaultClaimGVK (VaultClaimName (cc_Name c)) (sp_VaultClaimTemplateRef (cc_Spec c))
       (st_Vault (cc_Status (claim t))) \<and> snd (mirror_of (claim t)) = snd (mirror_of (claim s))) s"
  by (auto simp: mirrorVaultStatus_def mirror_simps same_spec_def VaultClaimName_def split: prod.splits sum.splits)

lemma wp_mirrorVaultSecret:
  "same_spec c (claim s) \<Longrightarrow> wp (mirrorVaultSecretStatus E) (\<lambda>_ t. since c s t \<and>
     mirrored (e_lib E) (new_calls s t) c VaultSecretClaimGVK (VaultSecretClaimName (cc_Name c))
       (sp_VaultSecretClaimTemplateRef (cc_Spec c)) (st_VaultSecret (cc_Status (claim t))) \<and>
     st_Vault (cc_Status (claim t)) = st_Vault (cc_Status (claim s)) \<and>
     st_S3Bucket (cc_Status (claim t)) = st_S3Bucket (cc_Status (claim s)) \<and>
     st_Clusters (cc_Status (claim t)) = st_Clusters (cc_Status (claim s))) s"
  by (auto simp: mirrorVaultSecretStatus_def mirror_simps same_spec_def VaultSecretClaimName_def split: prod.splits sum.splits)

lemma wp_mirrorS3Bucket:
  "same_spec c (claim s) \<Longrightarrow> wp (mirrorS3BucketStatus E) (\<lambda>_ t. since c s t \<and>
     mirrored (e_lib E) (new_calls s t) c S3BucketClaimGVK (S3BucketClaimName (cc_Name c))
       (sp_S3BucketClaimTemplateRef (cc_Spec c)) (st_S3Bucket (cc_Status (claim t))) \<and>
     st_Vault (cc_Status (claim t)) = st_Vault (cc_Status (claim s)) \<and>
     st_VaultSecret (cc_Status (claim t)) = st_VaultSecret (cc_Status (claim s)) \<and>
     st_Clusters (cc_Status (claim t)) = st_Clusters (cc_Status (claim s))) s"
  by (auto simp: mirrorS3BucketStatus_def mirror_simps same_spec_def S3BucketClaimName_def split: prod.splits sum.splits)

lemma fetchControlPlaneVersion_claim:
  "state_io_rel (\<lambda>s t. claim t = claim s \<and> extends any_call s t) (fetchControlPlaneVersion E obj)"
  by (auto simp: fetchControlPlaneVersion_def Let_def state_io_rel_def k_defs extends_def
      split: prod.splits option.splits)

text \<open>The summary of a Cluster that was found (\<open>x\<close>) or not.\<close>

definition refreshed :: "lib \<Rightarrow> gomap option \<Rightarrow> ClusterStatusSummary option \<Rightarrow> ClusterStatusSummary option \<Rightarrow> bool" where
  "refreshed L x old v = (case x of None \<Rightarrow> v = old
     | Some obj \<Rightarrow> (\<exists>y. v = Some (extractClusterStatusSummary L obj\<lparr>css_ControlPlaneVersion := y\<rparr>)))"

lemma refreshed_simps [simp]:
  "refreshed L None old v \<longleftrightarrow> v = old"
  "refreshed L (Some obj) old (Some (extractClusterStatusSummary L obj\<lparr>css_ControlPlaneVersion := y\<rparr>))"
  by (auto simp: refreshed_def)

lemma wp_syncClusterStatuses:
  assumes "same_spec c (claim s)"
  shows "wp (syncClusterStatuses E x y) (\<lambda>_ t. since c s t \<and>
     refreshed (e_lib E) x (infra_summary (claim s)) (infra_summary (claim t)) \<and>
     refreshed (e_lib E) y (client_summary (claim s)) (client_summary (claim t))) s"
proof -
  have fetch: "wp (fetchControlPlaneVersion E obj) (\<lambda>_ t. claim t = claim u \<and> extends any_call u t) u" for obj u
    by (rule wp_io_rel [OF fetchControlPlaneVersion_claim])
  show ?thesis
    using assms
    by (cases x; cases y)
      (auto simp: syncClusterStatuses_def wp_simps same_spec_def ensureClusters_def modClusters_def extends_def
        intro!: wp_mono [OF fetch] split: option.splits)
qed

lemma wp_tryGet:
  assumes "same_spec c (claim s)"
  shows "wp (tryGet E ClusterGVK (ClusterName (cc_Name c) role) (cc_Namespace c)) (\<lambda>x t. claim t = claim s \<and> since c s t \<and>
     (\<forall>old v. refreshed (e_lib E) x old v \<longrightarrow> followed (e_lib E) (new_calls s t) c role old v)) s"
  using assms
  by (auto simp: tryGet_def wp_simps k_defs extends_def new_calls_def followed_def refreshed_def split: prod.splits sum.splits)

text \<open>\<open>mirrors_run L h c d\<close>: what \<open>d\<close> says of the resources of \<open>c\<close> was read in the calls \<open>h\<close>.\<close>

definition mirrors_run :: "lib \<Rightarrow> call list \<Rightarrow> ClusterClaim \<Rightarrow> ClusterClaim \<Rightarrow> bool" where
  "mirrors_run L h c d \<longleftrightarrow>
     mirrored L h c VaultClaimGVK (VaultClaimName (cc_Name c)) (sp_VaultClaimTemplateRef (cc_Spec c)) (st_Vault (cc_Status d)) \<and>
     mirrored L h c VaultSecretClaimGVK (VaultSecretClaimName (cc_Name c)) (sp_VaultSecretClaimTemplateRef (cc_Spec c))
       (st_VaultSecret (cc_Status d)) \<and>
     mirrored L h c S3BucketClaimGVK (S3BucketClaimName (cc_Name c)) (sp_S3BucketClaimTemplateRef (cc_Spec c))
       (st_S3Bucket (cc_Status d)) \<and>
     followed L h c ''infra'' (infra_summary c) (infra_summary d) \<and>
     (if client_enabled c then followed L h c ''client'' (client_summary c) (client_summary d)
      else client_summary d = client_summary c)"

lemma mirrors_run_mono: "mirrors_run L h c d \<Longrightarrow> set h \<subseteq> set h' \<Longrightarrow> mirrors_run L h' c d"
  unfolding mirrors_run_def by (auto intro: mirrored_mono followed_mono)

lemma mirrors_run_cong: "mirror_of d = mirror_of d' \<Longrightarrow> mirrors_run L h c d = mirrors_run L h c d'"
  by (simp add: mirrors_run_def mirror_of_def)

lemma new_calls_grow: "extends any_call s t \<Longrightarrow> extends any_call t u \<Longrightarrow>
   set (new_calls s t) \<subseteq> set (new_calls s u) \<and> set (new_calls t u) \<subseteq> set (new_calls s u) \<and> extends any_call s u"
  by (auto simp: extends_def new_calls_def)

lemma wp_mirrors:
  assumes "same_spec c (claim s)"
  shows "wp (do { syncClusterStatuses E x y; mirrorVaultStatus E; mirrorVaultSecretStatus E; mirrorS3BucketStatus E }) (\<lambda>_ t.
     since c s t \<and> refreshed (e_lib E) x (infra_summary (claim s)) (infra_summary (claim t)) \<and>
     refreshed (e_lib E) y (client_summary (claim s)) (client_summary (claim t)) \<and>
     mirrored (e_lib E) (new_calls s t) c VaultClaimGVK (VaultClaimName (cc_Name c)) (sp_VaultClaimTemplateRef (cc_Spec c))
       (st_Vault (cc_Status (claim t))) \<and>
     mirrored (e_lib E) (new_calls s t) c VaultSecretClaimGVK (VaultSecretClaimName (cc_Name c))
       (sp_VaultSecretClaimTemplateRef (cc_Spec c)) (st_VaultSecret (cc_Status (claim t))) \<and>
     mirrored (e_lib E) (new_calls s t) c S3BucketClaimGVK (S3BucketClaimName (cc_Name c))
       (sp_S3BucketClaimTemplateRef (cc_Spec c)) (st_S3Bucket (cc_Status (claim t)))) s"
proof (rule wp_bindI [OF wp_syncClusterStatuses [OF assms]], elim conjE, rule wp_bindI [OF wp_mirrorVault], assumption,
    elim conjE, rule wp_bindI [OF wp_mirrorVaultSecret], assumption, elim conjE, rule wp_mono [OF wp_mirrorS3Bucket], assumption,
    elim conjE, intro conjI, goal_cases)
  case (1 _ s1 _ s2 _ s3 _ t)
  then show ?case by simp
next
  case (2 _ s1 _ s2 _ s3 _ t)
  then show ?case by (blast intro: extends_trans)
next
  case (3 _ s1 _ s2 _ s3 _ t)
  then show ?case by (simp add: mirror_of_def)
next
  case (4 _ s1 _ s2 _ s3 _ t)
  then show ?case by (simp add: mirror_of_def)
next
  case (5 _ s1 _ s2 _ s3 _ t)
  then show ?case using new_calls_grow by (metis mirrored_mono)
next
  case (6 _ s1 _ s2 _ s3 _ t)
  then show ?case using new_calls_grow by (metis mirrored_mono)
next
  case (7 _ s1 _ s2 _ s3 _ t)
  then show ?case using new_calls_grow by (metis mirrored_mono)
qed

text \<open>The mirroring, after the two reads of Clusters that ended in \<open>v\<close> and \<open>w\<close>.\<close>

lemma mirror_after_reads:
  assumes v: "extends any_call s v" "\<And>old u. refreshed (e_lib E) x old u \<Longrightarrow> followed (e_lib E) (new_calls s v) (claim s) ''infra'' old u"
    and w: "claim w = claim s" "extends any_call v w" "\<And>old u. refreshed (e_lib E) y old u \<Longrightarrow>
      (if client_enabled (claim s) then followed (e_lib E) (new_calls v w) (claim s) ''client'' old u else u = old)"
  shows "wp (do { syncClusterStatuses E x y; mirrorVaultStatus E; mirrorVaultSecretStatus E; mirrorS3BucketStatus E })
     (\<lambda>_ t. since (claim s) s t \<and> mirrors_run (e_lib E) (new_calls s t) (claim s) (claim t)) w"
proof (rule wp_mono [OF wp_mirrors [of "claim s"]], goal_cases)
  case 1
  then show ?case using w(1) by simp
next
  case (2 _ t)
  have sw: "extends any_call s w" using v(1) w(2) by (rule extends_trans)
  have wt: "extends any_call w t" and vt: "extends any_call v t" using 2 w(2) by (blast intro: extends_trans)+
  have "set (new_calls w t) \<subseteq> set (new_calls s t)" "set (new_calls s v) \<subseteq> set (new_calls s t)"
    "set (new_calls v w) \<subseteq> set (new_calls s t)"
    using new_calls_grow [OF sw wt] new_calls_grow [OF v(1) vt] new_calls_grow [OF w(2) wt] by blast+
  moreover have "followed (e_lib E) (new_calls s v) (claim s) ''infra'' (infra_summary (claim s)) (infra_summary (claim t))"
    using 2 w(1) by (auto intro: v(2))
  moreover have "if client_enabled (claim s)
      then followed (e_lib E) (new_calls v w) (claim s) ''client'' (client_summary (claim s)) (client_summary (claim t))
      else client_summary (claim t) = client_summary (claim s)"
    using 2 w(1) by (intro w(3)) simp
  ultimately have "mirrors_run (e_lib E) (new_calls s t) (claim s) (claim t)"
    using 2 unfolding mirrors_run_def by (auto intro: mirrored_mono followed_mono)
  with 2 sw wt show ?case by (blast intro: extends_trans)
qed

lemma new_context:
  "extends \<Phi> v (w\<lparr>tctx := x\<rparr>) = extends \<Phi> v w" "new_calls v (w\<lparr>tctx := x\<rparr>) = new_calls v w"
  by (simp_all add: extends_def new_calls_def)

lemma prepare_mirrors:
  "wp (preparePipeline E u) (\<lambda>_ t. since (claim s) s t \<and> mirrors_run (e_lib E) (new_calls s t) (claim s) (claim t)) s"
proof -
  let ?c = "claim s" and ?L = "e_lib E"
  have infra: "wp (tryGet E ClusterGVK (ClusterName (cc_Name ?c) ''infra'') (cc_Namespace ?c)) (\<lambda>x t. claim t = ?c \<and> since ?c s t \<and>
     (\<forall>old v. refreshed ?L x old v \<longrightarrow> followed ?L (new_calls s t) ?c ''infra'' old v)) s"
    by (rule wp_tryGet) simp
  have client: "wp (if client_enabled ?c then tryGet E ClusterGVK (ClusterName (cc_Name ?c) ''client'') (cc_Namespace ?c) else ret None)
     (\<lambda>y t. claim t = ?c \<and> since ?c v t \<and> (\<forall>old w. refreshed ?L y old w \<longrightarrow>
        (if client_enabled ?c then followed ?L (new_calls v t) ?c ''client'' old w else w = old))) v"
    if "claim v = ?c" for v
    using wp_tryGet [of ?c v E "''client''"] that by (auto simp: wp_simps)
  show ?thesis
    unfolding preparePipeline_def wp_getClaim_bind
    by (rule wp_bindI [OF infra], elim conjE, rule wp_bindI [OF client], assumption, elim conjE,
        subst wp_bind, subst wp_pointers, rule mirror_after_reads) (auto simp: new_context)
qed

section \<open>A whole run\<close>

lemma prepare_writes_nothing: "makes (\<lambda>x. \<not> status_write x) (preparePipeline E u)"
proof -
  have local: "makes (\<lambda>x. \<not> status_write x) getClaim" "makes (\<lambda>x. \<not> status_write x) (modClaim f)"
    "makes (\<lambda>x. \<not> status_write x) (modCtx g)" for f g
    by (auto simp: state_io_rel_def k_defs extends_def)
  show ?thesis
    unfolding preparePipeline_def tryGet_def syncClusterStatuses_def fetchControlPlaneVersion_def
      mirrorVaultStatus_def mirrorVaultSecretStatus_def mirrorS3BucketStatus_def mirrorResourceStatus_def kGet_def Let_def
    by (intro ext.keeps local makes_ask; simp)
qed

lemma faithfulD:
  assumes "faithful m"
  shows "extends any_call s (snd (run_state m s))"
    and "CUpdateStatus d e \<in> set (new_calls s (snd (run_state m s))) \<Longrightarrow> mirror_of d = mirror_of (claim s)"
proof -
  have "extends (\<lambda>x. \<forall>d e. x = CUpdateStatus d e \<longrightarrow> mirror_of d = mirror_of (claim s)) s (snd (run_state m s))"
    using assms unfolding faithful_def by blast
  then show "extends any_call s (snd (run_state m s))"
    and "CUpdateStatus d e \<in> set (new_calls s (snd (run_state m s))) \<Longrightarrow> mirror_of d = mirror_of (claim s)"
    by (auto simp: extends_def list_all_iff new_calls_def)
qed

lemma silent_calls:
  assumes "makes (\<lambda>x. \<not> status_write x) m"
  shows "CUpdateStatus d e \<notin> set (new_calls s (snd (run_state m s)))"
proof -
  have "extends (\<lambda>x. \<not> status_write x) s (snd (run_state m s))"
    using assms by (metis prod.collapse state_io_relD)
  then have "list_all (\<lambda>x. \<not> status_write x) (new_calls s (snd (run_state m s)))"
    by (auto simp: extends_def new_calls_def)
  then show ?thesis by (metis list_all_iff status_write.simps(1))
qed

lemma mirrors_run_provisioning:
  "mirrors_run L h (clearPausedCondition K (setPhase p c)) d = mirrors_run L h c d"
  by (simp add: mirrors_run_def mirrored_def followed_def clearPausedCondition_def setPhase_def)

lemma faithful_failed: "reason_ok r \<Longrightarrow> faithful (do { setFailed E r err; _ \<leftarrow> updateStatusIfChanged E old; ret x })"
  by (intro faithful_bind unreported_ends faithful_write)

lemma status_write_mirrors:
  assumes "CUpdateStatus d e \<in> set (new_calls s (snd (run_state (executePipeline E) s)))"
  shows "if loop_start E s = None then mirror_of d = mirror_of (claim s)
    else mirrors_run (e_lib E) (new_calls s (snd (run_state (executePipeline E) s))) (claim s) d"
proof -
  let ?s1 = "s\<lparr>claim := clearPausedCondition (e_lib E) (setPhase PhaseProvisioning (claim s))\<rparr>"
  let ?t = "snd (run_state (executePipeline E) s)"
  have mir1: "mirror_of (claim ?s1) = mirror_of (claim s)" and new1: "new_calls ?s1 ?t = new_calls s ?t"
    by (simp_all add: mirror_of_def clearPausedCondition_def setPhase_def new_calls_def)
  show ?thesis
  proof (cases "toUnstructured (e_lib E) (claim ?s1)")
    case (Inl err)
    have "?t = snd (run_state (do { setFailed E ''ConversionError'' err; _ \<leftarrow> updateStatusIfChanged E (cc_Status (claim s));
        ret (Return \<lparr>RequeueAfter = 0\<rparr> (Some err)) }) ?s1)"
      using Inl by (simp add: executePipeline_def k_defs Let_def)
    then have "mirror_of d = mirror_of (claim ?s1)"
      using faithfulD(2) [OF faithful_failed] own_reasons_ok assms new1 by metis
    then show ?thesis using Inl mir1 by (simp add: loop_start_def)
  next
    case (Inr u)
    let ?s2 = "snd (run_state (preparePipeline E u) ?s1)"
    have t: "?t = snd (run_state (runSteps E (cc_Status (claim s)) (pipelineSteps E)) ?s2)"
      using Inr by (simp add: executePipeline_def k_defs Let_def case_prod_beta)
    have two: "extends any_call ?s1 ?s2" "mirrors_run (e_lib E) (new_calls ?s1 ?s2) (claim ?s1) (claim ?s2)"
      using prepare_mirrors [of E u ?s1] by (auto simp: wp_def case_prod_beta)
    have three: "extends any_call ?s2 ?t"
      unfolding t by (rule faithfulD(1) [OF faithful_runSteps])
    have split: "new_calls s ?t = new_calls ?s1 ?s2 @ new_calls ?s2 ?t"
      using new_calls_trans [OF two(1) three] new1 by simp
    have "CUpdateStatus d e \<in> set (new_calls ?s2 ?t)"
      using assms silent_calls [OF prepare_writes_nothing, where s = ?s1 and d = d and e = e] unfolding split by simp
    then have "mirror_of d = mirror_of (claim ?s2)"
      unfolding t by (rule faithfulD(2) [OF faithful_runSteps])
    then have "mirrors_run (e_lib E) (new_calls ?s1 ?s2) (claim ?s1) d"
      using two(2) mirrors_run_cong by blast
    then have "mirrors_run (e_lib E) (new_calls ?s1 ?s2) (claim s) d"
      by (simp add: mirrors_run_provisioning)
    then have "mirrors_run (e_lib E) (new_calls s ?t) (claim s) d"
      by (rule mirrors_run_mono) (simp add: split)
    then show ?thesis using Inr by (simp add: loop_start_def)
  qed
qed

text \<open>
  C19: The status says what was read. Whenever a pipeline run writes the status of a claim, the summaries of
  the vault-family claims in it come from reads of the same run: none without a template reference, a
  bare name for one that does not exist, and \<open>ready\<close> only for an object read in phase Ready; and the
  summary of a Cluster is that of the object read in this run, or, when it could not be read, the one the
  claim already had. If the claim could not be converted, nothing of this changes.
\<close>

theorem status_writes_mirror:
  assumes "CUpdateStatus d e \<in> set (new_calls s (snd (run_state (executePipeline E) s)))"
  shows "if loop_start E s = None then mirror_of d = mirror_of (claim s)
    else mirrors_run (e_lib E) (new_calls s (snd (run_state (executePipeline E) s))) (claim s) d"
  by (rule status_write_mirrors [OF assms])

lemma ready_run_written:
  "\<exists>d e. CUpdateStatus d e \<in> set (new_calls (start claim0) (snd (run_state (executePipeline E1) (start claim0))))"
proof -
  have ready: "fst (run_state (executePipeline E1) (start claim0)) = Return \<lparr>RequeueAfter = 10 * Minute\<rparr> None"
    using cooperative_ready [of E1 "start claim0"] sample_cooperative by simp
  obtain d where d: "outcome (Return \<lparr>RequeueAfter = 10 * Minute\<rparr> None) d"
      "reports L0 status0 d (new_calls (start claim0) (snd (run_state (executePipeline E1) (start claim0))))"
    using run_concluded [of E1 "start claim0"] L0_SetStatusCondition ready
    by (auto simp: concluded_def claim0_def split: prod.splits)
  have "st_Phase (cc_Status d) \<noteq> []"
    using d(1) by (auto simp: outcome_def Let_def)
  moreover have "st_Phase status0 = []" by (simp add: status0_def)
  ultimately have "\<not> StatusDeepEqual L0 status0 (cc_Status d)"
    by (auto simp: L0_def)
  with d(2) show ?thesis unfolding reports_def by (metis in_set_conv_decomp)
qed

theorem status_writes_mirror_witness:
  "\<exists>d e. CUpdateStatus d e \<in> set (new_calls (start claim0) (snd (run_state (executePipeline E1) (start claim0)))) \<and>
     mirrors_run L0 (new_calls (start claim0) (snd (run_state (executePipeline E1) (start claim0)))) claim0 d"
proof -
  have "loop_start E1 (start claim0) \<noteq> None"
    by (simp add: loop_start_def Let_def toUnstructured_def L0_def)
  with ready_run_written status_writes_mirror [of _ _ "start claim0" E1] show ?thesis by fastforce
qed

end
