(* ===== verification/Props_Schema.thy ===== *)
theory Props_Schema
  imports Props_Status
begin

text \<open>
  The status and its schema. The operator's own conditions and phases always fit the schema of the status;
  what it mirrors from other objects fits if those objects carry complete conditions. If one does not,
  every status the run writes is one the API server refuses.
\<close>

section \<open>Claims that fit their schema\<close>

definition claim_ok :: "ClusterClaim \<Rightarrow> bool" where
  "claim_ok c \<longleftrightarrow> status_ok (cc_Status c) \<and> 0 \<le> sint (om_Generation (cc_Meta c))"

definition writes_ok :: "call \<Rightarrow> bool" where
  "writes_ok x \<longleftrightarrow> (\<forall>d e. x = CUpdateStatus d e \<longrightarrow> claim_ok d)"

lemma writes_ok_simps [simp]:
  "writes_ok (CUpdateStatus d e) \<longleftrightarrow> claim_ok d" "\<not> status_write x \<Longrightarrow> writes_ok x"
  by (auto simp: writes_ok_def)






section \<open>Operations\<close>
















section \<open>Mirroring\<close>



lemma conditions_ok_Nil [simp]: "conditions_ok []"
  by (simp add: conditions_ok_def)





lemma cluster_ok_simps [simp]:
  "cluster_ok None"
  "cluster_ok (Some (extractClusterStatusSummary L obj)) = conditions_ok (mirrorConditions L obj)"
  "cluster_ok (map_option (\<lambda>x. x\<lparr>css_ControlPlaneVersion := v\<rparr>) y) = cluster_ok y"
  by (simp_all add: cluster_ok_def extractClusterStatusSummary_def split: option.split)




section \<open>Branches\<close>















section \<open>Incomplete conditions\<close>

text \<open>
  C21: A condition without a reason blocks the status. If, whenever a pipeline run reads Cluster[infra], some
  condition of the object lacks what the schema of the claim demands of a condition, such as a reason or a
  readable time of its last transition, then every status the run writes violates the schema: the code
  copies the condition as it is, so the API server refuses the write and the claim keeps its old status.
\<close>

theorem incomplete_condition_blocks_status:
  fixes E :: "'w env" and s :: "'w pst"
  defines "h \<equiv> new_calls s (snd (run_state (executePipeline E) s))"
  assumes "\<forall>a. CGet ClusterGVK (key_of (ClusterName (cc_Name (claim s)) ''infra'') (cc_Namespace (claim s))) a \<in> set h \<longrightarrow>
      (\<exists>obj. a = Inr obj \<and> \<not> list_all condition_ok (mirrorConditions (e_lib E) obj))"
    and "loop_start E s \<noteq> None" and "CUpdateStatus d e \<in> set h"
  shows "\<not> status_ok (cc_Status d)"
proof -
  have "mirrors_run (e_lib E) h (claim s) d"
    using status_write_mirrors assms(3,4) unfolding h_def by (metis (full_types))
  then obtain a where a: "CGet ClusterGVK (key_of (ClusterName (cc_Name (claim s)) ''infra'') (cc_Namespace (claim s))) a \<in> set h"
      "case a of Inl e \<Rightarrow> infra_summary d = infra_summary (claim s)
       | Inr obj \<Rightarrow> (\<exists>x. infra_summary d = Some (extractClusterStatusSummary (e_lib E) obj\<lparr>css_ControlPlaneVersion := x\<rparr>))"
    unfolding mirrors_run_def followed_def by blast
  with assms(2) obtain obj x where "\<not> list_all condition_ok (mirrorConditions (e_lib E) obj)"
      "infra_summary d = Some (extractClusterStatusSummary (e_lib E) obj\<lparr>css_ControlPlaneVersion := x\<rparr>)"
    by fastforce
  then show ?thesis
    by (auto simp: status_ok_def cluster_ok_def conditions_ok_def extractClusterStatusSummary_def bind_eq_Some_conv)
qed

text \<open>The ready world is such a case: its conditions have a type and a status only.\<close>

lemma condition0_incomplete: "\<not> list_all condition_ok (mirrorConditions L0 obj1)"
  by code_simp

theorem incomplete_condition_blocks_status_witness:
  "\<exists>d e. CUpdateStatus d e \<in> set (new_calls (start claim0) (snd (run_state (executePipeline E1) (start claim0)))) \<and>
     \<not> status_ok (cc_Status d)"
proof -
  have "loop_start E1 (start claim0) \<noteq> None"
    by (simp add: loop_start_def Let_def toUnstructured_def L0_def)
  moreover have "\<exists>obj. a = Inr obj \<and> \<not> list_all condition_ok (mirrorConditions L0 obj)"
    if "CGet g k a \<in> set (new_calls (start claim0) (snd (run_state (executePipeline E1) (start claim0))))" for g k a
  proof -
    have "extends (answered E1) (start claim0) (snd (run_state (executePipeline E1) (start claim0)))"
      using ans.frame_executePipeline [of E1] by (metis prod.collapse state_io_relD)
    with that have "answered E1 (CGet g k a)"
      by (auto simp: extends_def list_all_iff)
    then show ?thesis
      using condition0_incomplete by (auto simp: answered_def A1_def)
  qed
  ultimately show ?thesis
    using ready_run_written incomplete_condition_blocks_status [of "start claim0" E1] by (metis E1_simps(1))
qed

end
