(* ===== verification/Webhook.thy ===== *)
theory Webhook
  imports Api_Types
begin

text \<open>
  The validating webhook (api/v1alpha1/clusterclaim_webhook.go): creation and deletion are always
  admitted, an update is admitted when it changes neither \<open>spec.client.enabled\<close> nor an ipamMode
  that is already set. A validator returns the list of warnings (always nil) and an error.
\<close>

definition validateIpamModeImmutable :: "string \<Rightarrow> string \<Rightarrow> string \<Rightarrow> goerror option" where
  "validateIpamModeImmutable field oldVal newVal =
     (if oldVal \<noteq> [] \<and> oldVal \<noteq> newVal then Some (Errorf ''field %s is immutable'' [field] None)
      else None)"

definition clientIpamMode :: "ClusterClaim \<Rightarrow> string" where
  "clientIpamMode c = (case cl_Network (sp_Client (cc_Spec c)) of
     None \<Rightarrow> [] | Some n \<Rightarrow> nc_IpamMode n)"

definition ValidateCreate :: "ClusterClaim \<Rightarrow> string list \<times> goerror option" where
  "ValidateCreate c = ([], None)"

definition ValidateUpdate :: "ClusterClaim \<Rightarrow> ClusterClaim \<Rightarrow> string list \<times> goerror option" where
  "ValidateUpdate oldClaim newClaim =
     (if client_enabled oldClaim \<noteq> client_enabled newClaim
      then ([], Some (Errorf ''field spec.client.enabled is immutable'' [] None))
      else case validateIpamModeImmutable ''spec.infra.network.ipamMode''
             (nc_IpamMode (is_Network (sp_Infra (cc_Spec oldClaim))))
             (nc_IpamMode (is_Network (sp_Infra (cc_Spec newClaim)))) of
        Some err \<Rightarrow> ([], Some err)
      | None \<Rightarrow> (case validateIpamModeImmutable ''spec.client.network.ipamMode''
             (clientIpamMode oldClaim) (clientIpamMode newClaim) of
          Some err \<Rightarrow> ([], Some err)
        | None \<Rightarrow> ([], None)))"

definition ValidateDelete :: "ClusterClaim \<Rightarrow> string list \<times> goerror option" where
  "ValidateDelete c = ([], None)"

text \<open>
  The stored claim evolves by admitted updates. What the webhook is for is stated over such
  histories, not over single requests.
\<close>

abbreviation infraIpamMode :: "ClusterClaim \<Rightarrow> string" where
  "infraIpamMode c \<equiv> nc_IpamMode (is_Network (sp_Infra (cc_Spec c)))"

inductive admitted :: "ClusterClaim \<Rightarrow> ClusterClaim \<Rightarrow> bool" where
  admitted_create: "snd (ValidateCreate c) = None \<Longrightarrow> admitted c c"
| admitted_update: "admitted c d \<Longrightarrow> snd (ValidateUpdate d e) = None \<Longrightarrow> admitted c e"

inductive_cases admittedE: "admitted c d"

lemma validateIpamMode_None [simp]:
  "validateIpamModeImmutable f old new = None \<longleftrightarrow> old = [] \<or> old = new"
  by (auto simp: validateIpamModeImmutable_def)

lemma ValidateUpdate_iff:
  "snd (ValidateUpdate c d) = None \<longleftrightarrow>
     client_enabled c = client_enabled d \<and>
     (infraIpamMode c = [] \<or> infraIpamMode c = infraIpamMode d) \<and>
     (clientIpamMode c = [] \<or> clientIpamMode c = clientIpamMode d)"
  by (auto simp: ValidateUpdate_def validateIpamModeImmutable_def)

text \<open>
  What a field guarded by the webhook promises: a relation between the old and the new value that
  every admitted update satisfies. If it is reflexive and transitive, it holds along every history.
\<close>

locale guarded_field =
  fixes field :: "ClusterClaim \<Rightarrow> 'v" and ok :: "'v \<Rightarrow> 'v \<Rightarrow> bool"
  assumes ok_refl: "ok v v"
    and ok_trans: "ok u v \<Longrightarrow> ok v w \<Longrightarrow> ok u w"
    and update_ok: "snd (ValidateUpdate c d) = None \<Longrightarrow> ok (field c) (field d)"
begin

lemma history_ok: "admitted c d \<Longrightarrow> ok (field c) (field d)"
  by (induction rule: admitted.induct) (auto intro: ok_refl ok_trans update_ok)

end

definition set_once :: "string \<Rightarrow> string \<Rightarrow> bool" where
  "set_once old new \<longleftrightarrow> old = [] \<or> old = new"

interpretation enabled_field: guarded_field client_enabled "(=)"
  by unfold_locales (auto simp: ValidateUpdate_iff)

interpretation infra_ipam: guarded_field infraIpamMode set_once
  by unfold_locales (auto simp: ValidateUpdate_iff set_once_def)

interpretation client_ipam: guarded_field clientIpamMode set_once
  by unfold_locales (auto simp: ValidateUpdate_iff set_once_def)

end
