(* ===== verification/Admission.thy ===== *)
theory Admission
  imports Schema Webhook
begin

text \<open>
  What the API server demands of a claim before it stores it: the schema of the spec
  (config/crd/bases/clusterclaim.in-cloud.io_clusterclaims.yaml,
      generated from the markers in clusterclaim_types.go), its
  transition rules, and the validating webhook. An empty optional string is omitted when a claim is encoded. The bounds
  of an int32 are those of its type.
\<close>

section \<open>The schema of the spec\<close>

definition ref_ok :: "TemplateRef \<Rightarrow> bool" where
  "ref_ok r \<longleftrightarrow> tr_Name r \<noteq> []"

definition optional_ok :: "('a \<Rightarrow> bool) \<Rightarrow> 'a option \<Rightarrow> bool" where
  "optional_ok P x = (case x of None \<Rightarrow> True | Some y \<Rightarrow> P y)"

definition dual_ok :: "DualTemplateRef \<Rightarrow> bool" where
  "dual_ok d \<longleftrightarrow> ref_ok (dr_Infra d) \<and> optional_ok ref_ok (dr_Client d)"

definition configuration_ok :: "ConfigurationSpec \<Rightarrow> bool" where
  "configuration_ok f \<longleftrightarrow> 1 \<le> sint (cf_CpuCount f) \<and> 1 \<le> sint (cf_DiskSize f) \<and> 1 \<le> sint (cf_Memory f)"

definition network_ok :: "NetworkConfig \<Rightarrow> bool" where
  "network_ok n \<longleftrightarrow> nc_ServiceCidr n \<noteq> [] \<and> nc_PodCidr n \<noteq> [] \<and> nc_ClusterDNS n \<noteq> [] \<and>
     1 \<le> sint (nc_KubeApiserverPort n) \<and> sint (nc_KubeApiserverPort n) \<le> 65535 \<and>
     nc_IpamMode n \<in> {[], ''cluster-pool'', ''multi-pool''}"

definition infra_ok :: "InfraSpec \<Rightarrow> bool" where
  "infra_ok i \<longleftrightarrow> is_Role i \<noteq> [] \<and> network_ok (is_Network i) \<and>
     list_all (\<lambda>e. cv_Version (snd e) \<noteq> []) (is_ComponentVersions i) \<and>
     list_all (\<lambda>e. av_Version (snd e) \<noteq> []) (is_AddonVersions i)"

definition client_ok :: "ClientSpec \<Rightarrow> bool" where
  "client_ok l \<longleftrightarrow> optional_ok network_ok (cl_Network l) \<and>
     list_all (\<lambda>e. cv_Version (snd e) \<noteq> []) (cl_ComponentVersions l)"

definition spec_ok :: "ClusterClaimSpec \<Rightarrow> bool" where
  "spec_ok s \<longleftrightarrow> ref_ok (sp_ObserveTemplateRef s) \<and> dual_ok (sp_CertificateSetTemplateRef s) \<and>
     dual_ok (sp_ClusterTemplateRef s) \<and> ref_ok (sp_CcmCsrTemplateRef s) \<and> dual_ok (sp_ClusterClassTemplateRef s) \<and>
     optional_ok dual_ok (sp_ConfigMapTemplateRef s) \<and> optional_ok ref_ok (sp_VaultClaimTemplateRef s) \<and>
     optional_ok ref_ok (sp_VaultSecretClaimTemplateRef s) \<and> optional_ok ref_ok (sp_S3BucketClaimTemplateRef s) \<and>
     1 \<le> sint (sp_Replicas s) \<and> configuration_ok (sp_Configuration s) \<and> infra_ok (sp_Infra s) \<and> client_ok (sp_Client s)"

section \<open>Updates\<close>

text \<open>
  The rules \<open>self == oldSelf\<close> of the schema. Such a rule is evaluated only if the field is there before and after the
  update: \<open>enabled\<close> always is, \<open>ipamMode\<close> and the network of the client are optional.
\<close>

definition equal_if_both :: "string \<Rightarrow> string \<Rightarrow> bool" where
  "equal_if_both old new \<longleftrightarrow> old = [] \<or> new = [] \<or> old = new"

definition transition_ok :: "ClusterClaim \<Rightarrow> ClusterClaim \<Rightarrow> bool" where
  "transition_ok old new \<longleftrightarrow> client_enabled old = client_enabled new \<and>
     equal_if_both (infraIpamMode old) (infraIpamMode new) \<and> equal_if_both (clientIpamMode old)
         (clientIpamMode new)"

text \<open>What the server stores: claims that were created, and then updated, with all three checks passed.\<close>

definition admits :: "ClusterClaim \<Rightarrow> ClusterClaim \<Rightarrow> bool" where
  "admits old new \<longleftrightarrow> spec_ok (cc_Spec new) \<and> transition_ok old new \<and> snd (ValidateUpdate old new) = None"

inductive stored :: "ClusterClaim \<Rightarrow> ClusterClaim \<Rightarrow> bool" where
  stored_create: "spec_ok (cc_Spec c) \<Longrightarrow> snd (ValidateCreate c) = None \<Longrightarrow> stored c c"
| stored_update: "stored c d \<Longrightarrow> admits d e \<Longrightarrow> stored c e"

inductive_cases storedE: "stored c d"

lemma stored_spec_ok: "stored c d \<Longrightarrow> spec_ok (cc_Spec d)"
  by (induction rule: stored.induct) (simp_all add: admits_def)

lemma stored_admitted: "stored c d \<Longrightarrow> admitted c d"
  by (induction rule: stored.induct) (auto simp: admits_def intro: admitted.intros)

text \<open>An update that leaves the spec as it is passes all checks.\<close>

lemma admits_same_spec: "spec_ok (cc_Spec c) \<Longrightarrow> cc_Spec d = cc_Spec c \<Longrightarrow> admits c d"
  by (simp add: admits_def transition_ok_def equal_if_both_def ValidateUpdate_iff clientIpamMode_def)

lemma ipam_rules: "set_once old new \<longleftrightarrow> equal_if_both old new \<and> (old \<noteq> [] \<longrightarrow> new \<noteq> [])"
  by (auto simp: set_once_def equal_if_both_def)

end
