(* ===== verification/Props_Admission.thy ===== *)
theory Props_Admission
  imports Sample Admission
begin

text \<open>
  Admission and the operator: what the webhook adds to the rules of the schema, and that the operator's own
  writes of a claim always pass both.
\<close>

section \<open>The webhook and the schema\<close>

text \<open>
  C16: What the webhook adds. The webhook admits an update exactly when the transition rules of the schema do and no
  ipamMode that was set is removed. The rules alone would let an ipamMode be removed and then set
  to another value, since they are evaluated only when the field is there before and after.
\<close>

theorem webhook_beyond_schema:
  "snd (ValidateUpdate old new) = None \<longleftrightarrow>
     transition_ok old new \<and> \<not> (infraIpamMode old \<noteq> [] \<and> infraIpamMode new = []) \<and>
     \<not> (clientIpamMode old \<noteq> [] \<and> clientIpamMode new = [])"
  using ipam_rules [of "infraIpamMode old" "infraIpamMode new"] ipam_rules [of "clientIpamMode old" "clientIpamMode new"]
  unfolding ValidateUpdate_iff transition_ok_def set_once_def by blast

section \<open>What the operator writes\<close>

text \<open>\<open>sends c x\<close>: if \<open>x\<close> writes a claim, it is \<open>c\<close> with other metadata or status.\<close>

definition sends :: "ClusterClaim \<Rightarrow> call \<Rightarrow> bool" where
  "sends c x = (case x of CUpdateClaim d e \<Rightarrow> same_target c d | _ \<Rightarrow> True)"

definition spec_kept :: "'w pst \<Rightarrow> 'w pst \<Rightarrow> bool" where
  "spec_kept s t \<longleftrightarrow> same_target (claim s) (claim t) \<and> extends (sends (claim s)) s t"

lemma sends_cong: "same_target c d \<Longrightarrow> sends d = sends c"
  by (auto simp: fun_eq_iff sends_def same_target_def split: call.splits)

interpretation rs: state_frame spec_kept
proof
  fix s t u :: "'w pst"
  show "spec_kept s s" by (simp add: spec_kept_def same_target_def)
  assume "spec_kept s t" "spec_kept t u"
  then show "spec_kept s u"
    using sends_cong [of "claim s" "claim t"] by (auto simp: spec_kept_def same_target_def intro: extends_trans)
qed

named_theorems spec_kept_rules "operations that leave the spec of the claim alone"

lemma spec_kept_ask: "(\<And>c a. sends c (k a)) \<Longrightarrow> state_io_rel spec_kept (ask f k)"
  by (auto simp: state_io_rel_def ask_def spec_kept_def extends_def same_target_def split: prod.splits)

lemma spec_kept_requests [spec_kept_rules]:
  "state_io_rel spec_kept (kGetSecret E k)" "state_io_rel spec_kept (kGet E g k)" "state_io_rel spec_kept (kUpdate E g k obj)"
  "state_io_rel spec_kept (kDelete E g k obj)" "state_io_rel spec_kept (kNewClient E cfg)"
  "state_io_rel spec_kept (kRemoteDelete E cl k)"
  unfolding kGetSecret_def kGet_def kUpdate_def kDelete_def kNewClient_def kRemoteDelete_def
  by (rule spec_kept_ask, simp add: sends_def)+

lemma spec_kept_claim_writes [spec_kept_rules]:
  "law_UpdateStatus (e_api E) \<Longrightarrow> state_io_rel spec_kept (kUpdateStatus E)"
  "law_UpdateClaim (e_api E) \<Longrightarrow> state_io_rel spec_kept (kUpdateClaim E)"
  by (auto simp: state_io_rel_def kUpdateStatus_def kUpdateClaim_def spec_kept_def extends_def sends_def law_UpdateStatus_def
      law_UpdateClaim_def split: prod.splits) (simp add: same_target_def | metis fst_conv snd_conv)+

lemma spec_kept_local [spec_kept_rules]:
  "state_io_rel spec_kept (kNow E)" "state_io_rel spec_kept getClaim" "state_io_rel spec_kept (event E t r m as)"
  "state_io_rel spec_kept State_Monad.get" "state_io_rel spec_kept (State_Monad.update (\<lambda>s. s\<lparr>cmgr := h s\<rparr>))"
  "(\<And>d. same_target d (f d)) \<Longrightarrow> state_io_rel spec_kept (modClaim f)"
  by (auto simp: state_io_rel_def k_defs spec_kept_def extends_def sends_def same_target_def split: prod.splits)

lemma spec_kept_setPhase [simp]: "same_target d (setPhase p d)"
  by (simp add: same_target_def setPhase_def)

lemma spec_kept_deletion [spec_kept_rules]:
  "state_io_rel spec_kept m \<Longrightarrow> state_io_rel spec_kept k \<Longrightarrow> state_io_rel spec_kept (orReturn m k)"
  "state_io_rel spec_kept (removeResourceFinalizer E g n ns)" "state_io_rel spec_kept (deleteResource E g n ns)"
  "state_io_rel spec_kept (deleteAndWait E g n ns)"
  "state_io_rel spec_kept (GetClient E secret)"
  unfolding orReturn_def removeResourceFinalizer_def deleteResource_def deleteAndWait_def GetClient_def lookupClient_def Let_def
  by (intro rs.keeps spec_kept_rules; assumption)+

lemma spec_kept_release [spec_kept_rules]:
  "state_io_rel spec_kept k \<Longrightarrow> state_io_rel spec_kept (releaseAndDelete E g n ns k)"
  "state_io_rel spec_kept k \<Longrightarrow> state_io_rel spec_kept (releaseAndWait E g n ns k)"
  unfolding releaseAndDelete_def releaseAndWait_def by (intro rs.keeps spec_kept_rules; assumption)+

lemma spec_kept_dependents [spec_kept_rules]:
  "state_io_rel spec_kept k \<Longrightarrow> state_io_rel spec_kept (deleteDependents E ns deps k)"
  by (induction deps) (auto intro: spec_kept_rules)

lemma spec_kept_reconcileDelete:
  assumes "law_UpdateStatus (e_api E)" and "law_UpdateClaim (e_api E)"
  shows "state_io_rel spec_kept (reconcileDelete E)"
  unfolding reconcileDelete_def deleteManaged_def deleteClusters_def deleteAfterInfra_def removeClaimFinalizer_def
    deleteRemoteConfigMaps_def deleteRemoteConfigMap_def updateStatusIfChanged_def Let_def
  by (intro rs.keeps spec_kept_rules assms) (simp_all add: same_target_def setPhase_def)

lemma spec_kept_live:
  assumes "law_UpdateStatus (e_api E)" and "law_UpdateClaim (e_api E)"
  shows "state_io_rel spec_kept (reconcilePaused E)" and "state_io_rel spec_kept (ensureFinalizer E)"
  unfolding reconcilePaused_def ensureFinalizer_def updateStatusIfChanged_def setCondition_def putCondition_def
  by (intro rs.keeps spec_kept_rules assms; simp add: same_target_def setPhase_def)+

lemma pipeline_sends: "pipeline_call E c x \<Longrightarrow> sends d x"
  by (cases x) (simp_all add: sends_def)

lemma Reconcile_sends:
  assumes "law_UpdateStatus (e_api E)" and "law_UpdateClaim (e_api E)"
    and "api_get_claim (e_api E) req (world s) = (Inr c, w)"
  shows "list_all (sends c) (new_calls s (snd (run_state (Reconcile E req) s)))"
proof -
  let ?u = "s\<lparr>world := w, calls := calls s @ [CGetClaim req (Inr c)], claim := c\<rparr>"
  let ?m = "if om_DeletionTimestamp (cc_Meta c) \<noteq> None then reconcileDelete E
      else if isPaused c then reconcilePaused E else orReturn (ensureFinalizer E) (executePipeline E)"
  have "extends (sends c) v (snd (run_state (executePipeline E) v))" for v
    using run_calls [of E v] by (rule extends_mono) (rule pipeline_sends)
  then have "wp (executePipeline E) (\<lambda>_ t. extends (sends c) ?u t) v" if "spec_kept ?u v" for v
    using that by (auto simp: wp_def case_prod_beta spec_kept_def intro: extends_trans)
  then have "wp (orReturn (ensureFinalizer E) (executePipeline E)) (\<lambda>_ t. extends (sends c) ?u t) ?u"
    unfolding orReturn_def
    by (intro wp_bindI [OF wp_io_rel [OF spec_kept_live(2) [OF assms(1,2)]]])
      (auto simp: wp_return spec_kept_def split: option.split)
  moreover have "wp m (\<lambda>_ t. extends (sends c) ?u t) ?u" if "state_io_rel spec_kept m" for m :: "('a,
      rec_out) pop"
    using wp_io_rel [OF that, of ?u] by (rule wp_mono) (simp add: spec_kept_def)
  ultimately have "wp ?m (\<lambda>_ t. extends (sends c) ?u t) ?u"
    using spec_kept_reconcileDelete [OF assms(1,2)] spec_kept_live(1) [OF assms(1,2)] by simp
  moreover have "snd (run_state (Reconcile E req) s) = snd (run_state ?m ?u)"
    using assms(3) by (simp add: Reconcile_def k_defs)
  ultimately show ?thesis
    by (auto simp: wp_def case_prod_beta extends_def new_calls_def sends_def)
qed

text \<open>
  C15: The operator is never locked out by its own webhook. Whenever a reconciliation of a claim that the server has stored
  writes the claim, to add its finalizer or to remove it, on whatever branch, the spec is the one it read,
      and so the
  schema, its transition rules and the webhook all admit the write.
\<close>

theorem own_updates_admitted:
  assumes "law_UpdateStatus (e_api E)" and "law_UpdateClaim (e_api E)" and "stored b c"
    and "api_get_claim (e_api E) req (world s) = (Inr c, w)"
    and "CUpdateClaim d e \<in> set (new_calls s (snd (run_state (Reconcile E req) s)))"
  shows "cc_Spec d = cc_Spec c \<and> admits c d"
proof -
  have "cc_Spec d = cc_Spec c"
    using Reconcile_sends [OF assms(1,2,4)] assms(5) by (auto simp: list_all_iff sends_def same_target_def)
  with stored_spec_ok [OF assms(3)] show ?thesis by (simp add: admits_same_spec)
qed

text \<open>A claim that does not have the finalizer yet.\<close>

definition claim_new :: ClusterClaim where
  "claim_new = claim0\<lparr>cc_Meta := meta0\<lparr>om_Finalizers := []\<rparr>\<rparr>"

definition E7 :: "unit env" where
  "E7 = E1\<lparr>e_api := A1\<lparr>api_get_claim := (\<lambda>k w. (Inr claim_new, w))\<rparr>\<rparr>"

lemma claim_new_stored: "stored claim_new claim_new"
  by (rule stored_create)
    (simp_all add: claim_new_def claim0_def spec0_def net0_def spec_ok_def ref_ok_def dual_ok_def optional_ok_def configuration_ok_def
      network_ok_def infra_ok_def client_ok_def ValidateCreate_def)

lemma E7_writes: "CUpdateClaim claim0 None \<in> set (new_calls (start claim0) (snd (run_state (Reconcile E7 req)
    (start claim0))))"
proof -
  let ?v = "(start claim0)\<lparr>calls := [CGetClaim req (Inr claim_new), CUpdateClaim claim0 None]\<rparr>"
  have E: "e_lib E7 = L0" "api_get_claim (e_api E7) k w = (Inr claim_new,
      w)" "api_update_claim (e_api E7) d w = ((None, d), w)"
    "AddFinalizer L0 [] f = ([f], True)" for k w d f
    by (simp_all add: E7_def A1_def L0_def)
  have "snd (run_state (Reconcile E7 req) (start claim0)) = snd (run_state (executePipeline E7) ?v)"
    by (simp add: Reconcile_def ensureFinalizer_def orReturn_def k_defs E start_def isPaused_def claim_new_def claim0_def meta0_def)
  then show ?thesis
    using run_calls [of E7 ?v] by (auto simp: new_calls_def extends_def)
qed

theorem own_updates_admitted_witness:
  "CUpdateClaim claim0 None \<in> set (new_calls (start claim0)
      (snd (run_state (Reconcile E7 (key_of ''demo'' ''team'')) (start claim0)))) \<and>
   om_Finalizers (cc_Meta claim_new) = [] \<and> om_Finalizers (cc_Meta claim0) = [ClusterClaimFinalizer] \<and> admits claim_new claim0"
proof -
  have "law_UpdateStatus (e_api E7)" "law_UpdateClaim (e_api E7)"
    by (simp_all add: law_UpdateStatus_def law_UpdateClaim_def same_target_def E7_def A1_def)
  moreover have "api_get_claim (e_api E7) (key_of ''demo'' ''team'') (world (start claim0)) = (Inr claim_new,
      ())"
    by (simp add: E7_def)
  ultimately have "admits claim_new claim0"
    using own_updates_admitted [OF _ _ claim_new_stored _ E7_writes] by blast
  then show ?thesis using E7_writes by (simp add: claim_new_def claim0_def meta0_def)
qed

end
