(* ===== verification/Go_Heap.thy ===== *)
theory Go_Heap
  imports Go_Prelude
begin

text \<open>
  Go's memory, as far as copying of structures needs it: a heap of cells, pointers, slices and maps
  that refer to cells, and the contract of a deep copy. A heap is the list of the cells allocated so
  far, an address is a position in it; \<open>new\<close> and \<open>make\<close> append a cell. The rest of the
  development works with values; this theory and the ones on deep copies justify that where the code
  keeps a snapshot of a structure that it goes on to change in place.
\<close>

type_synonym addr = nat

section \<open>Cells\<close>

definition load :: "addr \<Rightarrow> ('c list, 'c) state" where
  "load a = do { h \<leftarrow> State_Monad.get; ret (h ! a) }"

definition store :: "addr \<Rightarrow> 'c \<Rightarrow> ('c list, unit) state" where
  "store a c = State_Monad.update (\<lambda>h. h[a := c])"

definition alloc :: "'c \<Rightarrow> ('c list, addr) state" where
  "alloc c = State (\<lambda>h. (length h, h @ [c]))"

lemma run_load [simp]: "run_state (load a) h = (h ! a, h)"
  by (simp add: load_def)

lemma run_store [simp]: "run_state (store a c) h = ((), h[a := c])"
  by (simp add: store_def)

lemma run_alloc [simp]: "run_state (alloc c) h = (length h, h @ [c])"
  by (simp add: alloc_def)

text \<open>A slice header: backing array, offset, length. A slice or a map is \<open>None\<close> when it is nil.\<close>

record slice =
  sl_array :: addr
  sl_off :: nat
  sl_len :: nat

definition window :: "slice \<Rightarrow> 'a list \<Rightarrow> 'a list" where
  "window s xs = take (sl_len s) (drop (sl_off s) xs)"

primrec for_each :: "('a \<Rightarrow> ('s, 'b) state) \<Rightarrow> 'a list \<Rightarrow> ('s, 'b list) state" where
  "for_each f [] = ret []"
| "for_each f (x # xs) = do { y \<leftarrow> f x; ys \<leftarrow> for_each f xs; ret (y # ys) }"

section \<open>Copying references\<close>

text \<open>
  \<open>C\<close> is the constructor of the cells of a type and \<open>sel\<close> its selector; \<open>into\<close> is the
  \<open>DeepCopyInto\<close> of the type: from the contents of \<open>*in\<close> it makes those of \<open>*out\<close>.

  \<open>out := new(T); in.DeepCopyInto(out)\<close>, where \<open>DeepCopyInto\<close> starts with \<open>*out = *in\<close>
  and then gives the reference fields copies of their own:
\<close>

definition new_copy :: "('v \<Rightarrow> 'c) \<Rightarrow> ('v \<Rightarrow> ('c list, 'v) state) \<Rightarrow> 'v \<Rightarrow> ('c list, addr) state" where
  "new_copy C into v = do {
     b \<leftarrow> alloc (C v);
     w \<leftarrow> into v;
     store b (C w);
     ret b
   }"

text \<open>
  A reference \<open>r\<close> to the cell \<open>at r\<close>, of which it shows \<open>view r\<close>; \<open>mk r b\<close> is the
  reference to the new cell \<open>b\<close>. A nil reference stays nil.
\<close>

definition copy_ref ::
  "('r \<Rightarrow> addr) \<Rightarrow> ('r \<Rightarrow> 'c \<Rightarrow> 'v) \<Rightarrow> ('r \<Rightarrow> addr \<Rightarrow> 'r) \<Rightarrow> ('v \<Rightarrow> 'c) \<Rightarrow> ('v \<Rightarrow> ('c list, 'v) state) \<Rightarrow>
   'r option \<Rightarrow> ('c list, 'r option) state" where
  "copy_ref at view mk C into p = (case p of
     None \<Rightarrow> ret None
   | Some r \<Rightarrow> do {
       c \<leftarrow> load (at r);
       b \<leftarrow> new_copy C into (view r c);
       ret (Some (mk r b))
     })"

text \<open>\<open>*out = new(T); (*in).DeepCopyInto(*out)\<close>, or \<open>**out = **in\<close> when \<open>into\<close> is \<open>ret\<close>:\<close>

definition copy_ptr ::
  "('v \<Rightarrow> 'c) \<Rightarrow> ('c \<Rightarrow> 'v) \<Rightarrow> ('v \<Rightarrow> ('c list, 'v) state) \<Rightarrow> addr option \<Rightarrow> ('c list, addr option) state" where
  "copy_ptr C sel = copy_ref (\<lambda>a. a) (\<lambda>a. sel) (\<lambda>a b. b) C"

text \<open>\<open>*out = make([]T, len(*in))\<close>, then \<open>(*in)[i].DeepCopyInto(&(*out)[i])\<close> for every index:\<close>

definition copy_slice ::
  "('v list \<Rightarrow> 'c) \<Rightarrow> ('c \<Rightarrow> 'v list) \<Rightarrow> ('v \<Rightarrow> ('c list, 'v) state) \<Rightarrow> slice option \<Rightarrow> ('c list, slice option) state" where
  "copy_slice C sel into =
     copy_ref sl_array (\<lambda>s c. window s (sel c)) (\<lambda>s b. \<lparr>sl_array = b, sl_off = 0, sl_len = sl_len s\<rparr>) C (for_each into)"

text \<open>
  \<open>*out = make(map[string]T, len(*in))\<close>, then every entry is written. A map is the list of its
  entries, whose keys are distinct; the copy lists them in the same order, which has no meaning.
\<close>

definition copy_entry :: "('v \<Rightarrow> ('s, 'v) state) \<Rightarrow> string \<times> 'v \<Rightarrow> ('s, string \<times> 'v) state" where
  "copy_entry into e = do { w \<leftarrow> into (snd e); ret (fst e, w) }"

definition copy_map ::
  "((string \<times> 'v) list \<Rightarrow> 'c) \<Rightarrow> ('c \<Rightarrow> (string \<times> 'v) list) \<Rightarrow> ('v \<Rightarrow> ('c list, 'v) state) \<Rightarrow> addr option \<Rightarrow>
   ('c list, addr option) state" where
  "copy_map C sel into = copy_ref (\<lambda>a. a) (\<lambda>a. sel) (\<lambda>a b. b) C (for_each (copy_entry into))"

section \<open>Layouts\<close>

text \<open>
  The layout of a type in memory: \<open>l_ok\<close> says that all references of a structure lead to cells of
  the right type, \<open>l_reach\<close> is the set of cells it consists of, \<open>l_val\<close> the value it stands for.
\<close>

record ('c, 'v, 'a) layout =
  l_ok :: "'c list \<Rightarrow> 'v \<Rightarrow> bool"
  l_reach :: "'c list \<Rightarrow> 'v \<Rightarrow> addr set"
  l_val :: "'c list \<Rightarrow> 'v \<Rightarrow> 'a"

text \<open>Values without references; two structures; the parts \<open>get x\<close> of a struct \<open>x\<close>; several.\<close>

definition plain :: "('v \<Rightarrow> 'a) \<Rightarrow> ('c, 'v, 'a) layout" where
  "plain f = \<lparr>l_ok = \<lambda>h x. True, l_reach = \<lambda>h x. {}, l_val = \<lambda>h x. f x\<rparr>"

definition both :: "('c, 'v, 'a) layout \<Rightarrow> ('c, 'w, 'b) layout \<Rightarrow> ('c, 'v \<times> 'w, 'a \<times> 'b) layout" where
  "both L M = \<lparr>l_ok = \<lambda>h p. l_ok L h (fst p) \<and> l_ok M h (snd p),
     l_reach = \<lambda>h p. l_reach L h (fst p) \<union> l_reach M h (snd p),
     l_val = \<lambda>h p. (l_val L h (fst p), l_val M h (snd p))\<rparr>"

definition struct :: "('x \<Rightarrow> 'v) \<Rightarrow> ('x \<Rightarrow> 'a \<Rightarrow> 'b) \<Rightarrow> ('c, 'v, 'a) layout \<Rightarrow> ('c, 'x, 'b) layout" where
  "struct get G L = \<lparr>l_ok = \<lambda>h x. l_ok L h (get x), l_reach = \<lambda>h x. l_reach L h (get x),
     l_val = \<lambda>h x. G x (l_val L h (get x))\<rparr>"

definition list_of :: "('c, 'v, 'a) layout \<Rightarrow> ('c, 'v list, 'a list) layout" where
  "list_of L = \<lparr>l_ok = \<lambda>h xs. list_all (l_ok L h) xs, l_reach = \<lambda>h xs. \<Union> (set (map (l_reach L h) xs)),
     l_val = \<lambda>h xs. map (l_val L h) xs\<rparr>"

text \<open>References: \<open>typ\<close> tests that a cell is one the reference may point to.\<close>

definition ref_to ::
  "('r \<Rightarrow> addr) \<Rightarrow> ('r \<Rightarrow> 'c \<Rightarrow> 'v) \<Rightarrow> ('r \<Rightarrow> 'c \<Rightarrow> bool) \<Rightarrow> ('c, 'v, 'a) layout \<Rightarrow> ('c, 'r option, 'a option) layout" where
  "ref_to at view typ L = \<lparr>
     l_ok = \<lambda>h p. (case p of None \<Rightarrow> True
       | Some r \<Rightarrow> at r < length h \<and> typ r (h ! at r) \<and> l_ok L h (view r (h ! at r))),
     l_reach = \<lambda>h p. (case p of None \<Rightarrow> {} | Some r \<Rightarrow> insert (at r) (l_reach L h (view r (h ! at r)))),
     l_val = \<lambda>h p. map_option (\<lambda>r. l_val L h (view r (h ! at r))) p\<rparr>"

definition ptr_to :: "('v \<Rightarrow> 'c) \<Rightarrow> ('c \<Rightarrow> 'v) \<Rightarrow> ('c, 'v, 'a) layout \<Rightarrow> ('c, addr option, 'a option) layout" where
  "ptr_to C sel = ref_to (\<lambda>a. a) (\<lambda>a. sel) (\<lambda>a c. c = C (sel c))"

definition slice_of ::
  "('v list \<Rightarrow> 'c) \<Rightarrow> ('c \<Rightarrow> 'v list) \<Rightarrow> ('c, 'v, 'a) layout \<Rightarrow> ('c, slice option, 'a list option) layout" where
  "slice_of C sel L = ref_to sl_array (\<lambda>s c. window s (sel c))
     (\<lambda>s c. c = C (sel c) \<and> sl_off s + sl_len s \<le> length (sel c)) (list_of L)"

definition map_of_entries ::
  "((string \<times> 'v) list \<Rightarrow> 'c) \<Rightarrow> ('c \<Rightarrow> (string \<times> 'v) list) \<Rightarrow> ('c, 'v, 'a) layout \<Rightarrow>
   ('c, addr option, (string \<times> 'a) list option) layout" where
  "map_of_entries C sel L = ref_to (\<lambda>a. a) (\<lambda>a. sel) (\<lambda>a c. c = C (sel c) \<and> distinct (map fst (sel c)))
     (list_of (struct snd (\<lambda>e v. (fst e, v)) L))"

lemmas layout_defs = plain_def both_def struct_def list_of_def ref_to_def ptr_to_def slice_of_def map_of_entries_def

section \<open>The contract of a deep copy\<close>

text \<open>\<open>agree A h h'\<close>: the cells at \<open>A\<close> exist in both heaps and are the same.\<close>

definition agree :: "addr set \<Rightarrow> 'c list \<Rightarrow> 'c list \<Rightarrow> bool" where
  "agree A h h' \<longleftrightarrow> (\<forall>a\<in>A. a < length h \<and> a < length h' \<and> h' ! a = h ! a)"

lemma agree_Un [simp]: "agree (A \<union> B) h h' \<longleftrightarrow> agree A h h' \<and> agree B h h'"
  by (auto simp: agree_def)

lemma agree_insert [simp]: "agree (insert a A) h h' \<longleftrightarrow> a < length h \<and> a < length h' \<and> h' ! a = h ! a \<and> agree A h h'"
  by (auto simp: agree_def)

lemma agree_Union: "agree (\<Union> (f ` set xs)) h h' \<longleftrightarrow> list_all (\<lambda>x. agree (f x) h h') xs"
  by (auto simp: agree_def list_all_iff)

text \<open>
  Only the cells reached matter to a structure. A deep copy only allocates; what it returns stands
  for the same value and consists of new cells.
\<close>

locale memory_layout =
  fixes L :: "('c, 'v, 'a) layout"
  assumes reach_ok: "l_ok L h x \<Longrightarrow> a \<in> l_reach L h x \<Longrightarrow> a < length h"
    and frame: "l_ok L h x \<Longrightarrow> agree (l_reach L h x) h h' \<Longrightarrow>
      l_ok L h' x \<and> l_reach L h' x = l_reach L h x \<and> l_val L h' x = l_val L h x"
begin

lemma frame_append:
  assumes "l_ok L h x"
  shows "l_ok L (h @ k) x \<and> l_reach L (h @ k) x = l_reach L h x \<and> l_val L (h @ k) x = l_val L h x"
proof -
  have "agree (l_reach L h x) h (h @ k)"
    using reach_ok [OF assms] by (simp add: agree_def nth_append trans_less_add1)
  with frame [OF assms] show ?thesis by simp
qed

text \<open>Writes to other cells do not show.\<close>

lemma frame_disjoint:
  assumes "l_ok L h x" and "length h \<le> length g" and "\<And>a. a \<in> l_reach L h x \<Longrightarrow> g ! a = h ! a"
  shows "l_ok L g x \<and> l_reach L g x = l_reach L h x \<and> l_val L g x = l_val L h x"
proof -
  have "a < length g" if "a \<in> l_reach L h x" for a
    using reach_ok [OF assms(1) that] assms(2) by simp
  then have "agree (l_reach L h x) h g" using assms(3) reach_ok [OF assms(1)] by (simp add: agree_def)
  with frame [OF assms(1)] show ?thesis by simp
qed

end

locale deep_copy = memory_layout L for L :: "('c, 'v, 'a) layout" +
  fixes copy :: "'v \<Rightarrow> ('c list, 'v) state"
  assumes copies: "l_ok L h x \<Longrightarrow> run_state (copy x) h = (y, h') \<Longrightarrow>
      (\<exists>k. h' = h @ k) \<and> l_ok L h' y \<and> l_val L h' y = l_val L h x \<and> (\<forall>a\<in>l_reach L h' y. length h \<le> a)"
begin

text \<open>What the code relies on: no write to a cell that existed before the copy shows in the copy.\<close>

lemma copy_isolated:
  assumes "l_ok L h x" and "run_state (copy x) h = (y, h')" and "length h' \<le> length g"
    and "\<And>a. length h \<le> a \<Longrightarrow> a < length h' \<Longrightarrow> g ! a = h' ! a"
  shows "l_ok L g y \<and> l_val L g y = l_val L h x"
proof -
  have c: "l_ok L h' y" "l_val L h' y = l_val L h x" "\<And>a. a \<in> l_reach L h' y \<Longrightarrow> length h \<le> a"
    using copies [OF assms(1,2)] by auto
  have "g ! a = h' ! a" if "a \<in> l_reach L h' y" for a
    using assms(4) c(3) [OF that] reach_ok [OF c(1) that] by blast
  from frame_disjoint [OF c(1) assms(3) this] c(2) show ?thesis by simp
qed

text \<open>And no write to the cells of the copy shows in the original.\<close>

lemma original_isolated:
  assumes "l_ok L h x" and "run_state (copy x) h = (y, h')" and "length h \<le> length g"
    and "\<And>a. a < length h \<Longrightarrow> g ! a = h ! a"
  shows "l_ok L g x \<and> l_val L g x = l_val L h x"
  using frame_disjoint [OF assms(1,3)] assms(4) reach_ok [OF assms(1)] by blast

text \<open>The copy in a cell of its own.\<close>

lemma new_copy_copies:
  assumes "l_ok L h x" and "run_state (new_copy C copy x) h = (b, h')"
  obtains y k where "h' = h @ k" "length h = b" "b < length h'" "h' ! b = C y" "l_ok L h' y"
    "l_val L h' y = l_val L h x" "\<forall>a\<in>l_reach L h' y. b < a"
proof -
  let ?h1 = "h @ [C x]"
  obtain y h2 where run: "run_state (copy x) ?h1 = (y, h2)" by (cases "run_state (copy x) ?h1")
  then have b: "b = length h" "h' = h2[length h := C y]" using assms(2) by (auto simp: new_copy_def)
  obtain k where k: "h2 = ?h1 @ k" "l_ok L h2 y" "l_val L h2 y = l_val L ?h1 x" "\<forall>a\<in>l_reach L h2 y. length ?h1 \<le> a"
    using copies [OF _ run] frame_append [OF assms(1)] by blast
  have h': "h' = h @ C y # k" using b k(1) by (simp add: list_update_append)
  have "h' ! a = h2 ! a" if "a \<in> l_reach L h2 y" for a
    using k(4) that b(2) by (metis Suc_n_not_le_n length_append_singleton nth_list_update_neq)
  then have "l_ok L h' y \<and> l_reach L h' y = l_reach L h2 y \<and> l_val L h' y = l_val L h2 y"
    by (intro frame_disjoint [OF k(2)]) (simp_all add: b(2))
  moreover have "l_val L ?h1 x = l_val L h x" using frame_append [OF assms(1)] by simp
  ultimately show thesis using that [of "C y # k" y] h' b(1) k(3,4) by (auto simp: Suc_le_eq)
qed

end

section \<open>Deep copies of composed types\<close>

lemma deep_copy_plain: "deep_copy (plain f) ret"
  by unfold_locales (auto simp: plain_def)

definition copy_both :: "('v \<Rightarrow> ('s, 'v) state) \<Rightarrow> ('w \<Rightarrow> ('s, 'w) state) \<Rightarrow> 'v \<times> 'w \<Rightarrow> ('s, 'v \<times> 'w) state" where
  "copy_both f g p = do { x \<leftarrow> f (fst p); y \<leftarrow> g (snd p); ret (x, y) }"

lemma layout_both:
  assumes "memory_layout L" and "memory_layout M"
  shows "memory_layout (both L M)"
proof
  fix h x and a :: addr
  assume "l_ok (both L M) h x" "a \<in> l_reach (both L M) h x"
  then show "a < length h"
    using memory_layout.reach_ok [OF assms(1), of h "fst x" a] memory_layout.reach_ok [OF assms(2), of h "snd x" a]
    by (auto simp: both_def)
next
  fix h x h'
  assume "l_ok (both L M) h x" and "agree (l_reach (both L M) h x) h h'"
  then show "l_ok (both L M) h' x \<and> l_reach (both L M) h' x = l_reach (both L M) h x \<and> l_val (both L M) h' x = l_val (both L M) h x"
    using memory_layout.frame [OF assms(1), of h "fst x" h'] memory_layout.frame [OF assms(2), of h "snd x" h']
    by (simp add: both_def)
qed

lemma deep_copy_both:
  assumes "deep_copy L f" and "deep_copy M g"
  shows "deep_copy (both L M) (copy_both f g)"
proof (rule deep_copy.intro [OF layout_both], goal_cases)
  case 3
  show ?case
  proof
    fix h x y h'
    assume ok: "l_ok (both L M) h x" and run: "run_state (copy_both f g x) h = (y, h')"
    obtain y1 h1 where 1: "run_state (f (fst x)) h = (y1, h1)" by (cases "run_state (f (fst x)) h")
    obtain y2 h2 where 2: "run_state (g (snd x)) h1 = (y2, h2)" by (cases "run_state (g (snd x)) h1")
    have y: "y = (y1, y2)" "h' = h2" using run 1 2 by (auto simp: copy_both_def)
    obtain k1 where k1: "h1 = h @ k1" "l_ok L h1 y1" "l_val L h1 y1 = l_val L h (fst x)" "\<forall>a\<in>l_reach L h1 y1. length h \<le> a"
      using deep_copy.copies [OF assms(1) _ 1] ok by (auto simp: both_def)
    have s: "l_ok M h1 (snd x)" "l_val M h1 (snd x) = l_val M h (snd x)"
      using memory_layout.frame_append [OF deep_copy.axioms(1) [OF assms(2)], of h "snd x" k1] ok k1(1) by (auto simp: both_def)
    obtain k2 where k2: "h2 = h1 @ k2" "l_ok M h2 y2" "l_val M h2 y2 = l_val M h1 (snd x)" "\<forall>a\<in>l_reach M h2 y2. length h1 \<le> a"
      using deep_copy.copies [OF assms(2) s(1) 2] by auto
    have "l_ok L h2 y1 \<and> l_reach L h2 y1 = l_reach L h1 y1 \<and> l_val L h2 y1 = l_val L h1 y1"
      using memory_layout.frame_append [OF deep_copy.axioms(1) [OF assms(1)] k1(2)] k2(1) by simp
    with k1 k2 s y show "(\<exists>k. h' = h @ k) \<and> l_ok (both L M) h' y \<and> l_val (both L M) h' y = l_val (both L M) h x \<and>
        (\<forall>a\<in>l_reach (both L M) h' y. length h \<le> a)"
      by (auto simp: both_def)
  qed
qed (use assms in \<open>auto dest: deep_copy.axioms\<close>)

text \<open>
  A struct: \<open>get\<close> are its reference parts, \<open>put\<close> replaces them, \<open>G\<close> makes its value from the
  rest and the values of those parts.
\<close>

lemma layout_struct: "memory_layout L \<Longrightarrow> memory_layout (struct get G L)"
  by unfold_locales (auto simp: struct_def dest: memory_layout.reach_ok memory_layout.frame)

lemma deep_copy_struct:
  assumes "deep_copy L c" and "\<And>u x. get (put u x) = u" and "\<And>u x. G (put u x) = G x"
    and "\<And>x. into x = do { u \<leftarrow> c (get x); ret (put u x) }"
  shows "deep_copy (struct get G L) into"
proof (rule deep_copy.intro [OF layout_struct], goal_cases)
  case 2
  show ?case
  proof
    fix h x y h'
    assume ok: "l_ok (struct get G L) h x" and "run_state (into x) h = (y, h')"
    then obtain u where "run_state (c (get x)) h = (u, h')" "y = put u x" by (auto simp: assms(4) split: prod.splits)
    with deep_copy.copies [OF assms(1), of h "get x" u h'] ok assms(2,3)
    show "(\<exists>k. h' = h @ k) \<and> l_ok (struct get G L) h' y \<and> l_val (struct get G L) h' y = l_val (struct get G L) h x \<and>
        (\<forall>a\<in>l_reach (struct get G L) h' y. length h \<le> a)"
      by (auto simp: struct_def)
  qed
qed (use assms(1) in \<open>auto dest: deep_copy.axioms\<close>)

text \<open>Lists, element by element.\<close>

lemma layout_list:
  assumes "memory_layout L"
  shows "memory_layout (list_of L)"
proof
  fix h xs and a :: addr
  assume "l_ok (list_of L) h xs" "a \<in> l_reach (list_of L) h xs"
  then show "a < length h"
    using memory_layout.reach_ok [OF assms, of h _ a] by (auto simp: list_of_def list_all_iff)
next
  fix h xs h'
  assume "l_ok (list_of L) h xs" and "agree (l_reach (list_of L) h xs) h h'"
  then have "\<forall>x\<in>set xs. l_ok L h' x \<and> l_reach L h' x = l_reach L h x \<and> l_val L h' x = l_val L h x"
    using memory_layout.frame [OF assms, of h _ h'] by (auto simp: list_of_def agree_Union list_all_iff)
  then show "l_ok (list_of L) h' xs \<and> l_reach (list_of L) h' xs = l_reach (list_of L) h xs \<and> l_val (list_of L) h' xs = l_val (list_of L) h xs"
    by (simp add: list_of_def list_all_iff)
qed

lemma for_each_copies:
  assumes "deep_copy L f"
  shows "l_ok (list_of L) h xs \<Longrightarrow> run_state (for_each f xs) h = (ys, h') \<Longrightarrow>
    (\<exists>k. h' = h @ k) \<and> l_ok (list_of L) h' ys \<and> l_val (list_of L) h' ys = l_val (list_of L) h xs \<and>
    (\<forall>a\<in>l_reach (list_of L) h' ys. length h \<le> a)"
proof (induction xs arbitrary: h ys)
  case Nil
  then show ?case by (auto simp: list_of_def)
next
  case (Cons x xs)
  note app = memory_layout.frame_append [OF deep_copy.axioms(1) [OF assms]]
  obtain y h1 where 1: "run_state (f x) h = (y, h1)" by (cases "run_state (f x) h")
  obtain zs where 2: "run_state (for_each f xs) h1 = (zs, h')" "ys = y # zs"
    using Cons.prems(2) 1 by (auto split: prod.splits)
  obtain k1 where k1: "h1 = h @ k1" "l_ok L h1 y" "l_val L h1 y = l_val L h x" "\<forall>a\<in>l_reach L h1 y. length h \<le> a"
    using deep_copy.copies [OF assms _ 1] Cons.prems(1) by (auto simp: list_of_def)
  have s: "l_ok (list_of L) h1 xs" "l_val (list_of L) h1 xs = l_val (list_of L) h xs"
    using memory_layout.frame_append [OF layout_list [OF deep_copy.axioms(1) [OF assms]], of h xs k1] Cons.prems(1) k1(1)
    by (auto simp: list_of_def)
  obtain k2 where k2: "h' = h1 @ k2" "l_ok (list_of L) h' zs" "l_val (list_of L) h' zs = l_val (list_of L) h1 xs"
      "\<forall>a\<in>l_reach (list_of L) h' zs. length h1 \<le> a"
    using Cons.IH [OF s(1) 2(1)] by blast
  have "l_ok L h' y \<and> l_reach L h' y = l_reach L h1 y \<and> l_val L h' y = l_val L h1 y"
    using app [OF k1(2)] k2(1) by simp
  moreover have "\<forall>a\<in>l_reach (list_of L) h' zs. length h \<le> a" using k2(4) k1(1) by fastforce
  ultimately show ?case using k1 k2(1-3) s 2(2) by (auto simp: list_of_def)
qed

lemma deep_copy_list: "deep_copy L f \<Longrightarrow> deep_copy (list_of L) (for_each f)"
  by (rule deep_copy.intro [OF layout_list deep_copy_axioms.intro [OF for_each_copies]])
    (rule deep_copy.axioms(1), assumption+)

text \<open>
  References. The copy of what a reference shows is itself a cell that the new reference may point
  to, which is where the value that is copied matters (lengths, keys).
\<close>

lemma layout_ref:
  assumes "memory_layout L"
  shows "memory_layout (ref_to at view typ L)"
proof
  fix h p and a :: addr
  assume "l_ok (ref_to at view typ L) h p" "a \<in> l_reach (ref_to at view typ L) h p"
  then show "a < length h"
    using memory_layout.reach_ok [OF assms, of h _ a] by (auto simp: ref_to_def split: option.splits)
next
  fix h p h'
  assume "l_ok (ref_to at view typ L) h p" and "agree (l_reach (ref_to at view typ L) h p) h h'"
  then show "l_ok (ref_to at view typ L) h' p \<and> l_reach (ref_to at view typ L) h' p = l_reach (ref_to at view typ L) h p \<and>
      l_val (ref_to at view typ L) h' p = l_val (ref_to at view typ L) h p"
    using memory_layout.frame [OF assms, of h _ h'] by (cases p) (simp_all add: ref_to_def)
qed

lemma deep_copy_ref:
  assumes "deep_copy L into" and at: "\<And>r b. at (mk r b) = b"
    and mk: "\<And>h h' r c w b. typ r c \<Longrightarrow> l_val L h' w = l_val L h (view r c) \<Longrightarrow>
      typ (mk r b) (C w) \<and> view (mk r b) (C w) = w"
  shows "deep_copy (ref_to at view typ L) (copy_ref at view mk C into)"
proof (rule deep_copy.intro [OF layout_ref], goal_cases)
  case 2
  show ?case
  proof
    fix h p q h'
    assume ok: "l_ok (ref_to at view typ L) h p" and run: "run_state (copy_ref at view mk C into p) h = (q, h')"
    show "(\<exists>k. h' = h @ k) \<and> l_ok (ref_to at view typ L) h' q \<and>
        l_val (ref_to at view typ L) h' q = l_val (ref_to at view typ L) h p \<and>
        (\<forall>a\<in>l_reach (ref_to at view typ L) h' q. length h \<le> a)"
    proof (cases p)
      case None
      with run show ?thesis by (simp add: copy_ref_def ref_to_def)
    next
      case (Some r)
      then obtain b where b: "run_state (new_copy C into (view r (h ! at r))) h = (b, h')" "q = Some (mk r b)"
        using run by (auto simp: copy_ref_def split: prod.splits)
      have r: "at r < length h" "typ r (h ! at r)" "l_ok L h (view r (h ! at r))"
        using ok Some by (simp_all add: ref_to_def)
      obtain y k where y: "h' = h @ k" "length h = b" "b < length h'" "h' ! b = C y" "l_ok L h' y"
          "l_val L h' y = l_val L h (view r (h ! at r))" "\<forall>a\<in>l_reach L h' y. b < a"
        using deep_copy.new_copy_copies [OF assms(1) r(3) b(1)] .
      with mk [OF r(2) y(6), of b] at [of r b] b(2) Some show ?thesis by (auto simp: ref_to_def)
    qed
  qed
qed (use assms(1) in \<open>auto dest: deep_copy.axioms\<close>)

lemma deep_copy_ptr:
  assumes "deep_copy L into" and "\<And>v. sel (C v) = v"
  shows "deep_copy (ptr_to C sel L) (copy_ptr C sel into)"
  unfolding ptr_to_def copy_ptr_def by (rule deep_copy_ref [OF assms(1)]) (simp_all add: assms(2))

lemma deep_copy_slice:
  assumes "deep_copy L into" and "\<And>vs. sel (C vs) = vs"
  shows "deep_copy (slice_of C sel L) (copy_slice C sel into)"
  unfolding slice_of_def copy_slice_def
proof (rule deep_copy_ref [OF deep_copy_list [OF assms(1)]], goal_cases)
  case (2 h h' s c w b)
  then have "length w = sl_len s" by (auto simp: list_of_def window_def dest: map_eq_imp_length_eq)
  then show ?case by (simp add: assms(2) window_def)
qed simp

lemma deep_copy_map:
  assumes "deep_copy L into" and "\<And>m. sel (C m) = m"
  shows "deep_copy (map_of_entries C sel L) (copy_map C sel into)"
  unfolding map_of_entries_def copy_map_def
proof (rule deep_copy_ref [OF deep_copy_list [OF deep_copy_struct [OF assms(1), where put = "\<lambda>w e. (fst e, w)"]]], goal_cases)
  case (5 h h' a c w b)
  have "map fst w = map fst (sel c)"
    using arg_cong [where f = "map fst", OF 5(2)] by (simp add: list_of_def struct_def comp_def)
  with 5 show ?case by (simp add: assms(2))
qed (simp_all add: copy_entry_def)

lemmas deep_copy_intros = deep_copy_plain deep_copy_both deep_copy_ptr deep_copy_slice deep_copy_map

end
