(* ===== verification/Deepcopy.thy ===== *)
theory Deepcopy
  imports Api_Types Go_Heap
begin

text \<open>
  The generated deep copies of the API types (api/v1alpha1/zz_generated.deepcopy.go) on the heap of
  Go_Heap. A type whose fields include references has a record of its own here, with pointers,
  slices and maps in place of the options and lists of Api_Types; its layout says which value of
  Api_Types such a structure stands for. \<open>DeepCopyInto\<close> of a type is a program that takes the
  contents of \<open>*in\<close> and returns those of \<open>*out\<close>; \<open>DeepCopy\<close> and \<open>DeepCopyObject\<close>
  put them in a new cell. The methods are in the order in which they call each other.
\<close>

section \<open>The types in memory\<close>

record TypeMeta =
  ty_Kind :: string
  ty_APIVersion :: string

record NetworkConfig_mem =
  mnc_ServiceCidr :: string
  mnc_PodCidr :: string
  mnc_PodCidrMaskSize :: "addr option"
  mnc_ClusterDNS :: string
  mnc_KubeApiserverPort :: int32
  mnc_IpamMode :: string

record DualTemplateRef_mem =
  mdr_Infra :: TemplateRef
  mdr_Client :: "addr option"

record InfraSpec_mem =
  mis_Role :: string
  mis_Paused :: bool
  mis_Network :: NetworkConfig_mem
  mis_ComponentVersions :: "addr option"
  mis_AddonVersions :: "addr option"

record ClientSpec_mem =
  mcl_Enabled :: bool
  mcl_Paused :: "addr option"
  mcl_Network :: "addr option"
  mcl_ComponentVersions :: "addr option"

record ClusterClaimSpec_mem =
  msp_ObserveTemplateRef :: TemplateRef
  msp_CertificateSetTemplateRef :: DualTemplateRef_mem
  msp_ClusterTemplateRef :: DualTemplateRef_mem
  msp_CcmCsrTemplateRef :: TemplateRef
  msp_ClusterClassTemplateRef :: DualTemplateRef_mem
  msp_ConfigMapTemplateRef :: "addr option"
  msp_VaultClaimTemplateRef :: "addr option"
  msp_VaultSecretClaimTemplateRef :: "addr option"
  msp_S3BucketClaimTemplateRef :: "addr option"
  msp_Replicas :: int32
  msp_Configuration :: ConfigurationSpec
  msp_RemoteNamespace :: string
  msp_ExtraEnvs :: "addr option"
  msp_Infra :: InfraSpec_mem
  msp_Client :: ClientSpec_mem

record ClusterStatusSummary_mem =
  mcss_Host :: string
  mcss_Port :: int32
  mcss_Conditions :: "slice option"
  mcss_Phase :: string
  mcss_ControlPlane :: "addr option"
  mcss_Workers :: "addr option"
  mcss_ControlPlaneVersion :: "addr option"

record ClustersStatus_mem =
  mcs_Infra :: "addr option"
  mcs_Client :: "addr option"

record VaultStatusSummary_mem =
  mvs_Name :: string
  mvs_Phase :: string
  mvs_Ready :: bool
  mvs_Conditions :: "slice option"

record ClusterClaimStatus_mem =
  mst_ObservedGeneration :: int64
  mst_Phase :: string
  mst_Conditions :: "slice option"
  mst_Clusters :: "addr option"
  mst_Vault :: "addr option"
  mst_VaultSecret :: "addr option"
  mst_S3Bucket :: "addr option"

text \<open>
  \<open>'m\<close> and \<open>'l\<close> are \<open>metav1.ObjectMeta\<close> and \<open>metav1.ListMeta\<close> in memory, \<open>'j\<close> is
  \<open>apiextensionsv1.JSON\<close>, \<open>'x\<close> the other cells these packages use.
\<close>

record 'm ClusterClaim_mem =
  mcc_TypeMeta :: TypeMeta
  mcc_Meta :: 'm
  mcc_Spec :: ClusterClaimSpec_mem
  mcc_Status :: ClusterClaimStatus_mem

record 'm ClusterClaimObserveResourceTemplate_mem =
  mtm_TypeMeta :: TypeMeta
  mtm_Meta :: 'm
  mtm_Spec :: ClusterClaimObserveResourceTemplateSpec

record 'l ClusterClaimList_mem =
  mccl_TypeMeta :: TypeMeta
  mccl_ListMeta :: 'l
  mccl_Items :: "slice option"

record 'l ClusterClaimObserveResourceTemplateList_mem =
  mtml_TypeMeta :: TypeMeta
  mtml_ListMeta :: 'l
  mtml_Items :: "slice option"

text \<open>One constructor for each type of which the package allocates a cell, an array or a map.\<close>

datatype ('m, 'l, 'j, 'x) cell =

    Bool_cell (un_Bool: bool)
  | Int32_cell (un_Int32: int32)
  | AddonVersions_cell (un_AddonVersions: AddonVersions)
  | ClientSpec_cell (un_ClientSpec: ClientSpec_mem)
  | ClusterClaim_cell (un_ClusterClaim: "'m ClusterClaim_mem")
  | ClusterClaims_cell (un_ClusterClaims: "'m ClusterClaim_mem list")
  | ClusterClaimList_cell (un_ClusterClaimList: "'l ClusterClaimList_mem")
  | Template_cell (un_Template: "'m ClusterClaimObserveResourceTemplate_mem")
  | Templates_cell (un_Templates: "'m ClusterClaimObserveResourceTemplate_mem list")
  | TemplateList_cell (un_TemplateList: "'l ClusterClaimObserveResourceTemplateList_mem")
  | TemplateSpec_cell (un_TemplateSpec: ClusterClaimObserveResourceTemplateSpec)
  | ClusterClaimSpec_cell (un_ClusterClaimSpec: ClusterClaimSpec_mem)
  | JSONMap_cell (un_JSONMap: "(string \<times> 'j) list")
  | ClusterClaimStatus_cell (un_ClusterClaimStatus: ClusterClaimStatus_mem)
  | Conditions_cell (un_Conditions: "Condition list")
  | ClusterStatusSummary_cell (un_ClusterStatusSummary: ClusterStatusSummary_mem)
  | ClustersStatus_cell (un_ClustersStatus: ClustersStatus_mem)
  | ComponentVersion_cell (un_ComponentVersion: ComponentVersion)
  | ComponentMap_cell (un_ComponentMap: "(string \<times> ComponentVersion) list")
  | AddonMap_cell (un_AddonMap: "(string \<times> AddonVersions) list")
  | ConfigurationSpec_cell (un_ConfigurationSpec: ConfigurationSpec)
  | ControlPlaneVersion_cell (un_ControlPlaneVersion: ControlPlaneVersion)
  | DualTemplateRef_cell (un_DualTemplateRef: DualTemplateRef_mem)
  | InfraSpec_cell (un_InfraSpec: InfraSpec_mem)
  | NetworkConfig_cell (un_NetworkConfig: NetworkConfig_mem)
  | ReplicaStatus_cell (un_ReplicaStatus: ReplicaStatus)
  | TemplateRef_cell (un_TemplateRef: TemplateRef)
  | VaultStatusSummary_cell (un_VaultStatusSummary: VaultStatusSummary_mem)
  | Other_cell (un_Other: 'x)

type_synonym ('m, 'l, 'j, 'x) heap = "('m, 'l, 'j, 'x) cell list"

text \<open>The deep copies of the packages that the API types use.\<close>

record ('m, 'l, 'j, 'x) packages =
  pk_ObjectMeta :: "'m \<Rightarrow> (('m, 'l, 'j, 'x) heap, 'm) state"
  pk_ListMeta :: "'l \<Rightarrow> (('m, 'l, 'j, 'x) heap, 'l) state"
  pk_JSON :: "'j \<Rightarrow> (('m, 'l, 'j, 'x) heap, 'j) state"
  pk_Condition :: "Condition \<Rightarrow> (('m, 'l, 'j, 'x) heap, Condition) state"

text \<open>What the generated code relies on: these are deep copies too.\<close>

definition package_copies ::
  "('m, 'l, 'j, 'x) packages \<Rightarrow> (('m, 'l, 'j, 'x) cell, 'm, ObjectMeta) layout \<Rightarrow> (('m, 'l, 'j, 'x) cell, 'l,
      'b) layout \<Rightarrow>
   (('m, 'l, 'j, 'x) cell, 'j, string) layout \<Rightarrow> bool" where
  "package_copies P M N J \<longleftrightarrow>
     deep_copy M (pk_ObjectMeta P) \<and> deep_copy N (pk_ListMeta P) \<and> deep_copy J (pk_JSON P) \<and>
     deep_copy (plain (\<lambda>c. c)) (pk_Condition P)"

section \<open>The methods\<close>

text \<open>
  \<open>DeepCopy\<close> of any type: nil for nil, otherwise a new cell. The receiver is the structure that the
  pointer leads to, which may be a part of a larger one (\<open>claim.Status.DeepCopy()\<close>).
\<close>

definition deepCopy :: "('v \<Rightarrow> 'c) \<Rightarrow> ('v \<Rightarrow> ('c list, 'v) state) \<Rightarrow> 'v option \<Rightarrow> ('c list,
    addr option) state" where
  "deepCopy C into recv = (case recv of
     None \<Rightarrow> ret None
   | Some v \<Rightarrow> do { b \<leftarrow> new_copy C into v; ret (Some b) })"

definition DeepCopyInto_AddonVersions :: "AddonVersions \<Rightarrow> (('m, 'l, 'j, 'x) heap, AddonVersions) state" where
  "DeepCopyInto_AddonVersions x = ret x"

definition DeepCopy_AddonVersions :: "AddonVersions option \<Rightarrow> (('m, 'l, 'j, 'x) heap, addr option) state" where
  "DeepCopy_AddonVersions = deepCopy AddonVersions_cell DeepCopyInto_AddonVersions"

definition DeepCopyInto_ComponentVersion :: "ComponentVersion \<Rightarrow> (('m, 'l, 'j, 'x) heap,
    ComponentVersion) state" where
  "DeepCopyInto_ComponentVersion x = ret x"

definition DeepCopy_ComponentVersion :: "ComponentVersion option \<Rightarrow> (('m, 'l, 'j, 'x) heap,
    addr option) state" where
  "DeepCopy_ComponentVersion = deepCopy ComponentVersion_cell DeepCopyInto_ComponentVersion"

definition DeepCopyInto_ConfigurationSpec :: "ConfigurationSpec \<Rightarrow> (('m, 'l, 'j, 'x) heap,
    ConfigurationSpec) state" where
  "DeepCopyInto_ConfigurationSpec x = ret x"

definition DeepCopy_ConfigurationSpec :: "ConfigurationSpec option \<Rightarrow> (('m, 'l, 'j, 'x) heap,
    addr option) state" where
  "DeepCopy_ConfigurationSpec = deepCopy ConfigurationSpec_cell DeepCopyInto_ConfigurationSpec"

definition DeepCopyInto_ControlPlaneVersion :: "ControlPlaneVersion \<Rightarrow> (('m, 'l, 'j, 'x) heap,
    ControlPlaneVersion) state" where
  "DeepCopyInto_ControlPlaneVersion x = ret x"

definition DeepCopy_ControlPlaneVersion :: "ControlPlaneVersion option \<Rightarrow> (('m, 'l, 'j, 'x) heap,
    addr option) state" where
  "DeepCopy_ControlPlaneVersion = deepCopy ControlPlaneVersion_cell DeepCopyInto_ControlPlaneVersion"

definition DeepCopyInto_ReplicaStatus :: "ReplicaStatus \<Rightarrow> (('m, 'l, 'j, 'x) heap, ReplicaStatus) state" where
  "DeepCopyInto_ReplicaStatus x = ret x"

definition DeepCopy_ReplicaStatus :: "ReplicaStatus option \<Rightarrow> (('m, 'l, 'j, 'x) heap, addr option) state" where
  "DeepCopy_ReplicaStatus = deepCopy ReplicaStatus_cell DeepCopyInto_ReplicaStatus"

definition DeepCopyInto_TemplateRef :: "TemplateRef \<Rightarrow> (('m, 'l, 'j, 'x) heap, TemplateRef) state" where
  "DeepCopyInto_TemplateRef x = ret x"

definition DeepCopy_TemplateRef :: "TemplateRef option \<Rightarrow> (('m, 'l, 'j, 'x) heap, addr option) state" where
  "DeepCopy_TemplateRef = deepCopy TemplateRef_cell DeepCopyInto_TemplateRef"

definition DeepCopyInto_TemplateSpec :: "ClusterClaimObserveResourceTemplateSpec \<Rightarrow> (('m, 'l, 'j, 'x) heap,
    ClusterClaimObserveResourceTemplateSpec) state" where
  "DeepCopyInto_TemplateSpec x = ret x"

definition DeepCopy_TemplateSpec :: "ClusterClaimObserveResourceTemplateSpec option \<Rightarrow> (('m, 'l, 'j, 'x) heap,
    addr option) state" where
  "DeepCopy_TemplateSpec = deepCopy TemplateSpec_cell DeepCopyInto_TemplateSpec"

definition DeepCopyInto_NetworkConfig ::
  "NetworkConfig_mem \<Rightarrow> (('m, 'l, 'j, 'x) heap, NetworkConfig_mem) state" where
  "DeepCopyInto_NetworkConfig x = do {
     mask \<leftarrow> copy_ptr Int32_cell un_Int32 ret (mnc_PodCidrMaskSize x);
     ret (x\<lparr>mnc_PodCidrMaskSize := mask\<rparr>)
   }"

definition DeepCopy_NetworkConfig :: "NetworkConfig_mem option \<Rightarrow> (('m, 'l, 'j, 'x) heap,
    addr option) state" where
  "DeepCopy_NetworkConfig = deepCopy NetworkConfig_cell DeepCopyInto_NetworkConfig"

definition DeepCopyInto_DualTemplateRef ::
  "DualTemplateRef_mem \<Rightarrow> (('m, 'l, 'j, 'x) heap, DualTemplateRef_mem) state" where
  "DeepCopyInto_DualTemplateRef x = do {
     client \<leftarrow> copy_ptr TemplateRef_cell un_TemplateRef ret (mdr_Client x);
     ret (x\<lparr>mdr_Client := client\<rparr>)
   }"

definition DeepCopy_DualTemplateRef :: "DualTemplateRef_mem option \<Rightarrow> (('m, 'l, 'j, 'x) heap,
    addr option) state" where
  "DeepCopy_DualTemplateRef = deepCopy DualTemplateRef_cell DeepCopyInto_DualTemplateRef"

definition DeepCopyInto_InfraSpec ::
  "InfraSpec_mem \<Rightarrow> (('m, 'l, 'j, 'x) heap, InfraSpec_mem) state" where
  "DeepCopyInto_InfraSpec x = do {
     network \<leftarrow> DeepCopyInto_NetworkConfig (mis_Network x);
     components \<leftarrow> copy_map ComponentMap_cell un_ComponentMap ret (mis_ComponentVersions x);
     addons \<leftarrow> copy_map AddonMap_cell un_AddonMap ret (mis_AddonVersions x);
     ret (x\<lparr>mis_Network := network, mis_ComponentVersions := components, mis_AddonVersions := addons\<rparr>)
   }"

definition DeepCopy_InfraSpec :: "InfraSpec_mem option \<Rightarrow> (('m, 'l, 'j, 'x) heap, addr option) state" where
  "DeepCopy_InfraSpec = deepCopy InfraSpec_cell DeepCopyInto_InfraSpec"

definition DeepCopyInto_ClientSpec ::
  "ClientSpec_mem \<Rightarrow> (('m, 'l, 'j, 'x) heap, ClientSpec_mem) state" where
  "DeepCopyInto_ClientSpec x = do {
     paused \<leftarrow> copy_ptr Bool_cell un_Bool ret (mcl_Paused x);
     network \<leftarrow> copy_ptr NetworkConfig_cell un_NetworkConfig DeepCopyInto_NetworkConfig (mcl_Network x);
     components \<leftarrow> copy_map ComponentMap_cell un_ComponentMap ret (mcl_ComponentVersions x);
     ret (x\<lparr>mcl_Paused := paused, mcl_Network := network, mcl_ComponentVersions := components\<rparr>)
   }"

definition DeepCopy_ClientSpec :: "ClientSpec_mem option \<Rightarrow> (('m, 'l, 'j, 'x) heap, addr option) state" where
  "DeepCopy_ClientSpec = deepCopy ClientSpec_cell DeepCopyInto_ClientSpec"

definition DeepCopyInto_ClusterClaimSpec ::
  "('m, 'l, 'j, 'x) packages \<Rightarrow> ClusterClaimSpec_mem \<Rightarrow> (('m, 'l, 'j, 'x) heap,
      ClusterClaimSpec_mem) state" where
  "DeepCopyInto_ClusterClaimSpec P x = do {
     certSet \<leftarrow> DeepCopyInto_DualTemplateRef (msp_CertificateSetTemplateRef x);
     cluster \<leftarrow> DeepCopyInto_DualTemplateRef (msp_ClusterTemplateRef x);
     clusterClass \<leftarrow> DeepCopyInto_DualTemplateRef (msp_ClusterClassTemplateRef x);
     configMap \<leftarrow> copy_ptr DualTemplateRef_cell un_DualTemplateRef DeepCopyInto_DualTemplateRef (msp_ConfigMapTemplateRef x);
     vault \<leftarrow> copy_ptr TemplateRef_cell un_TemplateRef ret (msp_VaultClaimTemplateRef x);
     vaultSecret \<leftarrow> copy_ptr TemplateRef_cell un_TemplateRef ret (msp_VaultSecretClaimTemplateRef x);
     s3Bucket \<leftarrow> copy_ptr TemplateRef_cell un_TemplateRef ret (msp_S3BucketClaimTemplateRef x);
     envs \<leftarrow> copy_map JSONMap_cell un_JSONMap (pk_JSON P) (msp_ExtraEnvs x);
     infra \<leftarrow> DeepCopyInto_InfraSpec (msp_Infra x);
     client \<leftarrow> DeepCopyInto_ClientSpec (msp_Client x);
     ret (x\<lparr>msp_CertificateSetTemplateRef := certSet, msp_ClusterTemplateRef := cluster,
         msp_ClusterClassTemplateRef := clusterClass, msp_ConfigMapTemplateRef := configMap,
         msp_VaultClaimTemplateRef := vault, msp_VaultSecretClaimTemplateRef := vaultSecret,
         msp_S3BucketClaimTemplateRef := s3Bucket, msp_ExtraEnvs := envs, msp_Infra := infra,
         msp_Client := client\<rparr>)
   }"

definition DeepCopy_ClusterClaimSpec ::
  "('m, 'l, 'j, 'x) packages \<Rightarrow> ClusterClaimSpec_mem option \<Rightarrow> (('m, 'l, 'j, 'x) heap, addr option) state" where
  "DeepCopy_ClusterClaimSpec P = deepCopy ClusterClaimSpec_cell (DeepCopyInto_ClusterClaimSpec P)"

definition DeepCopyInto_VaultStatusSummary ::
  "('m, 'l, 'j, 'x) packages \<Rightarrow> VaultStatusSummary_mem \<Rightarrow> (('m, 'l, 'j, 'x) heap,
      VaultStatusSummary_mem) state" where
  "DeepCopyInto_VaultStatusSummary P x = do {
     conditions \<leftarrow> copy_slice Conditions_cell un_Conditions (pk_Condition P) (mvs_Conditions x);
     ret (x\<lparr>mvs_Conditions := conditions\<rparr>)
   }"

definition DeepCopy_VaultStatusSummary ::
  "('m, 'l, 'j, 'x) packages \<Rightarrow> VaultStatusSummary_mem option \<Rightarrow> (('m, 'l, 'j, 'x) heap,
      addr option) state" where
  "DeepCopy_VaultStatusSummary P = deepCopy VaultStatusSummary_cell (DeepCopyInto_VaultStatusSummary P)"

definition DeepCopyInto_ClusterStatusSummary ::
  "('m, 'l, 'j, 'x) packages \<Rightarrow> ClusterStatusSummary_mem \<Rightarrow> (('m, 'l, 'j, 'x) heap,
      ClusterStatusSummary_mem) state" where
  "DeepCopyInto_ClusterStatusSummary P x = do {
     conditions \<leftarrow> copy_slice Conditions_cell un_Conditions (pk_Condition P) (mcss_Conditions x);
     controlPlane \<leftarrow> copy_ptr ReplicaStatus_cell un_ReplicaStatus ret (mcss_ControlPlane x);
     workers \<leftarrow> copy_ptr ReplicaStatus_cell un_ReplicaStatus ret (mcss_Workers x);
     version \<leftarrow> copy_ptr ControlPlaneVersion_cell un_ControlPlaneVersion ret (mcss_ControlPlaneVersion x);
     ret (x\<lparr>mcss_Conditions := conditions, mcss_ControlPlane := controlPlane, mcss_Workers := workers,
         mcss_ControlPlaneVersion := version\<rparr>)
   }"

definition DeepCopy_ClusterStatusSummary ::
  "('m, 'l, 'j, 'x) packages \<Rightarrow> ClusterStatusSummary_mem option \<Rightarrow> (('m, 'l, 'j, 'x) heap,
      addr option) state" where
  "DeepCopy_ClusterStatusSummary P = deepCopy ClusterStatusSummary_cell (DeepCopyInto_ClusterStatusSummary P)"

definition DeepCopyInto_ClustersStatus ::
  "('m, 'l, 'j, 'x) packages \<Rightarrow> ClustersStatus_mem \<Rightarrow> (('m, 'l, 'j, 'x) heap, ClustersStatus_mem) state" where
  "DeepCopyInto_ClustersStatus P x = do {
     infra \<leftarrow> copy_ptr ClusterStatusSummary_cell un_ClusterStatusSummary (DeepCopyInto_ClusterStatusSummary P)
         (mcs_Infra x);
     client \<leftarrow> copy_ptr ClusterStatusSummary_cell un_ClusterStatusSummary (DeepCopyInto_ClusterStatusSummary P)
         (mcs_Client x);
     ret (x\<lparr>mcs_Infra := infra, mcs_Client := client\<rparr>)
   }"

definition DeepCopy_ClustersStatus ::
  "('m, 'l, 'j, 'x) packages \<Rightarrow> ClustersStatus_mem option \<Rightarrow> (('m, 'l, 'j, 'x) heap, addr option) state" where
  "DeepCopy_ClustersStatus P = deepCopy ClustersStatus_cell (DeepCopyInto_ClustersStatus P)"

definition DeepCopyInto_ClusterClaimStatus ::
  "('m, 'l, 'j, 'x) packages \<Rightarrow> ClusterClaimStatus_mem \<Rightarrow> (('m, 'l, 'j, 'x) heap,
      ClusterClaimStatus_mem) state" where
  "DeepCopyInto_ClusterClaimStatus P x = do {
     conditions \<leftarrow> copy_slice Conditions_cell un_Conditions (pk_Condition P) (mst_Conditions x);
     clusters \<leftarrow> copy_ptr ClustersStatus_cell un_ClustersStatus (DeepCopyInto_ClustersStatus P)
         (mst_Clusters x);
     vault \<leftarrow> copy_ptr VaultStatusSummary_cell un_VaultStatusSummary (DeepCopyInto_VaultStatusSummary P)
         (mst_Vault x);
     vaultSecret \<leftarrow> copy_ptr VaultStatusSummary_cell un_VaultStatusSummary (DeepCopyInto_VaultStatusSummary P)
         (mst_VaultSecret x);
     s3Bucket \<leftarrow> copy_ptr VaultStatusSummary_cell un_VaultStatusSummary (DeepCopyInto_VaultStatusSummary P)
         (mst_S3Bucket x);
     ret (x\<lparr>mst_Conditions := conditions, mst_Clusters := clusters, mst_Vault := vault,
         mst_VaultSecret := vaultSecret, mst_S3Bucket := s3Bucket\<rparr>)
   }"

definition DeepCopy_ClusterClaimStatus ::
  "('m, 'l, 'j, 'x) packages \<Rightarrow> ClusterClaimStatus_mem option \<Rightarrow> (('m, 'l, 'j, 'x) heap,
      addr option) state" where
  "DeepCopy_ClusterClaimStatus P = deepCopy ClusterClaimStatus_cell (DeepCopyInto_ClusterClaimStatus P)"

definition DeepCopyInto_ClusterClaim ::
  "('m, 'l, 'j, 'x) packages \<Rightarrow> 'm ClusterClaim_mem \<Rightarrow> (('m, 'l, 'j, 'x) heap, 'm ClusterClaim_mem) state" where
  "DeepCopyInto_ClusterClaim P x = do {
     meta \<leftarrow> pk_ObjectMeta P (mcc_Meta x);
     spec \<leftarrow> DeepCopyInto_ClusterClaimSpec P (mcc_Spec x);
     status \<leftarrow> DeepCopyInto_ClusterClaimStatus P (mcc_Status x);
     ret (x\<lparr>mcc_Meta := meta, mcc_Spec := spec, mcc_Status := status\<rparr>)
   }"

definition DeepCopy_ClusterClaim ::
  "('m, 'l, 'j, 'x) packages \<Rightarrow> 'm ClusterClaim_mem option \<Rightarrow> (('m, 'l, 'j, 'x) heap, addr option) state" where
  "DeepCopy_ClusterClaim P = deepCopy ClusterClaim_cell (DeepCopyInto_ClusterClaim P)"

definition DeepCopyInto_ClusterClaimList ::
  "('m, 'l, 'j, 'x) packages \<Rightarrow> 'l ClusterClaimList_mem \<Rightarrow> (('m, 'l, 'j, 'x) heap,
      'l ClusterClaimList_mem) state" where
  "DeepCopyInto_ClusterClaimList P x = do {
     meta \<leftarrow> pk_ListMeta P (mccl_ListMeta x);
     items \<leftarrow> copy_slice ClusterClaims_cell un_ClusterClaims (DeepCopyInto_ClusterClaim P) (mccl_Items x);
     ret (x\<lparr>mccl_ListMeta := meta, mccl_Items := items\<rparr>)
   }"

definition DeepCopy_ClusterClaimList ::
  "('m, 'l, 'j, 'x) packages \<Rightarrow> 'l ClusterClaimList_mem option \<Rightarrow> (('m, 'l, 'j, 'x) heap,
      addr option) state" where
  "DeepCopy_ClusterClaimList P = deepCopy ClusterClaimList_cell (DeepCopyInto_ClusterClaimList P)"

definition DeepCopyInto_Template ::
  "('m, 'l, 'j, 'x) packages \<Rightarrow> 'm ClusterClaimObserveResourceTemplate_mem \<Rightarrow> (('m, 'l, 'j, 'x) heap,
      'm ClusterClaimObserveResourceTemplate_mem) state" where
  "DeepCopyInto_Template P x = do {
     meta \<leftarrow> pk_ObjectMeta P (mtm_Meta x);
     ret (x\<lparr>mtm_Meta := meta\<rparr>)
   }"

definition DeepCopy_Template ::
  "('m, 'l, 'j, 'x) packages \<Rightarrow> 'm ClusterClaimObserveResourceTemplate_mem option \<Rightarrow> (('m, 'l, 'j, 'x) heap,
      addr option) state" where
  "DeepCopy_Template P = deepCopy Template_cell (DeepCopyInto_Template P)"

definition DeepCopyInto_TemplateList ::
  "('m, 'l, 'j, 'x) packages \<Rightarrow> 'l ClusterClaimObserveResourceTemplateList_mem \<Rightarrow> (('m, 'l, 'j, 'x) heap,
      'l ClusterClaimObserveResourceTemplateList_mem) state" where
  "DeepCopyInto_TemplateList P x = do {
     meta \<leftarrow> pk_ListMeta P (mtml_ListMeta x);
     items \<leftarrow> copy_slice Templates_cell un_Templates (DeepCopyInto_Template P) (mtml_Items x);
     ret (x\<lparr>mtml_ListMeta := meta, mtml_Items := items\<rparr>)
   }"

definition DeepCopy_TemplateList ::
  "('m, 'l, 'j, 'x) packages \<Rightarrow> 'l ClusterClaimObserveResourceTemplateList_mem option \<Rightarrow> (('m, 'l, 'j, 'x) heap,
      addr option) state" where
  "DeepCopy_TemplateList P = deepCopy TemplateList_cell (DeepCopyInto_TemplateList P)"

text \<open>
  \<open>DeepCopyObject\<close> returns an interface value: the type and the pointer, or nil. The test
  \<open>c != nil\<close> keeps a nil pointer from becoming an interface value that is not nil.
\<close>

datatype runtime_Object =
  Object_ClusterClaim addr | Object_ClusterClaimList addr | Object_Template addr | Object_TemplateList addr

definition DeepCopyObject_ClusterClaim ::
  "('m, 'l, 'j, 'x) packages \<Rightarrow> 'm ClusterClaim_mem option \<Rightarrow> (('m, 'l, 'j, 'x) heap,
      runtime_Object option) state" where
  "DeepCopyObject_ClusterClaim P recv = do {
     c \<leftarrow> DeepCopy_ClusterClaim P recv;
     ret (case c of Some b \<Rightarrow> Some (Object_ClusterClaim b) | None \<Rightarrow> None)
   }"

definition DeepCopyObject_ClusterClaimList ::
  "('m, 'l, 'j, 'x) packages \<Rightarrow> 'l ClusterClaimList_mem option \<Rightarrow> (('m, 'l, 'j, 'x) heap,
      runtime_Object option) state" where
  "DeepCopyObject_ClusterClaimList P recv = do {
     c \<leftarrow> DeepCopy_ClusterClaimList P recv;
     ret (case c of Some b \<Rightarrow> Some (Object_ClusterClaimList b) | None \<Rightarrow> None)
   }"

definition DeepCopyObject_Template ::
  "('m, 'l, 'j, 'x) packages \<Rightarrow> 'm ClusterClaimObserveResourceTemplate_mem option \<Rightarrow> (('m, 'l, 'j, 'x) heap,
      runtime_Object option) state" where
  "DeepCopyObject_Template P recv = do {
     c \<leftarrow> DeepCopy_Template P recv;
     ret (case c of Some b \<Rightarrow> Some (Object_Template b) | None \<Rightarrow> None)
   }"

definition DeepCopyObject_TemplateList ::
  "('m, 'l, 'j, 'x) packages \<Rightarrow> 'l ClusterClaimObserveResourceTemplateList_mem option \<Rightarrow> (('m, 'l, 'j, 'x) heap,
      runtime_Object option) state" where
  "DeepCopyObject_TemplateList P recv = do {
     c \<leftarrow> DeepCopy_TemplateList P recv;
     ret (case c of Some b \<Rightarrow> Some (Object_TemplateList b) | None \<Rightarrow> None)
   }"

section \<open>Layouts\<close>

text \<open>A nil slice or map and an empty one stand for the same value, as in \<open>equality.Semantic.DeepEqual\<close>.\<close>

definition entries :: "'a list option \<Rightarrow> 'a list" where
  "entries p = (case p of None \<Rightarrow> [] | Some xs \<Rightarrow> xs)"

definition layout_NetworkConfig ::
  "(('m, 'l, 'j, 'x) cell, NetworkConfig_mem, NetworkConfig) layout" where
  "layout_NetworkConfig = struct (\<lambda>x. mnc_PodCidrMaskSize x)
     (\<lambda>x mask. \<lparr>nc_ServiceCidr = mnc_ServiceCidr x, nc_PodCidr = mnc_PodCidr x, nc_PodCidrMaskSize = mask,
         nc_ClusterDNS = mnc_ClusterDNS x, nc_KubeApiserverPort = mnc_KubeApiserverPort x,
         nc_IpamMode = mnc_IpamMode x\<rparr>)
     (ptr_to Int32_cell un_Int32 (plain (\<lambda>v. v)))"

definition layout_DualTemplateRef ::
  "(('m, 'l, 'j, 'x) cell, DualTemplateRef_mem, DualTemplateRef) layout" where
  "layout_DualTemplateRef = struct (\<lambda>x. mdr_Client x)
     (\<lambda>x client. \<lparr>dr_Infra = mdr_Infra x, dr_Client = client\<rparr>)
     (ptr_to TemplateRef_cell un_TemplateRef (plain (\<lambda>v. v)))"

definition layout_InfraSpec ::
  "(('m, 'l, 'j, 'x) cell, InfraSpec_mem, InfraSpec) layout" where
  "layout_InfraSpec = struct (\<lambda>x. (mis_Network x, mis_ComponentVersions x, mis_AddonVersions x))
     (\<lambda>x (n, c, a). \<lparr>is_Role = mis_Role x, is_Paused = mis_Paused x, is_Network = n,
         is_ComponentVersions = entries c, is_AddonVersions = entries a\<rparr>)
     (both (layout_NetworkConfig) (both (map_of_entries ComponentMap_cell un_ComponentMap (plain (\<lambda>v. v)))
         (map_of_entries AddonMap_cell un_AddonMap (plain (\<lambda>v. v)))))"

definition layout_ClientSpec ::
  "(('m, 'l, 'j, 'x) cell, ClientSpec_mem, ClientSpec) layout" where
  "layout_ClientSpec = struct (\<lambda>x. (mcl_Paused x, mcl_Network x, mcl_ComponentVersions x))
     (\<lambda>x (p, n, c). \<lparr>cl_Enabled = mcl_Enabled x, cl_Paused = p, cl_Network = n,
         cl_ComponentVersions = entries c\<rparr>)
     (both (ptr_to Bool_cell un_Bool (plain (\<lambda>v. v)))
         (both (ptr_to NetworkConfig_cell un_NetworkConfig (layout_NetworkConfig))
         (map_of_entries ComponentMap_cell un_ComponentMap (plain (\<lambda>v. v)))))"

definition layout_ClusterClaimSpec ::
  "(('m, 'l, 'j, 'x) cell, 'j, string) layout \<Rightarrow> (('m, 'l, 'j, 'x) cell, ClusterClaimSpec_mem,
      ClusterClaimSpec) layout" where
  "layout_ClusterClaimSpec J = struct (\<lambda>x. (msp_CertificateSetTemplateRef x, msp_ClusterTemplateRef x,
      msp_ClusterClassTemplateRef x, msp_ConfigMapTemplateRef x, msp_VaultClaimTemplateRef x,
      msp_VaultSecretClaimTemplateRef x, msp_S3BucketClaimTemplateRef x, msp_ExtraEnvs x, msp_Infra x,
      msp_Client x))
     (\<lambda>x (ce, cu, ca, co, va, vs, sb, ex, inf, cli). \<lparr>sp_ObserveTemplateRef = msp_ObserveTemplateRef x,
         sp_CertificateSetTemplateRef = ce, sp_ClusterTemplateRef = cu,
         sp_CcmCsrTemplateRef = msp_CcmCsrTemplateRef x, sp_ClusterClassTemplateRef = ca,
         sp_ConfigMapTemplateRef = co, sp_VaultClaimTemplateRef = va, sp_VaultSecretClaimTemplateRef = vs,
         sp_S3BucketClaimTemplateRef = sb, sp_Replicas = msp_Replicas x,
         sp_Configuration = msp_Configuration x, sp_RemoteNamespace = msp_RemoteNamespace x,
         sp_ExtraEnvs = entries ex, sp_Infra = inf, sp_Client = cli\<rparr>)
     (both (layout_DualTemplateRef) (both (layout_DualTemplateRef) (both (layout_DualTemplateRef)
         (both (ptr_to DualTemplateRef_cell un_DualTemplateRef (layout_DualTemplateRef))
         (both (ptr_to TemplateRef_cell un_TemplateRef (plain (\<lambda>v. v)))
         (both (ptr_to TemplateRef_cell un_TemplateRef (plain (\<lambda>v. v)))
         (both (ptr_to TemplateRef_cell un_TemplateRef (plain (\<lambda>v. v)))
         (both (map_of_entries JSONMap_cell un_JSONMap (J)) (both (layout_InfraSpec)
         (layout_ClientSpec))))))))))"

definition layout_VaultStatusSummary ::
  "(('m, 'l, 'j, 'x) cell, VaultStatusSummary_mem, VaultStatusSummary) layout" where
  "layout_VaultStatusSummary = struct (\<lambda>x. mvs_Conditions x)
     (\<lambda>x c. \<lparr>vs_Name = mvs_Name x, vs_Phase = mvs_Phase x, vs_Ready = mvs_Ready x, vs_Conditions = entries c\<rparr>)
     (slice_of Conditions_cell un_Conditions (plain (\<lambda>v. v)))"

definition layout_ClusterStatusSummary ::
  "(('m, 'l, 'j, 'x) cell, ClusterStatusSummary_mem, ClusterStatusSummary) layout" where
  "layout_ClusterStatusSummary = struct (\<lambda>x. (mcss_Conditions x, mcss_ControlPlane x, mcss_Workers x,
      mcss_ControlPlaneVersion x))
     (\<lambda>x (c, p, w, v). \<lparr>css_Host = mcss_Host x, css_Port = mcss_Port x, css_Conditions = entries c,
         css_Phase = mcss_Phase x, css_ControlPlane = p, css_Workers = w, css_ControlPlaneVersion = v\<rparr>)
     (both (slice_of Conditions_cell un_Conditions (plain (\<lambda>v. v)))
         (both (ptr_to ReplicaStatus_cell un_ReplicaStatus (plain (\<lambda>v. v)))
         (both (ptr_to ReplicaStatus_cell un_ReplicaStatus (plain (\<lambda>v. v)))
         (ptr_to ControlPlaneVersion_cell un_ControlPlaneVersion (plain (\<lambda>v. v))))))"

definition layout_ClustersStatus ::
  "(('m, 'l, 'j, 'x) cell, ClustersStatus_mem, ClustersStatus) layout" where
  "layout_ClustersStatus = struct (\<lambda>x. (mcs_Infra x, mcs_Client x))
     (\<lambda>x (i, c). \<lparr>cs_Infra = i, cs_Client = c\<rparr>)
     (both (ptr_to ClusterStatusSummary_cell un_ClusterStatusSummary (layout_ClusterStatusSummary))
         (ptr_to ClusterStatusSummary_cell un_ClusterStatusSummary (layout_ClusterStatusSummary)))"

definition layout_ClusterClaimStatus ::
  "(('m, 'l, 'j, 'x) cell, ClusterClaimStatus_mem, ClusterClaimStatus) layout" where
  "layout_ClusterClaimStatus = struct (\<lambda>x. (mst_Conditions x, mst_Clusters x, mst_Vault x, mst_VaultSecret x,
      mst_S3Bucket x))
     (\<lambda>x (c, k, v, vs, sb). \<lparr>st_ObservedGeneration = mst_ObservedGeneration x, st_Phase = mst_Phase x,
         st_Conditions = entries c, st_Clusters = k, st_Vault = v, st_VaultSecret = vs, st_S3Bucket = sb\<rparr>)
     (both (slice_of Conditions_cell un_Conditions (plain (\<lambda>v. v)))
         (both (ptr_to ClustersStatus_cell un_ClustersStatus (layout_ClustersStatus))
         (both (ptr_to VaultStatusSummary_cell un_VaultStatusSummary (layout_VaultStatusSummary))
         (both (ptr_to VaultStatusSummary_cell un_VaultStatusSummary (layout_VaultStatusSummary))
         (ptr_to VaultStatusSummary_cell un_VaultStatusSummary (layout_VaultStatusSummary))))))"

definition layout_ClusterClaim ::
  "(('m, 'l, 'j, 'x) cell, 'm, ObjectMeta) layout \<Rightarrow> (('m, 'l, 'j, 'x) cell, 'j, string) layout \<Rightarrow> (('m, 'l, 'j,
      'x) cell, 'm ClusterClaim_mem, TypeMeta \<times> ClusterClaim) layout" where
  "layout_ClusterClaim M J = struct (\<lambda>x. (mcc_Meta x, mcc_Spec x, mcc_Status x))
     (\<lambda>x (m, s, t). (mcc_TypeMeta x, \<lparr>cc_Meta = m, cc_Spec = s, cc_Status = t\<rparr>))
     (both (M) (both (layout_ClusterClaimSpec J) (layout_ClusterClaimStatus)))"

definition layout_ClusterClaimList ::
  "(('m, 'l, 'j, 'x) cell, 'm, ObjectMeta) layout \<Rightarrow> (('m, 'l, 'j, 'x) cell, 'l, 'b) layout \<Rightarrow> (('m, 'l, 'j,
      'x) cell, 'j, string) layout \<Rightarrow> (('m, 'l, 'j, 'x) cell, 'l ClusterClaimList_mem,
      TypeMeta \<times> 'b \<times> (TypeMeta \<times> ClusterClaim) list) layout" where
  "layout_ClusterClaimList M N J = struct (\<lambda>x. (mccl_ListMeta x, mccl_Items x))
     (\<lambda>x (m, i). (mccl_TypeMeta x, m, entries i))
     (both (N) (slice_of ClusterClaims_cell un_ClusterClaims (layout_ClusterClaim M J)))"

definition layout_Template ::
  "(('m, 'l, 'j, 'x) cell, 'm, ObjectMeta) layout \<Rightarrow> (('m, 'l, 'j, 'x) cell,
      'm ClusterClaimObserveResourceTemplate_mem,
      TypeMeta \<times> ClusterClaimObserveResourceTemplate) layout" where
  "layout_Template M = struct (\<lambda>x. mtm_Meta x)
     (\<lambda>x m. (mtm_TypeMeta x, \<lparr>tm_Meta = m, tm_Spec = mtm_Spec x\<rparr>))
     (M)"

definition layout_TemplateList ::
  "(('m, 'l, 'j, 'x) cell, 'm, ObjectMeta) layout \<Rightarrow> (('m, 'l, 'j, 'x) cell, 'l, 'b) layout \<Rightarrow> (('m, 'l, 'j,
      'x) cell, 'l ClusterClaimObserveResourceTemplateList_mem,
      TypeMeta \<times> 'b \<times> (TypeMeta \<times> ClusterClaimObserveResourceTemplate) list) layout" where
  "layout_TemplateList M N = struct (\<lambda>x. (mtml_ListMeta x, mtml_Items x))
     (\<lambda>x (m, i). (mtml_TypeMeta x, m, entries i))
     (both (N) (slice_of Templates_cell un_Templates (layout_Template M)))"

section \<open>Every method is a deep copy of its type\<close>

lemmas package_copy =
  package_copies_def [THEN iffD1, THEN conjunct1]
  package_copies_def [THEN iffD1, THEN conjunct2, THEN conjunct1]
  package_copies_def [THEN iffD1, THEN conjunct2, THEN conjunct2, THEN conjunct1]
  package_copies_def [THEN iffD1, THEN conjunct2, THEN conjunct2, THEN conjunct2]

lemma copies_NetworkConfig: "deep_copy layout_NetworkConfig DeepCopyInto_NetworkConfig"
  unfolding layout_NetworkConfig_def
  by (rule deep_copy_struct [where put = "\<lambda>mask (x :: NetworkConfig_mem). x\<lparr>mnc_PodCidrMaskSize := mask\<rparr>"],
      (rule deep_copy_intros cell.sel)+,
    simp_all add: DeepCopyInto_NetworkConfig_def copy_both_def fun_eq_iff split: prod.splits)

lemma copies_DualTemplateRef: "deep_copy layout_DualTemplateRef DeepCopyInto_DualTemplateRef"
  unfolding layout_DualTemplateRef_def
  by (rule deep_copy_struct [where put = "\<lambda>client (x :: DualTemplateRef_mem). x\<lparr>mdr_Client := client\<rparr>"],
      (rule deep_copy_intros cell.sel)+,
    simp_all add: DeepCopyInto_DualTemplateRef_def copy_both_def fun_eq_iff split: prod.splits)

lemma copies_InfraSpec: "deep_copy layout_InfraSpec DeepCopyInto_InfraSpec"
  unfolding layout_InfraSpec_def
  by (rule deep_copy_struct [where put = "\<lambda>(network, components, addons)
      (x :: InfraSpec_mem). x\<lparr>mis_Network := network, mis_ComponentVersions := components,
      mis_AddonVersions := addons\<rparr>"], (rule deep_copy_intros cell.sel copies_NetworkConfig)+,
    simp_all add: DeepCopyInto_InfraSpec_def copy_both_def fun_eq_iff split: prod.splits)

lemma copies_ClientSpec: "deep_copy layout_ClientSpec DeepCopyInto_ClientSpec"
  unfolding layout_ClientSpec_def
  by (rule deep_copy_struct [where put = "\<lambda>(paused, network, components)
      (x :: ClientSpec_mem). x\<lparr>mcl_Paused := paused, mcl_Network := network,
      mcl_ComponentVersions := components\<rparr>"], (rule deep_copy_intros cell.sel copies_NetworkConfig)+,
    simp_all add: DeepCopyInto_ClientSpec_def copy_both_def fun_eq_iff split: prod.splits)

lemma copies_ClusterClaimSpec:
  assumes "package_copies (P :: ('m, 'l, 'j, 'x) packages) M N J"
  shows "deep_copy (layout_ClusterClaimSpec J) (DeepCopyInto_ClusterClaimSpec P)"
  unfolding layout_ClusterClaimSpec_def
  by (rule deep_copy_struct [where put = "\<lambda>(certSet, cluster, clusterClass, configMap, vault, vaultSecret,
      s3Bucket, envs, infra, client) (x :: ClusterClaimSpec_mem). x\<lparr>msp_CertificateSetTemplateRef := certSet,
      msp_ClusterTemplateRef := cluster, msp_ClusterClassTemplateRef := clusterClass,
      msp_ConfigMapTemplateRef := configMap, msp_VaultClaimTemplateRef := vault,
      msp_VaultSecretClaimTemplateRef := vaultSecret, msp_S3BucketClaimTemplateRef := s3Bucket,
      msp_ExtraEnvs := envs, msp_Infra := infra, msp_Client := client\<rparr>"],
      (rule deep_copy_intros cell.sel copies_DualTemplateRef copies_InfraSpec copies_ClientSpec package_copy(3) [OF assms])+,
    simp_all add: DeepCopyInto_ClusterClaimSpec_def copy_both_def fun_eq_iff split: prod.splits)

lemma copies_VaultStatusSummary:
  assumes "package_copies (P :: ('m, 'l, 'j, 'x) packages) M N J"
  shows "deep_copy layout_VaultStatusSummary (DeepCopyInto_VaultStatusSummary P)"
  unfolding layout_VaultStatusSummary_def
  by (rule deep_copy_struct [where put = "\<lambda>conditions (x :: VaultStatusSummary_mem). x\<lparr>mvs_Conditions := conditions\<rparr>"], (rule deep_copy_intros cell.sel package_copy(4) [OF assms])+,
    simp_all add: DeepCopyInto_VaultStatusSummary_def copy_both_def fun_eq_iff split: prod.splits)

lemma copies_ClusterStatusSummary:
  assumes "package_copies (P :: ('m, 'l, 'j, 'x) packages) M N J"
  shows "deep_copy layout_ClusterStatusSummary (DeepCopyInto_ClusterStatusSummary P)"
  unfolding layout_ClusterStatusSummary_def
  by (rule deep_copy_struct [where put = "\<lambda>(conditions, controlPlane, workers, version)
      (x :: ClusterStatusSummary_mem). x\<lparr>mcss_Conditions := conditions, mcss_ControlPlane := controlPlane,
      mcss_Workers := workers, mcss_ControlPlaneVersion := version\<rparr>"],
      (rule deep_copy_intros cell.sel package_copy(4) [OF assms])+,
    simp_all add: DeepCopyInto_ClusterStatusSummary_def copy_both_def fun_eq_iff split: prod.splits)

lemma copies_ClustersStatus:
  assumes "package_copies (P :: ('m, 'l, 'j, 'x) packages) M N J"
  shows "deep_copy layout_ClustersStatus (DeepCopyInto_ClustersStatus P)"
  unfolding layout_ClustersStatus_def
  by (rule deep_copy_struct [where put = "\<lambda>(infra, client) (x :: ClustersStatus_mem). x\<lparr>mcs_Infra := infra,
      mcs_Client := client\<rparr>"], (rule deep_copy_intros cell.sel copies_ClusterStatusSummary [OF assms])+,
    simp_all add: DeepCopyInto_ClustersStatus_def copy_both_def fun_eq_iff split: prod.splits)

lemma copies_ClusterClaimStatus:
  assumes "package_copies (P :: ('m, 'l, 'j, 'x) packages) M N J"
  shows "deep_copy layout_ClusterClaimStatus (DeepCopyInto_ClusterClaimStatus P)"
  unfolding layout_ClusterClaimStatus_def
  by (rule deep_copy_struct [where put = "\<lambda>(conditions, clusters, vault, vaultSecret, s3Bucket)
      (x :: ClusterClaimStatus_mem). x\<lparr>mst_Conditions := conditions, mst_Clusters := clusters,
      mst_Vault := vault, mst_VaultSecret := vaultSecret, mst_S3Bucket := s3Bucket\<rparr>"],
      (rule deep_copy_intros cell.sel package_copy(4) [OF assms] copies_ClustersStatus [OF assms] copies_VaultStatusSummary [OF assms])+,
    simp_all add: DeepCopyInto_ClusterClaimStatus_def copy_both_def fun_eq_iff split: prod.splits)

lemma copies_ClusterClaim:
  assumes "package_copies (P :: ('m, 'l, 'j, 'x) packages) M N J"
  shows "deep_copy (layout_ClusterClaim M J) (DeepCopyInto_ClusterClaim P)"
  unfolding layout_ClusterClaim_def
  by (rule deep_copy_struct [where put = "\<lambda>(meta, spec, status)
      (x :: 'm ClusterClaim_mem). x\<lparr>mcc_Meta := meta, mcc_Spec := spec, mcc_Status := status\<rparr>"],
      (rule deep_copy_intros cell.sel package_copy(1) [OF assms] copies_ClusterClaimSpec [OF assms] copies_ClusterClaimStatus [OF assms])+,
    simp_all add: DeepCopyInto_ClusterClaim_def copy_both_def fun_eq_iff split: prod.splits)

lemma copies_ClusterClaimList:
  assumes "package_copies (P :: ('m, 'l, 'j, 'x) packages) M N J"
  shows "deep_copy (layout_ClusterClaimList M N J) (DeepCopyInto_ClusterClaimList P)"
  unfolding layout_ClusterClaimList_def
  by (rule deep_copy_struct [where put = "\<lambda>(meta, items)
      (x :: 'l ClusterClaimList_mem). x\<lparr>mccl_ListMeta := meta,
      mccl_Items := items\<rparr>"],
      (rule deep_copy_intros cell.sel package_copy(2) [OF assms] copies_ClusterClaim [OF assms])+,
    simp_all add: DeepCopyInto_ClusterClaimList_def copy_both_def fun_eq_iff split: prod.splits)

lemma copies_Template:
  assumes "package_copies (P :: ('m, 'l, 'j, 'x) packages) M N J"
  shows "deep_copy (layout_Template M) (DeepCopyInto_Template P)"
  unfolding layout_Template_def
  by (rule deep_copy_struct [where put = "\<lambda>meta (x :: 'm ClusterClaimObserveResourceTemplate_mem). x\<lparr>mtm_Meta := meta\<rparr>"], (rule deep_copy_intros cell.sel package_copy(1) [OF assms])+,
    simp_all add: DeepCopyInto_Template_def copy_both_def fun_eq_iff split: prod.splits)

lemma copies_TemplateList:
  assumes "package_copies (P :: ('m, 'l, 'j, 'x) packages) M N J"
  shows "deep_copy (layout_TemplateList M N) (DeepCopyInto_TemplateList P)"
  unfolding layout_TemplateList_def
  by (rule deep_copy_struct [where put = "\<lambda>(meta, items)
      (x :: 'l ClusterClaimObserveResourceTemplateList_mem). x\<lparr>mtml_ListMeta := meta,
      mtml_Items := items\<rparr>"],
      (rule deep_copy_intros cell.sel package_copy(2) [OF assms] copies_Template [OF assms])+,
    simp_all add: DeepCopyInto_TemplateList_def copy_both_def fun_eq_iff split: prod.splits)

interpretation nc: deep_copy layout_NetworkConfig DeepCopyInto_NetworkConfig
  by (rule copies_NetworkConfig)

interpretation dr: deep_copy layout_DualTemplateRef DeepCopyInto_DualTemplateRef
  by (rule copies_DualTemplateRef)

interpretation isp: deep_copy layout_InfraSpec DeepCopyInto_InfraSpec
  by (rule copies_InfraSpec)

interpretation csp: deep_copy layout_ClientSpec DeepCopyInto_ClientSpec
  by (rule copies_ClientSpec)

section \<open>Copies in cells of their own\<close>

text \<open>
  \<open>separate L C h v b h'\<close>: from heap \<open>h\<close> to \<open>h'\<close> a copy of \<open>v\<close> was put in the cell \<open>b\<close>, and
  the two have nothing in common. In every later heap \<open>g\<close> the copy stands for the value that
  \<open>v\<close> had, as long as the cells of the copy are not written, whatever is written elsewhere; and
  \<open>v\<close> stands for that value as long as the cells of \<open>h\<close> are not written.
\<close>

definition separate ::
  "('c, 'v, 'a) layout \<Rightarrow> ('v \<Rightarrow> 'c) \<Rightarrow> 'c list \<Rightarrow> 'v \<Rightarrow> addr \<Rightarrow> 'c list \<Rightarrow> bool" where
  "separate L C h v b h' \<longleftrightarrow> length h \<le> b \<and> b < length h' \<and> (\<forall>g. length h' \<le> length g \<longrightarrow>
     ((\<forall>a. length h \<le> a \<and> a < length h' \<longrightarrow> g ! a = h' ! a) \<longrightarrow>
        (\<exists>w. g ! b = C w \<and> l_ok L g w \<and> l_val L g w = l_val L h v)) \<and>
     ((\<forall>a < length h. g ! a = h ! a) \<longrightarrow> l_ok L g v \<and> l_val L g v = l_val L h v))"

lemma deepCopy_nil [simp]: "run_state (deepCopy C into None) h = (None, h)"
  by (simp add: deepCopy_def)

lemma deepCopy_separate:
  assumes "deep_copy L into" and "l_ok L h v"
  shows "\<exists>b h'. run_state (deepCopy C into (Some v)) h = (Some b, h') \<and> separate L C h v b h'"
proof -
  obtain b h' where run: "run_state (new_copy C into v) h = (b,
      h')" by (cases "run_state (new_copy C into v) h")
  obtain w k where w: "h' = h @ k" "length h = b" "b < length h'" "h' ! b = C w" "l_ok L h' w"
      "l_val L h' w = l_val L h v" "\<forall>a\<in>l_reach L h' w. b < a"
    using deep_copy.new_copy_copies [OF assms run] .
  note lay = deep_copy.axioms(1) [OF assms(1)]
  have 1: "\<exists>w. g ! b = C w \<and> l_ok L g w \<and> l_val L g w = l_val L h v"
    if g: "length h' \<le> length g" "\<forall>a. length h \<le> a \<and> a < length h' \<longrightarrow> g ! a = h' ! a" for g
  proof -
    have "g ! a = h' ! a" if "a \<in> l_reach L h' w" for a
      using g(2) w(2,7) that memory_layout.reach_ok [OF lay w(5) that] by auto
    from memory_layout.frame_disjoint [OF lay w(5) g(1) this] g(2) w(2-6) show ?thesis by auto
  qed
  have 2: "l_ok L g v \<and> l_val L g v = l_val L h v" if "length h' \<le> length g" "\<forall>a < length h. g ! a = h ! a" for g
    using memory_layout.frame_disjoint [OF lay assms(2),
        of g] memory_layout.reach_ok [OF lay assms(2)] that w(1) by simp
  have "separate L C h v b h'" unfolding separate_def using 1 2 w(2,3) by blast
  with run show ?thesis by (simp add: deepCopy_def)
qed

lemma deepCopy_object:
  assumes "deep_copy L into" and "l_ok L h v" and "f = deepCopy C into"
  shows "\<exists>b h'. run_state (do { c \<leftarrow> f (Some v); ret (case c of Some b \<Rightarrow> Some (K b) | None \<Rightarrow>
      None) }) h = (Some (K b), h') \<and>
    separate L C h v b h'"
proof -
  obtain b h' where "run_state (f (Some v)) h = (Some b, h')" "separate L C h v b h'"
    using deepCopy_separate [OF assms(1,2), of C] assms(3) by auto
  then show ?thesis by (intro exI [of _ b] exI [of _ h']) simp
qed

end
