(* ===== verification/Props_Deepcopy.thy ===== *)
theory Props_Deepcopy
  imports Deepcopy
begin

text \<open>
  What the rest of the development takes from the deep copies: a snapshot of the status is a value, and the
  objects that a cache hands out share nothing with the ones it keeps.
\<close>

section \<open>Snapshots and cached objects\<close>

text \<open>
  C22: Refinement of a snapshot in memory by a value. \<open>claim.Status.DeepCopy()\<close> always returns a new status,
  and at every later time, whatever was written to cells that existed before (conditions are set in
  place, summaries replaced) or allocated since,
      the snapshot still stands for the status the claim had. So the
  model may keep the old status as a value in \<open>executePipeline\<close>, \<open>reconcilePaused\<close> and \<open>reconcileDelete\<close>, and
  \<open>updateStatusIfChanged\<close> compares with what the status was, never with itself.
\<close>

theorem status_snapshot_isolated:
  assumes "package_copies P M N J" and "l_ok layout_ClusterClaimStatus h st"
  shows "\<exists>b h'. run_state (DeepCopy_ClusterClaimStatus P (Some st)) h = (Some b, h') \<and>
    (\<forall>g. length h' \<le> length g \<and> (\<forall>a. length h \<le> a \<and> a < length h' \<longrightarrow> g ! a = h' ! a) \<longrightarrow>
      (\<exists>old. g ! b = ClusterClaimStatus_cell old \<and> l_val layout_ClusterClaimStatus g old = l_val layout_ClusterClaimStatus h st))"
  using deepCopy_separate [OF copies_ClusterClaimStatus [OF assms(1)] assms(2), of ClusterClaimStatus_cell]
  unfolding separate_def DeepCopy_ClusterClaimStatus_def by blast

text \<open>
  C23: The objects of the API, as caches and clients copy them: \<open>DeepCopyObject\<close> of a claim,
      a template and their lists
  returns an object of the same type with the same value in memory of its own, all items included. Neither
  writes to the copy show in the original nor writes to the original in the copy. A nil pointer
  gives a nil interface.
\<close>

theorem object_copies_separate:
  assumes "package_copies P M N J"
  shows "(l_ok (layout_ClusterClaim M J) h c \<longrightarrow> (\<exists>b h'. run_state (DeepCopyObject_ClusterClaim P (Some c)) h =
      (Some (Object_ClusterClaim b), h') \<and> separate (layout_ClusterClaim M J) ClusterClaim_cell h c b h')) \<and>
    (l_ok (layout_ClusterClaimList M N J) h cs \<longrightarrow> (\<exists>b h'. run_state (DeepCopyObject_ClusterClaimList P (Some cs)) h =
      (Some (Object_ClusterClaimList b),
          h') \<and> separate (layout_ClusterClaimList M N J) ClusterClaimList_cell h cs b h')) \<and>
    (l_ok (layout_Template M) h t \<longrightarrow> (\<exists>b h'. run_state (DeepCopyObject_Template P (Some t)) h =
      (Some (Object_Template b), h') \<and> separate (layout_Template M) Template_cell h t b h')) \<and>
    (l_ok (layout_TemplateList M N) h ts \<longrightarrow> (\<exists>b h'. run_state (DeepCopyObject_TemplateList P (Some ts)) h =
      (Some (Object_TemplateList b), h') \<and> separate (layout_TemplateList M N) TemplateList_cell h ts b h')) \<and>
    run_state (DeepCopyObject_ClusterClaim P None) h = (None, h) \<and>
    run_state (DeepCopyObject_ClusterClaimList P None) h = (None, h) \<and>
    run_state (DeepCopyObject_Template P None) h = (None, h) \<and>
    run_state (DeepCopyObject_TemplateList P None) h = (None, h)"
  unfolding DeepCopyObject_ClusterClaim_def DeepCopyObject_ClusterClaimList_def DeepCopyObject_Template_def
    DeepCopyObject_TemplateList_def
  by (intro conjI impI deepCopy_object)
    (simp_all add: copies_ClusterClaim [OF assms] copies_ClusterClaimList [OF assms] copies_Template [OF assms]
      copies_TemplateList [OF assms] DeepCopy_ClusterClaim_def DeepCopy_ClusterClaimList_def DeepCopy_Template_def
      DeepCopy_TemplateList_def)

section \<open>An instance\<close>

text \<open>
  The packages: a JSON value is a slice of its raw bytes, whose deep copy gets an array of its own; of object
  metadata only the name, a value, is kept; list metadata is empty.
\<close>

type_synonym cell1 = "(string, unit, slice option, string) cell"

definition P1 :: "(string, unit, slice option, string) packages" where
  "P1 = \<lparr>pk_ObjectMeta = ret, pk_ListMeta = ret, pk_JSON = copy_slice Other_cell un_Other ret,
      pk_Condition = ret\<rparr>"

definition M1 :: "(cell1, string, ObjectMeta) layout" where
  "M1 = plain (\<lambda>n. \<lparr>om_Name = n, om_Namespace = [], om_UID = [], om_ResourceVersion = [], om_Generation = 0,
     om_DeletionTimestamp = None, om_Labels = [], om_Annotations = [], om_Finalizers = []\<rparr>)"

definition J1 :: "(cell1, slice option, string) layout" where
  "J1 = struct (\<lambda>j. j) (\<lambda>j. entries) (slice_of Other_cell un_Other (plain (\<lambda>c. c)))"

lemma packages1: "package_copies P1 M1 (plain (\<lambda>u. u)) J1"
proof -
  have "deep_copy J1 (copy_slice Other_cell un_Other ret)"
    unfolding J1_def by (rule deep_copy_struct [where put = "\<lambda>u x. u"],
        (rule deep_copy_intros cell.sel)+) simp_all
  then show ?thesis by (simp add: package_copies_def P1_def M1_def deep_copy_plain)
qed

text \<open>A status with one condition, in a backing array at address 0 that has room for another.\<close>

definition cond1 :: "string \<Rightarrow> Condition" where
  "cond1 s = \<lparr>c_Type = ''Ready'', c_Status = s, c_ObservedGeneration = 1, c_LastTransitionTime = None,
     c_Reason = ''Waiting'', c_Message = []\<rparr>"

definition status1 :: ClusterClaimStatus_mem where
  "status1 = \<lparr>mst_ObservedGeneration = 1, mst_Phase = ''Ready'', mst_Conditions = Some \<lparr>sl_array = 0,
      sl_off = 0, sl_len = 1\<rparr>,
     mst_Clusters = None, mst_Vault = Some 1, mst_VaultSecret = None, mst_S3Bucket = None\<rparr>"

definition heap1 :: "cell1 list" where
  "heap1 = [Conditions_cell [cond1 ''True'', cond1 ''''],
     VaultStatusSummary_cell \<lparr>mvs_Name = ''v'', mvs_Phase = [], mvs_Ready = True, mvs_Conditions = None\<rparr>]"

lemmas status1_eval = layout_ClusterClaimStatus_def layout_VaultStatusSummary_def layout_defs status1_def heap1_def
  window_def entries_def

lemma status1_ok: "l_ok layout_ClusterClaimStatus heap1 status1"
  by (simp add: status1_eval)

lemma status1_val: "st_Conditions (l_val layout_ClusterClaimStatus heap1 status1) = [cond1 ''True'']"
  by (simp add: status1_eval)

text \<open>
  The condition is set to False in place: the claim's status shows it, the snapshot keeps True.
\<close>

theorem status_snapshot_isolated_witness:
  "\<exists>b h' old. run_state (DeepCopy_ClusterClaimStatus P1 (Some status1)) heap1 = (Some b, h') \<and>
    h'[0 := Conditions_cell [cond1 ''False'']] ! b = ClusterClaimStatus_cell old \<and>
    st_Conditions (l_val layout_ClusterClaimStatus (h'[0 := Conditions_cell [cond1 ''False'']]) old) = [cond1 ''True'']"
proof -
  obtain b h' where r: "run_state (DeepCopy_ClusterClaimStatus P1 (Some status1)) heap1 = (Some b, h')"
    and s: "\<And>g. length h' \<le> length g \<Longrightarrow> (\<forall>a. length heap1 \<le> a \<and> a < length h' \<longrightarrow> g ! a = h' ! a) \<Longrightarrow>
      \<exists>old. g ! b = ClusterClaimStatus_cell old \<and>
        l_val layout_ClusterClaimStatus g old = l_val layout_ClusterClaimStatus heap1 status1"
    using status_snapshot_isolated [OF packages1 status1_ok] by blast
  have "\<forall>a. length heap1 \<le> a \<and> a < length h' \<longrightarrow> h'[0 := Conditions_cell [cond1 ''False'']] ! a = h' ! a"
    by (auto simp: heap1_def nth_list_update)
  from s [OF _ this] r status1_val show ?thesis by auto
qed

text \<open>A template in an empty heap.\<close>

definition template1 :: "string ClusterClaimObserveResourceTemplate_mem" where
  "template1 = \<lparr>mtm_TypeMeta = \<lparr>ty_Kind = ''ClusterClaimObserveResourceTemplate'',
      ty_APIVersion = ''v1alpha1''\<rparr>,
     mtm_Meta = ''t'', mtm_Spec = \<lparr>ts_APIVersion = ''v1'', ts_Kind = ''ConfigMap'', ts_Value = ''''\<rparr>\<rparr>"

definition list1 :: "unit ClusterClaimObserveResourceTemplateList_mem" where
  "list1 = \<lparr>mtml_TypeMeta = \<lparr>ty_Kind = ''ClusterClaimObserveResourceTemplateList'',
      ty_APIVersion = ''v1alpha1''\<rparr>,
     mtml_ListMeta = (), mtml_Items = Some \<lparr>sl_array = 0, sl_off = 0, sl_len = 1\<rparr>\<rparr>"

theorem object_copies_separate_witness:
  "\<exists>b h'. run_state (DeepCopyObject_TemplateList P1 (Some list1)) [Templates_cell [template1]] =
      (Some (Object_TemplateList b), h') \<and>
    separate (layout_TemplateList M1 (plain (\<lambda>u. u))) TemplateList_cell [Templates_cell [template1]] list1 b h'"
proof -
  have "l_ok (layout_TemplateList M1 (plain (\<lambda>u. u))) [Templates_cell [template1]] list1"
    by (simp add: layout_TemplateList_def layout_Template_def layout_defs list1_def M1_def window_def)
  then show ?thesis using object_copies_separate [OF packages1, where ts = list1] by blast
qed

end
