(* ===== verification/Props_Watches.thy ===== *)
theory Props_Watches
  imports Sample
begin

text \<open>
  The properties of what wakes the reconciler: the map function for templates finds exactly the claims
  that reference a template, which includes every claim whose pipeline reads it; the map function for
  kubeconfig Secrets inverts the naming scheme; the indexes that are queried are those registered.
\<close>

section \<open>Templates\<close>

text \<open>
  Documented behaviour of a cached list by a field index: it returns the stored claims for which the
  registered extractor yields the value.
\<close>

definition serves_index :: "'w env \<Rightarrow> ClusterClaim list \<Rightarrow> bool" where
  "serves_index E store \<longleftrightarrow> (\<forall>idx \<in> set indexes. \<forall>v w.
     fst (api_list_claims (e_api E) (fst idx) v w) = Inr (filter (\<lambda>c. v \<in> set (snd idx c)) store))"

text \<open>Kubernetes namespaces are DNS labels, so they contain no slash.\<close>

definition plain_namespaces :: "ClusterClaim list \<Rightarrow> bool" where
  "plain_namespaces store \<longleftrightarrow> list_all (\<lambda>c. CHR ''/'' \<notin> set (cc_Namespace c)) store"

lemma allIndexFields_indexes: "allIndexFields = map fst indexes"
  by (simp add: allIndexFields_def indexes_def)

lemma listByIndexes_acc:
  assumes "set idxs \<subseteq> set indexes" and "serves_index E store" and "acc_ok src acc"
  shows "\<exists>acc'. fst (run_state (listByIndexes E n (map fst idxs) acc) s) = snd acc' \<and>
     acc_ok (src @ concat (map (\<lambda>idx. filter (\<lambda>c. n \<in> set (snd idx c)) store) idxs)) acc'"
  using assms(1,3)
proof (induction idxs arbitrary: src acc s)
  case Nil
  then show ?case by (intro exI [of _ acc]) simp
next
  case (Cons idx idxs)
  let ?hits = "filter (\<lambda>c. n \<in> set (snd idx c)) store"
  have "fst (api_list_claims (e_api E) (fst idx) n (world s)) = Inr ?hits"
    using Cons.prems(1) assms(2) by (simp add: serves_index_def)
  then obtain w where w: "api_list_claims (e_api E) (fst idx) n (world s) = (Inr ?hits, w)"
    by (cases "api_list_claims (e_api E) (fst idx) n (world s)") simp
  show ?case
    using Cons.IH [of "src @ ?hits" "addRequests ?hits acc"
        "s\<lparr>world := w, calls := calls s @ [CList (fst idx) n (Inr ?hits)]\<rparr>"]
      Cons.prems acc_ok_step
    by (simp add: kList_def ask_def w)
qed

lemma findClaims_exact:
  assumes "serves_index E store" and "plain_namespaces store"
  shows "distinct (fst (run_state (findClaimsForTemplate E n) s)) \<and>
     set (fst (run_state (findClaimsForTemplate E n) s)) = request_of ` {c \<in> set store. n \<in> set (indexed_names c)}"
proof -
  let ?src = "concat (map (\<lambda>idx. filter (\<lambda>c. n \<in> set (snd idx c)) store) indexes)"
  obtain acc where run: "fst (run_state (findClaimsForTemplate E n) s) = snd acc" and ok: "acc_ok ?src acc"
    using listByIndexes_acc [OF order_refl assms(1) acc_ok_init, of n s]
    by (auto simp: findClaimsForTemplate_def allIndexFields_indexes)
  have src: "set ?src = {c \<in> set store. n \<in> set (indexed_names c)}"
    by (auto simp: indexed_names_def)
  have "request_of c \<in> set (snd acc)" if c: "c \<in> set ?src" for c
  proof -
    obtain r where r: "r \<in> set (snd acc)" "k_Namespace r @ ''/'' @ k_Name r = claim_key c"
      using acc_ok_complete [OF ok c] by blast
    moreover from r(1) ok have "r \<in> request_of ` set ?src"
      unfolding acc_ok_def by blast
    then obtain d where d: "d \<in> set ?src" "r = request_of d" by blast
    ultimately have "claim_key d = claim_key c"
      by (simp add: request_of_def claim_key_def key_of_def)
    with c d(1) assms(2) have "request_of d = request_of c"
      by (intro claim_key_inj) (auto simp: plain_namespaces_def list_all_iff)
    with r(1) d(2) show ?thesis by simp
  qed
  moreover have "set (snd acc) \<subseteq> request_of ` set ?src"
    using ok by (simp add: acc_ok_def)
  ultimately have "set (snd acc) = request_of ` set ?src" by blast
  then show ?thesis
    unfolding run src using acc_ok_distinct [OF ok] by blast
qed



lemma sample_index: "serves_index E1 [claim0]" "plain_namespaces [claim0]"
proof -
  have "distinct (map fst indexes)"
    by (simp add: indexes_def index_defs)
  then show "serves_index E1 [claim0]"
    by (auto simp: serves_index_def A1_def)
  show "plain_namespaces [claim0]"
    by (simp add: plain_namespaces_def claim0_def meta0_def)
qed


text \<open>
  C11: A changed template wakes the claims that use it. If a pipeline run of a stored claim has read the
  template \<open>n\<close>, then a later change of \<open>n\<close> requests a reconciliation of that claim: no template the
  pipeline depends on is missing from the indexes.
\<close>

theorem template_change_wakes_claim:
  assumes "serves_index E store" and "plain_namespaces store" and "claim s \<in> set store"
    and "CGetTemplate n r \<in> set (new_calls s (snd (run_state (executePipeline E) s)))"
  shows "request_of (claim s) \<in> set (fst (run_state (findClaimsForTemplate E n) s'))"
proof -
  have "list_all (pipeline_call E (claim s)) (new_calls s (snd (run_state (executePipeline E) s)))"
    using run_calls [of E s] by (auto simp: extends_def new_calls_def)
  with assms(4) have "pipeline_call E (claim s) (CGetTemplate n r)"
    unfolding list_all_iff by blast
  then have "n \<in> set (indexed_names (claim s))" by simp
  with findClaims_exact [OF assms(1,2), of n s'] assms(3) show ?thesis by auto
qed

theorem template_change_wakes_claim_witness:
  "\<exists>n. request_of claim0 \<in> set (fst (run_state (findClaimsForTemplate E1 n) (start claim0)))"
proof -
  obtain t where t: "run_state (executePipeline E1) (start claim0) = (Return \<lparr>RequeueAfter = 10 * Minute\<rparr> None, t)"
    using cooperative_ready [of E1 "start claim0"] sample_cooperative
    by (cases "run_state (executePipeline E1) (start claim0)") simp
  have "passed E1 claim0 ''Application'' (new_calls (start claim0) t)"
    using ready_passed [OF t, of "''Application''"] by (simp add: pipelineSteps_def)
  then obtain n r where "CGetTemplate n r \<in> set (new_calls (start claim0) t)"
    by (auto simp: passed_def applied_def)
  then have "request_of (claim (start claim0)) \<in> set (fst (run_state (findClaimsForTemplate E1 n) (start claim0)))"
    by (intro template_change_wakes_claim [OF sample_index]) (simp_all add: t)
  then show ?thesis by auto
qed

section \<open>Kubeconfig Secrets\<close>

text \<open>
  C34: Secrets and claims correspond. A Secret is mapped to a claim exactly when it has the name and the
  namespace that the naming scheme gives the kubeconfig Secret of that claim; every other Secret is
  dropped by the predicate and mapped to nothing.
\<close>

theorem secret_request_roundtrip:
  "(findClaimForSecret k = [r] \<longleftrightarrow> k = key_of (KubeconfigSecretName (k_Name r)) (k_Namespace r)) \<and>
   (kubeconfigSecretPredicate k \<longleftrightarrow> (\<exists>q. findClaimForSecret k = [q])) \<and>
   (findClaimForSecret k = [] \<longleftrightarrow> \<not> kubeconfigSecretPredicate k)"
proof -
  have "k = key_of (KubeconfigSecretName (k_Name r)) (k_Namespace r)" if "findClaimForSecret k = [r]"
  proof -
    from that have "HasSuffix (k_Name k) ''-infra-kubeconfig''"
      and "r = key_of (TrimSuffix (k_Name k) ''-infra-kubeconfig'') (k_Namespace k)"
      by (auto simp: findClaimForSecret_def Let_def split: if_splits)
    then show ?thesis by (simp add: KubeconfigSecretName_def key_of_def TrimSuffix_restore)
  qed
  moreover have "findClaimForSecret (key_of (KubeconfigSecretName (k_Name r)) (k_Namespace r)) = [r]"
    by (simp add: findClaimForSecret_def KubeconfigSecretName_def key_of_def Let_def)
  ultimately show ?thesis
    by (auto simp: kubeconfigSecretPredicate_def findClaimForSecret_def Let_def)
qed

section \<open>Indexes\<close>

text \<open>A registration that went through left exactly these entries, in order; \<open>n\<close> of them when it failed.\<close>

definition register_log ::
  "(string \<Rightarrow> goerror option) \<Rightarrow> string \<Rightarrow> (ClusterClaim \<Rightarrow> string list) \<Rightarrow> string list \<Rightarrow> goerror option \<times> string list" where
  "register_log refuse field f r = (case refuse field of Some e \<Rightarrow> (Some e, r) | None \<Rightarrow> (None, r @ [field]))"

lemma registerIndexes_log:
  "registerIndexes (register_log refuse) idxs r =
     (case List.find (\<lambda>f. refuse f \<noteq> None) (map fst idxs) of None \<Rightarrow> None | Some f \<Rightarrow> refuse f,
      r @ takeWhile (\<lambda>f. refuse f = None) (map fst idxs))"
  by (induction idxs arbitrary: r) (auto simp: register_log_def split: option.splits)

text \<open>
  The indexes registered are the indexes queried. Against a manager that may refuse any field,
  \<open>SetupIndexers\<close> registers the fields of \<open>allIndexFields\<close> in order up to the first one refused and
  returns that error; without a refusal it registers all of them, which are pairwise distinct, so
  \<open>findClaimsForTemplate\<close> never queries a field that has no index.
\<close>

lemma indexers_registered:
  "SetupIndexers (register_log refuse) [] =
     (case List.find (\<lambda>f. refuse f \<noteq> None) allIndexFields of None \<Rightarrow> None | Some f \<Rightarrow> refuse f,
      takeWhile (\<lambda>f. refuse f = None) allIndexFields) \<and>
   SetupIndexers (register_log (\<lambda>_. None)) [] = (None, allIndexFields) \<and> distinct allIndexFields"
proof -
  have "distinct allIndexFields" by (simp add: allIndexFields_def index_defs)
  moreover have "List.find (\<lambda>f. False) fs = None" for fs :: "string list" by (induction fs) simp_all
  ultimately show ?thesis
    by (simp add: SetupIndexers_def registerIndexes_log allIndexFields_indexes [symmetric] takeWhile_eq_all_conv)
qed

end
