(* ===== verification/Props_Api.thy ===== *)
theory Props_Api
  imports Sample Webhook
begin

text \<open>
  The properties of the webhook, of names and labels, and of errors: what the other components rely on
  when they read a claim, name its resources or decide whether to retry.
\<close>

section \<open>Admission\<close>

text \<open>
  C14: What admission can change. Over any history of admitted updates, however long, \<open>spec.client.enabled\<close>
  never changes and each ipamMode changes only from unset to set; and every claim that satisfies this
  is reachable from the created one. So the deletion of a claim looks at the same \<open>client.enabled\<close> as the
  runs that created its resources.
\<close>

theorem admitted_history:
  "admitted c d \<longleftrightarrow> client_enabled c = client_enabled d \<and> set_once (infraIpamMode c) (infraIpamMode d) \<and>
     set_once (clientIpamMode c) (clientIpamMode d)"
proof
  assume "admitted c d"
  then show "client_enabled c = client_enabled d \<and> set_once (infraIpamMode c) (infraIpamMode d) \<and>
     set_once (clientIpamMode c) (clientIpamMode d)"
    by (simp add: enabled_field.history_ok infra_ipam.history_ok client_ipam.history_ok)
next
  assume "client_enabled c = client_enabled d \<and> set_once (infraIpamMode c) (infraIpamMode d) \<and>
     set_once (clientIpamMode c) (clientIpamMode d)"
  then have "snd (ValidateUpdate c d) = None"
    by (simp add: ValidateUpdate_iff set_once_def)
  moreover have "admitted c c" by (simp add: admitted_create ValidateCreate_def)
  ultimately show "admitted c d" by (rule admitted_update [rotated])
qed

section \<open>Labels\<close>

text \<open>
  C35: Standard labels win. Merging the rendered labels of a template with the standard labels of a claim
  gives the rendered labels with the two standard ones overwritten, as one map, whatever the order in
  which Go iterates over either map.
\<close>

theorem standard_labels_win:
  assumes "distinct (map fst rendered)"
  shows "map_of (MergeLabels rendered (StandardLabels n ns)) =
      (map_of rendered)(LabelClaimName \<mapsto> n, LabelClaimNamespace \<mapsto> ns) \<and>
    (\<forall>rendered' standard'. distinct (map fst rendered') \<longrightarrow> set rendered' = set rendered \<longrightarrow>
       set standard' = set (StandardLabels n ns) \<longrightarrow> distinct (map fst standard') \<longrightarrow>
       set (MergeLabels rendered' standard') = set (MergeLabels rendered (StandardLabels n ns)))"
proof -
  have std: "distinct (map fst (StandardLabels n ns))"
    by (simp add: StandardLabels_def LabelClaimName_def LabelClaimNamespace_def)
  have "map_of (MergeLabels rendered (StandardLabels n ns)) =
      (map_of rendered)(LabelClaimName \<mapsto> n, LabelClaimNamespace \<mapsto> ns)"
    using go_merge.standard_wins [OF assms]
    by (intro ext) (auto simp: LabelClaimName_def LabelClaimNamespace_def)
  with go_merge.merge_order_irrelevant [OF assms std] show ?thesis by blast
qed

theorem standard_labels_win_witness:
  "map_of (MergeLabels [(''app'', ''x''), (LabelClaimName, ''evil'')] (StandardLabels ''demo'' ''team'')) =
     (map_of [(''app'', ''x''), (LabelClaimName, ''evil'')])(LabelClaimName \<mapsto> ''demo'', LabelClaimNamespace \<mapsto> ''team'')"
  using standard_labels_win [of "[(''app'', ''x''), (LabelClaimName, ''evil'')]" "''demo''" "''team''"]
  by (simp add: LabelClaimName_def)

section \<open>Errors\<close>

text \<open>
  An error is terminal exactly when a terminal error occurs somewhere in its chain of wrapped errors;
  \<open>IsTerminalError\<close> neither misses a wrapped one nor invents one.
\<close>

lemma terminal_iff_chain:
  "IsTerminalError e \<longleftrightarrow> (\<exists>f. TerminalError f \<in> chain e)"
  using IsTerminalError_chain chain_terminal IsTerminalError_simps(4) by blast

text \<open>
  C13: How a failed apply is classified. \<open>ensureResource\<close> reads the template; without it, or when it does not
  render, nothing is applied. Otherwise exactly one object is applied, built from the rendered
  template. The result is an error exactly when one of the three failed, and it is terminal exactly
  when the template is missing or does not render, or the API server refuses the object as invalid,
  forbidden or of an unknown kind (or passes on an error that is terminal already).
\<close>

theorem ensureResource_outcome:
  assumes "law_wrapped_classes (e_lib E)"
  shows "case run_state (ensureResource E t n ns) s of (err, u) \<Rightarrow>
    (case fst (api_get_template (e_api E) t (world s)) of
       Inl e \<Rightarrow> new_calls s u = [CGetTemplate t (Inl e)] \<and>
         (\<exists>e'. err = Some e' \<and> (IsTerminalError e' \<longleftrightarrow> IsNotFound (e_lib E) e \<or> IsTerminalError e))
     | Inr tmpl \<Rightarrow> (case Render (e_lib E) (ts_Value (tm_Spec tmpl)) (tctx s) of
         Inl e \<Rightarrow> new_calls s u = [CGetTemplate t (Inr tmpl)] \<and> (\<exists>e'. err = Some e' \<and> IsTerminalError e')
       | Inr rendered \<Rightarrow> (\<exists>a. new_calls s u = [CGetTemplate t (Inr tmpl),
             CApply (buildDesiredResource (e_lib E) (claim s) tmpl rendered n ns) a] \<and>
           (case a of None \<Rightarrow> err = None
            | Some e \<Rightarrow> (\<exists>e'. err = Some e' \<and> (IsTerminalError e' \<longleftrightarrow> IsTerminalError e \<or>
                IsInvalid (e_lib E) e \<or> IsForbidden (e_lib E) e \<or> IsNoMatchError (e_lib E) e))))))"
proof -
  have classes: "IsInvalid (e_lib E) (wrapf f as e) = IsInvalid (e_lib E) e"
    "IsForbidden (e_lib E) (wrapf f as e) = IsForbidden (e_lib E) e"
    "IsNoMatchError (e_lib E) (wrapf f as e) = IsNoMatchError (e_lib E) e" for f as e
    using assms by (simp_all add: law_wrapped_classes_def)
  show ?thesis
    by (auto simp: ensureResource_def k_defs new_calls_def classifyAPIError_def classes
        split: prod.splits sum.splits option.splits)
qed

theorem ensureResource_outcome_witness:
  "law_wrapped_classes L0 \<and> (case run_state (ensureResource E2 ''vault'' ''demo'' ''team'') (start claim0) of (err, u) \<Rightarrow>
     new_calls (start claim0) u = [CGetTemplate ''vault'' (Inl NotFound)] \<and> (\<exists>e. err = Some e \<and> IsTerminalError e))"
  using ensureResource_outcome [where E = E2 and t = "''vault''" and n = "''demo''" and ns = "''team''" and s = "start claim0"] L0_wrapped(2)
  by (auto simp: E2_def E1_def L0_def NotFound_def split: prod.splits)

end
