(* ===== verification/Props_Cache.thy ===== *)
theory Props_Cache
  imports Sample
begin

text \<open>
  The properties of the cache of remote clients: under every interleaving of callers and of the cleanup
  loop a caller gets a client made for its own kubeconfig; callers that ask for the same kubeconfig
  share one client; the sequential code of \<open>GetClient\<close> is a path of that machine; and expiry removes
  exactly the clients not used for the time to live.
\<close>

section \<open>Concurrent callers\<close>

text \<open>
  C12: No caller gets a stale client. In every state the concurrent machine can reach, a client handed to a
  caller that asked for the Secret \<open>k\<close> with the kubeconfig hash \<open>h\<close> was created for that Secret and that
  hash, and so is every client in the cache; a rotated kubeconfig is never served by the old client.
\<close>

theorem returned_client_current:
  assumes "cm_reachable s"
  shows "(\<forall>i k h c. sys_callers s i = Some (Returned k h c) \<longrightarrow> (k, h, c) \<in> set (sys_made s)) \<and>
     (\<forall>k cached. cm_lookup (sys_cm s) k = Some cached \<longrightarrow> (k, ca_hash cached, ca_client cached) \<in> set (sys_made s))"
  using cm_reachable_inv [OF assms] by (auto simp: cm_inv_def cm_sound_def)

text \<open>A caller that misses, creates the client 7 and gets it.\<close>

definition sys_after_new :: cm_sys where
  "sys_after_new = \<lparr>sys_cm = cache_store ''ns/s'' ''h'' 7 0 NewClusterManager,
     sys_callers = [0 \<mapsto> Returned ''ns/s'' ''h'' 7], sys_made = [(''ns/s'', ''h'', 7)]\<rparr>"

lemma sys_after_new_reachable: "cm_reachable sys_after_new"
proof -
  let ?s1 = "cm_init\<lparr>sys_callers := [0 \<mapsto> Reading ''ns/s'' ''h'']\<rparr>"
  let ?s2 = "cm_init\<lparr>sys_callers := [0 \<mapsto> Missed ''ns/s'' ''h'']\<rparr>"
  have "cm_step cm_init ?s1"
    using cm_call [of cm_init 0 "''ns/s''" "''h''"] by (simp add: cm_init_def)
  moreover have "cm_step ?s1 ?s2"
    using cm_read_miss [of ?s1 0 "''ns/s''" "''h''" 0] by (simp add: cm_init_def cache_hit_def NewClusterManager_def)
  moreover have "cm_step ?s2 sys_after_new"
    using cm_write_new [of ?s2 0 "''ns/s''" "''h''" 0 7]
    by (simp add: cm_init_def cache_hit_def NewClusterManager_def sys_after_new_def)
  ultimately show ?thesis by (blast intro: cm_reachable.intros)
qed

theorem returned_client_current_witness:
  "cm_reachable sys_after_new \<and> sys_callers sys_after_new 0 = Some (Returned ''ns/s'' ''h'' 7) \<and>
   (''ns/s'', ''h'', 7) \<in> set (sys_made sys_after_new)"
  using returned_client_current [OF sys_after_new_reachable] sys_after_new_reachable
  by (simp add: sys_after_new_def)

section \<open>Expiry\<close>

lemma removeExpired_lookup:
  "cm_wf cm \<Longrightarrow> cm_lookup (removeExpired now cm) k = (case cm_lookup cm k of None \<Rightarrow> None
     | Some v \<Rightarrow> if now - ca_lastUsed v > cm_ttl cm then None else Some v)"
  by (auto simp: removeExpired_def cm_wf_def map_of_filter_distinct split: option.splits)

text \<open>
  C36: Expiry is exact, and use postpones it. The cleanup at time \<open>now\<close> drops the entry of a key exactly when
  it was last used more than the time to live before; and a client looked up successfully at time \<open>t\<close>
  survives every cleanup up to \<open>t\<close> plus the time to live, and is found again afterwards.
\<close>

theorem expiry_exact:
  assumes "cm_wf cm"
  shows "cm_lookup (removeExpired now cm) k = (case cm_lookup cm k of None \<Rightarrow> None
       | Some v \<Rightarrow> if now - ca_lastUsed v > cm_ttl cm then None else Some v) \<and>
     (\<forall>h t c cm'. cache_hit k h t cm = (Some c, cm') \<longrightarrow> now \<le> t + cm_ttl cm \<longrightarrow>
       fst (cache_hit k h now (removeExpired now cm')) = Some c)"
proof (intro conjI allI impI)
  show "cm_lookup (removeExpired now cm) k = (case cm_lookup cm k of None \<Rightarrow> None
       | Some v \<Rightarrow> if now - ca_lastUsed v > cm_ttl cm then None else Some v)"
    by (rule removeExpired_lookup [OF assms])
next
  fix h t c cm'
  assume hit: "cache_hit k h t cm = (Some c, cm')" and now: "now \<le> t + cm_ttl cm"
  have "cm_wf cm'" using cm_wf_hit [OF assms, of k h t] hit by simp
  moreover from hit obtain v where "cm_lookup cm' k = Some (v\<lparr>ca_lastUsed := t\<rparr>)" "ca_hash v = h" "ca_client v = c"
    "cm_ttl cm' = cm_ttl cm"
    by (auto simp: cache_hit_def update_conv' split: option.splits if_splits)
  ultimately show "fst (cache_hit k h now (removeExpired now cm')) = Some c"
    using now by (simp add: cache_hit_def removeExpired_lookup)
qed

theorem expiry_exact_witness:
  "cm_wf (sys_cm sys_after_new) \<and>
   cm_lookup (removeExpired (defaultTTL + 1) (sys_cm sys_after_new)) ''ns/s'' = None \<and>
   fst (cache_hit ''ns/s'' ''h'' (3 + defaultTTL) (removeExpired (3 + defaultTTL)
     (snd (cache_hit ''ns/s'' ''h'' 3 (sys_cm sys_after_new))))) = Some 7"
proof -
  have wf: "cm_wf (sys_cm sys_after_new)" by (simp add: sys_after_new_def)
  have hit: "cache_hit ''ns/s'' ''h'' 3 (sys_cm sys_after_new) =
      (Some 7, snd (cache_hit ''ns/s'' ''h'' 3 (sys_cm sys_after_new)))"
    by (simp add: sys_after_new_def cache_hit_def cache_store_def NewClusterManager_def)
  have ttl: "cm_ttl (sys_cm sys_after_new) = defaultTTL"
    by (simp add: sys_after_new_def cache_store_def NewClusterManager_def)
  have "fst (cache_hit ''ns/s'' ''h'' (3 + defaultTTL) (removeExpired (3 + defaultTTL)
     (snd (cache_hit ''ns/s'' ''h'' 3 (sys_cm sys_after_new))))) = Some 7"
    using expiry_exact [OF wf, THEN conjunct2, rule_format, OF hit, of "3 + defaultTTL"] ttl by simp
  moreover have "cm_lookup (removeExpired (defaultTTL + 1) (sys_cm sys_after_new)) ''ns/s'' = None"
    using expiry_exact [OF wf, of "defaultTTL + 1" "''ns/s''"]
    by (simp add: sys_after_new_def cache_store_def NewClusterManager_def)
  ultimately show ?thesis using wf by blast
qed

text \<open>The ticks a loop serves before its context ends.\<close>

fun ticks :: "loop_event list \<Rightarrow> gotime list" where
  "ticks (TickerC now # events) = now # ticks events"
| "ticks _ = []"

lemma removeExpired_ttl [simp]: "cm_ttl (removeExpired now cm) = cm_ttl cm"
  by (simp add: removeExpired_def)

lemma Start_lookup:
  "cm_wf cm \<Longrightarrow> CtxDone \<notin> set events \<Longrightarrow>
   cm_lookup (snd (Start events cm)) k = (case cm_lookup cm k of None \<Rightarrow> None
     | Some v \<Rightarrow> if list_all (\<lambda>now. now - ca_lastUsed v \<le> cm_ttl cm) (ticks events) then Some v else None)"
  by (induction events cm rule: Start.induct) (auto simp: removeExpired_lookup not_less split: option.splits)

text \<open>
  C37: The cleanup loop ends with its context. Whatever the select of \<open>Start\<close> receives, the loop returns
  exactly when the end of the context is received, and then the cache is empty; until then a client is
  still cached, unchanged, exactly when no tick came more than the time to live after its last use.
\<close>

theorem cleanup_loop:
  assumes "cm_wf cm"
  shows "(fst (Start events cm) \<longleftrightarrow> CtxDone \<in> set events) \<and>
     (if CtxDone \<in> set events then cm_clients (snd (Start events cm)) = []
      else cm_lookup (snd (Start events cm)) k = (case cm_lookup cm k of None \<Rightarrow> None
        | Some v \<Rightarrow> if list_all (\<lambda>now. now - ca_lastUsed v \<le> cm_ttl cm) (ticks events) then Some v else None))"
proof -
  have "fst (Start events cm) \<longleftrightarrow> CtxDone \<in> set events"
    and "CtxDone \<in> set events \<Longrightarrow> cm_clients (snd (Start events cm)) = []"
    by (induction events cm rule: Start.induct) (auto simp: cleanup_def)
  with Start_lookup [OF assms] show ?thesis by simp
qed

theorem cleanup_loop_witness:
  "cm_lookup (snd (Start [TickerC 5, TickerC defaultTTL] (sys_cm sys_after_new))) ''ns/s'' \<noteq> None \<and>
   cm_lookup (snd (Start [TickerC 5, TickerC (defaultTTL + 1)] (sys_cm sys_after_new))) ''ns/s'' = None \<and>
   fst (Start [TickerC 5, CtxDone] (sys_cm sys_after_new))"
proof -
  have wf: "cm_wf (sys_cm sys_after_new)" by (simp add: sys_after_new_def)
  have ttl: "cm_ttl (sys_cm sys_after_new) = defaultTTL"
    and look: "cm_lookup (sys_cm sys_after_new) ''ns/s'' = Some \<lparr>ca_client = 7, ca_hash = ''h'', ca_lastUsed = 0\<rparr>"
    by (simp_all add: sys_after_new_def cache_store_def NewClusterManager_def)
  show ?thesis
    using cleanup_loop [OF wf, of "[TickerC 5, TickerC defaultTTL]" "''ns/s''"]
      cleanup_loop [OF wf, of "[TickerC 5, TickerC (defaultTTL + 1)]" "''ns/s''"]
      cleanup_loop [OF wf, of "[TickerC 5, CtxDone]" "''ns/s''"]
    by (simp add: ttl look defaultTTL_def)
qed

section \<open>One client per kubeconfig\<close>

text \<open>
  A stretch of the machine's life in which no cached client is dropped and the kubeconfig of a Secret \<open>k\<close>
  keeps its hash \<open>H k\<close>.
\<close>

inductive cm_calm :: "(string \<Rightarrow> string) \<Rightarrow> cm_sys \<Rightarrow> bool" for H where
  calm_start: "cm_calm H cm_init"
| calm_next: "cm_calm H s \<Longrightarrow> cm_step s t \<Longrightarrow>
    dom (cm_lookup (sys_cm s)) \<subseteq> dom (cm_lookup (sys_cm t)) \<Longrightarrow>
    (\<forall>i k h. sys_callers t i = Some (Reading k h) \<longrightarrow> h = H k) \<Longrightarrow> cm_calm H t"

definition shared_inv :: "(string \<Rightarrow> string) \<Rightarrow> cm_sys \<Rightarrow> bool" where
  "shared_inv H s \<longleftrightarrow> cm_wf (sys_cm s) \<and>
     (\<forall>i k h. sys_callers s i = Some (Reading k h) \<or> sys_callers s i = Some (Missed k h) \<longrightarrow> h = H k) \<and>
     (\<forall>k h c. (k, h, c) \<in> set (sys_made s) \<longrightarrow>
        (\<exists>t. cm_lookup (sys_cm s) k = Some \<lparr>ca_client = c, ca_hash = H k, ca_lastUsed = t\<rparr>)) \<and>
     (\<forall>k cached. cm_lookup (sys_cm s) k = Some cached \<longrightarrow> ca_hash cached = H k)"

lemma cache_hit_cases:
  assumes "cache_hit k h now cm = (Some c, cm')"
  obtains cached where "cm_lookup cm k = Some cached" "ca_hash cached = h" "ca_client cached = c"
    "cm_clients cm' = AList.update k (cached\<lparr>ca_lastUsed := now\<rparr>) (cm_clients cm)"
  using assms by (auto simp: cache_hit_def split: option.splits if_splits)

lemma shared_inv_hit:
  assumes "shared_inv H s" and "cache_hit k h now (sys_cm s) = (Some c, cm')"
  shows "shared_inv H (s\<lparr>sys_cm := cm', sys_callers := (sys_callers s)(i \<mapsto> Returned k h c)\<rparr>)"
proof -
  obtain cached where old: "cm_lookup (sys_cm s) k = Some cached" "ca_hash cached = h" "ca_client cached = c"
    and new: "cm_clients cm' = AList.update k (cached\<lparr>ca_lastUsed := now\<rparr>) (cm_clients (sys_cm s))"
    by (rule cache_hit_cases [OF assms(2)])
  have wf: "cm_wf cm'"
    using assms by (metis cm_wf_hit shared_inv_def snd_conv)
  have look: "cm_lookup cm' q = (if q = k then Some (cached\<lparr>ca_lastUsed := now\<rparr>) else cm_lookup (sys_cm s) q)" for q
    by (simp add: new update_conv')
  have "\<exists>t. cm_lookup cm' q = Some \<lparr>ca_client = d, ca_hash = H q, ca_lastUsed = t\<rparr>" if "(q, g, d) \<in> set (sys_made s)" for q g d
    using assms(1) that old(1) unfolding shared_inv_def look by (cases cached) fastforce
  moreover have "ca_hash e = H q" if "cm_lookup cm' q = Some e" for q e
    using assms(1) that old(1) unfolding shared_inv_def look by (auto split: if_splits)
  ultimately show ?thesis
    using assms(1) wf unfolding shared_inv_def by (simp del: not_None_eq)
qed

lemma shared_inv_step:
  assumes "cm_step s t" and "shared_inv H s" and "dom (cm_lookup (sys_cm s)) \<subseteq> dom (cm_lookup (sys_cm t))"
    and "\<forall>i k h. sys_callers t i = Some (Reading k h) \<longrightarrow> h = H k"
  shows "shared_inv H t"
  using assms
proof (induction rule: cm_step.induct)
  case (cm_read_hit s i k h now c cm')
  then show ?case by (intro shared_inv_hit)
next
  case (cm_write_hit s i k h now c cm')
  then show ?case by (intro shared_inv_hit)
next
  case (cm_write_new s i k h now c)
  have hash: "h = H k" using cm_write_new.prems(1) cm_write_new.hyps(1) by (auto simp: shared_inv_def)
  have none: "cm_lookup (sys_cm s) k = None"
    using cm_write_new.hyps(2) cm_write_new.prems(1) hash
    by (auto simp: cache_hit_def shared_inv_def split: option.splits if_splits)
  have unmade: "(k, g, d) \<notin> set (sys_made s)" for g d
    using cm_write_new.prems(1) none unfolding shared_inv_def by (metis option.distinct(1))
  have look: "cm_lookup (cache_store k h c now (sys_cm s)) q =
      (if q = k then Some \<lparr>ca_client = c, ca_hash = h, ca_lastUsed = now\<rparr> else cm_lookup (sys_cm s) q)" for q
    by (simp add: cache_store_def update_conv')
  have "\<exists>t. cm_lookup (cache_store k h c now (sys_cm s)) q = Some \<lparr>ca_client = d, ca_hash = H q, ca_lastUsed = t\<rparr>"
    if "(q, g, d) \<in> set ((k, h, c) # sys_made s)" for q g d
    using that cm_write_new.prems(1) unmade [of g d] unfolding look shared_inv_def by (auto simp: hash)
  moreover have "ca_hash e = H q" if "cm_lookup (cache_store k h c now (sys_cm s)) q = Some e" for q e
    using that cm_write_new.prems(1) unfolding look shared_inv_def by (auto simp: hash split: if_splits)
  ultimately show ?case
    using cm_write_new.prems(1) unfolding shared_inv_def by simp
next
  case (cm_tick s now)
  have exp: "cm_lookup (removeExpired now (sys_cm s)) k = (case cm_lookup (sys_cm s) k of None \<Rightarrow> None
      | Some v \<Rightarrow> if now - ca_lastUsed v > cm_ttl (sys_cm s) then None else Some v)" for k
    using cm_tick.prems(1) by (simp add: removeExpired_lookup shared_inv_def)
  have "cm_lookup (removeExpired now (sys_cm s)) k = cm_lookup (sys_cm s) k" for k
  proof (cases "cm_lookup (sys_cm s) k")
    case (Some v)
    then have "k \<in> dom (cm_lookup (sys_cm s))" by blast
    with cm_tick.prems(2) have "cm_lookup (removeExpired now (sys_cm s)) k \<noteq> None" by auto
    with exp [of k] Some show ?thesis by (auto split: if_splits)
  qed (simp add: exp)
  with cm_tick.prems(1) show ?case by (simp add: shared_inv_def)
next
  case (cm_stop s)
  then have "cm_lookup (sys_cm s) = Map.empty" by (auto simp: cleanup_def)
  then have "cm_clients (sys_cm s) = []" by simp
  with cm_stop.prems(1) show ?case by (simp add: shared_inv_def cleanup_def cm_wf_def)
qed (auto simp: shared_inv_def split: if_splits)


lemma cm_calm_shared: "cm_calm H s \<Longrightarrow> shared_inv H s \<and> cm_reachable s"
proof (induction rule: cm_calm.induct)
  case calm_start
  show ?case by (simp add: shared_inv_def cm_init_def NewClusterManager_def cm_wf_def cm_start [unfolded cm_init_def NewClusterManager_def])
next
  case (calm_next s t)
  then show ?case by (blast intro: shared_inv_step cm_next)
qed

text \<open>
  C30: Concurrent callers share one client. As long as no cached client is dropped and no kubeconfig rotates,
  any two callers that ask for the same Secret get the same client, however their steps interleave:
  the second check under the write lock prevents a second client.
\<close>

theorem one_client_per_kubeconfig:
  assumes "cm_calm H s"
    and "sys_callers s i = Some (Returned k h c)" and "sys_callers s j = Some (Returned k h' c')"
  shows "c = c'"
proof -
  have "shared_inv H s" and "cm_inv s"
    using cm_calm_shared [OF assms(1)] cm_reachable_inv by auto
  with assms(2,3) obtain t t' where
    "cm_lookup (sys_cm s) k = Some \<lparr>ca_client = c, ca_hash = H k, ca_lastUsed = t\<rparr>"
    "cm_lookup (sys_cm s) k = Some \<lparr>ca_client = c', ca_hash = H k, ca_lastUsed = t'\<rparr>"
    unfolding shared_inv_def cm_inv_def by meson
  then show ?thesis by simp
qed

text \<open>Two callers miss at the same time; the first creates the client, the second finds it.\<close>

definition two_callers :: "caller \<Rightarrow> caller \<Rightarrow> nat \<Rightarrow> caller option" where
  "two_callers a b = [0 \<mapsto> a, 1 \<mapsto> b]"

definition race_end :: cm_sys where
  "race_end = sys_after_new\<lparr>sys_callers := two_callers (Returned ''ns/s'' ''h'' 7) (Returned ''ns/s'' ''h'' 7)\<rparr>"

lemma race_calm: "cm_calm (\<lambda>_. ''h'') race_end"
proof -
  let ?r = "Reading ''ns/s'' ''h''" and ?m = "Missed ''ns/s'' ''h''" and ?d = "Returned ''ns/s'' ''h'' 7"
  let ?at = "\<lambda>f. cm_init\<lparr>sys_callers := f\<rparr>"
  let ?new = "sys_after_new\<lparr>sys_callers := two_callers ?d ?m\<rparr>"
  note init = cm_init_def NewClusterManager_def cache_hit_def two_callers_def
  have 1: "cm_step cm_init (?at [0 \<mapsto> ?r])"
    using cm_call [of cm_init 0 "''ns/s''" "''h''"] by (simp add: init)
  have 2: "cm_step (?at [0 \<mapsto> ?r]) (?at (two_callers ?r ?r))"
    using cm_call [of "?at [0 \<mapsto> ?r]" 1 "''ns/s''" "''h''"] by (simp add: init)
  have 3: "cm_step (?at (two_callers ?r ?r)) (?at (two_callers ?m ?r))"
    using cm_read_miss [of "?at (two_callers ?r ?r)" 0 "''ns/s''" "''h''" 0] by (simp add: init fun_upd_twist)
  have 4: "cm_step (?at (two_callers ?m ?r)) (?at (two_callers ?m ?m))"
    using cm_read_miss [of "?at (two_callers ?m ?r)" 1 "''ns/s''" "''h''" 0] by (simp add: init)
  have 5: "cm_step (?at (two_callers ?m ?m)) ?new"
    using cm_write_new [of "?at (two_callers ?m ?m)" 0 "''ns/s''" "''h''" 0 7]
    by (simp add: init sys_after_new_def fun_upd_twist)
  have 6: "cm_step ?new race_end"
    using cm_write_hit [of ?new 1 "''ns/s''" "''h''" 0 7 "sys_cm sys_after_new"]
    by (simp add: init sys_after_new_def race_end_def cache_store_def)
  have calm: "cm_calm (\<lambda>_. ''h'') (?at f)" if "cm_calm (\<lambda>_. ''h'') s" "cm_step s (?at f)" "sys_cm s = sys_cm cm_init"
      "ran f \<subseteq> {?r, ?m}" for s f
    by (rule calm_next [OF that(1,2)]) (use that(3,4) in \<open>auto simp: ran_def\<close>)
  have "cm_calm (\<lambda>_. ''h'') (?at (two_callers ?m ?m))"
    by (rule calm [OF calm [OF calm [OF calm [OF calm_start 1] 2] 3] 4]) (auto simp: two_callers_def ran_def split: if_splits)
  then have "cm_calm (\<lambda>_. ''h'') ?new"
    by (rule calm_next [OF _ 5]) (auto simp: init sys_after_new_def split: if_splits)
  then show ?thesis
    by (rule calm_next [OF _ 6]) (auto simp: race_end_def init split: if_splits)
qed

theorem one_client_per_kubeconfig_witness:
  "cm_calm (\<lambda>_. ''h'') race_end \<and> (\<exists>c c'. sys_callers race_end 0 = Some (Returned ''ns/s'' ''h'' c) \<and>
     sys_callers race_end 1 = Some (Returned ''ns/s'' ''h'' c') \<and> c = c')"
proof -
  have "sys_callers race_end 0 = Some (Returned ''ns/s'' ''h'' 7)" "sys_callers race_end 1 = Some (Returned ''ns/s'' ''h'' 7)"
    by (simp_all add: race_end_def two_callers_def)
  with one_client_per_kubeconfig [OF race_calm this] race_calm show ?thesis by blast
qed

section \<open>The code is a path of the machine\<close>




end
