(* ===== verification/Props_Resources.thy ===== *)
theory Props_Resources
  imports Sample
begin

text \<open>
  The properties of what the pipeline reads and writes: conditions of managed objects, the template
  context, replica counters, and the remote ConfigMaps.
\<close>

section \<open>Conditions\<close>

text \<open>Documented behaviour of \<open>unstructured.NestedString\<close> on one field: a missing or non-string field reads as empty.\<close>

definition law_NestedString_field :: "lib \<Rightarrow> bool" where
  "law_NestedString_field L \<longleftrightarrow> (\<forall>m k. nested_string L m [k] = (case mapIndex m k of GString v \<Rightarrow> v | _ \<Rightarrow> []))"

definition entry_of_type :: "string \<Rightarrow> goval \<Rightarrow> bool" where
  "entry_of_type t v = (case v of GMap m \<Rightarrow> mapIndex m ''type'' = GString t | _ \<Rightarrow> False)"

definition true_entry :: "string \<Rightarrow> goval \<Rightarrow> bool" where
  "true_entry t v = (case v of GMap m \<Rightarrow> mapIndex m ''type'' = GString t \<and> mapIndex m ''status'' = GString ''True'' | _ \<Rightarrow> False)"

lemma nested_string_eq:
  "law_NestedString_field L \<Longrightarrow> t \<noteq> [] \<Longrightarrow> nested_string L m [k] = t \<longleftrightarrow> mapIndex m k = GString t"
  by (auto simp: law_NestedString_field_def split: goval.splits)

lemma firstCondition_find:
  assumes "law_NestedString_field L" and "t \<noteq> []"
  shows "firstCondition L t cs \<longleftrightarrow> (\<exists>v. List.find (entry_of_type t) cs = Some v \<and> true_entry t v)"
proof (induction cs)
  case (Cons v cs)
  have "nested_string L m [''type''] = t \<longleftrightarrow> mapIndex m ''type'' = GString t"
    and "nested_string L m [''status''] = ConditionTrue \<longleftrightarrow> mapIndex m ''status'' = GString ConditionTrue" for m
    using assms by (simp_all add: nested_string_eq)
  with Cons show ?case
    by (cases v) (simp_all add: entry_of_type_def true_entry_def)
qed simp

lemma isConditionTrue_ex:
  "isConditionTrue L obj t = (case NestedSlice L obj [''status'', ''conditions''] of
     (cs, found, err) \<Rightarrow> err = None \<and> found \<and> list_ex (true_entry t) cs)"
proof -
  have "true_entry t = (\<lambda>v. case v of GMap m \<Rightarrow> mapIndex m ''type'' = GString t \<and> mapIndex m ''status'' = GString ''True'' | _ \<Rightarrow> False)"
    by (rule ext) (simp add: true_entry_def)
  then show ?thesis by (auto simp: isConditionTrue_def split: prod.splits)
qed

lemma find_filter_single: "length (filter P xs) \<le> 1 \<Longrightarrow> list_ex (\<lambda>x. P x \<and> Q x) xs \<longleftrightarrow> (\<exists>x. List.find P xs = Some x \<and> Q x)"
  by (induction xs) (auto simp: list_ex_iff filter_empty_conv)

text \<open>
  C31: The two readers of conditions agree. The pipeline asks for a true condition in two ways: \<open>isConditionTrue\<close>
  accepts any true entry of the type, \<open>hasTrueCondition\<close> looks at the first entry of the type only. The second
  implies the first, and on objects that list a type at most once, as Kubernetes requires, they
  are the same.
\<close>

theorem condition_readers_agree:
  assumes "law_NestedString_field L" and "t \<noteq> []"
  shows "(hasTrueCondition L obj t \<longrightarrow> isConditionTrue L obj t) \<and>
    (length (filter (entry_of_type t) (fst (NestedSlice L obj [''status'', ''conditions'']))) \<le> 1 \<longrightarrow>
     (hasTrueCondition L obj t \<longleftrightarrow> isConditionTrue L obj t))"
proof -
  have true_type: "true_entry t v \<longleftrightarrow> entry_of_type t v \<and> true_entry t v" for v
    by (auto simp: true_entry_def entry_of_type_def split: goval.splits)
  have "(\<exists>v. List.find (entry_of_type t) cs = Some v \<and> true_entry t v) \<Longrightarrow> list_ex (true_entry t) cs" for cs
    by (auto simp: list_ex_iff find_Some_iff)
  moreover have "length (filter (entry_of_type t) cs) \<le> 1 \<Longrightarrow>
      list_ex (true_entry t) cs \<longleftrightarrow> (\<exists>v. List.find (entry_of_type t) cs = Some v \<and> true_entry t v)" for cs
    using find_filter_single [of "entry_of_type t" cs "true_entry t"] true_type by simp
  ultimately show ?thesis
    by (auto simp: hasTrueCondition_def isConditionTrue_ex firstCondition_find [OF assms] split: prod.splits)
qed

lemma L0_NestedString: "law_NestedString_field L0"
  unfolding law_NestedString_field_def
  by (auto simp: L0_def mapIndex_def typed_def as_string_def split: option.splits goval.splits)

theorem condition_readers_agree_witness:
  "hasTrueCondition L0 obj1 ''RolesApplied'' \<and> isConditionTrue L0 obj1 ''RolesApplied''"
proof -
  have "hasTrueCondition L0 obj1 ''RolesApplied''" by code_simp
  with condition_readers_agree [OF L0_NestedString, of "''RolesApplied''" obj1] show ?thesis by simp
qed

section \<open>Template context\<close>



section \<open>Counters\<close>

text \<open>
  Replica counters at their width. An int64 counter is reduced to int32 with Go's wrap-around, so it is
  kept exactly when it fits; a float64 is truncated towards zero when the result fits; every other
  dynamic value counts as zero.
\<close>

lemma counters_wrap:
  "sint (toInt32 L (GInt64 x)) = (sint x + 2 ^ 31) mod 2 ^ 32 - 2 ^ 31 \<and>
   toInt32 L (GFloat64 (Finite m e)) =
     (if - (2 ^ 31) \<le> trunc_finite m e \<and> trunc_finite m e < 2 ^ 31 then word_of_int (trunc_finite m e)
      else float_oor L (Finite m e)) \<and>
   toInt32 L GNil = 0 \<and> toInt32 L (GBool b) = 0 \<and> toInt32 L (GString v) = 0"
proof -
  have "sint (int32_of_int64 x) = signed_take_bit 31 (sint x)"
    by (simp add: int32_of_int64_def sint_uint unsigned_ucast_eq signed_take_bit_take_bit take_bit_word_eq_self)
  also have "\<dots> = (sint x + 2 ^ 31) mod 2 ^ 32 - 2 ^ 31"
    by (simp add: signed_take_bit_eq_take_bit_shift take_bit_eq_mod)
  finally show ?thesis by (simp add: toInt32_def int32_of_float64_def Let_def)
qed

section \<open>Remote ConfigMaps\<close>

text \<open>
  \<open>reflect.DeepEqual\<close> on string maps, as the code uses it to skip writes, is equality of the maps that the
  two sides denote, except that it tells a nil map from an empty one.
\<close>

lemma map_DeepEqual_iff:
  "map_DeepEqual a b \<longleftrightarrow> map_option map_of a = map_option map_of b"
proof -
  have "map_of m = map_of n" if "list_all (\<lambda>k. map_of m k = map_of n k) (map fst m @ map fst n)" for m n :: strmap
  proof
    fix k
    show "map_of m k = map_of n k"
    proof (cases "k \<in> set (map fst m @ map fst n)")
      case True
      with that show ?thesis unfolding list_all_iff by blast
    next
      case False
      then have "map_of m k = None" and "map_of n k = None" by (auto simp: map_of_eq_None_iff)
      then show ?thesis by simp
    qed
  qed
  then show ?thesis by (auto simp: map_DeepEqual_def list_all_iff split: option.splits)
qed

text \<open>
  Documented behaviour of an API server for ConfigMaps: an object is read under the key it has; after a
  successful write it reads back with the content written, where an empty map is dropped; reading
  never yields an empty map and changes nothing.
\<close>

definition norm_map :: "strmap option \<Rightarrow> strmap option" where
  "norm_map m = (case m of Some [] \<Rightarrow> None | _ \<Rightarrow> m)"

definition stored_as :: "ConfigMap \<Rightarrow> ConfigMap \<Rightarrow> bool" where
  "stored_as cm x \<longleftrightarrow> cmap_Labels x = norm_map (cmap_Labels cm) \<and> cmap_Annotations x = norm_map (cmap_Annotations cm) \<and>
     cmap_Data x = norm_map (cmap_Data cm)"

definition law_remote_store :: "'w api \<Rightarrow> bool" where
  "law_remote_store A \<longleftrightarrow>
    (\<forall>cl cm w w'. rem_create A cl cm w = (None, w') \<longrightarrow>
       (\<exists>x. rem_get A cl (key_of (cmap_Name cm) (cmap_Namespace cm)) w' = (Inr x, w') \<and> stored_as cm x)) \<and>
    (\<forall>cl cm w w'. rem_update A cl cm w = (None, w') \<longrightarrow>
       (\<exists>x. rem_get A cl (key_of (cmap_Name cm) (cmap_Namespace cm)) w' = (Inr x, w') \<and> stored_as cm x)) \<and>
    (\<forall>cl k w. snd (rem_get A cl k w) = w) \<and>
    (\<forall>cl k w x. fst (rem_get A cl k w) = Inr x \<longrightarrow>
       key_of (cmap_Name x) (cmap_Namespace x) = k \<and> norm_map (cmap_Data x) = cmap_Data x) \<and>
    (\<forall>t w. snd (api_get_template A t w) = w)"

lemma desiredConfigMap_content:
  "cmap_Name (desiredConfigMap L c r n ns) = n" "cmap_Namespace (desiredConfigMap L c r n ns) = ns"
  "norm_map (cmap_Labels (desiredConfigMap L c r n ns)) = cmap_Labels (desiredConfigMap L c r n ns)"
  "norm_map (cmap_Annotations (desiredConfigMap L c r n ns)) = cmap_Annotations (desiredConfigMap L c r n ns)"
proof -
  have "MergeLabels q (StandardLabels a b) \<noteq> []" for q a b
    using go_merge.standard_wins(1)
    by (auto simp: MergeLabels_def StandardLabels_def AList.update_nonempty)
  then show "norm_map (cmap_Labels (desiredConfigMap L c r n ns)) = cmap_Labels (desiredConfigMap L c r n ns)"
    by (simp add: norm_map_def desiredConfigMap_def Let_def split: option.splits list.splits)
qed (auto simp: norm_map_def desiredConfigMap_def Let_def split: option.splits list.splits)

text \<open>What a successful application leaves on a server that stores what it is given.\<close>

definition reads_back :: "'w api \<Rightarrow> rclient \<Rightarrow> ConfigMap \<Rightarrow> ConfigMap \<Rightarrow> 'w \<Rightarrow> bool" where
  "reads_back A cl cm x w \<longleftrightarrow> rem_get A cl (key_of (cmap_Name cm) (cmap_Namespace cm)) w = (Inr x, w) \<and>
     map_DeepEqual (cmap_Labels x) (cmap_Labels cm) \<and> map_DeepEqual (cmap_Annotations x) (cmap_Annotations cm) \<and>
     map_DeepEqual (cmap_Data x) (norm_map (cmap_Data cm))"

lemma map_DeepEqual_refl [simp]: "map_DeepEqual a a"
  by (auto simp: map_DeepEqual_def list_all_iff split: option.splits)

lemma with_content_simps [simp]:
  "cmap_Name (with_content y cm) = cmap_Name y" "cmap_Namespace (with_content y cm) = cmap_Namespace y"
  "cmap_Labels (with_content y cm) = cmap_Labels cm" "cmap_Annotations (with_content y cm) = cmap_Annotations cm"
  "cmap_Data (with_content y cm) = cmap_Data cm"
  by (simp_all add: with_content_def)

lemma law_update:
  assumes "law_remote_store A" and "rem_update A cl cm w = (None, w')"
  obtains x where "rem_get A cl (key_of (cmap_Name cm) (cmap_Namespace cm)) w' = (Inr x, w')" "stored_as cm x"
  using assms unfolding law_remote_store_def by blast

lemma norm_DeepEqual: "norm_map a = a \<Longrightarrow> map_DeepEqual a b \<Longrightarrow> norm_map b = b"
  by (cases a; cases b; cases "the b"; cases "the a") (auto simp: norm_map_def map_DeepEqual_def)

lemma applyRemote_stored:
  assumes law: "law_remote_store (e_api E)" and ok: "run_state (applyRemoteConfigMap E cl t n ns) s = (None, u)"
    and tmpl: "api_get_template (e_api E) t (world s) = (Inr tmpl, world s)"
    and rendered: "Render (e_lib E) (ts_Value (tm_Spec tmpl)) (tctx s) = Inr rendered"
  shows "\<exists>x. reads_back (e_api E) cl (desiredConfigMap (e_lib E) (claim s) rendered n ns) x (world u)"
proof -
  let ?cm = "desiredConfigMap (e_lib E) (claim s) rendered n ns" and ?k = "key_of n ns"
  have get: "rem_get (e_api E) cl ?k (world s) = (fst (rem_get (e_api E) cl ?k (world s)), world s)"
    using law unfolding law_remote_store_def by (metis prod.collapse)
  consider (absent) e where "rem_get (e_api E) cl ?k (world s) = (Inl e, world s)"
    | (same) y where "rem_get (e_api E) cl ?k (world s) = (Inr y, world s)" "same_content y ?cm"
    | (other) y where "rem_get (e_api E) cl ?k (world s) = (Inr y, world s)" "\<not> same_content y ?cm"
    using get by (cases "fst (rem_get (e_api E) cl ?k (world s))") auto
  then show ?thesis
  proof cases
    case absent
    then have "rem_create (e_api E) cl ?cm (world s) = (None, world u)"
      using ok tmpl rendered
      by (auto simp: applyRemoteConfigMap_def k_defs Let_def split: prod.splits if_splits)
    then obtain x where "rem_get (e_api E) cl ?k (world u) = (Inr x, world u)" "stored_as ?cm x"
      using law unfolding law_remote_store_def by (metis desiredConfigMap_content(1,2))
    then have "reads_back (e_api E) cl ?cm x (world u)"
      by (simp add: reads_back_def stored_as_def desiredConfigMap_content)
    then show ?thesis ..
  next
    case (same y)
    then have "world u = world s"
      using ok tmpl rendered by (auto simp: applyRemoteConfigMap_def k_defs Let_def same_content_def)
    moreover have "norm_map (cmap_Data y) = cmap_Data y"
      using law same(1) unfolding law_remote_store_def by (metis fst_conv)
    with same(2) have "norm_map (cmap_Data ?cm) = cmap_Data ?cm"
      by (auto simp: same_content_def intro: norm_DeepEqual)
    ultimately have "reads_back (e_api E) cl ?cm y (world u)"
      using same by (simp add: reads_back_def same_content_def desiredConfigMap_content)
    then show ?thesis ..
  next
    case (other y)
    then have "rem_update (e_api E) cl (with_content y ?cm) (world s) = (None, world u)"
      using ok tmpl rendered
      by (auto simp: applyRemoteConfigMap_def k_defs Let_def same_content_def with_content_def split: prod.splits if_splits)
    then obtain x where "rem_get (e_api E) cl (key_of (cmap_Name y) (cmap_Namespace y)) (world u) = (Inr x, world u)"
      "stored_as (with_content y ?cm) x"
      by (rule law_update [OF law]) simp
    moreover have "key_of (cmap_Name y) (cmap_Namespace y) = ?k"
      using law other(1) unfolding law_remote_store_def by (metis fst_conv)
    ultimately have "reads_back (e_api E) cl ?cm x (world u)"
      by (simp add: reads_back_def stored_as_def desiredConfigMap_content)
    then show ?thesis ..
  qed
qed

lemma applyRemote_leaves:
  assumes law: "law_remote_store (e_api E)" and ok: "run_state (applyRemoteConfigMap E cl t n ns) s = (None, u)"
  obtains tmpl rendered x where "fst (api_get_template (e_api E) t (world s)) = Inr tmpl"
    "Render (e_lib E) (ts_Value (tm_Spec tmpl)) (tctx s) = Inr rendered" "claim u = claim s" "tctx u = tctx s"
    "reads_back (e_api E) cl (desiredConfigMap (e_lib E) (claim s) rendered n ns) x (world u)"
proof -
  obtain tmpl where tmpl: "fst (api_get_template (e_api E) t (world s)) = Inr tmpl"
    using ok by (auto simp: applyRemoteConfigMap_def k_defs split: prod.splits sum.splits if_splits)
  then have tmpl': "api_get_template (e_api E) t (world s) = (Inr tmpl, world s)"
    using law unfolding law_remote_store_def by (metis prod.collapse)
  obtain rendered where rendered: "Render (e_lib E) (ts_Value (tm_Spec tmpl)) (tctx s) = Inr rendered"
    using ok tmpl' by (auto simp: applyRemoteConfigMap_def k_defs split: sum.splits)
  have "claim u = claim s" "tctx u = tctx s"
    using ok tmpl' rendered
    by (auto simp: applyRemoteConfigMap_def k_defs Let_def split: sum.splits prod.splits if_splits)
  with applyRemote_stored [OF law ok tmpl' rendered] show thesis
    using that [OF tmpl rendered] by blast
qed

text \<open>
  C24: Remote ConfigMaps settle, unless their data is empty. After a successful application, with the template
  unchanged, applying again reads the template and the ConfigMap and writes nothing. The exception is a
  template that renders an empty data map: the server drops it, the comparison tells nil from empty,
  and every further application updates the ConfigMap again.
\<close>

theorem remote_configmap_settles:
  assumes "law_remote_store (e_api E)"
    and "run_state (applyRemoteConfigMap E cl t n ns) s = (None, u)"
    and "fst (api_get_template (e_api E) t (world u)) = fst (api_get_template (e_api E) t (world s))"
  shows "\<exists>tmpl rendered x. fst (api_get_template (e_api E) t (world s)) = Inr tmpl \<and>
     Render (e_lib E) (ts_Value (tm_Spec tmpl)) (tctx s) = Inr rendered \<and>
     (case run_state (applyRemoteConfigMap E cl t n ns) u of (err, v) \<Rightarrow>
        let cm = desiredConfigMap (e_lib E) (claim s) rendered n ns;
            reads = [CGetTemplate t (Inr tmpl), CRemoteGet cl (key_of n ns) (Inr x)] in
        if cmap_Data cm = Some [] then new_calls u v = reads @ [CRemoteUpdate cl (with_content x cm) err]
        else err = None \<and> new_calls u v = reads)"
proof -
  obtain tmpl rendered x where r: "fst (api_get_template (e_api E) t (world s)) = Inr tmpl"
    "Render (e_lib E) (ts_Value (tm_Spec tmpl)) (tctx s) = Inr rendered" "claim u = claim s" "tctx u = tctx s"
    and readback: "reads_back (e_api E) cl (desiredConfigMap (e_lib E) (claim s) rendered n ns) x (world u)"
    by (rule applyRemote_leaves [OF assms(1,2)])
  let ?cm = "desiredConfigMap (e_lib E) (claim s) rendered n ns"
  have tmpl: "api_get_template (e_api E) t (world u) = (Inr tmpl, world u)"
    using assms(1,3) r(1) by (auto simp: law_remote_store_def prod_eq_iff)
  have get: "rem_get (e_api E) cl (key_of n ns) (world u) = (Inr x, world u)"
    using readback by (simp add: reads_back_def desiredConfigMap_content)
  have same: "same_content x ?cm \<longleftrightarrow> cmap_Data ?cm \<noteq> Some []"
  proof (cases "cmap_Data ?cm = Some []")
    case True
    then show ?thesis using readback by (auto simp: reads_back_def same_content_def norm_map_def map_DeepEqual_def split: option.splits)
  next
    case False
    then have "norm_map (cmap_Data ?cm) = cmap_Data ?cm" by (auto simp: norm_map_def split: option.splits list.splits)
    with readback False show ?thesis by (simp add: reads_back_def same_content_def)
  qed
  have "case run_state (applyRemoteConfigMap E cl t n ns) u of (err, v) \<Rightarrow>
        let reads = [CGetTemplate t (Inr tmpl), CRemoteGet cl (key_of n ns) (Inr x)] in
        if cmap_Data ?cm = Some [] then new_calls u v = reads @ [CRemoteUpdate cl (with_content x ?cm) err]
        else err = None \<and> new_calls u v = reads"
    using same tmpl get r
    by (auto simp: applyRemoteConfigMap_def k_defs Let_def same_content_def with_content_def new_calls_def
        split: prod.splits)
  with r show ?thesis by (auto simp: Let_def)
qed

text \<open>A server whose state is its ConfigMaps.\<close>

type_synonym cmaps = "ObjectKey \<rightharpoonup> ConfigMap"

definition cm_norm :: "ConfigMap \<Rightarrow> ConfigMap" where
  "cm_norm cm = cm\<lparr>cmap_Labels := norm_map (cmap_Labels cm), cmap_Annotations := norm_map (cmap_Annotations cm),
     cmap_Data := norm_map (cmap_Data cm)\<rparr>"

definition cm_get :: "ObjectKey \<Rightarrow> cmaps \<Rightarrow> goerror + ConfigMap" where
  "cm_get k w = (case w k of None \<Rightarrow> Inl NotFound
     | Some x \<Rightarrow> if key_of (cmap_Name x) (cmap_Namespace x) = k \<and> cm_norm x = x then Inr x else Inl NotFound)"

definition cm_put :: "ConfigMap \<Rightarrow> cmaps \<Rightarrow> goerror option \<times> cmaps" where
  "cm_put cm w = (None, w(key_of (cmap_Name cm) (cmap_Namespace cm) \<mapsto> cm_norm cm))"

definition A4 :: "cmaps api" where
  "A4 = \<lparr>api_now = (\<lambda>w. (0, w)), api_get_claim = (\<lambda>k w. (Inr claim0, w)),
     api_get_template = (\<lambda>n w. (Inr (template0 n VaultClaimGVK), w)), api_get_secret = (\<lambda>k w. (Inr secret0, w)),
     api_get = (\<lambda>g k w. (Inr obj1, w)), api_list_claims = (\<lambda>field v w. (Inr [], w)),
     api_update = (\<lambda>m w. (None, w)), api_apply = (\<lambda>m w. (None, w)), api_delete = (\<lambda>m w. (None, w)),
     api_update_claim = (\<lambda>c w. ((None, c), w)), api_update_status = (\<lambda>c w. ((None, c), w)),
     api_new_client = (\<lambda>cfg w. (Inr cfg, w)), rem_get = (\<lambda>cl k w. (cm_get k w, w)),
     rem_create = (\<lambda>cl m w. cm_put m w), rem_update = (\<lambda>cl m w. cm_put m w), rem_delete = (\<lambda>cl k w. (None, w(k := None)))\<rparr>"

definition E4 :: "cmaps env" where
  "E4 = \<lparr>e_lib = L0, e_api = A4, e_Recorder = True, e_ClusterManager = True, e_RemoteNamespace = ''beget-system''\<rparr>"

lemma norm_map_idem [simp]: "norm_map (norm_map m) = norm_map m"
  by (auto simp: norm_map_def split: option.splits list.splits)

lemma A4_law: "law_remote_store A4"
proof -
  have "cm_get (key_of (cmap_Name cm) (cmap_Namespace cm)) (snd (cm_put cm w)) = Inr (cm_norm cm)" for cm w
    by (simp add: cm_get_def cm_put_def) (simp add: cm_norm_def)
  moreover have "key_of (cmap_Name x) (cmap_Namespace x) = k \<and> norm_map (cmap_Data x) = cmap_Data x"
    if "cm_get k w = Inr x" for k w x
    using that by (auto simp: cm_get_def cm_norm_def split: option.splits if_splits) (metis ConfigMap.select_convs(7) ConfigMap.surjective ConfigMap.update_convs(5-7))
  ultimately show ?thesis
    unfolding law_remote_store_def A4_def
    by (auto simp: cm_put_def stored_as_def) (auto simp: cm_norm_def)
qed

theorem remote_configmap_settles_witness:
  "\<exists>u v. run_state (applyRemoteConfigMap E4 3 ''params'' ''parameters-infra'' ''beget-system'')
       \<lparr>world = Map.empty, cmgr = NewClusterManager, calls = [], claim = claim0, tctx = emptyContext []\<rparr> = (None, u) \<and>
     run_state (applyRemoteConfigMap E4 3 ''params'' ''parameters-infra'' ''beget-system'') u = (None, v) \<and>
     length (new_calls u v) = 2"
proof -
  let ?s = "\<lparr>world = Map.empty, cmgr = NewClusterManager, calls = [], claim = claim0, tctx = emptyContext []\<rparr> :: cmaps pst"
  let ?run = "run_state (applyRemoteConfigMap E4 3 ''params'' ''parameters-infra'' ''beget-system'')"
  have lib: "e_lib E4 = L0" "e_api E4 = A4" by (simp_all add: E4_def)
  have missing: "IsNotFound L0 NotFound" by (simp add: L0_def NotFound_def)
  have get: "api_get_template A4 n w = (Inr (template0 n VaultClaimGVK), w)" for n w by (simp add: A4_def)
  obtain r where r: "Render L0 (ts_Value (tm_Spec (template0 ''params'' VaultClaimGVK))) (tctx ?s) = Inr r"
    and data: "map_of r ''data'' = Some (GMap [(''environment'', GString ''infra'')])"
    by (simp add: Render_def L0_def template0_def)
  have "fst (?run ?s) = None"
    using r by (simp add: applyRemoteConfigMap_def k_defs lib get Let_def)
      (simp add: A4_def cm_get_def cm_put_def missing k_defs lib)
  then obtain u where u: "?run ?s = (None, u)" by (cases "?run ?s") simp
  have "cmap_Data (desiredConfigMap L0 claim0 r ''parameters-infra'' ''beget-system'') \<noteq> Some []"
    using data by (simp add: desiredConfigMap_def Let_def)
  with remote_configmap_settles [of E4, OF _ u] r show ?thesis
    using u by (cases "?run u") (auto simp: lib get A4_law Let_def)
qed

end
