(* ===== verification/Startup.thy ===== *)
theory Startup
  imports Watches
begin

text \<open>
  Start-up of the process (cmd/main.go) and registration of the controller and of the webhook
  (\<open>SetupWithManager\<close> in clusterclaim_controller.go, \<open>SetupClusterClaimWebhookWithManager\<close> in
  clusterclaim_webhook.go). The controller-runtime manager is a parameter: the operations the code
  calls on it, each of which may fail. Parsing of the command line and of the logging flags is left
  to the flag packages; \<open>flags\<close> holds the parsed values and \<open>default_flags\<close> the declared defaults.
\<close>

section \<open>Flags and server options\<close>

record flags =
  fl_metricsAddr :: string
  fl_probeAddr :: string
  fl_enableLeaderElection :: bool
  fl_secureMetrics :: bool
  fl_enableWebhook :: bool
  fl_remoteNamespace :: string
  fl_webhookCertPath :: string
  fl_webhookCertName :: string
  fl_webhookCertKey :: string
  fl_metricsCertPath :: string
  fl_metricsCertName :: string
  fl_metricsCertKey :: string
  fl_enableHTTP2 :: bool
  fl_pprofAddr :: string

definition default_flags :: flags where
  "default_flags = \<lparr>fl_metricsAddr = ''0'', fl_probeAddr = '':8081'', fl_enableLeaderElection = False,
     fl_secureMetrics = True, fl_enableWebhook = True, fl_remoteNamespace = [],
     fl_webhookCertPath = [], fl_webhookCertName = ''tls.crt'', fl_webhookCertKey = ''tls.key'',
     fl_metricsCertPath = [], fl_metricsCertName = ''tls.crt'', fl_metricsCertKey = ''tls.key'',
     fl_enableHTTP2 = False, fl_pprofAddr = ''127.0.0.1:8082''\<rparr>"

text \<open>Of a TLS configuration the code sets the list of protocols offered.\<close>

record tls_config =
  NextProtos :: "string list"

definition disableHTTP2 :: "tls_config \<Rightarrow> tls_config" where
  "disableHTTP2 c = c\<lparr>NextProtos := [''http/1.1'']\<rparr>"

definition tlsOpts :: "flags \<Rightarrow> (tls_config \<Rightarrow> tls_config) list" where
  "tlsOpts fl = (if \<not> fl_enableHTTP2 fl then [] @ [disableHTTP2] else [])"

record webhookOptions =
  wo_TLSOpts :: "(tls_config \<Rightarrow> tls_config) list"
  wo_CertDir :: string
  wo_CertName :: string
  wo_KeyName :: string

definition webhookServerOptions :: "flags \<Rightarrow> webhookOptions" where
  "webhookServerOptions fl =
    (let opts = \<lparr>wo_TLSOpts = tlsOpts fl, wo_CertDir = [], wo_CertName = [], wo_KeyName = []\<rparr> in
     if length (fl_webhookCertPath fl) > 0
     then opts\<lparr>wo_CertDir := fl_webhookCertPath fl, wo_CertName := fl_webhookCertName fl,
               wo_KeyName := fl_webhookCertKey fl\<rparr>
     else opts)"

text \<open>\<open>mo_FilterProvider\<close>: whether the authentication and authorization filter is set.\<close>

record metricsOptions =
  mo_BindAddress :: string
  mo_SecureServing :: bool
  mo_TLSOpts :: "(tls_config \<Rightarrow> tls_config) list"
  mo_FilterProvider :: bool
  mo_CertDir :: string
  mo_CertName :: string
  mo_KeyName :: string

definition metricsServerOptions :: "flags \<Rightarrow> metricsOptions" where
  "metricsServerOptions fl =
    (let opts = \<lparr>mo_BindAddress = fl_metricsAddr fl, mo_SecureServing = fl_secureMetrics fl, mo_TLSOpts = tlsOpts fl,
           mo_FilterProvider = False, mo_CertDir = [], mo_CertName = [], mo_KeyName = []\<rparr>;
         opts = (if fl_secureMetrics fl then opts\<lparr>mo_FilterProvider := True\<rparr> else opts) in
     if length (fl_metricsCertPath fl) > 0
     then opts\<lparr>mo_CertDir := fl_metricsCertPath fl, mo_CertName := fl_metricsCertName fl,
               mo_KeyName := fl_metricsCertKey fl\<rparr>
     else opts)"

record managerOptions =
  op_CacheUnstructured :: bool
  op_Metrics :: metricsOptions
  op_WebhookServer :: webhookOptions
  op_HealthProbeBindAddress :: string
  op_LeaderElection :: bool
  op_LeaderElectionID :: string
  op_PprofBindAddress :: string

definition managerOptions_of :: "flags \<Rightarrow> managerOptions" where
  "managerOptions_of fl = \<lparr>op_CacheUnstructured = True, op_Metrics = metricsServerOptions fl,
     op_WebhookServer = webhookServerOptions fl, op_HealthProbeBindAddress = fl_probeAddr fl,
     op_LeaderElection = fl_enableLeaderElection fl, op_LeaderElectionID = ''d2fbeca3.in-cloud.io'',
     op_PprofBindAddress = fl_pprofAddr fl\<rparr>"

section \<open>The controller\<close>

text \<open>What \<open>SetupWithManager\<close> tells the builder; the predicates of \<open>For\<close> are alternatives.\<close>

datatype claim_predicate = GenerationChangedPredicate | AnnotationChangedPredicate

datatype 'w watch =
    WatchTemplates "string \<Rightarrow> ('w, ObjectKey list) pop"
  | WatchSecrets "ObjectKey \<Rightarrow> ObjectKey list" "ObjectKey \<Rightarrow> bool"

record 'w controllerSpec =
  ct_For :: "claim_predicate list"
  ct_Owns :: "GroupVersionKind list"
  ct_Watches :: "'w watch list"
  ct_MaxConcurrentReconciles :: nat
  ct_Named :: string
  ct_Reconciler :: "ObjectKey \<Rightarrow> ('w, rec_out) pop"

definition controllerSpec_of :: "'w env \<Rightarrow> 'w controllerSpec" where
  "controllerSpec_of E = \<lparr>
     ct_For = [GenerationChangedPredicate, AnnotationChangedPredicate],
     ct_Owns = [ApplicationGVK, CertificateSetGVK, ClusterGVK, CcmCsrcGVK, VaultClaimGVK, VaultSecretClaimGVK,
       S3BucketClaimGVK],
     ct_Watches = [WatchTemplates (findClaimsForTemplate E), WatchSecrets findClaimForSecret kubeconfigSecretPredicate],
     ct_MaxConcurrentReconciles = 5,
     ct_Named = ''clusterclaim'',
     ct_Reconciler = Reconcile E\<rparr>"

section \<open>The manager\<close>

text \<open>
  Every operation changes the manager's state \<open>'m\<close> and may fail. \<open>m_NewManager\<close> includes loading the
  cluster configuration, whose failure also ends the process with code 1.
\<close>

record ('m, 'w) manager =
  m_SetMemLimit :: "'m \<Rightarrow> goerror option \<times> 'm"
  m_NewManager :: "managerOptions \<Rightarrow> 'm \<Rightarrow> goerror option \<times> 'm"
  m_AddClusterManager :: "ClusterManager \<Rightarrow> 'm \<Rightarrow> goerror option \<times> 'm"
  m_IndexField :: "string \<Rightarrow> (ClusterClaim \<Rightarrow> string list) \<Rightarrow> 'm \<Rightarrow> goerror option \<times> 'm"
  m_CompleteController :: "'w controllerSpec \<Rightarrow> 'm \<Rightarrow> goerror option \<times> 'm"
  m_CompleteWebhook :: "'m \<Rightarrow> goerror option \<times> 'm"
  m_AddHealthzCheck :: "string \<Rightarrow> 'm \<Rightarrow> goerror option \<times> 'm"
  m_AddReadyzCheck :: "string \<Rightarrow> 'm \<Rightarrow> goerror option \<times> 'm"
  m_Start :: "'m \<Rightarrow> goerror option \<times> 'm"

definition SetupWithManager :: "('m, 'w) manager \<Rightarrow> 'w env \<Rightarrow> ('m, goerror option) state" where
  "SetupWithManager M E = do {
     err \<leftarrow> State (SetupIndexers (m_IndexField M));
     case err of
       Some e \<Rightarrow> ret (Some (wrapf ''setup indexers: %w'' [] e))
     | None \<Rightarrow> State (m_CompleteController M (controllerSpec_of E))
   }"

definition SetupClusterClaimWebhookWithManager :: "('m, 'w) manager \<Rightarrow> ('m, goerror option) state" where
  "SetupClusterClaimWebhookWithManager M = State (m_CompleteWebhook M)"

text \<open>
  The reconciler that \<open>main\<close> builds: libraries and API client come with the manager, the recorder and the
  cluster manager are set, the namespace is the flag's.
\<close>

definition reconciler_of :: "lib \<Rightarrow> 'w api \<Rightarrow> flags \<Rightarrow> 'w env" where
  "reconciler_of L A fl = \<lparr>e_lib = L, e_api = A, e_Recorder = True, e_ClusterManager = True,
     e_RemoteNamespace = fl_remoteNamespace fl\<rparr>"

section \<open>Main\<close>

text \<open>\<open>if err := m; err != nil { os.Exit(1) }\<close>; the result is the exit code.\<close>

definition orExit :: "('m, goerror option) state \<Rightarrow> ('m, nat) state \<Rightarrow> ('m, nat) state" where
  "orExit m k = do { err \<leftarrow> m; case err of Some e \<Rightarrow> ret 1 | None \<Rightarrow> k }"

definition main :: "('m, 'w) manager \<Rightarrow> lib \<Rightarrow> 'w api \<Rightarrow> flags \<Rightarrow> ('m, nat) state" where
  "main M L A fl = do {
     _ \<leftarrow> State (m_SetMemLimit M);
     if fl_remoteNamespace fl = [] then ret 1
     else
       orExit (State (m_NewManager M (managerOptions_of fl)))
      (orExit (State (m_AddClusterManager M NewClusterManager))
      (orExit (SetupWithManager M (reconciler_of L A fl))
      (orExit (if fl_enableWebhook fl then SetupClusterClaimWebhookWithManager M else ret None)
      (orExit (State (m_AddHealthzCheck M ''healthz''))
      (orExit (State (m_AddReadyzCheck M ''readyz''))
      (orExit (State (m_Start M)) (ret 0)))))))
   }"

end
