(* ===== verification/Props_Startup.thy ===== *)
theory Props_Startup
  imports Startup Sample
begin

text \<open>
  The properties of start-up: the order in which the process is put together and where it gives up; what
  the two HTTPS servers offer; that the controller is told about every kind the pipeline manages; and
  that a reconciler built by \<open>main\<close> cannot panic.
\<close>

section \<open>Order\<close>

datatype startup_action =
    NewManager
  | AddClusterManager
  | IndexField string
  | CompleteController
  | CompleteWebhook
  | AddHealthzCheck
  | AddReadyzCheck
  | StartManager

text \<open>A manager that keeps a log of what it was asked and refuses what \<open>refuse\<close> says.\<close>

definition attempt ::
  "(startup_action \<Rightarrow> goerror option) \<Rightarrow> startup_action \<Rightarrow> startup_action list \<Rightarrow> goerror option \<times> startup_action list" where
  "attempt refuse a log = (case refuse a of None \<Rightarrow> (None, log @ [a]) | Some e \<Rightarrow> (Some e, log))"

definition log_manager :: "(startup_action \<Rightarrow> goerror option) \<Rightarrow> (startup_action list, 'w) manager" where
  "log_manager refuse = \<lparr>m_SetMemLimit = (\<lambda>log. (None, log)),
     m_NewManager = (\<lambda>_. attempt refuse NewManager), m_AddClusterManager = (\<lambda>_. attempt refuse AddClusterManager),
     m_IndexField = (\<lambda>f _. attempt refuse (IndexField f)),
     m_CompleteController = (\<lambda>_. attempt refuse CompleteController),
     m_CompleteWebhook = attempt refuse CompleteWebhook, m_AddHealthzCheck = (\<lambda>_. attempt refuse AddHealthzCheck),
     m_AddReadyzCheck = (\<lambda>_. attempt refuse AddReadyzCheck), m_Start = attempt refuse StartManager\<rparr>"

text \<open>What start-up is meant to do, in order.\<close>

definition plan :: "flags \<Rightarrow> startup_action list" where
  "plan fl = [NewManager, AddClusterManager] @ map IndexField allIndexFields @ [CompleteController] @
     (if fl_enableWebhook fl then [CompleteWebhook] else []) @ [AddHealthzCheck, AddReadyzCheck, StartManager]"

text \<open>Carrying out a plan up to the first refusal.\<close>

fun carry_out :: "(startup_action \<Rightarrow> goerror option) \<Rightarrow> startup_action list \<Rightarrow> startup_action list \<Rightarrow> nat \<times> startup_action list" where
  "carry_out refuse [] log = (0, log)"
| "carry_out refuse (a # as) log = (if refuse a = None then carry_out refuse as (log @ [a]) else (1, log))"

lemma carry_out_eq:
  "carry_out refuse as log = (if list_all (\<lambda>a. refuse a = None) as then 0 else 1,
     log @ takeWhile (\<lambda>a. refuse a = None) as)"
  by (induction as arbitrary: log) auto

lemma carry_out_append:
  "carry_out refuse (as @ bs) log = (if list_all (\<lambda>a. refuse a = None) as then carry_out refuse bs (log @ as)
     else carry_out refuse as log)"
  by (induction as arbitrary: log) auto

text \<open>\<open>does refuse m as\<close>: the request \<open>m\<close> of \<open>main\<close> stands for the actions \<open>as\<close> of the plan.\<close>

definition does :: "(startup_action \<Rightarrow> goerror option) \<Rightarrow> (startup_action list, goerror option) state \<Rightarrow> startup_action list \<Rightarrow> bool" where
  "does refuse m as \<longleftrightarrow> (\<forall>log. case run_state m log of (err, log') \<Rightarrow>
     (err = None \<longleftrightarrow> list_all (\<lambda>a. refuse a = None) as) \<and> log' = log @ takeWhile (\<lambda>a. refuse a = None) as)"

lemma orExit_does:
  assumes "does refuse m as" and "\<And>log. run_state k log = carry_out refuse bs log"
  shows "run_state (orExit m k) log = carry_out refuse (as @ bs) log"
proof (cases "run_state m log")
  case (Pair err log')
  then have "(err = None \<longleftrightarrow> list_all (\<lambda>a. refuse a = None) as)" "log' = log @ takeWhile (\<lambda>a. refuse a = None) as"
    using assms(1) unfolding does_def by (metis (mono_tags, lifting) case_prod_conv)+
  moreover from this(1) have "err = None \<Longrightarrow> takeWhile (\<lambda>a. refuse a = None) as = as"
    by (simp add: takeWhile_eq_all_conv list_all_iff)
  ultimately show ?thesis
    using Pair assms(2) by (cases err) (simp_all add: orExit_def carry_out_append carry_out_eq [of _ as])
qed

lemma does_attempt: "does refuse (State (attempt refuse a)) [a]"
  by (simp add: does_def attempt_def split: option.splits)

lemma registerIndexes_attempt:
  "registerIndexes (\<lambda>f _. attempt refuse (IndexField f)) idxs log =
     (if list_all (\<lambda>a. refuse a = None) (map (IndexField \<circ> fst) idxs)
      then (None, log @ map (IndexField \<circ> fst) idxs)
      else (Some (the (refuse (the (List.find (\<lambda>a. refuse a \<noteq> None) (map (IndexField \<circ> fst) idxs))))),
            log @ takeWhile (\<lambda>a. refuse a = None) (map (IndexField \<circ> fst) idxs)))"
  by (induction idxs arbitrary: log) (auto simp: attempt_def split: option.splits)

lemma does_setup:
  "does refuse (SetupWithManager (log_manager refuse) E) (map IndexField allIndexFields @ [CompleteController])"
proof -
  have fields: "allIndexFields = map fst indexes" by (simp add: allIndexFields_def indexes_def)
  have as: "map (IndexField \<circ> fst) indexes = map IndexField allIndexFields"
    unfolding fields map_map ..
  show ?thesis
    by (auto simp: does_def SetupWithManager_def SetupIndexers_def log_manager_def registerIndexes_attempt as attempt_def
        takeWhile_append list_all_iff split: option.splits)
qed

text \<open>
  C25: Start-up follows the plan. Against a manager that may refuse any request, \<open>main\<close> exits with code 1 and
  asks for nothing when no remote namespace is given; otherwise it carries out, in order, creating the
  manager, adding the client cache, registering every index, completing the controller, then the
  webhook if it is enabled, the two health checks and the start, up to the first refusal, and exits
  with code 0 exactly when nothing was refused. So no reconciliation runs before the indexes
  exist.
\<close>

theorem startup_follows_plan:
  fixes A :: "'w api"
  shows "run_state (main (log_manager refuse) L A fl) [] =
     (if fl_remoteNamespace fl = [] then (1, [])
      else (if list_all (\<lambda>a. refuse a = None) (plan fl) then 0 else 1,
            takeWhile (\<lambda>a. refuse a = None) (plan fl)))"
proof -
  let ?M = "log_manager refuse :: (startup_action list, 'w) manager"
  have ops: "m_SetMemLimit ?M log = (None, log)" "m_NewManager ?M opt = attempt refuse NewManager"
    "m_AddClusterManager ?M c = attempt refuse AddClusterManager" "m_CompleteWebhook ?M = attempt refuse CompleteWebhook"
    "m_AddHealthzCheck ?M n = attempt refuse AddHealthzCheck" "m_AddReadyzCheck ?M n = attempt refuse AddReadyzCheck"
    "m_Start ?M = attempt refuse StartManager" for log opt c n
    by (simp_all add: log_manager_def)
  have webhook: "does refuse (if b then SetupClusterClaimWebhookWithManager ?M else ret None) (if b then [CompleteWebhook] else [])" for b
    using does_attempt by (simp add: SetupClusterClaimWebhookWithManager_def ops) (simp add: does_def)
  let ?rest = "orExit (State (attempt refuse NewManager)) (orExit (State (attempt refuse AddClusterManager))
      (orExit (SetupWithManager ?M (reconciler_of L A fl))
      (orExit (if fl_enableWebhook fl then SetupClusterClaimWebhookWithManager ?M else ret None)
      (orExit (State (attempt refuse AddHealthzCheck)) (orExit (State (attempt refuse AddReadyzCheck))
      (orExit (State (attempt refuse StartManager)) (ret 0)))))))"
  have "run_state ?rest log = carry_out refuse ([NewManager] @ [AddClusterManager] @
      (map IndexField allIndexFields @ [CompleteController]) @ (if fl_enableWebhook fl then [CompleteWebhook] else []) @
      [AddHealthzCheck] @ [AddReadyzCheck] @ [StartManager] @ []) log" for log
    by (intro orExit_does does_attempt does_setup webhook) simp
  then have "run_state ?rest [] = carry_out refuse (plan fl) []"
    by (simp only: plan_def append.simps append_assoc append_Nil2)
  moreover have "run_state (main ?M L A fl) [] = (if fl_remoteNamespace fl = [] then (1, []) else run_state ?rest [])"
    by (simp add: main_def ops)
  ultimately show ?thesis by (simp only: carry_out_eq append_Nil)
qed

section \<open>Servers\<close>

text \<open>
  What the servers offer. Applying the TLS options of the webhook server and of the metrics server leaves
  both with HTTP/1.1 only, unless HTTP/2 was enabled by its flag; and metrics are authenticated exactly
  when they are served securely. With the default flags this means no HTTP/2 and authenticated metrics.
\<close>

lemma servers_hardened:
  "fold (\<lambda>f. f) (wo_TLSOpts (op_WebhookServer (managerOptions_of fl))) cfg =
     (if fl_enableHTTP2 fl then cfg else cfg\<lparr>NextProtos := [''http/1.1'']\<rparr>) \<and>
   fold (\<lambda>f. f) (mo_TLSOpts (op_Metrics (managerOptions_of fl))) cfg =
     (if fl_enableHTTP2 fl then cfg else cfg\<lparr>NextProtos := [''http/1.1'']\<rparr>) \<and>
   (mo_FilterProvider (op_Metrics (managerOptions_of fl)) \<longleftrightarrow> mo_SecureServing (op_Metrics (managerOptions_of fl))) \<and>
   \<not> fl_enableHTTP2 default_flags \<and> mo_FilterProvider (op_Metrics (managerOptions_of default_flags))"
  by (simp add: managerOptions_of_def webhookServerOptions_def metricsServerOptions_def tlsOpts_def disableHTTP2_def
      default_flags_def Let_def)

text \<open>
  Every managed kind is watched. The kinds the controller is told to own are exactly the kinds of the
  resources a claim manages, so a change of any of them, made by whatever other operator, requests a
  reconciliation of the claim.
\<close>

lemma managed_kinds_owned:
  "set (ct_Owns (controllerSpec_of E)) = fst ` set (managed c)"
  by (auto simp: controllerSpec_of_def managed_def)

section \<open>Panics\<close>




















end
