(* ===== verification/Spec2Isabelle.thy ===== *)
theory Spec2Isabelle
  imports Props_Pipeline Props_Deletion Props_Convergence Props_Provisioning Props_Controller Props_Isolation Props_Bounds Props_Status
    Props_Schema Props_Admission Props_Deepcopy Props_Watches Props_Api Props_Cache Props_Resources Props_Startup
begin

text \<open>
  \<^bold>\<open>Verification of the cluster-claim operator.\<close>

  \<^bold>\<open>The program.\<close> A Kubernetes operator, in Go. A \<open>ClusterClaim\<close> asks for an infra cluster, optionally a
  client cluster, certificates, vault-family claims and parameter ConfigMaps in the remote infra cluster.
  \<open>Reconcile\<close> reads the claim and takes one of three branches: deletion, pause, or the provisioning
  pipeline of nineteen steps. A step renders a template object and applies the result, or reads a
  resource and waits until it is ready. The status of the claim reports phase, conditions and a
  mirror of the managed resources. Watches on templates, kubeconfig Secrets and owned resources request
  reconciliations; a cache shared by all reconcilers keeps the clients of the remote clusters; a
  validating webhook restricts updates; \<open>main\<close> puts everything together.

  \<^bold>\<open>Theories and sources.\<close>
  \<^item> \<open>Go_Prelude\<close>: Go values (\<open>goval\<close>, errors with wrapping, formatting, int32, int64, float64), weakest
    preconditions for the state monad, the locale \<open>state_frame\<close> for relations kept by code.
  \<^item> \<open>Api_Types\<close>: api/v1alpha1/clusterclaim_types.go and the template type; every struct a record.
  \<^item> \<open>Schema\<close>: what the CRD (config/crd/bases), generated from the markers of the API types, demands of a status.
  \<^item> \<open>Go_Heap\<close>: Go's memory as a list of cells, with pointers, slices and maps; how copies of them are made, and
    layouts, which say what a structure in memory stands for. \<open>Deepcopy\<close>: api/v1alpha1/zz_generated.deepcopy.go
    on that heap, every \<open>DeepCopyInto\<close>, \<open>DeepCopy\<close> and \<open>DeepCopyObject\<close>.
  \<^item> \<open>Webhook\<close>: api/v1alpha1/clusterclaim_webhook.go. \<open>Admission\<close>: the schema of the spec with its transition rules, and
    the claims a server stores that checks schema and webhook.
  \<^item> \<open>Naming\<close>, \<open>Labels\<close>, \<open>Errors\<close>, \<open>Gvk\<close>: internal/naming, internal/labels, controller/errors.go, controller/gvk.go.
  \<^item> \<open>K8s_Lib\<close>: the libraries and API servers as parameters, with their documented laws.
  \<^item> \<open>K8s_Client\<close>: the state of a reconciliation and the requests it makes. The state holds the
    world behind the API (\<open>world\<close>), the claim in memory (\<open>claim\<close>), the template context (\<open>tctx\<close>), the client
    cache (\<open>cmgr\<close>) and the history of all calls with their answers (\<open>calls\<close>), in which properties are stated.
  \<^item> \<open>Cluster_Manager\<close>: controller/remote/cluster_manager.go: the cache, its critical sections, the cleanup
    loop \<open>Start\<close>, and the machine \<open>cm_step\<close> of all interleavings of callers and cleanup.
  \<^item> \<open>Renderer\<close>: internal/renderer. \<open>Status\<close>: controller/status.go. \<open>Resources\<close>: controller/resource.go,
    conditions.go, \<open>GetClient\<close>, and \<open>applyRemoteConfigMap\<close> of pipeline.go.
  \<^item> \<open>Pipeline\<close>: controller/pipeline.go, the steps, \<open>pipelineSteps\<close>, the loop \<open>runSteps\<close> and \<open>executePipeline\<close>.
  \<^item> \<open>Controller\<close>: controller/clusterclaim_controller.go: \<open>Reconcile\<close>, \<open>reconcilePaused\<close>, \<open>reconcileDelete\<close> and
    what they call. The early returns of Go are combinators (\<open>orReturn\<close>, \<open>releaseAndWait\<close>) whose last argument is
    the rest of the function.
  \<^item> \<open>Watches\<close>: controller/indexers.go, mapfuncs.go and the Secret predicate.
  \<^item> \<open>Startup\<close>: cmd/main.go, \<open>SetupWithManager\<close>, registration of the webhook.

  Code becomes state-monad code of the same shape: a Go statement that talks to a server is one
  operation, \<open>if err != nil { return }\<close> is a case on a sum or option, a panic is a value. Integers keep
  their width (\<open>int32\<close>, \<open>int64\<close> as words). Go maps are association lists; where the code iterates over one the
  results are shown not to depend on the order.

  \<^bold>\<open>Parameters.\<close> The record \<open>lib\<close> stands for the library functions the sources only call (apimachinery's
  unstructured accessors, error predicates, condition and finalizer helpers, text/template with
  sprig, YAML, SHA-256, RFC 3339 times, kubeconfig parsing), \<open>'w api\<close> for the API servers and the clock over any type
  of worlds, \<open>manager\<close> for the controller-runtime manager. Nothing is assumed of them, except where a
  property names a law \<open>law_...\<close> of \<open>K8s_Lib\<close>, which states documented behaviour. \<open>Sample\<close> instantiates all
  parameters with concrete functions, proves the laws for them, and carries the witnesses. Between
  two calls of a reconciliation the world may be anything the parameter makes of it, so other
  controllers are covered as far as their effect shows in the answers.

  \<^bold>\<open>Libraries of lemmas.\<close>
  \<^item> \<open>Pipeline_Calls\<close>: which calls a run can make (\<open>stays\<close>). \<open>Pipeline_Runs\<close>: the loop as \<open>advance\<close> and
    \<open>finish\<close>, and the evidence (\<open>passed\<close>) each step leaves when it proceeds. \<open>Pipeline_Phases\<close>: phase and condition
    Ready along a run. \<open>Pipeline_Frames\<close>: a relation kept by the few operations that touch state is kept by a whole
    run. \<open>Pipeline_Live\<close>: what each step needs of the world (\<open>needs\<close>), and that it proceeds when it finds that.
  \<^item> \<open>Deletion_Runs\<close>: the order of deletion, the guarded removal of the finalizer, and runs in which
    nothing is left to wait for.

  \<^bold>\<open>Interfaces.\<close> \<open>state_frame\<close> (a reflexive and transitive relation on states, with rules that follow the
  syntax of the code) is interpreted for the history of calls, for runs on one claim, for phase and
  condition Ready, for the mirrored part of the status, and for objects gone from the server;
  \<open>pipeline_frame\<close> and \<open>run_frame\<close> extend it to the pipeline, for the mirror, the schema and the answers of a
  run; \<open>served\<close> (servers that keep what is known of the world) gives a \<open>run_frame\<close> for every such knowledge and is
  interpreted for none and, in the proof of convergence, for the needs already met; \<open>memory_layout\<close> and
  \<open>deep_copy\<close> are the contract of the generated methods; \<open>guarded_field\<close> (a field an admission check guards) for the
  three fields of the webhook; \<open>naming_scheme\<close> for the names of managed resources;
  \<open>label_merge\<close> for the label merge; \<open>client_cache\<close> for the cache, and the invariant of the concurrent machine
  rests on it.

  \<^bold>\<open>Properties.\<close>
  \<^item> \<open>Props_Pipeline\<close>: the client cluster starts only behind the key barrier; a claim is ready only with
    evidence for every step, in order; phase, condition and requeue agree; progress; the calls a run may make.
  \<^item> \<open>Props_Deletion\<close>: deletion order, the finalizer removed last, completion; vault claims no longer referenced.
    \<open>Props_Convergence\<close>: over a fair sequence of reconciliations a claim under deletion is released.
  \<^item> \<open>Props_Provisioning\<close>: over a fair sequence of reconciliations the pipeline of a live claim completes.
  \<^item> \<open>Props_Controller\<close>: pause, finalizer before resources, deletion before pause.
  \<^item> \<open>Props_Isolation\<close>: two claims never change the same object. \<open>Props_Bounds\<close>: at most 88 calls in a
    reconciliation, 41 in a deletion run. \<open>Props_Status\<close>: a status write says what the run has read.
    \<open>Props_Schema\<close>: it fits the schema if the mirrored conditions are complete, and does not if one is not.
  \<^item> \<open>Props_Admission\<close>: what the webhook adds to the schema; the operator's own writes of a claim are admitted.
  \<^item> \<open>Props_Deepcopy\<close>: the snapshot of a status is not changed by what is written later, so the model keeps it as
    a value; copied objects and originals share no memory.
  \<^item> \<open>Props_Watches\<close>: a changed template requests exactly the claims that use it, Secrets correspond to claims,
    all queried indexes are registered.
  \<^item> \<open>Props_Api\<close>: histories of admitted updates, labels, terminal errors, outcomes of an apply.
  \<^item> \<open>Props_Cache\<close>: current and shared clients under concurrency, refinement of the machine by the code, expiry, cleanup loop.
  \<^item> \<open>Props_Resources\<close>: condition readers, template context, counters, remote ConfigMaps.
  \<^item> \<open>Props_Startup\<close>: order of start-up, owned kinds, absence of panics.

  \<^bold>\<open>Totality.\<close> No definition uses fuel: the code has no unbounded loop within a run, and every
  definition is total. The only loop that runs forever, \<open>Start\<close>, is a function of the events its select receives;
  it has returned exactly when the end of the context is among them. Progress is stated for single runs, and for
  deletion and provisioning over an infinite sequence of runs, whose delivery is up to controller-runtime: a run
  that stops is followed by others, and fairness says that what it stopped for comes about.

  \<^bold>\<open>Not modelled.\<close> Outside \<open>Deepcopy\<close> values are immutable: no other property depends on aliasing. Logging. Parsing
  of the command line, registration of types in the scheme, RBAC: declarations for other tools. The length limit of
  condition messages in the schema of the status: texts of errors have no bound. Leader election, work queue and
  delivery of events belong to controller-runtime. The unsynchronised write of \<open>lastUsed\<close> under the read lock is
  modelled as if it were atomic.
\<close>

end
